(* ===== verification/Prelude.thy ===== *)
theory Prelude
  imports Main "HOL-Library.Word" "HOL-Library.AList"
begin

text \<open>
  What every component shares: the machine types of the source, nil-able slices, the result
  of a Go call that can panic, and state passing for code that mutates and may panic half-way.

  \<^item> \<open>int32\<close>, \<open>int64\<close>, \<open>uint16\<close> are words of that width; \<open>sint\<close> reads them as Go does.
  \<^item> a slice is an optional list: \<open>None\<close> is the nil slice, which the handlers of
    \<^verbatim>\<open>internal/events_dispatch.go\<close> distinguish from the empty one.
  \<^item> \<open>('s, 'a) prog\<close> is a piece of code over the state \<open>'s\<close>: it returns a value or
    panics, and in both cases yields the state it leaves behind, because
    \<^verbatim>\<open>OnDispatch\<close> recovers from panics and the mutations made so far stay.
\<close>

named_theorems prog_simps \<open>evaluation rules of the state-passing combinators\<close>
named_theorems cache_simps \<open>look-up equations of the cache operations\<close>
named_theorems state_simps \<open>look-up and frame equations of the state operations\<close>
named_theorems handler_defs \<open>definitions of the dispatch handlers\<close>

section \<open>Machine types and slices\<close>

type_synonym int32 = "32 word"
type_synonym int64 = "64 word"
type_synonym uint16 = "16 word"
type_synonym uint32 = "32 word"
type_synonym bytes = string

type_synonym 'a slice = "'a list option"

definition elems :: "'a slice \<Rightarrow> 'a list" where
  "elems s = (case s of None \<Rightarrow> [] | Some xs \<Rightarrow> xs)"

lemma elems_simps [simp]: "elems None = []" "elems (Some xs) = xs"
  by (simp_all add: elems_def)

section \<open>Panics and state passing\<close>

datatype 'a res = Ok 'a | Panic string

type_synonym ('s, 'a) prog = "'s \<Rightarrow> 'a res \<times> 's"

definition ret :: "'a \<Rightarrow> ('s, 'a) prog" where
  "ret x s = (Ok x, s)"

definition panic :: "string \<Rightarrow> ('s, 'a) prog" where
  "panic why s = (Panic why, s)"

definition bnd :: "('s, 'a) prog \<Rightarrow> ('a \<Rightarrow> ('s, 'b) prog) \<Rightarrow> ('s, 'b) prog" where
  "bnd m k s = (case m s of (Ok x, s') \<Rightarrow> k x s' | (Panic why, s') \<Rightarrow> (Panic why, s'))"

definition upd :: "('s \<Rightarrow> 's) \<Rightarrow> ('s, unit) prog" where
  "upd f s = (Ok (), f s)"

definition rd :: "('s \<Rightarrow> 'a) \<Rightarrow> ('s, 'a) prog" where
  "rd f s = (Ok (f s), s)"

definition act :: "('s \<Rightarrow> 'a \<times> 's) \<Rightarrow> ('s, 'a) prog" where
  "act f s = (case f s of (x, s') \<Rightarrow> (Ok x, s'))"

text \<open>\<open>*p\<close> on a pointer: a nil pointer panics.\<close>

definition deref :: "'a option \<Rightarrow> ('s, 'a) prog" where
  "deref p s = (case p of None \<Rightarrow> (Panic ''nil pointer dereference'', s) | Some x \<Rightarrow> (Ok x, s))"

text \<open>\<^verbatim>\<open>defer d()\<close>: \<open>d\<close> runs when the body returns and also when it panics.\<close>

definition deferred :: "('s \<Rightarrow> 's) \<Rightarrow> ('s, 'a) prog \<Rightarrow> ('s, 'a) prog" where
  "deferred d m s = (case m s of (r, s') \<Rightarrow> (r, d s'))"

text \<open>
  A run of a loop that has not ended within its fuel is the panic \<open>out_of_fuel\<close>, which no \<^verbatim>\<open>recover()\<close>
  catches. \<open>recovered\<close> is a body whose deferred function recovers: the function then returns \<open>x\<close>.
\<close>

definition out_of_fuel :: string where "out_of_fuel = ''out of fuel''"

definition recovered :: "'a \<Rightarrow> ('s, 'a) prog \<Rightarrow> ('s, 'a) prog" where
  "recovered x m s =
     (case m s of
        (Ok y, s') \<Rightarrow> (Ok y, s')
      | (Panic why, s') \<Rightarrow> if why = out_of_fuel then (Panic why, s') else (Ok x, s'))"

text \<open>\<^verbatim>\<open>for _, x := range xs { body(x) }\<close>: a panic in the body ends the loop.\<close>

fun each :: "('x \<Rightarrow> ('s, unit) prog) \<Rightarrow> 'x list \<Rightarrow> ('s, unit) prog" where
  "each body [] s = (Ok (), s)"
| "each body (x # xs) s =
     (case body x s of (Ok _, s') \<Rightarrow> each body xs s' | (Panic why, s') \<Rightarrow> (Panic why, s'))"

lemma prog_eval [prog_simps]:
  "ret x s = (Ok x, s)"
  "panic why s = (Panic why, s)"
  "upd f s = (Ok (), f s)"
  "rd g s = (Ok (g s), s)"
  "deref (Some x) s = (Ok x, s)"
  "deref None s = (Panic ''nil pointer dereference'', s)"
  by (simp_all add: ret_def panic_def upd_def rd_def deref_def)

lemma bnd_Ok [prog_simps]: "m s = (Ok x, s') \<Longrightarrow> bnd m k s = k x s'"
  by (simp add: bnd_def)

lemma bnd_Panic [prog_simps]: "m s = (Panic why, s') \<Longrightarrow> bnd m k s = (Panic why, s')"
  by (simp add: bnd_def)

lemma bnd_eval [prog_simps]:
  "bnd (ret x) k s = k x s"
  "bnd (panic why) k s = (Panic why, s)"
  "bnd (upd f) k' s = k' () (f s)"
  "bnd (rd g) k'' s = k'' (g s) s"
  by (simp_all add: bnd_def prog_eval)

lemma bnd_eq_iff:
  "bnd m k s = (r, s') \<longleftrightarrow>
     (\<exists>x t. m s = (Ok x, t) \<and> k x t = (r, s')) \<or> (\<exists>why. m s = (Panic why, s') \<and> r = Panic why)"
  by (auto simp: bnd_def split: prod.splits res.splits)

lemma upd_eq_iff: "upd f s = (r, s') \<longleftrightarrow> r = Ok () \<and> s' = f s"
  by (auto simp: upd_def)

lemma rd_eq_iff: "rd f s = (r, s') \<longleftrightarrow> r = Ok (f s) \<and> s' = s"
  by (auto simp: rd_def)

lemma ret_eq_iff: "ret x s = (r, s') \<longleftrightarrow> r = Ok x \<and> s' = s"
  by (auto simp: ret_def)

lemma panic_eq_iff: "panic w s = (r, s') \<longleftrightarrow> r = Panic w \<and> s' = s"
  by (auto simp: panic_def)

lemmas prog_iffs = bnd_eq_iff upd_eq_iff rd_eq_iff ret_eq_iff panic_eq_iff

lemma bnd_assoc: "bnd (bnd m f) g = bnd m (\<lambda>x. bnd (f x) g)"
  by (rule ext) (simp add: bnd_def split: prod.splits res.splits)

text \<open>
  Invariants of programs: a program keeps \<open>P\<close> when the state it leaves satisfies \<open>P\<close>,
  whether it returned or panicked.
\<close>

definition keeps :: "('s \<Rightarrow> bool) \<Rightarrow> ('s, 'a) prog \<Rightarrow> bool" where
  "keeps P m \<longleftrightarrow> (\<forall>s. P s \<longrightarrow> P (snd (m s)))"

named_theorems keeps_intros \<open>rules for \<open>keeps\<close>\<close>

lemma keepsI: "(\<And>s. P s \<Longrightarrow> P (snd (m s))) \<Longrightarrow> keeps P m"
  by (simp add: keeps_def)

lemma keepsD: "keeps P m \<Longrightarrow> P s \<Longrightarrow> m s = (r, s') \<Longrightarrow> P s'"
  by (metis keeps_def snd_conv)

lemma keeps_ret [keeps_intros]: "keeps P (ret x)"
  by (simp add: keeps_def ret_def)

lemma keeps_panic [keeps_intros]: "keeps P (panic why)"
  by (simp add: keeps_def panic_def)

lemma keeps_rd [keeps_intros]: "keeps P (rd f)"
  by (simp add: keeps_def rd_def)

lemma keeps_deref [keeps_intros]: "keeps P (deref p)"
  by (simp add: keeps_def deref_def split: option.splits)

lemma keeps_upd: "(\<And>s. P s \<Longrightarrow> P (f s)) \<Longrightarrow> keeps P (upd f)"
  by (simp add: keeps_def upd_def)

lemma keeps_act: "(\<And>s. P s \<Longrightarrow> P (snd (f s))) \<Longrightarrow> keeps P (act f)"
  by (metis (no_types, lifting) act_def keepsI case_prod_conv prod.collapse snd_conv)

lemma keeps_bnd [keeps_intros]:
  assumes "keeps P m" and "\<And>x. keeps P (k x)"
  shows "keeps P (bnd m k)"
  using assms by (fastforce simp: keeps_def bnd_def split: prod.splits res.splits)

lemma keeps_deferred:
  assumes "keeps P m" and "\<And>s. P s \<Longrightarrow> P (d s)"
  shows "keeps P (deferred d m)"
  using assms by (fastforce simp: keeps_def deferred_def split: prod.splits)

lemma keeps_recovered [keeps_intros]:
  assumes "keeps P m" shows "keeps P (recovered x m)"
  using assms by (fastforce simp: keeps_def recovered_def split: prod.splits res.splits)

lemma keeps_each [keeps_intros]:
  assumes "\<And>x. keeps P (body x)"
  shows "keeps P (each body xs)"
proof (rule keepsI)
  fix s assume "P s"
  then show "P (snd (each body xs s))"
  proof (induction xs arbitrary: s)
    case Nil
    then show ?case by simp
  next
    case (Cons x xs)
    obtain r s' where m: "body x s = (r, s')" by (cases "body x s")
    have "P s'" using assms Cons.prems m by (rule keepsD)
    with m show ?case by (cases r) (auto intro: Cons.IH)
  qed
qed

lemma keeps_if [keeps_intros]:
  "(b \<Longrightarrow> keeps P m) \<Longrightarrow> (\<not> b \<Longrightarrow> keeps P n) \<Longrightarrow> keeps P (if b then m else n)"
  by simp

lemma keeps_prod [keeps_intros]:
  "(\<And>a b. keeps P (f a b)) \<Longrightarrow> keeps P (case p of (a, b) \<Rightarrow> f a b)"
  by (cases p) simp

lemma keeps_option [keeps_intros]:
  "(x = None \<Longrightarrow> keeps P m) \<Longrightarrow> (\<And>y. x = Some y \<Longrightarrow> keeps P (f y)) \<Longrightarrow>
     keeps P (case x of None \<Rightarrow> m | Some y \<Rightarrow> f y)"
  by (cases x) simp_all

lemma keeps_sum [keeps_intros]:
  "(\<And>y. keeps P (g y)) \<Longrightarrow> (\<And>y. keeps P (f y)) \<Longrightarrow> keeps P (case x of Inl y \<Rightarrow> g y | Inr y \<Rightarrow> f y)"
  by (cases x) simp_all

lemma keeps_list [keeps_intros]:
  "keeps P m \<Longrightarrow> (\<And>y ys. keeps P (f y ys)) \<Longrightarrow> keeps P (case x of [] \<Rightarrow> m | y # ys \<Rightarrow> f y ys)"
  by (cases x) simp_all

lemma keeps_Let [keeps_intros]: "(\<And>x. x = t \<Longrightarrow> keeps P (f x)) \<Longrightarrow> keeps P (Let t f)"
  by (simp add: Let_def)

lemma keeps_deref_bnd:
  assumes "\<And>x. p = Some x \<Longrightarrow> keeps P (k x)"
  shows "keeps P (bnd (deref p) k)"
  using assms by (cases p) (simp_all add: keeps_def bnd_def deref_def)

text \<open>A loop whose body never panics is a fold.\<close>

lemma each_fold:
  assumes "\<And>x s. x \<in> set xs \<Longrightarrow> body x s = (Ok (), f x s)"
  shows "each body xs s = (Ok (), fold f xs s)"
  using assms by (induction xs arbitrary: s) auto

section \<open>Association lists as the contents of a map\<close>

lemma set_values_map_of:
  "distinct (map fst al) \<Longrightarrow> v \<in> snd ` set al \<longleftrightarrow> (\<exists>k. map_of al k = Some v)"
  by force

lemma length_eq_card_dom: "distinct (map fst al) \<Longrightarrow> length al = card (dom (map_of al))"
  by (metis distinct_card dom_map_of_conv_image_fst length_map set_map)

end
