(* ===== verification/GoNum.thy ===== *)
theory GoNum
  imports Prelude "HOL-Library.Signed_Division"
begin

text \<open>
  The numbers of \<^verbatim>\<open>discord/types.go\<close> and \<^verbatim>\<open>discord/id.go\<close>: snowflakes, their JSON text, and the
  shard arithmetic of \<^verbatim>\<open>internal/utils.go\<close> and \<^verbatim>\<open>internal/manager.go\<close> that is computed from them.
  \<open>parse_int\<close> and \<open>format_int\<close> are \<^verbatim>\<open>strconv.ParseInt(s, 10, 64)\<close> and
  \<^verbatim>\<open>strconv.FormatInt(i, 10)\<close> of Go's standard library.
\<close>

section \<open>Go's strconv in base 10\<close>

datatype num_error = ErrSyntax | ErrRange

definition is_digit :: "char \<Rightarrow> bool" where
  "is_digit c \<longleftrightarrow> 48 \<le> (of_char c :: nat) \<and> (of_char c :: nat) \<le> 57"

definition digit_char :: "nat \<Rightarrow> char" where
  "digit_char d = char_of (48 + d mod 10)"

fun format_nat :: "nat \<Rightarrow> string" where
  "format_nat n = (if n < 10 then [digit_char n] else format_nat (n div 10) @ [digit_char (n mod 10)])"

declare format_nat.simps [simp del]

definition format_int :: "int \<Rightarrow> string" where
  "format_int i = (if i < 0 then CHR ''-'' # format_nat (nat (- i)) else format_nat (nat i))"

definition digits_val :: "nat \<Rightarrow> string \<Rightarrow> nat" where
  "digits_val a s = foldl (\<lambda>n c. 10 * n + (of_char c - 48)) a s"

definition parse_nat :: "string \<Rightarrow> nat option" where
  "parse_nat s = (if s = [] \<or> \<not> list_all is_digit s then None else Some (digits_val 0 s))"

definition parse_int :: "string \<Rightarrow> num_error + int" where
  "parse_int s =
     (let neg = (s \<noteq> [] \<and> hd s = CHR ''-'');
          body = (if s \<noteq> [] \<and> (hd s = CHR ''-'' \<or> hd s = CHR ''+'') then tl s else s)
      in case parse_nat body of
           None \<Rightarrow> Inl ErrSyntax
         | Some n \<Rightarrow>
             if \<not> neg \<and> 2 ^ 63 \<le> n then Inl ErrRange
             else if neg \<and> 2 ^ 63 < n then Inl ErrRange
             else Inr (if neg then - int n else int n))"

lemma of_char_digit_char [simp]: "of_char (digit_char d) = (48 + d mod 10 :: nat)"
  by (simp add: digit_char_def)

lemma is_digit_digit_char [simp]: "is_digit (digit_char d)"
  unfolding is_digit_def by simp

lemma digit_char_not_sign [simp]: "digit_char d \<noteq> CHR ''-''" "digit_char d \<noteq> CHR ''+''"
  "digit_char d \<noteq> CHR 0x22"
  using of_char_digit_char [of d] by (force dest: arg_cong [where f = "of_char :: char \<Rightarrow> nat"])+

lemma format_nat_digits: "list_all is_digit (format_nat n)"
  by (induction n rule: format_nat.induct) (subst format_nat.simps, simp)

lemma format_nat_nonempty [simp]: "format_nat n \<noteq> []"
  by (subst format_nat.simps) simp

lemma digits_val_append: "digits_val a (s @ [c]) = 10 * digits_val a s + (of_char c - 48)"
  by (simp add: digits_val_def)

lemma digits_val_format_nat: "digits_val 0 (format_nat n) = n"
proof (induction n rule: format_nat.induct)
  case (1 n)
  show ?case
  proof (cases "n < 10")
    case True
    then show ?thesis by (subst format_nat.simps) (simp add: digits_val_def)
  next
    case False
    then have "digits_val 0 (format_nat n) = 10 * (n div 10) + n mod 10"
      using 1 by (subst format_nat.simps) (simp add: digits_val_append)
    then show ?thesis by simp
  qed
qed

lemma parse_nat_format_nat [simp]: "parse_nat (format_nat n) = Some n"
  by (simp add: parse_nat_def format_nat_digits digits_val_format_nat)

lemma hd_format_nat: "hd (format_nat n) \<noteq> CHR ''-'' \<and> hd (format_nat n) \<noteq> CHR ''+''
    \<and> hd (format_nat n) \<noteq> CHR 0x22"
proof -
  have "is_digit (hd (format_nat n))"
    using format_nat_digits [of n] by (cases "format_nat n") auto
  then show ?thesis by (auto simp: is_digit_def)
qed

text \<open>What \<open>FormatInt\<close> prints, \<open>ParseInt\<close> reads back, for every signed 64-bit value.\<close>

lemma parse_format_int:
  assumes "- (2 ^ 63) \<le> i" and "i < 2 ^ 63"
  shows "parse_int (format_int i) = Inr i"
  using assms hd_format_nat [of "nat i"]
  by (auto simp: parse_int_def format_int_def Let_def)

lemma format_int_nonempty [simp]: "format_int i \<noteq> []"
  by (simp add: format_int_def)

lemma parse_int_bounds: "parse_int s = Inr i \<Longrightarrow> - (2 ^ 63) \<le> i \<and> i < 2 ^ 63"
  by (auto simp: parse_int_def Let_def split: option.splits if_splits)

lemma format_int_inj: "inj_on format_int {- (2 ^ 63) ..< 2 ^ 63}"
  by (rule inj_onI) (metis atLeastLessThan_iff parse_format_int sum.inject(2))

lemma sint64_range: "- (2 ^ 63) \<le> sint (s :: int64) \<and> sint s < 2 ^ 63"
  using sint_ge [of s] sint_less [of s] by simp

lemma parse_format_sint [simp]: "parse_int (format_int (sint (s :: int64))) = Inr (sint s)"
  using sint64_range [of s] by (intro parse_format_int) auto

section \<open>Snowflakes and their JSON text\<close>

type_synonym Snowflake = int64
type_synonym GuildID = Snowflake
type_synonym ChannelID = Snowflake
type_synonym UserID = Snowflake
type_synonym RoleID = Snowflake
type_synonym EmojiID = Snowflake
type_synonym ApplicationID = Snowflake

definition null_bytes :: bytes where "null_bytes = ''null''"

definition IsNil :: "Snowflake \<Rightarrow> bool" where
  "IsNil s \<longleftrightarrow> s = 0"

text \<open>
  \<open>toSnowflake\<close> indexes \<^verbatim>\<open>b[0]\<close> without a length check, so an empty input panics; the closing
  quote is cut off without being looked at.
\<close>

definition toSnowflake :: "bytes \<Rightarrow> (num_error + Snowflake) res" where
  "toSnowflake b =
     (if b \<noteq> null_bytes then
        (case b of
           [] \<Rightarrow> Panic ''index out of range''
         | c # _ \<Rightarrow>
             if c = CHR 0x22 \<and> length b \<ge> 2
             then Ok (map_sum id word_of_int (parse_int (butlast (tl b))))
             else Ok (map_sum id word_of_int (parse_int b)))
      else Ok (Inr 0))"

definition int64ToStringBytes :: "int64 \<Rightarrow> bytes" where
  "int64ToStringBytes s = [CHR 0x22] @ format_int (sint s) @ [CHR 0x22]"

definition Snowflake_MarshalJSON :: "Snowflake \<Rightarrow> bytes" where
  "Snowflake_MarshalJSON s = int64ToStringBytes s"

definition Snowflake_String :: "Snowflake \<Rightarrow> string" where
  "Snowflake_String s = format_int (sint s)"

text \<open>\<^verbatim>\<open>Int64.UnmarshalJSON\<close> is the same without the \<open>null\<close> case.\<close>

definition Int64_UnmarshalJSON :: "bytes \<Rightarrow> (num_error + int64) res" where
  "Int64_UnmarshalJSON b =
     (case b of
        [] \<Rightarrow> Panic ''index out of range''
      | c # _ \<Rightarrow>
          if c = CHR 0x22 \<and> length b \<ge> 2
          then Ok (map_sum id word_of_int (parse_int (butlast (tl b))))
          else Ok (map_sum id word_of_int (parse_int b)))"

definition Int64_MarshalJSON :: "int64 \<Rightarrow> bytes" where
  "Int64_MarshalJSON i = int64ToStringBytes i"

text \<open>
  \<^verbatim>\<open>ChannelOverrideType\<close>: \<open>null\<close> leaves the old value, the parsed integer is truncated to 16 bits,
  and a lone quote makes the slice expression \<^verbatim>\<open>b[1:0]\<close> panic.
\<close>

definition ChannelOverrideType_UnmarshalJSON :: "uint16 \<Rightarrow> bytes \<Rightarrow> (num_error + uint16) res" where
  "ChannelOverrideType_UnmarshalJSON old b =
     (if b \<noteq> null_bytes then
        (case b of
           [] \<Rightarrow> Panic ''index out of range''
         | c # rest \<Rightarrow>
             if c = CHR 0x22
             then (if rest = [] then Panic ''slice bounds out of range''
                   else Ok (map_sum id word_of_int (parse_int (butlast rest))))
             else Ok (map_sum id word_of_int (parse_int b)))
      else Ok (Inr old))"

definition ChannelOverrideType_MarshalJSON :: "uint16 \<Rightarrow> bytes" where
  "ChannelOverrideType_MarshalJSON t = format_int (uint t)"

definition DiscordCreation :: int64 where "DiscordCreation = 1420070400000"

text \<open>
  \<^verbatim>\<open>Snowflake.Time\<close>: the nanoseconds handed to \<^verbatim>\<open>time.Unix(0, ns)\<close>, in 64-bit arithmetic.
\<close>

definition Snowflake_Time :: "Snowflake \<Rightarrow> int64" where
  "Snowflake_Time s = (signed_drop_bit 22 s + DiscordCreation) * 1000000"

lemma toSnowflake_quoted:
  "toSnowflake (CHR 0x22 # b @ [c]) = Ok (map_sum id word_of_int (parse_int b))"
  by (simp add: toSnowflake_def null_bytes_def)

lemma Int64_quoted:
  "Int64_UnmarshalJSON (CHR 0x22 # b @ [c]) = Ok (map_sum id word_of_int (parse_int b))"
  by (simp add: Int64_UnmarshalJSON_def)

lemma snowflake_json_roundtrip: "toSnowflake (Snowflake_MarshalJSON s) = Ok (Inr s)"
  using toSnowflake_quoted [of "format_int (sint s)" "CHR 0x22"]
  by (simp add: Snowflake_MarshalJSON_def int64ToStringBytes_def)

lemma int64_json_roundtrip: "Int64_UnmarshalJSON (Int64_MarshalJSON i) = Ok (Inr i)"
  using Int64_quoted [of "format_int (sint i)" "CHR 0x22"]
  by (simp add: Int64_MarshalJSON_def int64ToStringBytes_def)

lemma ot_fmt: "parse_int (format_int (uint (t :: uint16))) = Inr (uint t)"
proof (rule parse_format_int)
  have "- (2 ^ 63) \<le> (0 :: int)" by simp
  then show "- (2 ^ 63) \<le> uint t" using uint_ge_0 [of t] by (rule order_trans)
  show "uint t < 2 ^ 63" using uint_lt2p [of t] by simp
qed

lemma format_nat_no_quote: "0 \<le> i \<Longrightarrow> hd (format_int i) \<noteq> CHR 0x22 \<and> format_int i \<noteq> null_bytes"
proof
  assume "0 \<le> i"
  then show "hd (format_int i) \<noteq> CHR 0x22"
    using hd_format_nat [of "nat i"] by (simp add: format_int_def)
  show "format_int i \<noteq> null_bytes"
  proof
    assume "format_int i = null_bytes"
    with \<open>0 \<le> i\<close> have "format_nat (nat i) = ''null''" by (simp add: format_int_def null_bytes_def)
    with format_nat_digits [of "nat i"] show False by (simp add: is_digit_def)
  qed
qed

lemma override_type_json_roundtrip:
  "ChannelOverrideType_UnmarshalJSON old (ChannelOverrideType_MarshalJSON t) = Ok (Inr t)"
  using ot_fmt [of t] format_nat_no_quote [of "uint t"]
  by (cases "format_int (uint t)")
    (auto simp: ChannelOverrideType_UnmarshalJSON_def ChannelOverrideType_MarshalJSON_def)

text \<open>C38. Marshalling an ID, a 64-bit integer or an overwrite type and decoding the text gives the value back,
  for every value of the type and whatever the variable held.\<close>

theorem json_roundtrips:
  "toSnowflake (Snowflake_MarshalJSON s) = Ok (Inr s)
   \<and> Int64_UnmarshalJSON (Int64_MarshalJSON i) = Ok (Inr i)
   \<and> ChannelOverrideType_UnmarshalJSON old (ChannelOverrideType_MarshalJSON t) = Ok (Inr t)"
  by (simp only: snowflake_json_roundtrip int64_json_roundtrip override_type_json_roundtrip)

lemma sint_word_of_int_exact:
  "- (2 ^ 63) \<le> i \<Longrightarrow> i < 2 ^ 63 \<Longrightarrow> sint (word_of_int i :: int64) = i"
  by (simp add: sint_sbintrunc' signed_take_bit_int_eq_self)

lemma shift22_range:
  "- (2 ^ 41) \<le> sint (s :: int64) div 2 ^ 22 \<and> sint s div 2 ^ 22 < 2 ^ 41"
  using sint64_range [of s] by auto

lemma sint_shift22: "sint (signed_drop_bit 22 (s :: int64)) = sint s div 2 ^ 22"
  by (simp add: sint_signed_drop_bit_eq drop_bit_eq_div)

text \<open>The time of a snowflake never overflows: for every ID, negative ones included, the 64-bit computation
  equals the one on unbounded integers, milliseconds since Discord's epoch times a million.\<close>

lemma snowflake_time_exact:
  "sint (Snowflake_Time s) = (sint s div 2 ^ 22 + 1420070400000) * 1000000"
proof -
  let ?i = "(sint s div 2 ^ 22 + 1420070400000) * 1000000"
  have "signed_drop_bit 22 s = (word_of_int (sint (signed_drop_bit 22 s)) :: int64)"
    by (simp only: of_int_sint scast_id)
  then have "(signed_drop_bit 22 s :: int64) = word_of_int (sint s div 2 ^ 22)"
    by (simp only: sint_shift22)
  then have "Snowflake_Time s = word_of_int ?i"
    by (simp add: Snowflake_Time_def DiscordCreation_def)
  moreover have "- (2 ^ 63) \<le> ?i" and "?i < 2 ^ 63"
    using shift22_range [of s] by auto
  ultimately show ?thesis by (simp only: sint_word_of_int_exact)
qed

section \<open>Shard arithmetic\<close>

text \<open>
  \<^verbatim>\<open>Manager.GetShardIdOfGuild\<close>: Go's \<^verbatim>\<open>%\<close> truncates towards zero (\<open>smod\<close>), the shift is arithmetic,
  and a shard count that is not positive yields shard 0.
\<close>

definition GetShardIdOfGuild :: "GuildID \<Rightarrow> int32 \<Rightarrow> int32" where
  "GetShardIdOfGuild guildID shardCount =
     (if sint shardCount \<le> 0 then 0
      else word_of_int (sint (signed_drop_bit 22 guildID) smod sint shardCount))"

text \<open>
  \<^verbatim>\<open>getShardIDFromGuildID\<close> reads the ID from text and takes the remainder in \<^verbatim>\<open>uint64\<close>; its shard count
  is an \<^verbatim>\<open>int\<close>, and 0 makes the remainder panic.
\<close>

definition getShardIDFromGuildID :: "string \<Rightarrow> int64 \<Rightarrow> (num_error + 64 word) res" where
  "getShardIDFromGuildID guildID shardCount =
     (case parse_int guildID of
        Inl e \<Rightarrow> Ok (Inl e)
      | Inr gidNum \<Rightarrow>
          if shardCount = 0 then Panic ''integer divide by zero''
          else Ok (Inr (signed_drop_bit 22 (word_of_int gidNum :: int64) mod shardCount)))"

lemma sint32_range: "- (2 ^ 31) \<le> sint (n :: int32) \<and> sint n < 2 ^ 31"
  using sint_ge [of n] sint_less [of n] by simp

lemma sint_word32_exact:
  "- (2 ^ 31) \<le> i \<Longrightarrow> i < 2 ^ 31 \<Longrightarrow> sint (word_of_int i :: int32) = i"
  by (simp add: sint_sbintrunc' signed_take_bit_int_eq_self)

lemma smod_bounds:
  fixes a b :: int
  assumes "0 < b"
  shows "- b < a smod b \<and> a smod b < b" and "0 \<le> a \<Longrightarrow> 0 \<le> a smod b"
proof -
  obtain r where r: "r = \<bar>a\<bar> mod b" by simp
  then have m: "0 \<le> r" "r < b" using assms by simp_all
  have eq: "a smod b = sgn a * r"
    using assms by (simp add: signed_modulo_int_def r)
  show "- b < a smod b \<and> a smod b < b"
    using m assms unfolding eq by (cases a "0 :: int" rule: linorder_cases) auto
  show "0 \<le> a smod b" if "0 \<le> a"
    using m that unfolding eq by (cases "a = 0") auto
qed

lemma sint_shard:
  assumes "0 < sint n"
  shows "sint (GetShardIdOfGuild g n) = (sint g div 2 ^ 22) smod sint n"
proof -
  let ?r = "(sint g div 2 ^ 22) smod sint n"
  have "- (2 ^ 31) \<le> ?r" and "?r < 2 ^ 31"
    using smod_bounds(1) [OF assms, of "sint g div 2 ^ 22"] sint32_range [of n] by auto
  then have "sint (word_of_int ?r :: int32) = ?r" by (rule sint_word32_exact)
  then show ?thesis
    using assms by (simp add: GetShardIdOfGuild_def sint_shift22 not_le)
qed


lemma smod_nonneg: "0 \<le> a \<Longrightarrow> 0 < b \<Longrightarrow> a smod b = a mod (b :: int)"
  by (cases "a = 0") (simp_all add: signed_modulo_int_def)

lemma uint_eq_sint: "0 \<le> sint w \<Longrightarrow> uint w = sint (w :: 'a::len word)"
proof -
  assume w: "0 \<le> sint w"
  have "sint w < 2 ^ (LENGTH('a) - Suc 0)" using sint_less [of w] by simp
  also have "\<dots> \<le> (2 :: int) ^ LENGTH('a)" by (rule power_increasing) simp_all
  finally have "take_bit LENGTH('a) (sint w) = sint w"
    using w by (simp add: take_bit_int_eq_self)
  then show "uint w = sint w" by (metis of_int_sint scast_id uint_word_of_int_eq)
qed

text \<open>For a guild ID as Discord issues them (not negative) the shard lies in \<open>[0, n)\<close>.\<close>

lemma shard_id_in_range:
  assumes "0 \<le> sint g" and "0 < sint n"
  shows "0 \<le> sint (GetShardIdOfGuild g n) \<and> sint (GetShardIdOfGuild g n) < sint n"
  using assms by (simp add: sint_shard smod_nonneg pos_imp_zdiv_nonneg_iff)

theorem shard_id_in_range_witness:
  "0 \<le> sint (GetShardIdOfGuild 81384788765712384 16) \<and>
   sint (GetShardIdOfGuild 81384788765712384 16) < 16"
  using shard_id_in_range [of 81384788765712384 16] by simp

text \<open>C37. The two shard computations of the program agree on the text of the guild ID.\<close>

theorem shard_computations_agree:
  assumes "0 \<le> sint g" and "0 < sint n"
  shows "getShardIDFromGuildID (Snowflake_String g) (scast n)
         = Ok (Inr (word_of_int (sint (GetShardIdOfGuild g n))))"
proof -
  let ?a = "signed_drop_bit 22 g" and ?n = "scast n :: int64"
  have n: "sint ?n = sint n"
    using sint32_range [of n] by (simp add: signed_scast_eq signed_take_bit_int_eq_self)
  have a: "sint ?a = sint g div 2 ^ 22" by (rule sint_shift22)
  have "uint (?a mod ?n) = (sint g div 2 ^ 22) mod sint n"
    using assms n a by (simp add: uint_mod_distrib uint_eq_sint pos_imp_zdiv_nonneg_iff)
  also have "\<dots> = sint (GetShardIdOfGuild g n)"
    using assms by (simp add: sint_shard smod_nonneg pos_imp_zdiv_nonneg_iff)
  finally have "?a mod ?n = word_of_int (sint (GetShardIdOfGuild g n))"
    by (metis word_of_int_uint)
  moreover have "?n \<noteq> 0" using assms(2) n by auto
  ultimately show ?thesis
    by (simp add: getShardIDFromGuildID_def Snowflake_String_def)
qed

theorem shard_computations_agree_witness:
  "getShardIDFromGuildID (Snowflake_String 81384788765712384) (scast (16 :: int32)) = Ok (Inr (word_of_int (sint
     (GetShardIdOfGuild 81384788765712384 16))))"
  by (rule shard_computations_agree) simp_all

end
