(* ===== verification/Utils.thy ===== *)
theory Utils
  imports GoNum
begin

text \<open>
  The pure helpers of \<^verbatim>\<open>internal/utils.go\<close>: the shard-range parser, the default for empty strings
  and the marshalling of a payload's extra values. \<open>split_on\<close> is \<^verbatim>\<open>strings.Split\<close> for a separator of
  one character; \<^verbatim>\<open>strconv.Atoi\<close> on a 64-bit platform is \<open>parse_int\<close>. The JSON encoder
  (\<^verbatim>\<open>sandwichjson.Marshal\<close>, a third-party library) is the parameter \<open>marshal\<close>.
\<close>

definition replaceIfEmpty :: "string \<Rightarrow> string \<Rightarrow> string" where
  "replaceIfEmpty v s = (if v = [] then s else v)"

section \<open>The shard-range parser\<close>

fun split_on :: "char \<Rightarrow> string \<Rightarrow> string list" where
  "split_on c [] = [[]]"
| "split_on c (x # xs) =
     (if x = c then [] # split_on c xs
      else case split_on c xs of [] \<Rightarrow> [[x]] | p # ps \<Rightarrow> (x # p) # ps)"

lemma split_on_nonempty [simp]: "split_on c s \<noteq> []"
  by (induction s) (auto split: list.splits)

lemma split_on_append: "split_on c (a @ c # b) = split_on c a @ split_on c b"
proof (induction a)
  case Nil
  then show ?case by simp
next
  case (Cons x a)
  obtain p ps where "split_on c a = p # ps" by (cases "split_on c a") auto
  with Cons show ?case by simp
qed

lemma split_on_none: "c \<notin> set s \<Longrightarrow> split_on c s = [s]"
  by (induction s) auto

text \<open>
  \<^verbatim>\<open>for i := int32(low); i < int32(hi+1); i++\<close> over wrapping 32-bit integers; it ends because
  \<^verbatim>\<open>i < stop\<close> leaves room for the increment.
\<close>

lemma sint_succ32: "- (2 ^ 31) \<le> sint i \<Longrightarrow> sint i + 1 < 2 ^ 31 \<Longrightarrow> sint (i + 1 :: int32) = sint i + 1"
  using sint_word32_exact [of "sint i + 1"] by simp

lemma sint_Suc32: "sint (i :: int32) < sint (stop :: int32) \<Longrightarrow> sint (i + 1) = sint i + 1"
proof -
  assume a: "sint i < sint stop"
  then have "sint i + 1 < 2 ^ 31" using sint32_range [of stop] by linarith
  moreover have "- (2 ^ 31) \<le> sint i + 1" using sint32_range [of i] by linarith
  ultimately have "sint (word_of_int (sint i + 1) :: int32) = sint i + 1"
    by (intro sint_word32_exact)
  then show ?thesis by simp
qed

function range_loop :: "int32 \<Rightarrow> int32 \<Rightarrow> int32 \<Rightarrow> int32 list" where
  "range_loop i stop mx =
     (if sint i < sint stop
      then (if 0 \<le> sint i \<and> sint i < sint mx then [i] else []) @ range_loop (i + 1) stop mx
      else [])"
  by pat_completeness auto
termination
  by (relation "measure (\<lambda>(i, stop, mx). nat (sint stop - sint i))")
    (auto simp: sint_Suc32)

declare range_loop.simps [simp del]

definition range_part :: "string \<Rightarrow> int32 \<Rightarrow> int32 list" where
  "range_part split mx =
     (let ranges = split_on CHR ''-'' split in
      if ranges = [] then
        (case parse_int split of
           Inl _ \<Rightarrow> []
         | Inr i \<Rightarrow> if 0 \<le> i \<and> sint (word_of_int i :: int32) < sint mx then [word_of_int i] else [])
      else
        (case parse_int (hd ranges) of
           Inl _ \<Rightarrow> []
         | Inr low \<Rightarrow>
             (case parse_int (last ranges) of
                Inl _ \<Rightarrow> []
              | Inr hi \<Rightarrow> range_loop (word_of_int low)
                            (word_of_int (sint (word_of_int hi + 1 :: int64))) mx)))"

definition returnRangeInt32 :: "string \<Rightarrow> int32 \<Rightarrow> int32 list" where
  "returnRangeInt32 rangeString mx = concat (map (\<lambda>split. range_part split mx) (split_on CHR '','' rangeString))"

lemma set_range_loop:
  "x \<in> set (range_loop i stop mx) \<Longrightarrow>
   0 \<le> sint x \<and> sint x < sint mx \<and> sint i \<le> sint x \<and> sint x < sint stop"
proof (induction i stop mx rule: range_loop.induct)
  case (1 i stop mx)
  show ?case
  proof (cases "sint i < sint stop")
    case True
    note step = range_loop.simps [of i stop mx]
    from True 1(2) consider "x = i" "0 \<le> sint i" "sint i < sint mx" | "x \<in> set (range_loop (i + 1) stop mx)"
      by (auto simp: step split: if_splits)
    then show ?thesis
      using True 1(1) sint_Suc32 [OF True] by cases auto
  next
    case False
    with 1(2) show ?thesis by (simp add: range_loop.simps [of i stop mx])
  qed
qed

text \<open>C36. Whatever the configuration says, every shard ID the parser returns lies in \<open>[0, max)\<close>.\<close>

theorem returnRange_in_bounds:
  assumes "x \<in> set (returnRangeInt32 s mx)"
  shows "0 \<le> sint x \<and> sint x < sint mx"
  using assms
  by (auto simp: returnRangeInt32_def range_part_def Let_def split: sum.splits if_splits
      dest: set_range_loop)

theorem returnRange_in_bounds_witness: "0 \<le> sint (2 :: int32) \<and> sint (2 :: int32) < sint (8 :: int32)"
proof (rule returnRange_in_bounds [of 2 "''0-4''" 8])
  show "2 \<in> set (returnRangeInt32 ''0-4'' (8 :: int32))"
    by (simp add: returnRangeInt32_def range_part_def parse_int_def parse_nat_def is_digit_def
        digits_val_def range_loop.simps)
qed

text \<open>A comma concatenates: each part is parsed on its own and malformed parts contribute nothing.\<close>

lemma returnRange_comma:
  "returnRangeInt32 (a @ CHR '','' # b) mx = returnRangeInt32 a mx @ returnRangeInt32 b mx"
  by (simp add: returnRangeInt32_def split_on_append)

lemma range_loop_upto:
  assumes "sint i \<le> sint stop"
  shows "map sint (range_loop i stop mx) = filter (\<lambda>k. 0 \<le> k \<and> k < sint mx) [sint i .. sint stop - 1]"
  using assms
proof (induction i stop mx rule: range_loop.induct)
  case (1 i stop mx)
  show ?case
  proof (cases "sint i < sint stop")
    case True
    then have "[sint i .. sint stop - 1] = sint i # [sint (i + 1) .. sint stop - 1]"
      by (simp add: sint_Suc32 upto_rec1)
    with True 1 show ?thesis
      by (simp add: range_loop.simps [of i stop mx] sint_Suc32)
  next
    case False
    with 1(2) show ?thesis by (simp add: range_loop.simps [of i stop mx])
  qed
qed

lemma range_low_high:
  assumes "0 \<le> low" and "low < 2 ^ 31" and "0 \<le> hi" and "hi < 2 ^ 31 - 1" and "low \<le> hi + 1"
  shows "map sint (range_part (format_int low @ CHR ''-'' # format_int hi) mx)
         = filter (\<lambda>k. k < sint mx) [low .. hi]"
proof -
  have nd: "CHR ''-'' \<notin> set (format_int n)" if "0 \<le> n" for n
    using that format_nat_digits [of "nat n"]
    by (auto simp: format_int_def list_all_iff is_digit_def)
  have sp: "split_on CHR ''-'' (format_int low @ CHR ''-'' # format_int hi) = [format_int low, format_int hi]"
    using assms nd by (simp add: split_on_append split_on_none)
  have "sint (word_of_int hi + 1 :: int64) = hi + 1"
  proof -
    have "sint (word_of_int (hi + 1) :: int64) = hi + 1"
      using assms by (intro sint_word_of_int_exact) auto
    then show ?thesis by (simp only: of_int_add of_int_1)
  qed
  moreover have "sint (word_of_int low :: int32) = low"
    using assms by (intro sint_word32_exact) auto
  moreover have "sint (word_of_int (hi + 1) :: int32) = hi + 1"
    using assms by (intro sint_word32_exact) auto
  moreover have "parse_int (format_int low) = Inr low" "parse_int (format_int hi) = Inr hi"
    using assms by (auto intro: parse_format_int)
  ultimately have "map sint (range_part (format_int low @ CHR ''-'' # format_int hi) mx)
      = filter (\<lambda>k. 0 \<le> k \<and> k < sint mx) [low .. hi]"
    using assms(5) by (simp add: range_part_def sp range_loop_upto del: of_int_add)
  also have "\<dots> = filter (\<lambda>k. k < sint mx) [low .. hi]"
    using assms(1) by (intro filter_cong) auto
  finally show ?thesis .
qed

text \<open>The text of a list of ranges, as an operator writes it in the configuration.\<close>

fun ranges_text :: "(int \<times> int) list \<Rightarrow> string" where
  "ranges_text [] = []"
| "ranges_text [(low, hi)] = format_int low @ CHR ''-'' # format_int hi"
| "ranges_text ((low, hi) # rs) = format_int low @ CHR ''-'' # format_int hi @ CHR '','' # ranges_text rs"

lemma returnRange_single:
  assumes "CHR '','' \<notin> set s"
  shows "returnRangeInt32 s mx = range_part s mx"
  using assms by (simp add: returnRangeInt32_def split_on_none)

lemma format_int_no_comma: "CHR '','' \<notin> set (format_int n)"
  using format_nat_digits [of "nat n"] format_nat_digits [of "nat (- n)"]
  by (auto simp: format_int_def list_all_iff is_digit_def)

text \<open>
  \<^verbatim>\<open>returnRangeInt32\<close> expands every \<open>low-high\<close> part of a comma-separated list to the integers from
  \<open>low\<close> to \<open>high\<close> that are below the maximum, in order.
\<close>

lemma returnRange_expands:
  assumes "\<forall>(low, hi) \<in> set rs. 0 \<le> low \<and> low \<le> hi \<and> hi < 2 ^ 31 - 1"
  shows "map sint (returnRangeInt32 (ranges_text rs) mx)
         = concat (map (\<lambda>(low, hi). filter (\<lambda>k. k < sint mx) [low .. hi]) rs)"
  using assms
proof (induction rs rule: ranges_text.induct)
  case 1
  then show ?case
    by (simp add: returnRangeInt32_def range_part_def parse_int_def parse_nat_def)
next
  case (2 low hi)
  then show ?case
    using range_low_high [of low hi mx]
      returnRange_single [of "format_int low @ CHR ''-'' # format_int hi" mx]
    by (simp add: format_int_no_comma)
next
  case (3 low hi r rs)
  let ?p = "format_int low @ CHR ''-'' # format_int hi"
  have "returnRangeInt32 (ranges_text ((low, hi) # r # rs)) mx
      = range_part ?p mx @ returnRangeInt32 (ranges_text (r # rs)) mx"
    using returnRange_comma [of ?p "ranges_text (r # rs)" mx] returnRange_single [of ?p mx]
    by (simp add: format_int_no_comma)
  with 3 show ?case
    using range_low_high [of low hi mx] by simp
qed

section \<open>Extra values of a payload\<close>

text \<open>
  \<^verbatim>\<open>makeExtra\<close> marshals the values of a map. The list is the map in its iteration order; the first
  value that does not marshal ends the loop, and the entries marshalled so far are returned with the
  error.
\<close>

fun makeExtra_loop ::
    "('v \<Rightarrow> string + bytes) \<Rightarrow> (string \<rightharpoonup> bytes) \<Rightarrow> (string \<times> 'v) list \<Rightarrow> (string \<rightharpoonup> bytes) \<times> string option" where
  "makeExtra_loop marshal out [] = (out, None)"
| "makeExtra_loop marshal out ((k, v) # kvs) =
     (case marshal v of
        Inl e \<Rightarrow> (out, Some (''failed to marshal extra: '' @ e))
      | Inr p \<Rightarrow> makeExtra_loop marshal (out(k \<mapsto> p)) kvs)"

definition makeExtra ::
    "('v \<Rightarrow> string + bytes) \<Rightarrow> (string \<times> 'v) list \<Rightarrow> (string \<rightharpoonup> bytes) \<times> string option" where
  "makeExtra marshal extra = makeExtra_loop marshal Map.empty extra"

lemma makeExtra_single:
  "makeExtra marshal [(k, v)] =
     (case marshal v of Inl e \<Rightarrow> (Map.empty, Some (''failed to marshal extra: '' @ e))
      | Inr p \<Rightarrow> ([k \<mapsto> p], None))"
  by (simp add: makeExtra_def split: sum.splits)

lemma makeExtra_loop_ok:
  assumes "\<forall>(k, v) \<in> set kvs. \<exists>p. marshal v = Inr p" and "distinct (map fst kvs)"
  shows "makeExtra_loop marshal out kvs =
     (\<lambda>k. case map_of kvs k of None \<Rightarrow> out k | Some v \<Rightarrow> Some (projr (marshal v)), None)"
  using assms
proof (induction kvs arbitrary: out)
  case Nil
  then show ?case by simp
next
  case (Cons kv kvs)
  obtain k v where kv: "kv = (k, v)" by (cases kv)
  from Cons.prems kv obtain p where p: "marshal v = Inr p" by auto
  from Cons.prems kv have "map_of kvs k = None" by (simp add: map_of_eq_None_iff)
  then show ?case
    using Cons kv p by (auto simp: fun_eq_iff split: option.splits)
qed

text \<open>If every value marshals, every key is present with the text of its value, and no error is returned.\<close>

lemma makeExtra_complete:
  assumes "\<forall>(k, v) \<in> set kvs. \<exists>p. marshal v = Inr p" and "distinct (map fst kvs)"
  shows "makeExtra marshal kvs = (\<lambda>k. map_option (\<lambda>v. projr (marshal v)) (map_of kvs k), None)"
  using makeExtra_loop_ok [OF assms]
  by (auto simp: makeExtra_def fun_eq_iff split: option.splits)

lemma makeExtra_complete_witness:
  "makeExtra (\<lambda>n :: nat. Inr (replicate n CHR ''x'')) [(''a'', 1), (''b'', 2)]
     = ([''a'' \<mapsto> ''x'', ''b'' \<mapsto> ''xx''], None)"
  using makeExtra_complete [of "[(''a'', 1), (''b'', 2)]" "\<lambda>n :: nat. Inr (replicate n CHR ''x'')"]
  by (auto simp: fun_eq_iff numeral_2_eq_2)

end
