(* ===== verification/Cache.thy ===== *)
theory Cache
  imports Prelude
begin

text \<open>
  \<^verbatim>\<open>internal/cache.go\<close>: the one-key \<open>Cache\<close>, which creates its map on the first write, and the two-key
  \<open>DoubleCache\<close>, a cache of caches.

  The map underneath is the third-party \<^verbatim>\<open>csmap\<close>; its operations are the record \<open>csmap_api\<close>, a
  parameter of every definition here, and the locale \<open>csmap\<close> states what its documentation promises.
  \<open>csm\<close> is the instance the other components run on: an association list.

  A \<open>Cache\<close> is a struct holding a pointer to its map, \<open>None\<close> for nil. \<open>DoubleCache\<close> loads a copy of the
  inner struct and works on that copy: what happens to a map the copy points at is seen through the
  original too, but a map that the copy creates because its pointer was nil is lost with the copy.
  \<open>write_through\<close> says so.
\<close>

section \<open>The map interface\<close>

record ('m, 'k, 'v) csmap_api =
  cs_create :: "nat \<Rightarrow> 'm"
  cs_load :: "'m \<Rightarrow> 'k \<Rightarrow> 'v option"
  cs_store :: "'m \<Rightarrow> 'k \<Rightarrow> 'v \<Rightarrow> 'm"
  cs_delete :: "'m \<Rightarrow> 'k \<Rightarrow> 'm"
  cs_range :: "'m \<Rightarrow> ('k \<times> 'v) list"
  cs_count :: "'m \<Rightarrow> nat"
  cs_clear :: "'m \<Rightarrow> 'm"
  cs_set_if_absent :: "'m \<Rightarrow> 'k \<Rightarrow> 'v \<Rightarrow> 'm"
  cs_set_if_present :: "'m \<Rightarrow> 'k \<Rightarrow> 'v \<Rightarrow> 'm"

definition csm :: "(('k \<times> 'v) list, 'k, 'v) csmap_api" where
  "csm = \<lparr> cs_create = (\<lambda>_. []),
           cs_load = map_of,
           cs_store = (\<lambda>m k v. AList.update k v m),
           cs_delete = (\<lambda>m k. AList.delete k m),
           cs_range = (\<lambda>m. m),
           cs_count = length,
           cs_clear = (\<lambda>_. []),
           cs_set_if_absent = (\<lambda>m k v. if map_of m k = None then AList.update k v m else m),
           cs_set_if_present = (\<lambda>m k v. if map_of m k = None then m else AList.update k v m) \<rparr>"

section \<open>Cache\<close>

record 'm cache =
  inner :: "'m option"
  csize :: nat

type_synonym ('k, 'v) kvcache = "('k \<times> 'v) list cache"

definition NewCache :: "nat \<Rightarrow> 'm cache" where
  "NewCache size0 = \<lparr> inner = None, csize = size0 \<rparr>"

definition Cache_Load :: "('m, 'k, 'v) csmap_api \<Rightarrow> 'm cache \<Rightarrow> 'k \<Rightarrow> 'v option" where
  "Cache_Load api c key = (case inner c of None \<Rightarrow> None | Some m \<Rightarrow> cs_load api m key)"

definition Cache_Has :: "('m, 'k, 'v) csmap_api \<Rightarrow> 'm cache \<Rightarrow> 'k \<Rightarrow> bool" where
  "Cache_Has api c key = (case inner c of None \<Rightarrow> False | Some m \<Rightarrow> cs_load api m key \<noteq> None)"

definition created :: "('m, 'k, 'v) csmap_api \<Rightarrow> 'm cache \<Rightarrow> 'm" where
  "created api c = (case inner c of None \<Rightarrow> cs_create api (csize c) | Some m \<Rightarrow> m)"

definition Cache_Store :: "('m, 'k, 'v) csmap_api \<Rightarrow> 'm cache \<Rightarrow> 'k \<Rightarrow> 'v \<Rightarrow> 'm cache" where
  "Cache_Store api c key value = c\<lparr>inner := Some (cs_store api (created api c) key value)\<rparr>"

definition Cache_Delete :: "('m, 'k, 'v) csmap_api \<Rightarrow> 'm cache \<Rightarrow> 'k \<Rightarrow> 'm cache" where
  "Cache_Delete api c key =
     (case inner c of None \<Rightarrow> c | Some m \<Rightarrow> c\<lparr>inner := Some (cs_delete api m key)\<rparr>)"

definition Cache_Update ::
    "('m, 'k, 'v) csmap_api \<Rightarrow> 'm cache \<Rightarrow> 'k \<Rightarrow> ('v \<Rightarrow> 'v) \<Rightarrow> 'v option \<times> 'm cache" where
  "Cache_Update api c key fn =
     (case inner c of
        None \<Rightarrow> (None, c)
      | Some m \<Rightarrow>
          (case cs_load api m key of
             None \<Rightarrow> (None, c)
           | Some value \<Rightarrow> (Some (fn value), c\<lparr>inner := Some (cs_store api m key (fn value))\<rparr>)))"

text \<open>\<open>Range\<close>: the callback returns whether to stop; its captured variables are the state.\<close>

fun range_until :: "('k \<Rightarrow> 'v \<Rightarrow> 's \<Rightarrow> bool \<times> 's) \<Rightarrow> ('k \<times> 'v) list \<Rightarrow> 's \<Rightarrow> 's" where
  "range_until fn [] s = s"
| "range_until fn ((k, v) # kvs) s =
     (case fn k v s of (stop, s') \<Rightarrow> if stop then s' else range_until fn kvs s')"

definition Cache_Range ::
    "('m, 'k, 'v) csmap_api \<Rightarrow> 'm cache \<Rightarrow> ('k \<Rightarrow> 'v \<Rightarrow> 's \<Rightarrow> bool \<times> 's) \<Rightarrow> 's \<Rightarrow> 's" where
  "Cache_Range api c fn s = (case inner c of None \<Rightarrow> s | Some m \<Rightarrow> range_until fn (cs_range api m) s)"

definition Cache_Count :: "('m, 'k, 'v) csmap_api \<Rightarrow> 'm cache \<Rightarrow> nat" where
  "Cache_Count api c = (case inner c of None \<Rightarrow> 0 | Some m \<Rightarrow> cs_count api m)"

definition Cache_Clear :: "('m, 'k, 'v) csmap_api \<Rightarrow> 'm cache \<Rightarrow> 'm cache" where
  "Cache_Clear api c = (case inner c of None \<Rightarrow> c | Some m \<Rightarrow> c\<lparr>inner := Some (cs_clear api m)\<rparr>)"

definition Cache_SetIfAbsent :: "('m, 'k, 'v) csmap_api \<Rightarrow> 'm cache \<Rightarrow> 'k \<Rightarrow> 'v \<Rightarrow> 'm cache" where
  "Cache_SetIfAbsent api c key value =
     c\<lparr>inner := Some (cs_set_if_absent api (created api c) key value)\<rparr>"

definition Cache_SetIfPresent :: "('m, 'k, 'v) csmap_api \<Rightarrow> 'm cache \<Rightarrow> 'k \<Rightarrow> 'v \<Rightarrow> 'm cache" where
  "Cache_SetIfPresent api c key value =
     c\<lparr>inner := Some (cs_set_if_present api (created api c) key value)\<rparr>"

text \<open>The entries of a cache, as a full \<open>Range\<close> visits them.\<close>

definition entries :: "('m, 'k, 'v) csmap_api \<Rightarrow> 'm cache \<Rightarrow> ('k \<times> 'v) list" where
  "entries api c = (case inner c of None \<Rightarrow> [] | Some m \<Rightarrow> cs_range api m)"

lemma Cache_Range_entries: "Cache_Range api c fn s = range_until fn (entries api c) s"
  by (simp add: Cache_Range_def entries_def split: option.splits)

lemma range_until_fold:
  assumes "\<And>k v s. fn k v s = (False, f (k, v) s)"
  shows "range_until fn kvs s = fold f kvs s"
  using assms by (induction fn kvs s rule: range_until.induct) auto

section \<open>DoubleCache\<close>

record 'o dcache =
  dinner :: "'o cache"
  dsize :: nat

type_synonym ('ka, 'kb, 'v) kvdcache = "('ka \<times> ('kb \<times> 'v) list cache) list dcache"

definition NewDoubleCache :: "nat \<Rightarrow> nat \<Rightarrow> 'o dcache" where
  "NewDoubleCache sizeOuter sizeInner = \<lparr> dinner = NewCache sizeOuter, dsize = sizeInner \<rparr>"

definition write_through ::
    "('o, 'ka, 'm cache) csmap_api \<Rightarrow> 'o dcache \<Rightarrow> 'ka \<Rightarrow> 'm cache \<Rightarrow> 'm cache \<Rightarrow> 'o dcache" where
  "write_through oapi c key before after =
     (case inner before of
        None \<Rightarrow> c
      | Some _ \<Rightarrow> c\<lparr>dinner := Cache_Store oapi (dinner c) key (before\<lparr>inner := inner after\<rparr>)\<rparr>)"

definition DC_Inner :: "('o, 'ka, 'm cache) csmap_api \<Rightarrow> 'o dcache \<Rightarrow> 'ka \<Rightarrow> 'm cache option" where
  "DC_Inner oapi c key = Cache_Load oapi (dinner c) key"

definition DC_Load ::
    "('o, 'ka, 'm cache) csmap_api \<Rightarrow> ('m, 'kb, 'v) csmap_api \<Rightarrow> 'o dcache \<Rightarrow> 'ka \<Rightarrow> 'kb \<Rightarrow> 'v option" where
  "DC_Load oapi iapi c key subKey =
     (case Cache_Load oapi (dinner c) key of
        Some i \<Rightarrow> Cache_Load iapi i subKey
      | None \<Rightarrow> None)"

definition DC_LoadOrNew ::
    "('o, 'ka, 'm cache) csmap_api \<Rightarrow> 'o dcache \<Rightarrow> 'ka \<Rightarrow> 'm cache \<times> 'o dcache" where
  "DC_LoadOrNew oapi c key =
     (case Cache_Load oapi (dinner c) key of
        Some i \<Rightarrow> (i, c)
      | None \<Rightarrow>
          let i = NewCache (dsize c)
          in (i, c\<lparr>dinner := Cache_Store oapi (dinner c) key i\<rparr>))"

definition DC_Store ::
    "('o, 'ka, 'm cache) csmap_api \<Rightarrow> ('m, 'kb, 'v) csmap_api \<Rightarrow> 'o dcache \<Rightarrow> 'ka \<Rightarrow> 'kb \<Rightarrow> 'v \<Rightarrow> 'o dcache" where
  "DC_Store oapi iapi c key subKey value =
     (case Cache_Load oapi (dinner c) key of
        Some i \<Rightarrow> write_through oapi c key i (Cache_Store iapi i subKey value)
      | None \<Rightarrow>
          c\<lparr>dinner := Cache_SetIfAbsent oapi (dinner c) key
               (Cache_Store iapi (NewCache (dsize c)) subKey value)\<rparr>)"

definition DC_Delete ::
    "('o, 'ka, 'm cache) csmap_api \<Rightarrow> ('m, 'kb, 'v) csmap_api \<Rightarrow> 'o dcache \<Rightarrow> 'ka \<Rightarrow> 'kb \<Rightarrow> 'o dcache" where
  "DC_Delete oapi iapi c key subKey =
     (case Cache_Load oapi (dinner c) key of
        Some i \<Rightarrow> write_through oapi c key i (Cache_Delete iapi i subKey)
      | None \<Rightarrow> c)"

definition DC_Update ::
    "('o, 'ka, 'm cache) csmap_api \<Rightarrow> ('m, 'kb, 'v) csmap_api \<Rightarrow> 'o dcache \<Rightarrow> 'ka \<Rightarrow> 'kb \<Rightarrow> ('v \<Rightarrow> 'v)
     \<Rightarrow> 'v option \<times> 'o dcache" where
  "DC_Update oapi iapi c key subKey fn =
     (case Cache_Load oapi (dinner c) key of
        Some i \<Rightarrow> (case Cache_Update iapi i subKey fn of (r, i') \<Rightarrow> (r, write_through oapi c key i i'))
      | None \<Rightarrow> (None, c))"

definition DC_Range ::
    "('o, 'ka, 'm cache) csmap_api \<Rightarrow> 'o dcache \<Rightarrow> ('ka \<Rightarrow> 'm cache \<Rightarrow> 's \<Rightarrow> bool \<times> 's) \<Rightarrow> 's \<Rightarrow> 's" where
  "DC_Range oapi c fn s = Cache_Range oapi (dinner c) fn s"

definition DC_TotalCount ::
    "('o, 'ka, 'm cache) csmap_api \<Rightarrow> ('m, 'kb, 'v) csmap_api \<Rightarrow> 'o dcache \<Rightarrow> nat" where
  "DC_TotalCount oapi iapi c =
     Cache_Range oapi (dinner c) (\<lambda>_ i count. (False, count + Cache_Count iapi i)) 0"

definition DC_Count ::
    "('o, 'ka, 'm cache) csmap_api \<Rightarrow> ('m, 'kb, 'v) csmap_api \<Rightarrow> 'o dcache \<Rightarrow> 'ka \<Rightarrow> nat" where
  "DC_Count oapi iapi c key =
     (case Cache_Load oapi (dinner c) key of Some i \<Rightarrow> Cache_Count iapi i | None \<Rightarrow> 0)"

definition DC_Clear :: "('o, 'ka, 'm cache) csmap_api \<Rightarrow> 'o dcache \<Rightarrow> 'o dcache" where
  "DC_Clear oapi c = c\<lparr>dinner := Cache_Clear oapi (dinner c)\<rparr>"

definition DC_ClearKey :: "('o, 'ka, 'm cache) csmap_api \<Rightarrow> 'o dcache \<Rightarrow> 'ka \<Rightarrow> 'o dcache" where
  "DC_ClearKey oapi c key = c\<lparr>dinner := Cache_Delete oapi (dinner c) key\<rparr>"

definition DC_SetIfAbsent ::
    "('o, 'ka, 'm cache) csmap_api \<Rightarrow> ('m, 'kb, 'v) csmap_api \<Rightarrow> 'o dcache \<Rightarrow> 'ka \<Rightarrow> 'kb \<Rightarrow> 'v \<Rightarrow> 'o dcache" where
  "DC_SetIfAbsent oapi iapi c key subKey value =
     (case Cache_Load oapi (dinner c) key of
        Some i \<Rightarrow> write_through oapi c key i (Cache_SetIfAbsent iapi i subKey value)
      | None \<Rightarrow>
          c\<lparr>dinner := Cache_Store oapi (dinner c) key
               (Cache_SetIfAbsent iapi (NewCache (dsize c)) subKey value)\<rparr>)"

definition DC_SetIfPresent ::
    "('o, 'ka, 'm cache) csmap_api \<Rightarrow> ('m, 'kb, 'v) csmap_api \<Rightarrow> 'o dcache \<Rightarrow> 'ka \<Rightarrow> 'kb \<Rightarrow> 'v \<Rightarrow> 'o dcache" where
  "DC_SetIfPresent oapi iapi c key subKey value =
     (case Cache_Load oapi (dinner c) key of
        Some i \<Rightarrow> write_through oapi c key i (Cache_SetIfPresent iapi i subKey value)
      | None \<Rightarrow>
          c\<lparr>dinner := Cache_Store oapi (dinner c) key
               (Cache_SetIfPresent iapi (NewCache (dsize c)) subKey value)\<rparr>)"


section \<open>Laws: what the clients of a keyed store rely on\<close>

text \<open>
  The contract of a keyed store, as the state operations use it. Look-ups after writes, and the
  result of a loop that stores one entry per list element: later elements win.
\<close>

locale keyed_store =
  fixes find :: "'s \<Rightarrow> 'k \<Rightarrow> 'v option"
    and put :: "'s \<Rightarrow> 'k \<Rightarrow> 'v \<Rightarrow> 's"
    and drop_key :: "'s \<Rightarrow> 'k \<Rightarrow> 's"
    and inv :: "'s \<Rightarrow> bool"
  assumes find_put: "inv s \<Longrightarrow> find (put s k v) = (find s)(k \<mapsto> v)"
    and find_drop: "inv s \<Longrightarrow> find (drop_key s k) = (find s)(k := None)"
    and inv_put: "inv s \<Longrightarrow> inv (put s k v)"
    and inv_drop: "inv s \<Longrightarrow> inv (drop_key s k)"
begin

lemma find_put_same: "inv s \<Longrightarrow> find (put s k v) k = Some v"
  by (simp add: find_put)

lemma find_put_other: "inv s \<Longrightarrow> k' \<noteq> k \<Longrightarrow> find (put s k v) k' = find s k'"
  by (simp add: find_put)

lemma put_put: "inv s \<Longrightarrow> find (put (put s k v) k w) = find (put s k w)"
  by (simp add: find_put inv_put)

lemma drop_put: "inv s \<Longrightarrow> find (drop_key (put s k v) k) = find (drop_key s k)"
  by (simp add: find_put find_drop inv_put)

lemma put_loop:
  assumes "inv s"
  shows "inv (fold (\<lambda>x s. put s (key x) (val x)) xs s)"
    and "find (fold (\<lambda>x s. put s (key x) (val x)) xs s)
         = find s ++ map_of (rev (map (\<lambda>x. (key x, val x)) xs))"
proof -
  have "inv (fold (\<lambda>x s. put s (key x) (val x)) xs s) \<and>
      find (fold (\<lambda>x s. put s (key x) (val x)) xs s)
      = find s ++ map_of (rev (map (\<lambda>x. (key x, val x)) xs))"
    using assms
  proof (induction xs arbitrary: s)
    case Nil
    then show ?case by simp
  next
    case (Cons x xs)
    from Cons.prems have "inv (put s (key x) (val x))" by (rule inv_put)
    from Cons.IH [OF this] Cons.prems show ?case
      by (simp add: find_put map_add_assoc map_add_upd_left fun_upd_def [symmetric] map_add_def
          fun_eq_iff map_of_append split: option.splits)
  qed
  then show "inv (fold (\<lambda>x s. put s (key x) (val x)) xs s)"
    and "find (fold (\<lambda>x s. put s (key x) (val x)) xs s)
         = find s ++ map_of (rev (map (\<lambda>x. (key x, val x)) xs))"
    by blast+
qed

lemma put_loop_distinct:
  assumes "inv s" and "distinct (map key xs)" and "x \<in> set xs"
  shows "find (fold (\<lambda>x s. put s (key x) (val x)) xs s) (key x) = Some (val x)"
proof -
  have "map_of (rev (map (\<lambda>x. (key x, val x)) xs)) (key x) = Some (val x)"
    using assms(2,3) by (auto simp: map_of_eq_Some_iff rev_map [symmetric] o_def)
  then show ?thesis by (simp add: put_loop(2) [OF assms(1)])
qed

lemma put_loop_other:
  assumes "inv s" and "k \<notin> key ` set xs"
  shows "find (fold (\<lambda>x s. put s (key x) (val x)) xs s) k = find s k"
proof -
  have "map_of (rev (map (\<lambda>x. (key x, val x)) xs)) k = None"
    using assms(2) by (auto simp: map_of_eq_None_iff)
  then show ?thesis by (simp add: put_loop(2) [OF assms(1)] map_add_def)
qed

end

text \<open>The documented behaviour of \<^verbatim>\<open>csmap\<close>.\<close>

locale csmap =
  fixes api :: "('m, 'k, 'v) csmap_api" and ok :: "'m \<Rightarrow> bool"
  assumes load_create: "cs_load api (cs_create api n) = Map.empty"
    and load_store: "ok m \<Longrightarrow> cs_load api (cs_store api m k v) = (cs_load api m)(k \<mapsto> v)"
    and load_delete: "ok m \<Longrightarrow> cs_load api (cs_delete api m k) = (cs_load api m)(k := None)"
    and load_clear: "ok m \<Longrightarrow> cs_load api (cs_clear api m) = Map.empty"
    and load_absent: "ok m \<Longrightarrow> cs_load api (cs_set_if_absent api m k v)
          = (if cs_load api m k = None then (cs_load api m)(k \<mapsto> v) else cs_load api m)"
    and load_present: "ok m \<Longrightarrow> cs_load api (cs_set_if_present api m k v)
          = (if cs_load api m k = None then cs_load api m else (cs_load api m)(k \<mapsto> v))"
    and range_load: "ok m \<Longrightarrow> map_of (cs_range api m) = cs_load api m"
    and range_distinct: "ok m \<Longrightarrow> distinct (map fst (cs_range api m))"
    and count_range: "ok m \<Longrightarrow> cs_count api m = length (cs_range api m)"
    and ok_create: "ok (cs_create api n)"
    and ok_store: "ok m \<Longrightarrow> ok (cs_store api m k v)"
    and ok_delete: "ok m \<Longrightarrow> ok (cs_delete api m k)"
    and ok_clear: "ok m \<Longrightarrow> ok (cs_clear api m)"
    and ok_absent: "ok m \<Longrightarrow> ok (cs_set_if_absent api m k v)"
    and ok_present: "ok m \<Longrightarrow> ok (cs_set_if_present api m k v)"

definition wf_cache :: "('m \<Rightarrow> bool) \<Rightarrow> 'm cache \<Rightarrow> bool" where
  "wf_cache ok c \<longleftrightarrow> (\<forall>m. inner c = Some m \<longrightarrow> ok m)"

definition wf_dcache ::
    "('o, 'ka, 'm cache) csmap_api \<Rightarrow> ('o \<Rightarrow> bool) \<Rightarrow> ('m \<Rightarrow> bool) \<Rightarrow> 'o dcache \<Rightarrow> bool" where
  "wf_dcache oapi ook iok d \<longleftrightarrow>
     wf_cache ook (dinner d) \<and>
     (\<forall>k i. Cache_Load oapi (dinner d) k = Some i \<longrightarrow> inner i \<noteq> None \<and> wf_cache iok i)"

lemma wf_NewCache [simp]: "wf_cache ok (NewCache n)"
  by (simp add: wf_cache_def NewCache_def)

lemma Load_NewCache [simp]: "Cache_Load api (NewCache n) k = None"
  by (simp add: Cache_Load_def NewCache_def)

lemma wf_NewDoubleCache [simp]: "wf_dcache oapi ook iok (NewDoubleCache m n)"
  by (simp add: wf_dcache_def NewDoubleCache_def)

context csmap
begin

lemma ok_created: "wf_cache ok c \<Longrightarrow> ok (created api c)"
  by (auto simp: wf_cache_def created_def ok_create split: option.splits)

lemma load_created: "cs_load api (created api c) = Cache_Load api c"
  by (auto simp: created_def Cache_Load_def fun_eq_iff load_create split: option.splits)

lemma Load_Store: "wf_cache ok c \<Longrightarrow> Cache_Load api (Cache_Store api c k v) = (Cache_Load api c)(k \<mapsto> v)"
  by (simp add: Cache_Load_def [abs_def] Cache_Store_def load_store ok_created load_created fun_eq_iff)

lemma Load_Delete: "wf_cache ok c \<Longrightarrow> Cache_Load api (Cache_Delete api c k) = (Cache_Load api c)(k := None)"
  by (auto simp: Cache_Load_def Cache_Delete_def load_delete wf_cache_def fun_eq_iff split: option.splits)

lemma Load_SetIfAbsent:
  "wf_cache ok c \<Longrightarrow> Cache_Load api (Cache_SetIfAbsent api c k v)
     = (if Cache_Load api c k = None then (Cache_Load api c)(k \<mapsto> v) else Cache_Load api c)"
  by (simp add: Cache_Load_def [abs_def] Cache_SetIfAbsent_def load_absent ok_created load_created fun_eq_iff)

lemma Load_SetIfPresent:
  "wf_cache ok c \<Longrightarrow> Cache_Load api (Cache_SetIfPresent api c k v)
     = (if Cache_Load api c k = None then Cache_Load api c else (Cache_Load api c)(k \<mapsto> v))"
  by (simp add: Cache_Load_def [abs_def] Cache_SetIfPresent_def load_present ok_created load_created fun_eq_iff)

lemma wf_Store: "wf_cache ok c \<Longrightarrow> wf_cache ok (Cache_Store api c k v)"
  using ok_created by (simp add: wf_cache_def Cache_Store_def ok_store)

lemma wf_Delete: "wf_cache ok c \<Longrightarrow> wf_cache ok (Cache_Delete api c k)"
  by (auto simp: wf_cache_def Cache_Delete_def ok_delete split: option.splits)

lemma wf_SetIfAbsent: "wf_cache ok c \<Longrightarrow> wf_cache ok (Cache_SetIfAbsent api c k v)"
  using ok_created by (simp add: wf_cache_def Cache_SetIfAbsent_def ok_absent)

lemma wf_SetIfPresent: "wf_cache ok c \<Longrightarrow> wf_cache ok (Cache_SetIfPresent api c k v)"
  using ok_created by (simp add: wf_cache_def Cache_SetIfPresent_def ok_present)

lemma Has_iff: "Cache_Has api c k \<longleftrightarrow> Cache_Load api c k \<noteq> None"
  by (simp add: Cache_Has_def Cache_Load_def split: option.splits)

lemma Load_Update:
  "wf_cache ok c \<Longrightarrow> Cache_Load api (snd (Cache_Update api c k fn))
     = (Cache_Load api c)(k := map_option fn (Cache_Load api c k))"
  by (auto simp: Cache_Load_def Cache_Update_def load_store wf_cache_def fun_eq_iff split: option.splits)

lemma fst_Update: "fst (Cache_Update api c k fn) = map_option fn (Cache_Load api c k)"
  by (auto simp: Cache_Load_def Cache_Update_def split: option.splits)

lemma wf_Update: "wf_cache ok c \<Longrightarrow> wf_cache ok (snd (Cache_Update api c k fn))"
  by (auto simp: wf_cache_def Cache_Update_def ok_store split: option.splits)

lemma wf_Clear: "wf_cache ok c \<Longrightarrow> wf_cache ok (Cache_Clear api c)"
  by (auto simp: wf_cache_def Cache_Clear_def ok_clear split: option.splits)

lemma Load_Clear: "wf_cache ok c \<Longrightarrow> Cache_Load api (Cache_Clear api c) = Map.empty"
  by (auto simp: Cache_Load_def Cache_Clear_def load_clear wf_cache_def fun_eq_iff split: option.splits)

lemma entries_Load: "wf_cache ok c \<Longrightarrow> map_of (entries api c) = Cache_Load api c"
  by (auto simp: entries_def Cache_Load_def wf_cache_def range_load fun_eq_iff split: option.splits)

lemma entries_distinct: "wf_cache ok c \<Longrightarrow> distinct (map fst (entries api c))"
  by (auto simp: entries_def wf_cache_def range_distinct split: option.splits)

lemma Count_entries: "wf_cache ok c \<Longrightarrow> Cache_Count api c = length (entries api c)"
  by (auto simp: entries_def Cache_Count_def wf_cache_def count_range split: option.splits)

lemma entries_iff: "wf_cache ok c \<Longrightarrow> (k, v) \<in> set (entries api c) \<longleftrightarrow> Cache_Load api c k = Some v"
  by (simp add: entries_distinct flip: entries_Load)

end

sublocale csmap \<subseteq> store: keyed_store "Cache_Load api" "Cache_Store api" "Cache_Delete api" "wf_cache ok"
  by unfold_locales (simp_all add: Load_Store Load_Delete wf_Store wf_Delete)


text \<open>The association list keeps the promises, as long as its keys are distinct.\<close>

lemma csm_simps [simp]:
  "cs_create csm n = []"
  "cs_load csm m = map_of m"
  "cs_store csm m k v = AList.update k v m"
  "cs_delete csm m k = AList.delete k m"
  "cs_range csm m = m"
  "cs_count csm m = length m"
  "cs_clear csm m = []"
  "cs_set_if_absent csm m k v = (if map_of m k = None then AList.update k v m else m)"
  "cs_set_if_present csm m k v = (if map_of m k = None then m else AList.update k v m)"
  by (simp_all add: csm_def)

abbreviation ok_alist :: "('k \<times> 'v) list \<Rightarrow> bool" where
  "ok_alist m \<equiv> distinct (map fst m)"

interpretation csm: csmap csm ok_alist
  by unfold_locales
    (auto simp: update_conv' delete_conv' distinct_update distinct_delete
      simp del: map_of_eq_Some_iff not_None_eq)

text \<open>Two lawful maps stacked on each other give a lawful two-key store.\<close>

locale csmap2 = o: csmap oapi ook + i: csmap iapi iok
  for oapi :: "('o, 'ka, 'm cache) csmap_api" and ook :: "'o \<Rightarrow> bool"
    and iapi :: "('m, 'kb, 'v) csmap_api" and iok :: "'m \<Rightarrow> bool"

definition find2 ::
    "('o, 'ka, 'm cache) csmap_api \<Rightarrow> ('m, 'kb, 'v) csmap_api \<Rightarrow> 'o dcache \<Rightarrow> 'ka \<times> 'kb \<Rightarrow> 'v option" where
  "find2 oapi iapi d k = DC_Load oapi iapi d (fst k) (snd k)"

context csmap2
begin

abbreviation "good \<equiv> wf_dcache oapi ook iok"

lemma wf_outer: "good d \<Longrightarrow> wf_cache ook (dinner d)"
  by (simp add: wf_dcache_def)

lemma good_inner: "good d \<Longrightarrow> Cache_Load oapi (dinner d) k = Some c \<Longrightarrow> inner c \<noteq> None \<and> wf_cache iok c"
  by (simp add: wf_dcache_def)

text \<open>Replacing the inner cache of a key by a well-formed one that is not nil.\<close>

lemma good_put_inner:
  assumes "good d" and "wf_cache iok c" and "inner c \<noteq> None"
  shows "good (d\<lparr>dinner := Cache_Store oapi (dinner d) k c\<rparr>)"
  using assms by (auto simp: wf_dcache_def o.wf_Store o.Load_Store)

lemma write_through_eq:
  assumes "good d" and "Cache_Load oapi (dinner d) k = Some before"
    and "csize after = csize before"
  shows "write_through oapi d k before after = d\<lparr>dinner := Cache_Store oapi (dinner d) k after\<rparr>"
proof -
  from good_inner [OF assms(1,2)] obtain m where "inner before = Some m" by auto
  moreover have "before\<lparr>inner := inner after\<rparr> = after" using assms(3) by simp
  ultimately show ?thesis by (simp add: write_through_def)
qed

lemma Store_size: "csize (Cache_Store iapi c k v) = csize c"
  by (simp add: Cache_Store_def)

lemma Delete_size: "csize (Cache_Delete iapi c k) = csize c"
  by (simp add: Cache_Delete_def split: option.splits)

lemma DC_Store_eq:
  assumes "good d"
  shows "\<exists>c. DC_Store oapi iapi d k sk v = d\<lparr>dinner := Cache_Store oapi (dinner d) k c\<rparr>
     \<or> (Cache_Load oapi (dinner d) k = None \<and> DC_Store oapi iapi d k sk v
         = d\<lparr>dinner := Cache_SetIfAbsent oapi (dinner d) k c\<rparr>)"
  using assms by (cases "Cache_Load oapi (dinner d) k")
    (auto simp: DC_Store_def write_through_eq Store_size)

lemma inner_after_store:
  assumes "good d"
  shows "Cache_Load oapi (dinner (DC_Store oapi iapi d k sk v)) =
     (Cache_Load oapi (dinner d))(k \<mapsto> Cache_Store iapi
        (case Cache_Load oapi (dinner d) k of Some c \<Rightarrow> c | None \<Rightarrow> NewCache (dsize d)) sk v)"
  using assms wf_outer [OF assms]
  by (cases "Cache_Load oapi (dinner d) k")
    (simp_all add: DC_Store_def write_through_eq Store_size o.Load_Store o.Load_SetIfAbsent)

lemma good_DC_Store: "good d \<Longrightarrow> good (DC_Store oapi iapi d k sk v)"
proof -
  assume d: "good d"
  have "wf_cache ook (dinner (DC_Store oapi iapi d k sk v))"
    using d wf_outer [OF d] by (cases "Cache_Load oapi (dinner d) k")
      (simp_all add: DC_Store_def write_through_eq Store_size o.wf_Store o.wf_SetIfAbsent)
  moreover have "inner (Cache_Store iapi c sk v) \<noteq> None" for c
    by (simp add: Cache_Store_def)
  ultimately show ?thesis
    using d good_inner [OF d] by (auto simp: wf_dcache_def inner_after_store i.wf_Store split: option.splits)
qed

lemma Load_DC_Store:
  assumes "good d"
  shows "find2 oapi iapi (DC_Store oapi iapi d k sk v) = (find2 oapi iapi d)((k, sk) \<mapsto> v)"
  using good_inner [OF assms]
  by (auto simp: find2_def DC_Load_def inner_after_store [OF assms] fun_eq_iff i.Load_Store
      split: option.splits)

lemma inner_after_delete:
  assumes "good d"
  shows "Cache_Load oapi (dinner (DC_Delete oapi iapi d k sk)) =
     (Cache_Load oapi (dinner d))(k := map_option (\<lambda>c. Cache_Delete iapi c sk) (Cache_Load oapi (dinner d) k))"
  using assms wf_outer [OF assms]
  by (cases "Cache_Load oapi (dinner d) k")
    (auto simp: DC_Delete_def write_through_eq Delete_size o.Load_Store)

lemma good_DC_Delete: "good d \<Longrightarrow> good (DC_Delete oapi iapi d k sk)"
proof -
  assume d: "good d"
  have "wf_cache ook (dinner (DC_Delete oapi iapi d k sk))"
    using d wf_outer [OF d] by (cases "Cache_Load oapi (dinner d) k")
      (simp_all add: DC_Delete_def write_through_eq Delete_size o.wf_Store)
  moreover have "inner c \<noteq> None \<Longrightarrow> inner (Cache_Delete iapi c sk) \<noteq> None" for c
    by (auto simp: Cache_Delete_def)
  ultimately show ?thesis
    using d good_inner [OF d] by (auto simp: wf_dcache_def inner_after_delete i.wf_Delete split: if_splits)
qed

lemma Load_DC_Delete:
  assumes "good d"
  shows "find2 oapi iapi (DC_Delete oapi iapi d k sk) = (find2 oapi iapi d)((k, sk) := None)"
  using good_inner [OF assms]
  by (auto simp: find2_def DC_Load_def inner_after_delete [OF assms] fun_eq_iff i.Load_Delete
      split: option.splits)

lemma Update_size: "csize (snd (Cache_Update iapi c k fn)) = csize c"
  by (simp add: Cache_Update_def split: option.splits)

lemma inner_after_update:
  assumes "good d"
  shows "Cache_Load oapi (dinner (snd (DC_Update oapi iapi d k sk fn))) =
     (Cache_Load oapi (dinner d))(k := map_option (\<lambda>c. snd (Cache_Update iapi c sk fn)) (Cache_Load oapi (dinner d) k))"
  using assms wf_outer [OF assms]
  by (cases "Cache_Load oapi (dinner d) k")
    (auto simp: DC_Update_def write_through_eq Update_size o.Load_Store split: prod.splits
      dest!: arg_cong [where f = snd])

lemma good_DC_Update: "good d \<Longrightarrow> good (snd (DC_Update oapi iapi d k sk fn))"
proof -
  assume d: "good d"
  have "wf_cache ook (dinner (snd (DC_Update oapi iapi d k sk fn)))"
    using d wf_outer [OF d]
    by (cases "Cache_Load oapi (dinner d) k")
      (auto simp: DC_Update_def write_through_eq Update_size o.wf_Store split: prod.splits
        dest!: arg_cong [where f = snd])
  moreover have "inner c \<noteq> None \<Longrightarrow> inner (snd (Cache_Update iapi c sk fn)) \<noteq> None" for c
    by (auto simp: Cache_Update_def split: option.splits)
  ultimately show ?thesis
    using d good_inner [OF d] by (auto simp: wf_dcache_def inner_after_update i.wf_Update split: if_splits)
qed

lemma Load_DC_Update:
  assumes "good d"
  shows "find2 oapi iapi (snd (DC_Update oapi iapi d k sk fn)) =
     (find2 oapi iapi d)((k, sk) := map_option fn (find2 oapi iapi d (k, sk)))"
  using good_inner [OF assms]
  by (auto simp: find2_def DC_Load_def inner_after_update [OF assms] fun_eq_iff i.Load_Update
      split: option.splits)

text \<open>What \<open>LoadOrNew\<close> creates is an inner cache without a map, and stores into it are lost.\<close>

lemma store_after_new_lost:
  assumes "wf_cache ook (dinner d)" and "DC_Inner oapi d k = None"
  shows "DC_Load oapi iapi (DC_Store oapi iapi (snd (DC_LoadOrNew oapi d k)) k sk v) k sk = None"
  using assms by (simp add: DC_LoadOrNew_def DC_Inner_def DC_Store_def DC_Load_def o.Load_Store Let_def
      write_through_def NewCache_def Cache_Load_def [of iapi])

lemma total_count:
  assumes "good d"
  shows "DC_TotalCount oapi iapi d = (\<Sum>(k, c)\<leftarrow>entries oapi (dinner d). length (entries iapi c))"
proof -
  have count: "Cache_Count iapi c = length (entries iapi c)" if "(k, c) \<in> set (entries oapi (dinner d))" for k c
    using that good_inner [OF assms, of k c] o.entries_iff [OF wf_outer [OF assms]] i.Count_entries by blast
  have "fold (\<lambda>(k, c) n. n + Cache_Count iapi c) kcs n
      = n + (\<Sum>(k, c)\<leftarrow>kcs. length (entries iapi c))"
    if "set kcs \<subseteq> set (entries oapi (dinner d))" for kcs n
    using that by (induction kcs arbitrary: n) (auto simp: count)
  from this [of "entries oapi (dinner d)" 0] show ?thesis
    by (simp add: DC_TotalCount_def Cache_Range_entries
        range_until_fold [where f = "\<lambda>(k, c) n. n + Cache_Count iapi c"])
qed

lemma good_ClearKey: "good d \<Longrightarrow> good (DC_ClearKey oapi d k)"
  by (auto simp: wf_dcache_def DC_ClearKey_def o.wf_Delete o.Load_Delete split: if_splits)

lemma Load_ClearKey:
  "good d \<Longrightarrow> find2 oapi iapi (DC_ClearKey oapi d k) = (\<lambda>(k', sk). if k' = k then None else find2 oapi iapi d (k', sk))"
  by (auto simp: find2_def DC_Load_def DC_ClearKey_def wf_dcache_def o.Load_Delete fun_eq_iff
      split: option.splits)

end

sublocale csmap2 \<subseteq> store2: keyed_store "find2 oapi iapi"
    "\<lambda>d k. DC_Store oapi iapi d (fst k) (snd k)" "\<lambda>d k. DC_Delete oapi iapi d (fst k) (snd k)"
    "wf_dcache oapi ook iok"
  by unfold_locales (simp_all add: Load_DC_Store Load_DC_Delete good_DC_Store good_DC_Delete)

interpretation csm2: csmap2 csm ok_alist csm ok_alist
  by unfold_locales

section \<open>Properties\<close>



text \<open>An inner cache obtained by \<open>LoadOrNew\<close> for an absent key has no map, so that a \<open>Store\<close> under that
  key afterwards is lost.\<close>

lemma store_after_LoadOrNew_lost:
  assumes "wf_dcache csm ok_alist ok_alist d" and "DC_Inner csm d k = None"
  shows "DC_Load csm csm (DC_Store csm csm (snd (DC_LoadOrNew csm d k)) k sk v) k sk = None"
  using csm2.store_after_new_lost [OF csm2.wf_outer [OF assms(1)] assms(2)] .

theorem store_after_LoadOrNew_lost_witness:
  "DC_Load csm csm (DC_Store csm csm (snd (DC_LoadOrNew csm (NewDoubleCache 0 50) (1 :: nat))) 1 (2 :: nat) CHR ''a'') 1 2
    = None"
  by (rule store_after_LoadOrNew_lost [OF wf_NewDoubleCache]) (simp add: DC_Inner_def NewDoubleCache_def)

text \<open>\<open>TotalCount\<close> is the sum of the sizes of the inner caches.\<close>

lemma total_count_sum:
  assumes "wf_dcache csm ok_alist ok_alist d"
  shows "DC_TotalCount csm csm d = (\<Sum>(k, c)\<leftarrow>entries csm (dinner d). length (entries csm c))"
  using assms by (rule csm2.total_count)

lemma total_count_sum_witness:
  "DC_TotalCount csm csm (DC_Store csm csm (DC_Store csm csm (NewDoubleCache 0 50) (1 :: nat) (2 :: nat) True) 1 3 False) = 2"
proof -
  let ?d = "DC_Store csm csm (DC_Store csm csm (NewDoubleCache 0 50) (1 :: nat) (2 :: nat) True) 1 3 False"
  have "wf_dcache csm ok_alist ok_alist ?d" by (intro csm2.good_DC_Store) simp
  from total_count_sum [OF this] show ?thesis
    by (simp add: DC_Store_def NewDoubleCache_def NewCache_def Cache_Load_def Cache_SetIfAbsent_def created_def
        write_through_def Cache_Store_def entries_def csm_def)
qed

end
