(* ===== verification/Discord.thy ===== *)
theory Discord
  imports GoNum
begin

text \<open>
  The objects of \<^verbatim>\<open>discord/\<close> that the state caches, one record per struct with the struct's fields in
  order: a pointer is an option, a slice an optional list, a timestamp its text. Integer kinds keep
  their width (Go's \<^verbatim>\<open>int\<close> is 64 bits).
\<close>

record User =
  user_DMChannelID :: "ChannelID option"
  user_Banner :: string
  user_GlobalName :: string
  user_Avatar :: "string option"
  user_AvatarDecoration :: "string option"
  user_Username :: string
  user_Discriminator :: string
  user_Locale :: string
  user_Email :: string
  user_ID :: UserID
  user_PremiumType :: int64
  user_Flags :: uint32
  user_AccentColor :: int32
  user_PublicFlags :: uint32
  user_MFAEnabled :: bool
  user_Verified :: bool
  user_Bot :: bool
  user_System :: bool

record RoleTag =
  rtag_BotID :: "UserID option"
  rtag_IntegrationID :: "Snowflake option"
  rtag_PremiumSubscriber :: "bool option"
  rtag_SubscriptionListingID :: "Snowflake option"
  rtag_AvailableForPurchase :: "bool option"
  rtag_GuildConnections :: "bool option"

record Role =
  role_GuildID :: "GuildID option"
  role_Tags :: "RoleTag option"
  role_Name :: string
  role_Icon :: string
  role_UnicodeEmoji :: string
  role_ID :: RoleID
  role_Permissions :: int64
  role_Color :: int32
  role_Position :: int32
  role_Hoist :: bool
  role_Managed :: bool
  role_Mentionable :: bool

record Emoji =
  emoji_GuildID :: "GuildID option"
  emoji_User :: "User option"
  emoji_Name :: string
  emoji_Roles :: "RoleID slice"
  emoji_ID :: EmojiID
  emoji_RequireColons :: bool
  emoji_Managed :: bool
  emoji_Animated :: bool
  emoji_Available :: bool

record ChannelOverwrite =
  cow_Type :: uint16
  cow_ID :: Snowflake
  cow_Allow :: int64
  cow_Deny :: int64

record ThreadMetadata =
  tmeta_ArchiveTimestamp :: string
  tmeta_AutoArchiveDuration :: int32
  tmeta_Archived :: bool
  tmeta_Locked :: bool

record ThreadMember =
  tmem_ID :: "ChannelID option"
  tmem_UserID :: "UserID option"
  tmem_GuildID :: "GuildID option"
  tmem_JoinTimestamp :: string
  tmem_Flags :: int32

record Channel =
  chan_OwnerID :: "UserID option"
  chan_GuildID :: "GuildID option"
  chan_ThreadMember :: "ThreadMember option"
  chan_ThreadMetadata :: "ThreadMetadata option"
  chan_LastPinTimestamp :: "string option"
  chan_ParentID :: "ChannelID option"
  chan_ApplicationID :: "ApplicationID option"
  chan_LastMessageID :: "string option"
  chan_RTCRegion :: string
  chan_Topic :: string
  chan_Icon :: string
  chan_Name :: string
  chan_PermissionOverwrites :: "ChannelOverwrite slice"
  chan_Recipients :: "User slice"
  chan_Permissions :: int64
  chan_ID :: ChannelID
  chan_UserLimit :: int32
  chan_Bitrate :: int32
  chan_MessageCount :: int32
  chan_MemberCount :: int32
  chan_TotalMessageSent :: int32
  chan_RateLimitPerUser :: int32
  chan_Position :: int32
  chan_DefaultAutoArchiveDuration :: int32
  chan_VideoQualityMode :: uint16
  chan_Type :: uint16
  chan_NSFW :: bool

record StageInstance =
  stage_Topic :: string
  stage_ID :: Snowflake
  stage_GuildID :: GuildID
  stage_ChannelID :: ChannelID
  stage_PrivacyLabel :: uint16
  stage_DiscoverableDisabled :: bool

record GuildMember =
  gm_User :: "User option"
  gm_GuildID :: "GuildID option"
  gm_CommunicationDisabledUntil :: "string option"
  gm_Nick :: string
  gm_Avatar :: string
  gm_PremiumSince :: string
  gm_JoinedAt :: string
  gm_Roles :: "RoleID slice"
  gm_Permissions :: int64
  gm_Flags :: int64
  gm_Deaf :: bool
  gm_Mute :: bool
  gm_Pending :: bool

record VoiceState =
  vs_RequestToSpeakTimestamp :: "string option"
  vs_GuildID :: "GuildID option"
  vs_Member :: "GuildMember option"
  vs_SessionID :: string
  vs_UserID :: UserID
  vs_ChannelID :: ChannelID
  vs_Mute :: bool
  vs_SelfDeaf :: bool
  vs_SelfMute :: bool
  vs_SelfStream :: bool
  vs_SelfVideo :: bool
  vs_Suppress :: bool
  vs_Deaf :: bool

record Sticker =
  stk_PackID :: "Snowflake option"
  stk_GuildID :: "Snowflake option"
  stk_User :: "User option"
  stk_Name :: string
  stk_Description :: string
  stk_Tags :: string
  stk_ID :: Snowflake
  stk_SortValue :: int32
  stk_Type :: uint16
  stk_FormatType :: uint16
  stk_Available :: bool

record EventMetadata =
  evm_Location :: string

record ScheduledEvent =
  sev_ChannelID :: "ChannelID option"
  sev_CreatorID :: "UserID option"
  sev_Creator :: "User option"
  sev_EntityMetadata :: "EventMetadata option"
  sev_EntityID :: "Snowflake option"
  sev_ScheduledEndTime :: "string option"
  sev_ScheduledStartTime :: string
  sev_Description :: string
  sev_Name :: string
  sev_ID :: Snowflake
  sev_GuildID :: GuildID
  sev_UserCount :: int32
  sev_Status :: uint16
  sev_EntityType :: uint16
  sev_PrivacyLevel :: uint16

record Timestamps =
  tst_Start :: int64
  tst_End :: int64

record Party =
  party_ID :: string
  party_Size :: "int32 slice"

record Assets =
  ast_LargeImage :: string
  ast_LargeText :: string
  ast_SmallImage :: string
  ast_SmallText :: string

record Secrets =
  sec_Join :: string
  sec_Spectate :: string
  sec_Match :: string

record ClientStatus =
  cst_Desktop :: string
  cst_Mobile :: string
  cst_Web :: string

record Activity =
  actv_Timestamps :: "Timestamps option"
  actv_ApplicationID :: "ApplicationID option"
  actv_Party :: "Party option"
  actv_Assets :: "Assets option"
  actv_Secrets :: "Secrets option"
  actv_Flags :: "uint16 option"
  actv_URL :: "string option"
  actv_Details :: "string option"
  actv_Instance :: "bool option"
  actv_CreatedAt :: "int64 option"
  actv_Emoji :: "Emoji option"
  actv_Name :: string
  actv_State :: string
  actv_Type :: int64

record PresenceUpdate =
  pres_ClientStatus :: ClientStatus
  pres_Status :: string
  pres_Activities :: "Activity slice"
  pres_User :: User
  pres_GuildID :: GuildID

record Guild =
  guild_WidgetChannelID :: "ChannelID option"
  guild_PublicUpdatesChannelID :: "ChannelID option"
  guild_PremiumTier :: "uint16 option"
  guild_RulesChannelID :: "ChannelID option"
  guild_SystemChannelFlags :: "uint16 option"
  guild_Permissions :: "int64 option"
  guild_SystemChannelID :: "ChannelID option"
  guild_AFKChannelID :: "ChannelID option"
  guild_ApplicationID :: "ApplicationID option"
  guild_Icon :: "string option"
  guild_WidgetEnabled :: "bool option"
  guild_JoinedAt :: string
  guild_Description :: string
  guild_PreferredLocale :: string
  guild_Name :: string
  guild_IconHash :: string
  guild_Banner :: string
  guild_VanityURLCode :: string
  guild_Splash :: string
  guild_DiscoverySplash :: string
  guild_Region :: string
  guild_Presences :: "PresenceUpdate slice"
  guild_GuildScheduledEvents :: "ScheduledEvent slice"
  guild_Stickers :: "Sticker slice"
  guild_Features :: "string slice"
  guild_StageInstances :: "StageInstance slice"
  guild_Roles :: "Role slice"
  guild_Emojis :: "Emoji slice"
  guild_VoiceStates :: "VoiceState slice"
  guild_Members :: "GuildMember slice"
  guild_Channels :: "Channel slice"
  guild_Threads :: "Channel slice"
  guild_OwnerID :: UserID
  guild_ID :: GuildID
  guild_ExplicitContentFilter :: int64
  guild_DefaultMessageNotifications :: int64
  guild_ApproximateMemberCount :: int32
  guild_MaxMembers :: int32
  guild_MemberCount :: int32
  guild_AFKTimeout :: int32
  guild_MaxPresences :: int32
  guild_PremiumSubscriptionCount :: int32
  guild_ApproximatePresenceCount :: int32
  guild_MaxVideoChannelUsers :: int32
  guild_NSFWLevel :: uint16
  guild_VerificationLevel :: uint16
  guild_MFALevel :: uint16
  guild_Unavailable :: bool
  guild_Large :: bool
  guild_Owner :: bool
  guild_PremiumProgressBarEnabled :: bool

record UnavailableGuild =
  ugd_ID :: GuildID
  ugd_Unavailable :: bool

record GuildBan =
  ban_GuildID :: "GuildID option"
  ban_Reason :: string
  ban_User :: User

section \<open>Zero values\<close>

text \<open>What a Go variable of the type holds before it is assigned; a look-up that misses returns it.\<close>

definition zero_User :: User where
  "zero_User = \<lparr> user_DMChannelID = None, user_Banner = '''', user_GlobalName = '''',
     user_Avatar = None, user_AvatarDecoration = None, user_Username = '''',
     user_Discriminator = '''', user_Locale = '''', user_Email = '''',
     user_ID = 0, user_PremiumType = 0, user_Flags = 0,
     user_AccentColor = 0, user_PublicFlags = 0, user_MFAEnabled = False,
     user_Verified = False, user_Bot = False, user_System = False \<rparr>"

definition zero_Role :: Role where
  "zero_Role = \<lparr> role_GuildID = None, role_Tags = None, role_Name = '''',
     role_Icon = '''', role_UnicodeEmoji = '''', role_ID = 0,
     role_Permissions = 0, role_Color = 0, role_Position = 0,
     role_Hoist = False, role_Managed = False, role_Mentionable = False \<rparr>"

definition zero_Emoji :: Emoji where
  "zero_Emoji = \<lparr> emoji_GuildID = None, emoji_User = None, emoji_Name = '''',
     emoji_Roles = None, emoji_ID = 0, emoji_RequireColons = False,
     emoji_Managed = False, emoji_Animated = False, emoji_Available = False \<rparr>"

definition zero_Channel :: Channel where
  "zero_Channel = \<lparr> chan_OwnerID = None, chan_GuildID = None, chan_ThreadMember = None,
     chan_ThreadMetadata = None, chan_LastPinTimestamp = None, chan_ParentID = None,
     chan_ApplicationID = None, chan_LastMessageID = None, chan_RTCRegion = '''',
     chan_Topic = '''', chan_Icon = '''', chan_Name = '''',
     chan_PermissionOverwrites = None, chan_Recipients = None, chan_Permissions = 0,
     chan_ID = 0, chan_UserLimit = 0, chan_Bitrate = 0,
     chan_MessageCount = 0, chan_MemberCount = 0, chan_TotalMessageSent = 0,
     chan_RateLimitPerUser = 0, chan_Position = 0, chan_DefaultAutoArchiveDuration = 0,
     chan_VideoQualityMode = 0, chan_Type = 0, chan_NSFW = False \<rparr>"

definition zero_GuildMember :: GuildMember where
  "zero_GuildMember = \<lparr> gm_User = None, gm_GuildID = None, gm_CommunicationDisabledUntil = None,
     gm_Nick = '''', gm_Avatar = '''', gm_PremiumSince = '''',
     gm_JoinedAt = '''', gm_Roles = None, gm_Permissions = 0,
     gm_Flags = 0, gm_Deaf = False, gm_Mute = False,
     gm_Pending = False \<rparr>"

definition zero_VoiceState :: VoiceState where
  "zero_VoiceState = \<lparr> vs_RequestToSpeakTimestamp = None, vs_GuildID = None, vs_Member = None,
     vs_SessionID = '''', vs_UserID = 0, vs_ChannelID = 0,
     vs_Mute = False, vs_SelfDeaf = False, vs_SelfMute = False,
     vs_SelfStream = False, vs_SelfVideo = False, vs_Suppress = False,
     vs_Deaf = False \<rparr>"

definition zero_Guild :: Guild where
  "zero_Guild = \<lparr> guild_WidgetChannelID = None, guild_PublicUpdatesChannelID = None, guild_PremiumTier = None,
     guild_RulesChannelID = None, guild_SystemChannelFlags = None, guild_Permissions = None,
     guild_SystemChannelID = None, guild_AFKChannelID = None, guild_ApplicationID = None,
     guild_Icon = None, guild_WidgetEnabled = None, guild_JoinedAt = '''',
     guild_Description = '''', guild_PreferredLocale = '''', guild_Name = '''',
     guild_IconHash = '''', guild_Banner = '''', guild_VanityURLCode = '''',
     guild_Splash = '''', guild_DiscoverySplash = '''', guild_Region = '''',
     guild_Presences = None, guild_GuildScheduledEvents = None, guild_Stickers = None,
     guild_Features = None, guild_StageInstances = None, guild_Roles = None,
     guild_Emojis = None, guild_VoiceStates = None, guild_Members = None,
     guild_Channels = None, guild_Threads = None, guild_OwnerID = 0,
     guild_ID = 0, guild_ExplicitContentFilter = 0, guild_DefaultMessageNotifications = 0,
     guild_ApproximateMemberCount = 0, guild_MaxMembers = 0, guild_MemberCount = 0,
     guild_AFKTimeout = 0, guild_MaxPresences = 0, guild_PremiumSubscriptionCount = 0,
     guild_ApproximatePresenceCount = 0, guild_MaxVideoChannelUsers = 0, guild_NSFWLevel = 0,
     guild_VerificationLevel = 0, guild_MFALevel = 0, guild_Unavailable = False,
     guild_Large = False, guild_Owner = False, guild_PremiumProgressBarEnabled = False \<rparr>"

definition zero_UnavailableGuild :: UnavailableGuild where
  "zero_UnavailableGuild = \<lparr> ugd_ID = 0, ugd_Unavailable = False \<rparr>"


section \<open>Channel types\<close>

definition ChannelTypeDM :: uint16 where "ChannelTypeDM = 1"
definition ChannelTypeGroupDM :: uint16 where "ChannelTypeGroupDM = 3"

end
