(* ===== verification/Embed.thy ===== *)
theory Embed
  imports Discord
begin

text \<open>
  \<^verbatim>\<open>discord/embed.go\<close>: embeds of messages and the functions that build them. A builder changes the embed it is called on
  and returns it.
\<close>

definition EmbedTypeDefault :: string where "EmbedTypeDefault = ''rich''"
definition EmbedTypeRich :: string where "EmbedTypeRich = ''rich''"
definition EmbedTypeImage :: string where "EmbedTypeImage = ''image''"
definition EmbedTypeVideo :: string where "EmbedTypeVideo = ''video''"
definition EmbedTypeGif :: string where "EmbedTypeGif = ''gifv''"
definition EmbedTypeArticle :: string where "EmbedTypeArticle = ''article''"
definition EmbedTypeLink :: string where "EmbedTypeLink = ''link''"

record EmbedFooter =
  ef_Text :: string
  ef_IconURL :: string
  ef_ProxyIconURL :: string

record EmbedImage =
  ei_URL :: string
  ei_ProxyURL :: string
  ei_Height :: int32
  ei_Width :: int32

record EmbedThumbnail =
  et_URL :: string
  et_ProxyURL :: string
  et_Height :: int32
  et_Width :: int32

record EmbedVideo =
  ev_URL :: string
  ev_Height :: int32
  ev_Width :: int32

record EmbedProvider =
  ep_Name :: string
  ep_URL :: string

record EmbedAuthor =
  ea_Name :: string
  ea_URL :: string
  ea_IconURL :: string
  ea_ProxyIconURL :: string

record EmbedField =
  efd_Name :: string
  efd_Value :: string
  efd_Inline :: bool

record Embed =
  emb_Video :: "EmbedVideo option"
  emb_Timestamp :: "string option"
  emb_Footer :: "EmbedFooter option"
  emb_Image :: "EmbedImage option"
  emb_Thumbnail :: "EmbedThumbnail option"
  emb_Provider :: "EmbedProvider option"
  emb_Author :: "EmbedAuthor option"
  emb_Type :: string
  emb_Description :: string
  emb_URL :: string
  emb_Title :: string
  emb_Fields :: "EmbedField slice"
  emb_Color :: int32

section \<open>Building\<close>

definition zero_Embed :: Embed where
  "zero_Embed = \<lparr>
     emb_Video = None, emb_Timestamp = None, emb_Footer = None, emb_Image = None, emb_Thumbnail = None, emb_Provider = None,
     emb_Author = None, emb_Type = [], emb_Description = [], emb_URL = [], emb_Title = [], emb_Fields = None, emb_Color = 0 \<rparr>"

definition NewEmbed :: "string \<Rightarrow> Embed" where
  "NewEmbed embedType = zero_Embed\<lparr>emb_Type := embedType\<rparr>"

definition SetTitle :: "string \<Rightarrow> Embed \<Rightarrow> Embed" where
  "SetTitle title e = e"

definition SetDescription :: "string \<Rightarrow> Embed \<Rightarrow> Embed" where
  "SetDescription description e = e\<lparr>emb_Description := description\<rparr>"

definition SetURL :: "string \<Rightarrow> Embed \<Rightarrow> Embed" where
  "SetURL url e = e\<lparr>emb_URL := url\<rparr>"

definition SetTimestamp :: "string option \<Rightarrow> Embed \<Rightarrow> Embed" where
  "SetTimestamp timestamp e = e\<lparr>emb_Timestamp := timestamp\<rparr>"

definition SetColor :: "int32 \<Rightarrow> Embed \<Rightarrow> Embed" where
  "SetColor color e = e\<lparr>emb_Color := color\<rparr>"

definition SetFooter :: "EmbedFooter option \<Rightarrow> Embed \<Rightarrow> Embed" where
  "SetFooter footer e = e\<lparr>emb_Footer := footer\<rparr>"

definition SetImage :: "EmbedImage option \<Rightarrow> Embed \<Rightarrow> Embed" where
  "SetImage img e = e\<lparr>emb_Image := img\<rparr>"

definition SetThumbnail :: "EmbedThumbnail option \<Rightarrow> Embed \<Rightarrow> Embed" where
  "SetThumbnail thumbnail e = e\<lparr>emb_Thumbnail := thumbnail\<rparr>"

definition SetVideo :: "EmbedVideo option \<Rightarrow> Embed \<Rightarrow> Embed" where
  "SetVideo video e = e\<lparr>emb_Video := video\<rparr>"

definition SetProvider :: "EmbedProvider option \<Rightarrow> Embed \<Rightarrow> Embed" where
  "SetProvider provider e = e\<lparr>emb_Provider := provider\<rparr>"

definition SetAuthor :: "EmbedAuthor option \<Rightarrow> Embed \<Rightarrow> Embed" where
  "SetAuthor author e = e\<lparr>emb_Author := author\<rparr>"

definition AddField :: "EmbedField \<Rightarrow> Embed \<Rightarrow> Embed" where
  "AddField fd e = e\<lparr>emb_Fields := Some (elems (emb_Fields e) @ [fd])\<rparr>"

definition NewEmbedFooter :: "string \<Rightarrow> string \<Rightarrow> EmbedFooter" where
  "NewEmbedFooter text iconURL = \<lparr> ef_Text = text, ef_IconURL = iconURL, ef_ProxyIconURL = [] \<rparr>"

definition NewEmbedImage :: "string \<Rightarrow> EmbedImage" where
  "NewEmbedImage url = \<lparr> ei_URL = url, ei_ProxyURL = [], ei_Height = 0, ei_Width = 0 \<rparr>"

definition NewEmbedThumbnail :: "string \<Rightarrow> EmbedThumbnail" where
  "NewEmbedThumbnail url = \<lparr> et_URL = url, et_ProxyURL = [], et_Height = 0, et_Width = 0 \<rparr>"

definition NewEmbedVideo :: "string \<Rightarrow> EmbedVideo" where
  "NewEmbedVideo url = \<lparr> ev_URL = url, ev_Height = 0, ev_Width = 0 \<rparr>"

definition NewEmbedProvider :: "string \<Rightarrow> string \<Rightarrow> EmbedProvider" where
  "NewEmbedProvider name url = \<lparr> ep_Name = name, ep_URL = url \<rparr>"

definition NewEmbedAuthor :: "string \<Rightarrow> string \<Rightarrow> string \<Rightarrow> EmbedAuthor" where
  "NewEmbedAuthor name url iconURL = \<lparr> ea_Name = name, ea_URL = url, ea_IconURL = iconURL, ea_ProxyIconURL = [] \<rparr>"

definition NewEmbedField :: "string \<Rightarrow> string \<Rightarrow> bool \<Rightarrow> EmbedField" where
  "NewEmbedField name val inlined = \<lparr> efd_Name = name, efd_Value = val, efd_Inline = inlined \<rparr>"

section \<open>What builders can build\<close>

text \<open>The embeds that \<open>NewEmbed\<close> and the builders yield, in any order and any number of calls.\<close>

inductive built :: "Embed \<Rightarrow> bool" where
  built_new: "built (NewEmbed ty)"
| built_title: "built e \<Longrightarrow> built (SetTitle x1 e)"
| built_description: "built e \<Longrightarrow> built (SetDescription x2 e)"
| built_url: "built e \<Longrightarrow> built (SetURL x3 e)"
| built_timestamp: "built e \<Longrightarrow> built (SetTimestamp x4 e)"
| built_color: "built e \<Longrightarrow> built (SetColor x5 e)"
| built_footer: "built e \<Longrightarrow> built (SetFooter x6 e)"
| built_image: "built e \<Longrightarrow> built (SetImage x7 e)"
| built_thumbnail: "built e \<Longrightarrow> built (SetThumbnail x8 e)"
| built_video: "built e \<Longrightarrow> built (SetVideo x9 e)"
| built_provider: "built e \<Longrightarrow> built (SetProvider x10 e)"
| built_author: "built e \<Longrightarrow> built (SetAuthor x11 e)"
| built_field: "built e \<Longrightarrow> built (AddField x12 e)"

lemmas builder_defs = SetTitle_def SetDescription_def SetURL_def SetTimestamp_def SetColor_def SetFooter_def SetImage_def
  SetThumbnail_def SetVideo_def SetProvider_def SetAuthor_def AddField_def

text \<open>No sequence of builders gives an embed a title: \<^verbatim>\<open>SetTitle\<close> only returns the embed.\<close>

lemma built_without_title:
  assumes "built e"
  shows "emb_Title e = []"
  using assms by induction (simp_all add: NewEmbed_def zero_Embed_def builder_defs)

lemma fields_in_order: "elems (emb_Fields (fold AddField fs e)) = elems (emb_Fields e) @ fs"
  by (induction fs arbitrary: e) (simp_all add: AddField_def)

text \<open>The builders of different fields commute, so the order of the calls does not matter.\<close>

lemma builders_commute:
  "SetColor c (SetDescription d e) = SetDescription d (SetColor c e)"
  "SetFooter f (AddField x e) = AddField x (SetFooter f e)"
  "SetTimestamp t (SetFooter f e) = SetFooter f (SetTimestamp t e)"
  by (simp_all add: builder_defs)

end
