(* ===== verification/Api_Base.thy ===== *)
theory Api_Base
  imports Discord Embed
begin

text \<open>
  The structures of \<^verbatim>\<open>discord/application.go\<close>, \<^verbatim>\<open>discord/audit.go\<close>, \<^verbatim>\<open>discord/invites.go\<close>, \<^verbatim>\<open>discord/message.go\<close>
  and the components of \<^verbatim>\<open>discord/interactions.go\<close>, that the payloads of the gateway contain. A value whose
  Go type is an interface is its JSON text, a time its text, a reader what it yields. A structure that contains values of its own
  type is a datatype over a record of its other fields.
\<close>

section \<open>Applications\<close>

record ApplicationTeamMember =
  atm_Permissions :: "string slice"
  atm_User :: User
  atm_TeamID :: Snowflake
  atm_MembershipState :: uint16

record ApplicationTeam =
  apt_Icon :: string
  apt_Name :: string
  apt_Members :: "ApplicationTeamMember slice"
  apt_ID :: Snowflake
  apt_OwnerUserID :: Snowflake

record Application =
  app_Owner :: "User option"
  app_Bot :: "User option"
  app_PrimarySKUID :: "Snowflake option"
  app_GuildID :: "GuildID option"
  app_Team :: "ApplicationTeam option"
  app_PrivacyPolicyURL :: string
  app_TermsOfServiceURL :: string
  app_VerifyKey :: string
  app_Description :: string
  app_Icon :: string
  app_Slug :: string
  app_CoverImage :: string
  app_Name :: string
  app_RPCOrigins :: "string slice"
  app_ID :: ApplicationID
  app_Flags :: int32
  app_BotRequireCodeGrant :: bool
  app_BotPublic :: bool

record ApplicationCommandOptionChoice =
  acc_Name :: string
  acc_NameLocalizations :: "(string \<times> string) list"
  acc_Value :: bytes

record command_option =
  aco_MinValue :: "int32 option"
  aco_Autocomplete :: "bool option"
  aco_NameLocalizations :: "(string \<times> string) list"
  aco_MaxLength :: "int32 option"
  aco_DescriptionLocalizations :: "(string \<times> string) list"
  aco_MinLength :: "int32 option"
  aco_MaxValue :: "int32 option"
  aco_Description :: string
  aco_Name :: string
  aco_ChannelTypes :: "uint16 slice"
  aco_Choices :: "ApplicationCommandOptionChoice slice"
  aco_Required :: bool
  aco_Type :: uint16

datatype ApplicationCommandOption = ApplicationCommandOption command_option "ApplicationCommandOption slice"

record ApplicationCommand =
  apc_DefaultMemberPermission :: "int64 option"
  apc_Type :: "uint16 option"
  apc_ApplicationID :: "ApplicationID option"
  apc_GuildID :: "GuildID option"
  apc_NameLocalizations :: "(string \<times> string) list"
  apc_DescriptionLocalizations :: "(string \<times> string) list"
  apc_ID :: "Snowflake option"
  apc_DMPermission :: "bool option"
  apc_DefaultPermission :: "bool option"
  apc_Name :: string
  apc_Description :: string
  apc_Options :: "ApplicationCommandOption slice"
  apc_Version :: int64

record ApplicationCommandPermissions =
  acp_ID :: Snowflake
  acp_Type :: uint16
  acp_Allowed :: bool

record GuildApplicationCommandPermissions =
  gcp_Permissions :: "ApplicationCommandPermissions slice"
  gcp_ID :: Snowflake
  gcp_ApplicationID :: ApplicationID
  gcp_GuildID :: GuildID

record ApplicationSelectOption =
  aso_Emoji :: "Emoji option"
  aso_Label :: string
  aso_Value :: string
  aso_Description :: string
  aso_Default :: bool

record IntegrationAccount =
  ita_ID :: string
  ita_Name :: string

record Integration =
  itg_SyncedAt :: string
  itg_ExpireBehavior :: "uint16 option"
  itg_User :: "User option"
  itg_Application :: "Application option"
  itg_GuildID :: "GuildID option"
  itg_RoleID :: "RoleID option"
  itg_Account :: IntegrationAccount
  itg_Type :: string
  itg_Name :: string
  itg_ID :: Snowflake
  itg_ExpireGracePeriod :: int32
  itg_SubscriberCount :: int32
  itg_EnableEmoticons :: bool
  itg_Syncing :: bool
  itg_Revoked :: bool
  itg_Enabled :: bool

section \<open>Components\<close>

record component =
  ic_Emoji :: "Emoji option"
  ic_MaxValues :: "int32 option"
  ic_MinValues :: "int32 option"
  ic_Placeholder :: string
  ic_CustomID :: string
  ic_URL :: string
  ic_Label :: string
  ic_Options :: "ApplicationSelectOption slice"
  ic_ChannelTypes :: "uint16 slice"
  ic_Disabled :: bool
  ic_Type :: uint16
  ic_Style :: uint16

datatype InteractionComponent = InteractionComponent (component_fields: component) (component_children: "InteractionComponent slice")

section \<open>Messages\<close>

record File =
  fi_Reader :: bytes
  fi_Name :: string
  fi_ContentType :: string

record MessageInteraction =
  mi_Name :: string
  mi_User :: User
  mi_ID :: Snowflake
  mi_Type :: uint16

record MessageChannelMention =
  mcm_Name :: string
  mcm_ID :: ChannelID
  mcm_GuildID :: GuildID
  mcm_Type :: uint16

record MessageReference =
  mrf_ID :: "Snowflake option"
  mrf_ChannelID :: "ChannelID option"
  mrf_GuildID :: "GuildID option"
  mrf_FailIfNotExists :: bool

record MessageReactionCountDetails =
  mrc_Burst :: int32
  mrc_Normal :: int32

record MessageReaction =
  mrn_BurstColors :: "string slice"
  mrn_Emoji :: Emoji
  mrn_CountDetails :: MessageReactionCountDetails
  mrn_Count :: int32
  mrn_BurstCount :: int32
  mrn_MeBurst :: bool
  mrn_BurstMe :: bool
  mrn_Me :: bool

record MessageAllowedMentions =
  mam_Parse :: "string slice"
  mam_Roles :: "RoleID slice"
  mam_Users :: "UserID slice"
  mam_RepliedUser :: bool

record MessageAttachment =
  mat_Filename :: string
  mat_URL :: string
  mat_ProxyURL :: string
  mat_ID :: Snowflake
  mat_Size :: int32
  mat_Height :: int32
  mat_Width :: int32
  mat_Ephemeral :: bool

record MessageActivity =
  mac_PartyID :: string
  mac_Type :: uint16

record MessageSticker =
  msk_Name :: string
  msk_ID :: Snowflake
  msk_FormatType :: uint16

record message_data =
  msg_WebhookID :: "Snowflake option"
  msg_Member :: "GuildMember option"
  msg_GuildID :: "GuildID option"
  msg_Thread :: "Channel option"
  msg_Interaction :: "MessageInteraction option"
  msg_Flags :: "uint16 option"
  msg_Application :: "Application option"
  msg_Activity :: "MessageActivity option"
  msg_Timestamp :: string
  msg_EditedTimestamp :: string
  msg_Content :: string
  msg_Embeds :: "Embed slice"
  msg_MentionRoles :: "RoleID slice"
  msg_Reactions :: "MessageReaction slice"
  msg_StickerItems :: "MessageSticker slice"
  msg_Attachments :: "MessageAttachment slice"
  msg_Components :: "InteractionComponent slice"
  msg_MentionChannels :: "MessageChannelMention slice"
  msg_Mentions :: "User slice"
  msg_MessageReference :: "MessageReference slice"
  msg_Author :: User
  msg_ID :: Snowflake
  msg_ChannelID :: ChannelID
  msg_Type :: uint16
  msg_MentionEveryone :: bool
  msg_TTS :: bool
  msg_Pinned :: bool

datatype Message = Message (message_fields: message_data) (message_ReferencedMessage: "Message option")

abbreviation message_GuildID :: "Message \<Rightarrow> GuildID option" where
  "message_GuildID m \<equiv> msg_GuildID (message_fields m)"

abbreviation message_Author :: "Message \<Rightarrow> User" where
  "message_Author m \<equiv> msg_Author (message_fields m)"

section \<open>The audit log and invites\<close>

record AuditLogOptions =
  alo_ChannelID :: "ChannelID option"
  alo_ID :: "Snowflake option"
  alo_MessageID :: "Snowflake option"
  alo_Type :: "uint16 option"
  alo_RoleName :: string
  alo_Count :: int64
  alo_DeleteMemberDays :: int32
  alo_MembersRemoved :: int32

record AuditLogChanges =
  alc_NewValue :: bytes
  alc_OldValue :: bytes
  alc_Key :: string

record AuditLogEntry =
  ale_TargetID :: "Snowflake option"
  ale_UserID :: "Snowflake option"
  ale_Options :: "AuditLogOptions option"
  ale_Reason :: string
  ale_Changes :: "AuditLogChanges slice"
  ale_ID :: Snowflake
  ale_ActionType :: uint16

record InviteStageInstance =
  isi_Topic :: string
  isi_Members :: "GuildMember slice"
  isi_ParticipantCount :: int32
  isi_SpeakerCount :: int32

record Invite =
  invite_ExpiresAt :: string
  invite_CreatedAt :: string
  invite_ScheduledEvent :: "ScheduledEvent option"
  invite_StageInstance :: "InviteStageInstance option"
  invite_Inviter :: "User option"
  invite_TargetType :: "uint16 option"
  invite_TargetUser :: "User option"
  invite_TargetApplication :: "Application option"
  invite_Guild :: "Guild option"
  invite_Channel :: "Channel option"
  invite_GuildID :: "GuildID option"
  invite_Code :: string
  invite_ApproximateMemberCount :: int32
  invite_Uses :: int32
  invite_MaxUses :: int32
  invite_MaxAge :: int32
  invite_ApproximatePresenceCount :: int32
  invite_Temporary :: bool

end
