(* ===== verification/World.thy ===== *)
theory World
  imports Discord Api_Base Cache Utils
begin

text \<open>
  The state the daemon keeps and the values that flow through it: the gateway payloads of
  \<^verbatim>\<open>discord/gateway.go\<close> and \<^verbatim>\<open>discord/events.go\<close>, the messages to the consumers of
  \<^verbatim>\<open>internal/structs/\<close>, the caches of \<^verbatim>\<open>internal/state.go\<close>, and the fields of the shard, its shard
  group and its manager that the modelled code reads or writes.

  \<open>env\<close> is what a handler sees through its \<open>StateCtx\<close>: the collective state, the deduplication map and
  the chunk table of the daemon, and the shard, shard group and manager the context points at. The
  clock is a field (one handler runs at one second). What leaves the process is appended to a log.

  \<open>lib\<close> holds what is not in the repository: the JSON decoder for each payload type (the value it leaves
  in the variable, and its error), the encoder for extra values, and the RFC 3339 check of Go's
  time package.
\<close>

section \<open>Errors\<close>

datatype go_error =
    ErrNoGatewayHandler
  | ErrNoDispatchHandler
  | ErrProducerMissing
  | ErrReconnect
  | ErrInvalidToken
  | ErrInvalidHeartbeatInterval
  | ErrMissingShards
  | ErrNoShardPresent
  | ErrReadConfigurationFailure
  | ErrLoadConfigurationFailure
  | ErrContextCanceled
  | ErrDeadlineExceeded
  | ErrClose int
  | ErrLib string
  | ErrNew string
  | ErrWrap string go_error

fun errors_Is :: "go_error \<Rightarrow> go_error \<Rightarrow> bool" where
  "errors_Is (ErrWrap m e) target \<longleftrightarrow> ErrWrap m e = target \<or> errors_Is e target"
| "errors_Is e target \<longleftrightarrow> e = target"

text \<open>\<^verbatim>\<open>errors.As\<close> for the websocket's close error.\<close>

fun close_code :: "go_error \<Rightarrow> int option" where
  "close_code (ErrClose code) = Some code"
| "close_code (ErrWrap m e) = close_code e"
| "close_code e = None"

type_synonym 'p decoder = "bytes \<Rightarrow> 'p \<times> go_error option"

section \<open>Gateway and consumer messages\<close>

type_synonym GatewayOp = uint16

definition GatewayOpDispatch :: GatewayOp where "GatewayOpDispatch = 0"
definition GatewayOpHeartbeat :: GatewayOp where "GatewayOpHeartbeat = 1"
definition GatewayOpIdentify :: GatewayOp where "GatewayOpIdentify = 2"
definition GatewayOpStatusUpdate :: GatewayOp where "GatewayOpStatusUpdate = 3"
definition GatewayOpVoiceStateUpdate :: GatewayOp where "GatewayOpVoiceStateUpdate = 4"
definition GatewayOpResume :: GatewayOp where "GatewayOpResume = 6"
definition GatewayOpReconnect :: GatewayOp where "GatewayOpReconnect = 7"
definition GatewayOpRequestGuildMembers :: GatewayOp where "GatewayOpRequestGuildMembers = 8"
definition GatewayOpInvalidSession :: GatewayOp where "GatewayOpInvalidSession = 9"
definition GatewayOpHello :: GatewayOp where "GatewayOpHello = 10"
definition GatewayOpHeartbeatACK :: GatewayOp where "GatewayOpHeartbeatACK = 11"

lemmas gateway_ops = GatewayOpDispatch_def GatewayOpHeartbeat_def GatewayOpIdentify_def
  GatewayOpStatusUpdate_def GatewayOpVoiceStateUpdate_def GatewayOpResume_def GatewayOpReconnect_def
  GatewayOpRequestGuildMembers_def GatewayOpInvalidSession_def GatewayOpHello_def
  GatewayOpHeartbeatACK_def

record GatewayPayload =
  gp_Type :: string
  gp_Data :: bytes
  gp_Sequence :: int32
  gp_Op :: GatewayOp

record EventDispatchIdentifier =
  edi_GuildID :: "GuildID option"
  edi_UserID :: "UserID option"
  edi_GloballyRouted :: bool

record EventDispatch =
  ed_Extra :: "string \<rightharpoonup> bytes"
  ed_EventDispatchIdentifier :: "EventDispatchIdentifier option"
  ed_Data :: bytes

definition zero_EDI :: EventDispatchIdentifier where
  "zero_EDI = \<lparr> edi_GuildID = None, edi_UserID = None, edi_GloballyRouted = False \<rparr>"

definition zero_EventDispatch :: EventDispatch where
  "zero_EventDispatch = \<lparr> ed_Extra = Map.empty, ed_EventDispatchIdentifier = None, ed_Data = [] \<rparr>"

record SandwichMetadata =
  md_Version :: string
  md_Identifier :: string
  md_Application :: string
  md_ApplicationID :: ApplicationID
  md_Shard :: "int32 \<times> int32 \<times> int32"

type_synonym SandwichTrace = "string \<rightharpoonup> int64"

record SandwichPayload =
  sp_Extra :: "string \<rightharpoonup> bytes"
  sp_Metadata :: "SandwichMetadata option"
  sp_Trace :: "SandwichTrace option"
  sp_Type :: string
  sp_Data :: bytes
  sp_Sequence :: int32
  sp_Op :: GatewayOp
  sp_EventDispatchIdentifier :: "EventDispatchIdentifier option"

section \<open>Event payloads\<close>

record ChannelPinsUpdate =
  cpu_LastPinTimestamp :: string
  cpu_GuildID :: GuildID
  cpu_ChannelID :: ChannelID

record GuildEmojisUpdate =
  geu_Emojis :: "Emoji slice"
  geu_GuildID :: GuildID

record GuildStickersUpdate =
  gsu_Stickers :: "Sticker slice"
  gsu_GuildID :: GuildID

record GuildIntegrationsUpdate =
  giu_GuildID :: GuildID

record GuildMemberRemove =
  gmr_User :: User
  gmr_GuildID :: GuildID

record GuildMembersChunk =
  gmc_Nonce :: string
  gmc_Members :: "GuildMember slice"
  gmc_NotFound :: "UserID slice"
  gmc_Presences :: "PresenceUpdate slice"
  gmc_GuildID :: GuildID
  gmc_ChunkIndex :: int32
  gmc_ChunkCount :: int32

record GuildRoleCreate =
  grc_Role :: Role
  grc_GuildID :: GuildID

record GuildRoleUpdate =
  gru_Role :: Role
  gru_GuildID :: GuildID

record GuildRoleDelete =
  grd_GuildID :: GuildID
  grd_RoleID :: RoleID

record MessageDelete =
  msgdel_GuildID :: "GuildID option"
  msgdel_ID :: Snowflake
  msgdel_ChannelID :: ChannelID

record MessageDeleteBulk =
  msgbulk_GuildID :: "GuildID option"
  msgbulk_IDs :: "Snowflake slice"
  msgbulk_ChannelID :: ChannelID

record MessageReactionAdd =
  mra_Member :: "GuildMember option"
  mra_MessageAuthorID :: "UserID option"
  mra_BurstColors :: "string slice"
  mra_Emoji :: Emoji
  mra_UserID :: UserID
  mra_ChannelID :: ChannelID
  mra_MessageID :: Snowflake
  mra_GuildID :: GuildID
  mra_Type :: int64
  mra_Burst :: bool

record MessageReactionRemove =
  mrr_GuildID :: "GuildID option"
  mrr_Emoji :: Emoji
  mrr_Type :: int64
  mrr_UserID :: UserID
  mrr_ChannelID :: ChannelID
  mrr_MessageID :: Snowflake
  mrr_Burst :: bool

record MessageReactionRemoveAll =
  mrra_ChannelID :: ChannelID
  mrra_MessageID :: Snowflake
  mrra_GuildID :: GuildID

record MessageReactionRemoveEmoji =
  mrre_GuildID :: "GuildID option"
  mrre_Emoji :: Emoji
  mrre_ChannelID :: ChannelID
  mrre_MessageID :: Snowflake

record TypingStart =
  ts_GuildID :: "GuildID option"
  ts_Member :: "GuildMember option"
  ts_ChannelID :: ChannelID
  ts_UserID :: UserID
  ts_Timestamp :: int32

record Entitlement =
  ent_UserID :: "UserID option"
  ent_GiftCodeFlags :: "uint16 option"
  ent_StartsAt :: "string option"
  ent_EndsAt :: "string option"
  ent_GuildID :: "GuildID option"
  ent_SubscriptionID :: "Snowflake option"
  ent_ID :: Snowflake
  ent_SkuID :: Snowflake
  ent_ApplicationID :: ApplicationID
  ent_Type :: uint16
  ent_Deleted :: bool

record Ready =
  ready_SessionID :: string
  ready_ResumeGatewayUrl :: string
  ready_Guilds :: "UnavailableGuild slice"
  ready_Shard :: "int32 slice"
  ready_Application :: Application
  ready_User :: User
  ready_Version :: int32

record GuildAuditLogEntryCreate =
  gale_AuditLogEntry :: AuditLogEntry
  gale_GuildID :: GuildID

text \<open>What the handler of other events reads.\<close>

record WildcardPayload =
  wc_GuildID :: "GuildID option"
  wc_UserID :: "UserID option"

record Hello =
  hello_HeartbeatInterval :: int32

section \<open>Gateway commands\<close>

record UpdateStatus =
  us_Status :: string
  us_Activities :: "Activity slice"
  us_Since :: int32
  us_AFK :: bool

record Identify =
  idf_Properties :: "string \<times> string \<times> string"
  idf_Presence :: "UpdateStatus option"
  idf_Token :: string
  idf_Shard :: "int32 \<times> int32"
  idf_LargeThreshold :: int32
  idf_Intents :: int32
  idf_Compress :: bool

record Resume =
  rsm_Token :: string
  rsm_SessionID :: string
  rsm_Sequence :: int32

record RequestGuildMembers =
  rgm_Query :: string
  rgm_Nonce :: string
  rgm_UserIDs :: "UserID slice"
  rgm_GuildID :: GuildID
  rgm_Limit :: int32
  rgm_Presences :: bool

text \<open>The data of a \<^verbatim>\<open>SentPayload\<close>, by the code that sends it.\<close>

datatype sent_data =
    SentSequence int32
  | SentIdentify Identify
  | SentResume Resume
  | SentRequest RequestGuildMembers
  | SentRaw bytes

text \<open>The values handed to \<^verbatim>\<open>makeExtra\<close>; \<open>AnyStruct\<close> is Go's empty struct.\<close>

datatype anyval =
    AnyStruct
  | AnyChannelPtr "Channel option"
  | AnyGuild Guild
  | AnyEmojis "Emoji slice"
  | AnyStickers "Sticker slice"
  | AnyMember GuildMember
  | AnyRole Role
  | AnyUser User
  | AnyVoiceState VoiceState

text \<open>What the identify service is asked, and its replies: a failed request, or the response as far as it was decoded.\<close>

record IdentifyPayload =
  ip_Token :: string
  ip_TokenHash :: string
  ip_ShardID :: int32
  ip_ShardCount :: int32
  ip_MaxConcurrency :: int32

record IdentifyResponse =
  ir_Message :: string
  ir_Wait :: int32
  ir_Success :: bool

type_synonym identify_reply = "go_error + IdentifyResponse \<times> go_error option"

record lib =
  lib_rfc3339 :: "string \<Rightarrow> bool"
  lib_marshal :: "anyval \<Rightarrow> string + bytes"
  lib_publish :: "SandwichPayload \<Rightarrow> string \<Rightarrow> go_error option"
  lib_randomHex :: string
  lib_marshal_sent :: "GatewayOp \<Rightarrow> sent_data \<Rightarrow> string + bytes"
  lib_marshal_status :: "UpdateStatus \<Rightarrow> string + bytes"
  lib_hash :: "string \<Rightarrow> string"
  lib_url_ok :: "string \<Rightarrow> bool"
  lib_marshal_identify :: "IdentifyPayload \<Rightarrow> go_error option"
  lib_identify_service :: "string \<Rightarrow> IdentifyPayload \<Rightarrow> identify_reply list"
  lib_goos :: string
  lib_error_text :: "go_error \<Rightarrow> string"
  lib_gatewayURL :: string
  lib_identifyURL :: string
  dec_Hello :: "Hello decoder"
  dec_resumable :: "bool decoder"
  dec_Ready :: "Ready decoder"
  dec_Guild :: "Guild decoder"
  dec_UnavailableGuild :: "UnavailableGuild decoder"
  dec_GuildMembersChunk :: "GuildMembersChunk decoder"
  dec_Channel :: "Channel decoder"
  dec_ChannelPinsUpdate :: "ChannelPinsUpdate decoder"
  dec_AuditLogEntry :: "GuildAuditLogEntryCreate decoder"
  dec_GuildBan :: "GuildBan decoder"
  dec_GuildEmojisUpdate :: "GuildEmojisUpdate decoder"
  dec_GuildStickersUpdate :: "GuildStickersUpdate decoder"
  dec_GuildIntegrationsUpdate :: "GuildIntegrationsUpdate decoder"
  dec_GuildMember :: "GuildMember decoder"
  dec_GuildMemberRemove :: "GuildMemberRemove decoder"
  dec_GuildRoleCreate :: "GuildRoleCreate decoder"
  dec_GuildRoleUpdate :: "GuildRoleUpdate decoder"
  dec_GuildRoleDelete :: "GuildRoleDelete decoder"
  dec_Invite :: "Invite decoder"
  dec_Message :: "Message decoder"
  dec_MessageDelete :: "MessageDelete decoder"
  dec_MessageDeleteBulk :: "MessageDeleteBulk decoder"
  dec_MessageReactionAdd :: "MessageReactionAdd decoder"
  dec_MessageReactionRemove :: "MessageReactionRemove decoder"
  dec_MessageReactionRemoveAll :: "MessageReactionRemoveAll decoder"
  dec_MessageReactionRemoveEmoji :: "MessageReactionRemoveEmoji decoder"
  dec_PresenceUpdate :: "PresenceUpdate decoder"
  dec_TypingStart :: "TypingStart decoder"
  dec_User :: "User decoder"
  dec_VoiceState :: "VoiceState decoder"
  dec_Wildcard :: "WildcardPayload decoder"
  dec_Entitlement :: "Entitlement decoder"

section \<open>The caches\<close>

record StateUser =
  su_LastUpdated :: int64
  su_User :: User

record StateDMChannel =
  dm_Channel :: Channel
  dm_UserID :: UserID
  dm_ExpiresAt :: int64

record SandwichState =
  Guilds :: "(GuildID, Guild) kvcache"
  GuildMembers :: "(GuildID, UserID, GuildMember) kvdcache"
  GuildChannels :: "(GuildID, ChannelID, Channel) kvdcache"
  GuildRoles :: "(GuildID, RoleID, Role) kvdcache"
  GuildEmojis :: "(GuildID, Emoji slice) kvcache"
  Users :: "(UserID, StateUser) kvcache"
  DmChannels :: "(ChannelID, StateDMChannel) kvcache"
  Mutuals :: "(UserID, GuildID, unit) kvdcache"
  GuildVoiceStates :: "(GuildID, UserID, VoiceState) kvdcache"

definition NewSandwichState :: SandwichState where
  "NewSandwichState = \<lparr>
     Guilds = NewCache 100,
     GuildMembers = NewDoubleCache 0 50,
     GuildChannels = NewDoubleCache 0 50,
     GuildRoles = NewDoubleCache 0 50,
     GuildEmojis = NewCache 50,
     Users = NewCache 100,
     DmChannels = NewCache 50,
     Mutuals = NewDoubleCache 0 50,
     GuildVoiceStates = NewDoubleCache 0 50 \<rparr>"

section \<open>Shard, shard group, manager\<close>

datatype ShardStatus =
    ShardStatusIdle | ShardStatusConnecting | ShardStatusConnected | ShardStatusReady
  | ShardStatusReconnecting | ShardStatusClosing | ShardStatusClosed | ShardStatusErroring

datatype ShardGroupStatus =
    ShardGroupStatusIdle | ShardGroupStatusConnecting | ShardGroupStatusConnected
  | ShardGroupStatusMarkedForClosure | ShardGroupStatusClosing | ShardGroupStatusClosed
  | ShardGroupStatusErroring

text \<open>
  The shard: \<open>sh_ready\<close> is the one-slot channel \<^verbatim>\<open>ready\<close> (whether it is full), \<open>sh_wsConn\<close> names the
  current websocket connection. Locks, logger, rate limiter and cancel functions are left out.
\<close>

record Shard =
  sh_RetriesRemaining :: int32
  sh_ResumeGatewayURL :: string
  sh_HeartbeatActive :: bool
  sh_LastHeartbeatAck :: int
  sh_LastHeartbeatSent :: int
  sh_Unavailable :: "(GuildID, unit) kvcache"
  sh_Lazy :: "(GuildID, unit) kvcache"
  sh_Guilds :: "(GuildID, unit) kvcache"
  sh_Sequence :: int32
  sh_SessionID :: string
  sh_wsConn :: "nat option"
  sh_ready :: bool
  sh_metadata :: SandwichMetadata
  sh_HeartbeatInterval :: int
  sh_HeartbeatFailureInterval :: int
  sh_ShardID :: int32
  sh_Status :: ShardStatus
  sh_IsReady :: bool

record ShardGroup =
  sg_Error :: string
  sg_WaitingFor :: int32
  sg_User :: "User option"
  sg_Guilds :: "(GuildID, unit) kvcache"
  sg_ShardIDs :: "int32 list"
  sg_ID :: int32
  sg_ShardCount :: int32
  sg_Status :: ShardGroupStatus
  sg_floodgate :: bool
  sg_allShardsReady :: bool

record VirtualShardsConfig =
  vsc_Enabled :: bool
  vsc_Count :: int32
  vsc_DmShard :: int32

record ManagerConfiguration =
  mc_ShardIDs :: string
  mc_ShardCount :: int32
  mc_AutoSharded :: bool
  mc_Identifier :: string
  mc_ProducerIdentifier :: string
  mc_Token :: string
  mc_FriendlyName :: string
  mc_EventBlacklist :: "string slice"
  mc_ProduceBlacklist :: "string slice"
  mc_ClientName :: string
  mc_ChannelName :: string
  mc_UseRandomSuffix :: bool
  mc_Intents :: int32
  mc_DefaultPresence :: UpdateStatus
  mc_ChunkGuildsOnStartup :: bool
  mc_CacheUsers :: bool
  mc_CacheMembers :: bool
  mc_StoreMutuals :: bool
  mc_AutoStart :: bool
  mc_DisableTrace :: bool
  mc_VirtualShards :: VirtualShardsConfig
  mc_GatewayBotMaxConcurrency :: int32

record Manager =
  mg_hasProducer :: bool
  mg_ProducerClosed :: bool
  mg_ProducerType :: string
  mg_Error :: string
  mg_Identifier :: string
  mg_Configuration :: ManagerConfiguration
  mg_IsClosing :: bool
  mg_UserID :: int64
  mg_metadata :: SandwichMetadata
  mg_eventBlacklist :: "string list"
  mg_produceBlacklist :: "string list"
  mg_ClientToken :: string
  mg_GatewayURL :: string
  mg_GatewayShards :: int32
  mg_GatewayTotal :: int32
  mg_GatewayRemaining :: int32
  mg_GatewayResetAfter :: int32
  mg_GatewayMaxConcurrency :: int32
  mg_User :: User
  mg_noShards :: int32

text \<open>
  An entry of the chunk table. Its flag and counters are values inside the entry, the channel is a
  reference (\<open>gc_ChunkingChannel\<close>, \<open>None\<close> for nil); a chunk offered to a channel is logged.
\<close>

record GuildChunks =
  gc_StartedAt :: int64
  gc_CompletedAt :: int64
  gc_ChunkingChannel :: "nat option"
  gc_ChunkCount :: int32
  gc_Complete :: bool

record ShardStatusUpdate =
  ssu_Manager :: string
  ssu_ShardGroup :: int32
  ssu_Shard :: int32
  ssu_Status :: ShardStatus

record ShardGroupStatusUpdate =
  sgsu_Manager :: string
  sgsu_ShardGroup :: int32
  sgsu_Status :: ShardGroupStatus

datatype global_event =
    SandwichEventConfigurationReload
  | SandwichEventShardStatusUpdate ShardStatusUpdate
  | SandwichEventShardGroupStatusUpdate ShardGroupStatusUpdate

datatype effect =
    EfPublish SandwichPayload string
  | EfGlobalEvent global_event
  | EfOfferChunk nat GuildMembersChunk
  | EfWrite nat bytes
  | EfDial string
  | EfCloseWS nat int
  | EfCloseConsumers int32 bool

record StateCtx =
  ctx_CacheUsers :: bool
  ctx_CacheMembers :: bool
  ctx_Stateless :: bool
  ctx_StoreMutuals :: bool

text \<open>
  What the shard reads next: \<open>RdTimeout\<close> is a ticker found expired before the read, \<open>RdErr\<close> a failed read.
  An exhausted script stands for a closed connection, whose read fails with a cancelled context. The
  second script is what arrives on a chunking channel, \<open>None\<close> (and an exhausted script) for the timeout.
  The third and fourth are the outcomes of the next dials and websocket writes, \<open>None\<close> (and an exhausted
  script) for success. \<open>env_fresh\<close> names the next connection or channel. \<open>env_ctx\<close> names the context of the
  shard (\<^verbatim>\<open>sh.ctx\<close>), and \<open>env_ctx_done\<close> says that it is cancelled; one that was replaced was cancelled before.
\<close>

datatype read_event = RdTimeout | RdMsg GatewayPayload | RdErr go_error

record env =
  env_State :: SandwichState
  env_Dedupe :: "(string \<times> int64) list"
  env_guildChunks :: "(GuildID, GuildChunks) kvcache"
  env_Manager :: Manager
  env_ShardGroup :: ShardGroup
  env_Shard :: Shard
  env_now :: int64
  env_dispatchCount :: "string \<times> string \<Rightarrow> nat"
  env_log :: "effect list"
  env_inbox :: "read_event list"
  env_chunks :: "GuildMembersChunk option list"
  env_dials :: "go_error option list"
  env_writes :: "go_error option list"
  env_fresh :: nat
  env_ctx :: nat
  env_ctx_done :: bool

definition new_ctx :: "env \<Rightarrow> env" where
  "new_ctx e = e\<lparr>env_ctx := Suc (env_ctx e), env_ctx_done := False\<rparr>"

definition cancel_ctx :: "env \<Rightarrow> env" where
  "cancel_ctx e = e\<lparr>env_ctx_done := True\<rparr>"

definition ctx_done :: "nat \<Rightarrow> env \<Rightarrow> bool" where
  "ctx_done ctx e \<longleftrightarrow> env_ctx e \<noteq> ctx \<or> env_ctx_done e"

definition on_State :: "(SandwichState \<Rightarrow> SandwichState) \<Rightarrow> env \<Rightarrow> env" where
  "on_State f e = e\<lparr>env_State := f (env_State e)\<rparr>"

definition on_Shard :: "(Shard \<Rightarrow> Shard) \<Rightarrow> env \<Rightarrow> env" where
  "on_Shard f e = e\<lparr>env_Shard := f (env_Shard e)\<rparr>"

definition on_ShardGroup :: "(ShardGroup \<Rightarrow> ShardGroup) \<Rightarrow> env \<Rightarrow> env" where
  "on_ShardGroup f e = e\<lparr>env_ShardGroup := f (env_ShardGroup e)\<rparr>"

definition on_Manager :: "(Manager \<Rightarrow> Manager) \<Rightarrow> env \<Rightarrow> env" where
  "on_Manager f e = e\<lparr>env_Manager := f (env_Manager e)\<rparr>"

definition emit :: "effect \<Rightarrow> env \<Rightarrow> env" where
  "emit x e = e\<lparr>env_log := env_log e @ [x]\<rparr>"

lemma env_sel_simps [simp]:
  "env_State (on_State f e) = f (env_State e)"
  "env_State (on_Shard g e) = env_State e"
  "env_State (on_ShardGroup h e) = env_State e"
  "env_State (on_Manager m e) = env_State e"
  "env_State (emit x e) = env_State e"
  "env_Shard (on_State f e) = env_Shard e"
  "env_Shard (on_Shard g e) = g (env_Shard e)"
  "env_Shard (on_ShardGroup h e) = env_Shard e"
  "env_Shard (on_Manager m e) = env_Shard e"
  "env_Shard (emit x e) = env_Shard e"
  "env_ShardGroup (on_State f e) = env_ShardGroup e"
  "env_ShardGroup (on_Shard g e) = env_ShardGroup e"
  "env_ShardGroup (on_ShardGroup h e) = h (env_ShardGroup e)"
  "env_ShardGroup (on_Manager m e) = env_ShardGroup e"
  "env_ShardGroup (emit x e) = env_ShardGroup e"
  "env_Manager (on_State f e) = env_Manager e"
  "env_Manager (on_Shard g e) = env_Manager e"
  "env_Manager (on_ShardGroup h e) = env_Manager e"
  "env_Manager (on_Manager m e) = m (env_Manager e)"
  "env_Manager (emit x e) = env_Manager e"
  "env_now (on_State f e) = env_now e"
  "env_now (on_Shard g e) = env_now e"
  "env_now (on_ShardGroup h e) = env_now e"
  "env_now (on_Manager m e) = env_now e"
  "env_now (emit x e) = env_now e"
  by (simp_all add: on_State_def on_Shard_def on_ShardGroup_def on_Manager_def emit_def)

lemma env_sel_simps2 [simp]:
  "env_Dedupe (on_State f e) = env_Dedupe e"
  "env_Dedupe (on_Shard g e) = env_Dedupe e"
  "env_Dedupe (on_ShardGroup h e) = env_Dedupe e"
  "env_guildChunks (on_State f e) = env_guildChunks e"
  "env_guildChunks (on_Shard g e) = env_guildChunks e"
  "env_guildChunks (on_ShardGroup h e) = env_guildChunks e"
  "env_log (on_State f e) = env_log e"
  "env_log (on_Shard g e) = env_log e"
  "env_log (on_ShardGroup h e) = env_log e"
  "env_log (emit x e) = env_log e @ [x]"
  by (simp_all add: on_State_def on_Shard_def on_ShardGroup_def emit_def)

lemma env_sel_simps3 [simp]:
  "env_inbox (on_State f e) = env_inbox e"
  "env_inbox (on_Shard g e) = env_inbox e"
  "env_inbox (on_ShardGroup h e) = env_inbox e"
  "env_inbox (on_Manager m e) = env_inbox e"
  "env_inbox (emit x e) = env_inbox e"
  "env_chunks (on_State f e) = env_chunks e"
  "env_chunks (on_Shard g e) = env_chunks e"
  "env_chunks (on_ShardGroup h e) = env_chunks e"
  "env_chunks (on_Manager m e) = env_chunks e"
  "env_chunks (emit x e) = env_chunks e"
  "env_guildChunks (on_Manager m e) = env_guildChunks e"
  "env_guildChunks (emit x e) = env_guildChunks e"
  "env_Dedupe (on_Manager m e) = env_Dedupe e"
  "env_Dedupe (emit x e) = env_Dedupe e"
  "env_log (on_Manager m e) = env_log e"
  by (simp_all add: on_State_def on_Shard_def on_ShardGroup_def on_Manager_def emit_def)

lemma env_sel_simps4 [simp]:
  "env_dials (on_State f e) = env_dials e"
  "env_dials (on_Shard g e) = env_dials e"
  "env_dials (on_ShardGroup h e) = env_dials e"
  "env_dials (on_Manager m e) = env_dials e"
  "env_dials (emit x e) = env_dials e"
  "env_writes (on_State f e) = env_writes e"
  "env_writes (on_Shard g e) = env_writes e"
  "env_writes (on_ShardGroup h e) = env_writes e"
  "env_writes (on_Manager m e) = env_writes e"
  "env_writes (emit x e) = env_writes e"
  "env_fresh (on_State f e) = env_fresh e"
  "env_fresh (on_Shard g e) = env_fresh e"
  "env_fresh (on_ShardGroup h e) = env_fresh e"
  "env_fresh (on_Manager m e) = env_fresh e"
  "env_fresh (emit x e) = env_fresh e"
  by (simp_all add: on_State_def on_Shard_def on_ShardGroup_def on_Manager_def emit_def)

lemma env_ctx_simps [simp]:
  "env_State (new_ctx e) = env_State e" "env_State (cancel_ctx e) = env_State e"
  "env_Shard (new_ctx e) = env_Shard e" "env_Shard (cancel_ctx e) = env_Shard e"
  "env_ShardGroup (new_ctx e) = env_ShardGroup e" "env_ShardGroup (cancel_ctx e) = env_ShardGroup e"
  "env_Manager (new_ctx e) = env_Manager e" "env_Manager (cancel_ctx e) = env_Manager e"
  "env_now (new_ctx e) = env_now e" "env_now (cancel_ctx e) = env_now e"
  "env_Dedupe (new_ctx e) = env_Dedupe e" "env_Dedupe (cancel_ctx e) = env_Dedupe e"
  "env_guildChunks (new_ctx e) = env_guildChunks e" "env_guildChunks (cancel_ctx e) = env_guildChunks e"
  "env_log (new_ctx e) = env_log e" "env_log (cancel_ctx e) = env_log e"
  "env_inbox (new_ctx e) = env_inbox e" "env_inbox (cancel_ctx e) = env_inbox e"
  "env_chunks (new_ctx e) = env_chunks e" "env_chunks (cancel_ctx e) = env_chunks e"
  "env_dials (new_ctx e) = env_dials e" "env_dials (cancel_ctx e) = env_dials e"
  "env_writes (new_ctx e) = env_writes e" "env_writes (cancel_ctx e) = env_writes e"
  "env_fresh (new_ctx e) = env_fresh e" "env_fresh (cancel_ctx e) = env_fresh e"
  "env_dispatchCount (new_ctx e) = env_dispatchCount e" "env_dispatchCount (cancel_ctx e) = env_dispatchCount e"
  "env_ctx (on_State f e) = env_ctx e"
  "env_ctx (on_Shard g e) = env_ctx e"
  "env_ctx (on_ShardGroup h e) = env_ctx e"
  "env_ctx (on_Manager m e) = env_ctx e"
  "env_ctx (emit x e) = env_ctx e"
  "env_ctx_done (on_State f e) = env_ctx_done e"
  "env_ctx_done (on_Shard g e) = env_ctx_done e"
  "env_ctx_done (on_ShardGroup h e) = env_ctx_done e"
  "env_ctx_done (on_Manager m e) = env_ctx_done e"
  "env_ctx_done (emit x e) = env_ctx_done e"
  "env_ctx (new_ctx e) = Suc (env_ctx e)" "env_ctx (cancel_ctx e) = env_ctx e"
  "\<not> env_ctx_done (new_ctx e)" "env_ctx_done (cancel_ctx e)"
  by (simp_all add: new_ctx_def cancel_ctx_def on_State_def on_Shard_def on_ShardGroup_def on_Manager_def emit_def)

end
