(* ===== verification/State.thy ===== *)
theory State
  imports World
begin

text \<open>
  \<^verbatim>\<open>internal/state.go\<close>: the operations on the collective state. Those that only read or write the caches
  act on \<open>SandwichState\<close>; those that take a \<open>StateCtx\<close> act on \<open>env\<close>; those that can panic are \<open>prog\<close>s.
  A look-up that the source returns as a value and a flag is a pair where the value matters when the
  flag is false, and an option otherwise. \<open>csm\<close> is the map instance of the theory \<open>Cache\<close>.
\<close>

section \<open>Users\<close>

definition UserFromState :: "StateUser \<Rightarrow> User" where
  "UserFromState userState = su_User userState"

definition UserToState :: "int64 \<Rightarrow> User \<Rightarrow> StateUser" where
  "UserToState now user = \<lparr> su_LastUpdated = now, su_User = user \<rparr>"

definition GetUser :: "SandwichState \<Rightarrow> UserID \<Rightarrow> User option" where
  "GetUser ss userID = map_option UserFromState (Cache_Load csm (Users ss) userID)"

definition SetUser :: "StateCtx \<Rightarrow> User \<Rightarrow> env \<Rightarrow> env" where
  "SetUser ctx user e =
     (if \<not> ctx_CacheUsers ctx \<and> user_ID user \<noteq> user_ID (mg_User (env_Manager e)) then e
      else on_State (\<lambda>ss. ss\<lparr>Users := Cache_Store csm (Users ss) (user_ID user)
                                        (UserToState (env_now e) user)\<rparr>) e)"

definition RemoveUser :: "UserID \<Rightarrow> SandwichState \<Rightarrow> SandwichState" where
  "RemoveUser userID ss = ss\<lparr>Users := Cache_Delete csm (Users ss) userID\<rparr>"

section \<open>Members\<close>

text \<open>
  \<open>GetGuildMember\<close>: a join time that does not parse is blanked, the user is refreshed from the user
  cache, and the flag that is returned is the one of that last look-up.
\<close>

definition GetGuildMember :: "lib \<Rightarrow> SandwichState \<Rightarrow> GuildID \<Rightarrow> UserID \<Rightarrow> (GuildMember \<times> bool) res" where
  "GetGuildMember lb ss guildID guildMemberID =
     (case DC_Inner csm (GuildMembers ss) guildID of
        None \<Rightarrow> Ok (zero_GuildMember, False)
      | Some guildMembers \<Rightarrow>
          (case Cache_Load csm guildMembers guildMemberID of
             None \<Rightarrow> Ok (zero_GuildMember, False)
           | Some m \<Rightarrow>
               let m' = (if gm_JoinedAt m \<noteq> [] \<and> \<not> lib_rfc3339 lb (gm_JoinedAt m)
                         then m\<lparr>gm_JoinedAt := []\<rparr> else m)
               in case gm_User m' of
                    None \<Rightarrow> Panic ''nil pointer dereference''
                  | Some u \<Rightarrow>
                      (case GetUser ss (user_ID u) of
                         Some user \<Rightarrow> Ok (m'\<lparr>gm_User := Some user\<rparr>, True)
                       | None \<Rightarrow> Ok (m', False))))"

definition SetGuildMember :: "StateCtx \<Rightarrow> GuildID \<Rightarrow> GuildMember \<Rightarrow> (env, unit) prog" where
  "SetGuildMember ctx guildID guildMember =
     bnd (if \<not> ctx_CacheMembers ctx
          then bnd (deref (gm_User guildMember))
                 (\<lambda>u. rd (\<lambda>e. user_ID u \<noteq> user_ID (mg_User (env_Manager e))))
          else ret False)
       (\<lambda>skip. if skip then ret () else
          bnd (deref (gm_User guildMember)) (\<lambda>u.
          bnd (upd (on_State (\<lambda>ss. ss\<lparr>GuildMembers :=
                 DC_Store csm csm (GuildMembers ss) guildID (user_ID u) guildMember\<rparr>))) (\<lambda>_.
          case gm_User guildMember of
            None \<Rightarrow> ret ()
          | Some user \<Rightarrow> upd (SetUser ctx user))))"

definition RemoveGuildMember :: "GuildID \<Rightarrow> UserID \<Rightarrow> SandwichState \<Rightarrow> SandwichState" where
  "RemoveGuildMember guildID guildMemberID ss =
     ss\<lparr>GuildMembers := DC_Delete csm csm (GuildMembers ss) guildID guildMemberID\<rparr>"

definition GetAllGuildMembers :: "SandwichState \<Rightarrow> GuildID \<Rightarrow> GuildMember list option" where
  "GetAllGuildMembers ss guildID =
     (case DC_Inner csm (GuildMembers ss) guildID of
        None \<Rightarrow> None
      | Some guildMembers \<Rightarrow>
          Some (Cache_Range csm guildMembers (\<lambda>_ m acc. (False, acc @ [m])) []))"

definition RemoveAllGuildMembers :: "GuildID \<Rightarrow> SandwichState \<Rightarrow> SandwichState" where
  "RemoveAllGuildMembers guildID ss = ss\<lparr>GuildMembers := DC_ClearKey csm (GuildMembers ss) guildID\<rparr>"

section \<open>Roles\<close>

definition GetGuildRole :: "SandwichState \<Rightarrow> GuildID \<Rightarrow> RoleID \<Rightarrow> Role option" where
  "GetGuildRole ss guildID roleID = DC_Load csm csm (GuildRoles ss) guildID roleID"

definition SetGuildRole :: "GuildID \<Rightarrow> Role \<Rightarrow> (env, unit) prog" where
  "SetGuildRole guildID role =
     (if role_ID role = 0 then panic (''roleID cannot be '' @ [CHR 0x27, CHR ''0'', CHR 0x27])
      else upd (on_State (\<lambda>ss. ss\<lparr>GuildRoles :=
             DC_Store csm csm (GuildRoles ss) guildID (role_ID role) role\<rparr>)))"

definition RemoveGuildRole :: "GuildID \<Rightarrow> RoleID \<Rightarrow> SandwichState \<Rightarrow> SandwichState" where
  "RemoveGuildRole guildID roleID ss =
     ss\<lparr>GuildRoles := DC_Delete csm csm (GuildRoles ss) guildID roleID\<rparr>"

definition GetAllGuildRoles :: "SandwichState \<Rightarrow> GuildID \<Rightarrow> Role list option" where
  "GetAllGuildRoles ss guildID =
     (case DC_Inner csm (GuildRoles ss) guildID of
        None \<Rightarrow> None
      | Some guildRoles \<Rightarrow>
          Some (Cache_Range csm guildRoles
            (\<lambda>id0 role acc. (False, acc @ [if role_ID role = 0 then role\<lparr>role_ID := id0\<rparr> else role])) []))"

definition RemoveAllGuildRoles :: "GuildID \<Rightarrow> SandwichState \<Rightarrow> SandwichState" where
  "RemoveAllGuildRoles guildID ss = ss\<lparr>GuildRoles := DC_ClearKey csm (GuildRoles ss) guildID\<rparr>"

section \<open>Emojis\<close>

text \<open>
  \<open>GetGuildEmoji\<close>: the flag is the one of the look-up of the guild's emoji list; the loop sets it to
  true on a match and nothing sets it to false.
\<close>

definition zero_or :: "'a \<Rightarrow> 'a option \<Rightarrow> 'a" where
  "zero_or z x = (case x of None \<Rightarrow> z | Some y \<Rightarrow> y)"

definition GetGuildEmoji :: "SandwichState \<Rightarrow> GuildID \<Rightarrow> EmojiID \<Rightarrow> Emoji \<times> bool" where
  "GetGuildEmoji ss guildID emojiID =
     (case Cache_Load csm (GuildEmojis ss) guildID of
        None \<Rightarrow> (zero_Emoji, False)
      | Some guildEmojis \<Rightarrow>
          let guildEmoji = zero_or zero_Emoji (find (\<lambda>em. emoji_ID em = emojiID) (elems guildEmojis))
          in case emoji_User guildEmoji of
               None \<Rightarrow> (guildEmoji, True)
             | Some u \<Rightarrow>
                 (case GetUser ss (user_ID u) of
                    Some user \<Rightarrow> (guildEmoji\<lparr>emoji_User := Some user\<rparr>, True)
                  | None \<Rightarrow> (guildEmoji, True)))"

definition SetGuildEmojis :: "StateCtx \<Rightarrow> GuildID \<Rightarrow> Emoji slice \<Rightarrow> env \<Rightarrow> env" where
  "SetGuildEmojis ctx guildID emojis e =
     fold (\<lambda>em e. case emoji_User em of None \<Rightarrow> e | Some u \<Rightarrow> SetUser ctx u e) (elems emojis)
       (on_State (\<lambda>ss. ss\<lparr>GuildEmojis := Cache_Store csm (GuildEmojis ss) guildID emojis\<rparr>) e)"

definition GetAllGuildEmojis :: "SandwichState \<Rightarrow> GuildID \<Rightarrow> Emoji slice option" where
  "GetAllGuildEmojis ss guildID = Cache_Load csm (GuildEmojis ss) guildID"

definition RemoveAllGuildEmojis :: "GuildID \<Rightarrow> SandwichState \<Rightarrow> SandwichState" where
  "RemoveAllGuildEmojis guildID ss = ss\<lparr>GuildEmojis := Cache_Delete csm (GuildEmojis ss) guildID\<rparr>"

section \<open>Channels\<close>

definition refresh_recipient :: "SandwichState \<Rightarrow> User \<Rightarrow> User" where
  "refresh_recipient ss recipient = zero_or recipient (GetUser ss (user_ID recipient))"

definition GetGuildChannel :: "SandwichState \<Rightarrow> GuildID \<Rightarrow> ChannelID \<Rightarrow> Channel \<times> bool" where
  "GetGuildChannel ss guildID channelID =
     (case DC_Load csm csm (GuildChannels ss) guildID channelID of
        None \<Rightarrow> (zero_Channel, False)
      | Some guildChannel \<Rightarrow>
          (guildChannel\<lparr>chan_Recipients := Some (map (refresh_recipient ss) (elems (chan_Recipients guildChannel)))\<rparr>,
           True))"

definition SetGuildChannel :: "StateCtx \<Rightarrow> GuildID \<Rightarrow> Channel \<Rightarrow> env \<Rightarrow> env" where
  "SetGuildChannel ctx guildID channel e =
     (let channel = channel\<lparr>chan_GuildID := Some guildID\<rparr> in
      fold (SetUser ctx) (elems (chan_Recipients channel))
        (on_State (\<lambda>ss. ss\<lparr>GuildChannels :=
           DC_Store csm csm (GuildChannels ss) guildID (chan_ID channel) channel\<rparr>) e))"

definition RemoveGuildChannel :: "GuildID \<Rightarrow> ChannelID \<Rightarrow> SandwichState \<Rightarrow> SandwichState" where
  "RemoveGuildChannel guildID channelID ss =
     ss\<lparr>GuildChannels := DC_Delete csm csm (GuildChannels ss) guildID channelID\<rparr>"

definition UpdateGuildChannel ::
    "GuildID \<Rightarrow> ChannelID \<Rightarrow> (Channel \<Rightarrow> Channel) \<Rightarrow> SandwichState \<Rightarrow> Channel option \<times> SandwichState" where
  "UpdateGuildChannel guildID channelID fn ss =
     (case DC_Update csm csm (GuildChannels ss) guildID channelID fn of
        (r, d) \<Rightarrow> (r, ss\<lparr>GuildChannels := d\<rparr>))"

definition GetAllGuildChannels :: "SandwichState \<Rightarrow> GuildID \<Rightarrow> Channel list option" where
  "GetAllGuildChannels ss guildID =
     (case DC_Inner csm (GuildChannels ss) guildID of
        None \<Rightarrow> None
      | Some guildChannels \<Rightarrow>
          Some (Cache_Range csm guildChannels (\<lambda>_ c acc. (False, acc @ [c])) []))"

definition RemoveAllGuildChannels :: "GuildID \<Rightarrow> SandwichState \<Rightarrow> SandwichState" where
  "RemoveAllGuildChannels guildID ss = ss\<lparr>GuildChannels := DC_ClearKey csm (GuildChannels ss) guildID\<rparr>"

text \<open>Direct-message channels expire half an hour after they were last looked up.\<close>

definition memberDMExpiration :: int64 where "memberDMExpiration = 1800"

definition GetDMChannel :: "ChannelID \<Rightarrow> env \<Rightarrow> (Channel \<times> bool) \<times> env" where
  "GetDMChannel channelID e =
     (case Cache_Load csm (DmChannels (env_State e)) channelID of
        None \<Rightarrow> ((zero_Channel, False), e)
      | Some dmChannel \<Rightarrow>
          if sint (dm_ExpiresAt dmChannel) < sint (env_now e) then ((zero_Channel, False), e)
          else ((dm_Channel dmChannel, True),
                on_State (\<lambda>ss. ss\<lparr>DmChannels := Cache_Store csm (DmChannels ss) channelID
                  (dmChannel\<lparr>dm_ExpiresAt := env_now e + memberDMExpiration\<rparr>)\<rparr>) e))"

definition AddDMChannel :: "UserID \<Rightarrow> Channel \<Rightarrow> env \<Rightarrow> env" where
  "AddDMChannel userID channel e =
     on_State (\<lambda>ss. ss\<lparr>DmChannels := Cache_Store csm (DmChannels ss) (chan_ID channel)
       \<lparr> dm_Channel = channel, dm_UserID = userID,
         dm_ExpiresAt = env_now e + memberDMExpiration \<rparr>\<rparr>) e"

definition RemoveDMChannelByChannelID :: "ChannelID \<Rightarrow> SandwichState \<Rightarrow> SandwichState" where
  "RemoveDMChannelByChannelID channelID ss = ss\<lparr>DmChannels := Cache_Delete csm (DmChannels ss) channelID\<rparr>"

definition RemoveDMChannelByUserID :: "UserID \<Rightarrow> SandwichState \<Rightarrow> SandwichState" where
  "RemoveDMChannelByUserID userID ss =
     (let channelID = Cache_Range csm (DmChannels ss)
            (\<lambda>id0 dmChannel acc. if dm_UserID dmChannel = userID then (True, id0) else (False, acc)) 0
      in if channelID \<noteq> 0 then ss\<lparr>DmChannels := Cache_Delete csm (DmChannels ss) channelID\<rparr> else ss)"

definition UpdateDMChannelByChannelID ::
    "ChannelID \<Rightarrow> (StateDMChannel \<Rightarrow> StateDMChannel) \<Rightarrow> SandwichState \<Rightarrow> StateDMChannel option \<times> SandwichState" where
  "UpdateDMChannelByChannelID channelID fn ss =
     (case Cache_Update csm (DmChannels ss) channelID fn of
        (r, c) \<Rightarrow> (r, ss\<lparr>DmChannels := c\<rparr>))"

definition GetChannel :: "GuildID option \<Rightarrow> ChannelID \<Rightarrow> env \<Rightarrow> (Channel option \<times> bool) \<times> env" where
  "GetChannel guildIdHint channelID e =
     (case GetDMChannel channelID e of
        ((dmChannel, ok), e') \<Rightarrow>
          if ok then ((Some dmChannel, True), e')
          else (case guildIdHint of
                  Some g \<Rightarrow> (case GetGuildChannel (env_State e') g channelID of
                              (c, ok') \<Rightarrow> ((Some c, ok'), e'))
                | None \<Rightarrow> ((None, False), e')))"

section \<open>Mutual guilds\<close>

definition GetUserMutualGuilds :: "SandwichState \<Rightarrow> UserID \<Rightarrow> GuildID list option" where
  "GetUserMutualGuilds ss userID =
     (case DC_Inner csm (Mutuals ss) userID of
        None \<Rightarrow> None
      | Some mutualGuilds \<Rightarrow>
          Some (Cache_Range csm mutualGuilds (\<lambda>g _ acc. (False, acc @ [g])) []))"

definition AddUserMutualGuild :: "StateCtx \<Rightarrow> UserID \<Rightarrow> GuildID \<Rightarrow> SandwichState \<Rightarrow> SandwichState" where
  "AddUserMutualGuild ctx userID guildID ss =
     (if \<not> ctx_StoreMutuals ctx then ss
      else ss\<lparr>Mutuals := DC_Store csm csm (Mutuals ss) userID guildID ()\<rparr>)"

definition RemoveUserMutualGuild :: "UserID \<Rightarrow> GuildID \<Rightarrow> SandwichState \<Rightarrow> SandwichState" where
  "RemoveUserMutualGuild userID guildID ss =
     ss\<lparr>Mutuals := DC_Delete csm csm (Mutuals ss) userID guildID\<rparr>"

section \<open>Voice states\<close>

definition ParseVoiceState ::
    "lib \<Rightarrow> SandwichState \<Rightarrow> GuildID \<Rightarrow> UserID \<Rightarrow> VoiceState \<Rightarrow> VoiceState res" where
  "ParseVoiceState lb ss guildID userID voiceStateState =
     (case vs_Member voiceStateState of
        Some _ \<Rightarrow> Ok (voiceStateState\<lparr>vs_UserID := userID\<rparr>)
      | None \<Rightarrow>
          (case GetGuildMember lb ss guildID userID of
             Panic why \<Rightarrow> Panic why
           | Ok (m, _) \<Rightarrow> Ok (voiceStateState\<lparr>vs_Member := Some m, vs_UserID := userID\<rparr>)))"

definition GetVoiceState :: "lib \<Rightarrow> SandwichState \<Rightarrow> GuildID \<Rightarrow> UserID \<Rightarrow> (VoiceState \<times> bool) res" where
  "GetVoiceState lb ss guildID userID =
     (case DC_Load csm csm (GuildVoiceStates ss) guildID userID of
        None \<Rightarrow> Ok (zero_VoiceState, False)
      | Some stateVoiceState \<Rightarrow>
          (case ParseVoiceState lb ss guildID userID stateVoiceState of
             Panic why \<Rightarrow> Panic why
           | Ok v \<Rightarrow> Ok (v, True)))"

definition CountMembersForVoiceChannel :: "SandwichState \<Rightarrow> GuildID \<Rightarrow> ChannelID \<Rightarrow> int32" where
  "CountMembersForVoiceChannel ss guildID channelID =
     (case DC_Inner csm (GuildVoiceStates ss) guildID of
        None \<Rightarrow> 0
      | Some guildVoiceStates \<Rightarrow>
          Cache_Range csm guildVoiceStates
            (\<lambda>_ v count. (False, if vs_ChannelID v = channelID then count + 1 else count)) 0)"

text \<open>
  The recount of one channel after a voice update: the branch taken for a guild whose ID is not 0 is the
  direct-message one, as in the source.
\<close>

definition recount_voice_channel :: "StateCtx \<Rightarrow> GuildID option \<Rightarrow> ChannelID \<Rightarrow> (env, unit) prog" where
  "recount_voice_channel ctx guildPtr channelID =
     bnd (deref guildPtr) (\<lambda>g.
     bnd (rd (\<lambda>e. GetGuildChannel (env_State e) g channelID)) (\<lambda>(voiceChannel, ok).
     if \<not> ok then ret () else
     bnd (rd (\<lambda>e. voiceChannel\<lparr>chan_MemberCount :=
                 CountMembersForVoiceChannel (env_State e) g (chan_ID voiceChannel)\<rparr>)) (\<lambda>voiceChannel.
     if guildPtr \<noteq> None \<and> IsNil g
     then upd (SetGuildChannel ctx g voiceChannel)
     else upd (on_State (\<lambda>ss. snd (UpdateDMChannelByChannelID (chan_ID voiceChannel)
                 (\<lambda>old. old\<lparr>dm_Channel := voiceChannel\<rparr>) ss))))))"

definition lift_res :: "(env \<Rightarrow> 'a res) \<Rightarrow> (env, 'a) prog" where
  "lift_res f e = (f e, e)"

text \<open>
  \<open>UpdateVoiceState\<close> works on the copy that \<open>LoadOrNew\<close> returned; its writes reach the cache through
  \<open>write_through\<close>. \<open>store_voice_state\<close> is its first half, up to the writes, and returns the state before.
\<close>

definition store_voice_state :: "lib \<Rightarrow> GuildID \<Rightarrow> VoiceState \<Rightarrow> (env, VoiceState) prog" where
  "store_voice_state lb g voiceState =
     bnd (act (\<lambda>e. case DC_LoadOrNew csm (GuildVoiceStates (env_State e)) g of
            (copy, d) \<Rightarrow> (copy, on_State (\<lambda>ss. ss\<lparr>GuildVoiceStates := d\<rparr>) e))) (\<lambda>guildVoiceStates.
     bnd (lift_res (\<lambda>e. GetVoiceState lb (env_State e) g (vs_UserID voiceState))) (\<lambda>(beforeVoiceState, _).
     bnd (if vs_ChannelID voiceState = 0
          then upd (on_State (\<lambda>ss. ss\<lparr>GuildVoiceStates :=
                 write_through csm (GuildVoiceStates ss) g guildVoiceStates
                   (Cache_Delete csm guildVoiceStates (vs_UserID voiceState))\<rparr>))
          else bnd (lift_res (\<lambda>e. ParseVoiceState lb (env_State e) g (vs_UserID voiceState) voiceState)) (\<lambda>v.
               upd (on_State (\<lambda>ss. ss\<lparr>GuildVoiceStates :=
                 write_through csm (GuildVoiceStates ss) g guildVoiceStates
                   (Cache_Store csm guildVoiceStates (vs_UserID voiceState) v)\<rparr>)))) (\<lambda>_.
     ret beforeVoiceState)))"

definition UpdateVoiceState :: "lib \<Rightarrow> StateCtx \<Rightarrow> VoiceState \<Rightarrow> (env, unit) prog" where
  "UpdateVoiceState lb ctx voiceState =
     (case vs_GuildID voiceState of
        None \<Rightarrow> ret ()
      | Some g \<Rightarrow>
          bnd (store_voice_state lb g voiceState) (\<lambda>beforeVoiceState.
          bnd (case vs_Member voiceState of
                 None \<Rightarrow> ret ()
               | Some m \<Rightarrow> SetGuildMember ctx g m) (\<lambda>_.
          bnd (if IsNil (vs_ChannelID beforeVoiceState) then ret ()
               else recount_voice_channel ctx (vs_GuildID beforeVoiceState) (vs_ChannelID beforeVoiceState)) (\<lambda>_.
          if IsNil (vs_ChannelID voiceState) then ret ()
          else recount_voice_channel ctx (vs_GuildID voiceState) (vs_ChannelID voiceState)))))"

definition RemoveVoiceState :: "StateCtx \<Rightarrow> GuildID \<Rightarrow> UserID \<Rightarrow> env \<Rightarrow> env" where
  "RemoveVoiceState ctx guildID userID e =
     (case DC_Load csm csm (GuildVoiceStates (env_State e)) guildID userID of
        None \<Rightarrow> e
      | Some svs \<Rightarrow>
          let e = on_State (\<lambda>ss. ss\<lparr>GuildVoiceStates :=
                    DC_Delete csm csm (GuildVoiceStates ss) guildID userID\<rparr>) e
          in case GetGuildChannel (env_State e) guildID (vs_ChannelID svs) of
               (voiceChannel, ok) \<Rightarrow>
                 if ok then SetGuildChannel ctx guildID (voiceChannel\<lparr>chan_MemberCount :=
                      CountMembersForVoiceChannel (env_State e) guildID (chan_ID voiceChannel)\<rparr>) e
                 else e)"

section \<open>Guilds\<close>

text \<open>
  \<open>GetGuild\<close> assembles the guild from the caches. It stops, with the flag false and the guild as far as
  it got, when the roles, the emojis or the members are missing.
\<close>

definition GetGuild :: "SandwichState \<Rightarrow> GuildID \<Rightarrow> Guild \<times> bool" where
  "GetGuild ss guildID =
     (case Cache_Load csm (Guilds ss) guildID of
        None \<Rightarrow> (zero_Guild, False)
      | Some guild \<Rightarrow>
     (case GetAllGuildRoles ss guildID of
        None \<Rightarrow> (guild, False)
      | Some roles \<Rightarrow>
     let guild = guild\<lparr>guild_Roles := Some roles\<rparr>;
         guild = (case GetAllGuildChannels ss guildID of
                    Some guildChannels \<Rightarrow> guild\<lparr>guild_Channels := Some guildChannels\<rparr>
                  | None \<Rightarrow> guild\<lparr>guild_Channels := Some []\<rparr>);
         guild = (case DC_Inner csm (GuildVoiceStates ss) guildID of
                    Some voiceStates \<Rightarrow> guild\<lparr>guild_VoiceStates := Some
                      (Cache_Range csm voiceStates (\<lambda>_ v acc. (False, acc @ [v])) [])\<rparr>
                  | None \<Rightarrow> guild\<lparr>guild_VoiceStates := Some []\<rparr>)
     in
     (case GetAllGuildEmojis ss guildID of
        None \<Rightarrow> (guild, False)
      | Some emojis \<Rightarrow>
     let guild = guild\<lparr>guild_Emojis := emojis\<rparr> in
     (case GetAllGuildMembers ss guildID of
        None \<Rightarrow> (guild, False)
      | Some members \<Rightarrow>
     let guild = (if guild_AFKChannelID guild = None
                  then guild\<lparr>guild_AFKChannelID := Some (guild_ID guild)\<rparr> else guild)
     in (guild\<lparr>guild_Members := Some members,
              guild_ApproximateMemberCount := guild_MemberCount guild\<rparr>, True)))))"

definition SetGuild :: "lib \<Rightarrow> StateCtx \<Rightarrow> Guild \<Rightarrow> (env, unit) prog" where
  "SetGuild lb ctx guild =
     (let g = guild_ID guild in
      bnd (upd (on_ShardGroup (\<lambda>sg. sg\<lparr>sg_Guilds := Cache_Store csm (sg_Guilds sg) g ()\<rparr>))) (\<lambda>_.
      bnd (upd (on_State (\<lambda>ss. ss\<lparr>Guilds := Cache_Store csm (Guilds ss) g guild\<rparr>))) (\<lambda>_.
      bnd (upd (on_Shard (\<lambda>sh. sh\<lparr>sh_Guilds := Cache_Store csm (sh_Guilds sh) g ()\<rparr>))) (\<lambda>_.
      bnd (each (SetGuildRole g) (elems (guild_Roles guild))) (\<lambda>_.
      bnd (each (\<lambda>channel. upd (SetGuildChannel ctx g channel)) (elems (guild_Channels guild))) (\<lambda>_.
      bnd (upd (SetGuildEmojis ctx g (guild_Emojis guild))) (\<lambda>_.
      bnd (each (SetGuildMember ctx g) (elems (guild_Members guild))) (\<lambda>_.
      each (\<lambda>voiceState. UpdateVoiceState lb ctx (voiceState\<lparr>vs_GuildID := Some g\<rparr>))
        (elems (guild_VoiceStates guild))))))))))"

text \<open>
  \<open>RemoveGuild\<close> runs with a context whose shard may be nil (the cache ejector's); without \<open>Stateless\<close> it
  then dereferences a nil shard group.
\<close>

definition RemoveGuild :: "StateCtx \<Rightarrow> GuildID \<Rightarrow> (ShardGroup option \<times> SandwichState, unit) prog" where
  "RemoveGuild ctx guildID =
     bnd (upd (map_prod id (\<lambda>ss. ss\<lparr>Guilds := Cache_Delete csm (Guilds ss) guildID\<rparr>))) (\<lambda>_.
     bnd (if ctx_Stateless ctx then ret ()
          else bnd (bnd (rd fst) deref) (\<lambda>sg.
               upd (map_prod (\<lambda>_. Some (sg\<lparr>sg_Guilds := Cache_Delete csm (sg_Guilds sg) guildID\<rparr>)) id))) (\<lambda>_.
     upd (map_prod id (\<lambda>ss.
       RemoveAllGuildMembers guildID (RemoveAllGuildEmojis guildID
         (RemoveAllGuildChannels guildID (RemoveAllGuildRoles guildID ss)))))))"

end
