(* ===== verification/Dedupe.thy ===== *)
theory Dedupe
  imports World
begin

text \<open>
  \<^verbatim>\<open>internal/dedupe.go\<close> and the deduplication part of the cache ejector in \<^verbatim>\<open>internal/sandwich.go\<close>:
  several managers may see the same member join or leave; the first report within a minute counts.
  The map holds, per key, the Unix second until which the key is blocked. Clock and map are explicit.
\<close>

type_synonym dedupe = "(string \<times> int64) list"

definition memberDedupeExpiration :: int64 where "memberDedupeExpiration = 60"

definition createDedupeMemberAddKey :: "GuildID \<Rightarrow> UserID \<Rightarrow> string" where
  "createDedupeMemberAddKey guildID memberID =
     ''MA:'' @ Snowflake_String guildID @ '':'' @ Snowflake_String memberID"

definition createDedupeMemberRemoveKey :: "GuildID \<Rightarrow> UserID \<Rightarrow> string" where
  "createDedupeMemberRemoveKey guildID memberID =
     ''MR:'' @ Snowflake_String guildID @ '':'' @ Snowflake_String memberID"

definition AddDedupe :: "int64 \<Rightarrow> string \<Rightarrow> dedupe \<Rightarrow> dedupe" where
  "AddDedupe now key d = cs_store csm d key (now + memberDedupeExpiration)"

definition CheckDedupe :: "int64 \<Rightarrow> string \<Rightarrow> dedupe \<Rightarrow> bool" where
  "CheckDedupe now key d =
     (case cs_load csm d key of
        None \<Rightarrow> False
      | Some value \<Rightarrow> sint now < sint value \<and> value \<noteq> 0)"

definition CheckAndAddDedupe :: "int64 \<Rightarrow> string \<Rightarrow> dedupe \<Rightarrow> bool \<times> dedupe" where
  "CheckAndAddDedupe now key d =
     (let (value, ok) = (case cs_load csm d key of None \<Rightarrow> (0, False) | Some v \<Rightarrow> (v, True));
          has = (sint now < sint value \<and> value \<noteq> 0);
          d' = (if \<not> has \<or> \<not> ok then cs_store csm d key (now + memberDedupeExpiration) else d)
      in (has \<and> ok, d'))"

definition RemoveDedupe :: "string \<Rightarrow> dedupe \<Rightarrow> dedupe" where
  "RemoveDedupe key d = cs_delete csm d key"

text \<open>The ejector's pass: collect the expired keys, then delete them.\<close>

definition eject_dedupes :: "int64 \<Rightarrow> dedupe \<Rightarrow> dedupe" where
  "eject_dedupes now d =
     (let ejectedDedupes = map fst (filter (\<lambda>(_, t). sint now > sint t) (cs_range csm d))
      in fold RemoveDedupe ejectedDedupes d)"

section \<open>Keys\<close>

lemma format_int_no_colon: "CHR '':'' \<notin> set (format_int n)"
  using format_nat_digits [of "nat n"] format_nat_digits [of "nat (- n)"]
  by (auto simp: format_int_def list_all_iff is_digit_def)

lemma colon_split:
  assumes "CHR '':'' \<notin> set a" and "CHR '':'' \<notin> set a'" and "a @ CHR '':'' # b = a' @ CHR '':'' # b'"
  shows "a = a' \<and> b = b'"
  using assms by (auto simp: append_eq_append_conv2 Cons_eq_append_conv append_eq_Cons_conv)

lemma Snowflake_String_inj: "Snowflake_String s = Snowflake_String t \<Longrightarrow> s = t"
proof -
  assume "Snowflake_String s = Snowflake_String t"
  then have "parse_int (format_int (sint s)) = parse_int (format_int (sint t))"
    by (simp add: Snowflake_String_def)
  then have "sint s = sint t" by simp
  then show "s = t" by (rule signed_word_eqI)
qed

text \<open>
  No two (kind, guild, member) triples share a deduplication key, so an event is only ever
  suppressed by an earlier event of the same kind for the same member of the same guild.
\<close>

lemma dedupe_keys_unambiguous:
  "(createDedupeMemberAddKey g m = createDedupeMemberAddKey g' m' \<longleftrightarrow> g = g' \<and> m = m')
   \<and> (createDedupeMemberRemoveKey g m = createDedupeMemberRemoveKey g' m' \<longleftrightarrow> g = g' \<and> m = m')
   \<and> createDedupeMemberAddKey g m \<noteq> createDedupeMemberRemoveKey g' m'"
  using colon_split [of "Snowflake_String g" "Snowflake_String g'" "Snowflake_String m" "Snowflake_String m'"]
    format_int_no_colon Snowflake_String_inj
  by (auto simp: createDedupeMemberAddKey_def createDedupeMemberRemoveKey_def Snowflake_String_def)


section \<open>The one-minute window\<close>

text \<open>Seconds for which adding the window does not wrap.\<close>

definition sane_time :: "int64 \<Rightarrow> bool" where
  "sane_time t \<longleftrightarrow> 0 \<le> sint t \<and> sint t < 2 ^ 62"

lemma sint_add_window: "sane_time t \<Longrightarrow> sint (t + memberDedupeExpiration) = sint t + 60"
proof -
  assume t: "sane_time t"
  have "sint (word_of_int (sint t + 60) :: int64) = sint t + 60"
    using t by (intro sint_word_of_int_exact) (auto simp: sane_time_def)
  then show ?thesis by (simp add: memberDedupeExpiration_def)
qed

lemma window_nonzero: "sane_time t \<Longrightarrow> t + memberDedupeExpiration \<noteq> 0"
  using sint_add_window [of t] by (auto simp: sane_time_def)

text \<open>\<open>CheckAndAddDedupe\<close> answers as \<open>CheckDedupe\<close> and blocks the key exactly when it answered no.\<close>

lemma CheckAndAdd_spec:
  "CheckAndAddDedupe now key d =
     (CheckDedupe now key d, if CheckDedupe now key d then d else AddDedupe now key d)"
  by (auto simp: CheckAndAddDedupe_def CheckDedupe_def AddDedupe_def Let_def split: option.splits)

lemma Check_after_Add:
  assumes "sane_time t"
  shows "CheckDedupe t' key (AddDedupe t key d) \<longleftrightarrow> sint t' < sint t + 60"
  using assms window_nonzero [OF assms]
  by (simp add: CheckDedupe_def AddDedupe_def update_conv' sint_add_window del: map_of_eq_Some_iff)

lemma Check_other_key:
  "key' \<noteq> key \<Longrightarrow> CheckDedupe t key' (AddDedupe t' key d) = CheckDedupe t key' d"
  "key' \<noteq> key \<Longrightarrow> CheckDedupe t key' (RemoveDedupe key d) = CheckDedupe t key' d"
  by (simp_all add: CheckDedupe_def AddDedupe_def RemoveDedupe_def update_conv' delete_conv')

lemma Check_after_Remove: "\<not> CheckDedupe t key (RemoveDedupe key d)"
  by (simp add: CheckDedupe_def RemoveDedupe_def delete_conv')

text \<open>
  The times at which a stream of reports for one key gets through: those that \<open>CheckAndAddDedupe\<close> does
  not answer with yes.
\<close>

fun passed :: "string \<Rightarrow> int64 list \<Rightarrow> dedupe \<Rightarrow> int64 list" where
  "passed key [] d = []"
| "passed key (t # ts) d =
     (case CheckAndAddDedupe t key d of
        (dup, d') \<Rightarrow> if dup then passed key ts d' else t # passed key ts d')"

lemma passed_after_add:
  assumes "sane_time t" and "\<forall>x \<in> set ts. sane_time x" and "x \<in> set (passed key ts (AddDedupe t key d))"
  shows "sint t + 60 \<le> sint x"
  using assms
proof (induction ts arbitrary: t d)
  case Nil
  then show ?case by simp
next
  case (Cons u ts)
  show ?case
  proof (cases "sint u < sint t + 60")
    case True
    with Cons show ?thesis by (simp add: CheckAndAdd_spec Check_after_Add)
  next
    case False
    with Cons.prems consider "x = u" | "x \<in> set (passed key ts (AddDedupe u key (AddDedupe t key d)))"
      by (auto simp: CheckAndAdd_spec Check_after_Add)
    then show ?thesis
    proof cases
      case 1
      with False show ?thesis by simp
    next
      case 2
      with Cons have "sint u + 60 \<le> sint x" by simp
      with False show ?thesis by simp
    qed
  qed
qed

text \<open>
  However the reports for one member event arrive, the ones that get through are at least a minute
  apart.
\<close>

lemma passed_a_minute_apart:
  assumes "\<forall>t \<in> set ts. sane_time t"
  shows "sorted_wrt (\<lambda>a b. sint a + 60 \<le> sint b) (passed key ts d)"
  using assms
proof (induction ts arbitrary: d)
  case Nil
  then show ?case by simp
next
  case (Cons t ts)
  then show ?case
    by (auto simp: CheckAndAdd_spec dest: passed_after_add)
qed

section \<open>Ejection\<close>

lemma fold_RemoveDedupe:
  "map_of (fold RemoveDedupe ks d) = (\<lambda>k. if k \<in> set ks then None else map_of d k)"
  by (induction ks arbitrary: d) (auto simp: RemoveDedupe_def delete_conv' fun_eq_iff)

lemma eject_lookup:
  assumes "ok_alist d"
  shows "map_of (eject_dedupes now d) k =
     (case map_of d k of Some t \<Rightarrow> if sint now > sint t then None else Some t | None \<Rightarrow> None)"
proof -
  have "k \<in> set (map fst (filter (\<lambda>(_, t). sint now > sint t) d)) \<longleftrightarrow>
      (\<exists>t. map_of d k = Some t \<and> sint now > sint t)"
    using assms by force
  then show ?thesis
    by (auto simp: eject_dedupes_def fold_RemoveDedupe split: option.splits simp del: map_of_eq_Some_iff)
qed

text \<open>
  Ejecting expired entries is invisible: no check made at the ejection time or later answers
  differently.
\<close>

lemma eject_preserves_checks:
  assumes "ok_alist d" and "sint now \<le> sint t"
  shows "CheckDedupe t key (eject_dedupes now d) = CheckDedupe t key d"
  using assms(2) by (auto simp: CheckDedupe_def eject_lookup [OF assms(1)] split: option.splits)

end
