(* ===== verification/Handler.thy ===== *)
theory Handler
  imports State Dedupe
begin

text \<open>
  What the dispatch handlers of \<^verbatim>\<open>internal/events_dispatch.go\<close> share: decoding a payload, counting the
  event, marshalling the extra values, and the shape of a result.

  A handler returns the triple \<open>(result, ok, err)\<close> of the source. \<open>decoding\<close> is the opening of a handler
  (decode, return the error if there is one), \<open>with_extra\<close> its closing call of \<^verbatim>\<open>makeExtra\<close>.
\<close>

type_synonym outcome = "EventDispatch \<times> bool \<times> go_error option"
type_synonym handler = "lib \<Rightarrow> StateCtx \<Rightarrow> GatewayPayload \<Rightarrow> (env, outcome) prog"

section \<open>Counting\<close>

definition OnGuildDispatchEvent :: "string \<Rightarrow> GuildID \<Rightarrow> env \<Rightarrow> env" where
  "OnGuildDispatchEvent eventType guildID e =
     (let key = (mg_Identifier (env_Manager e), eventType)
      in e\<lparr>env_dispatchCount := (env_dispatchCount e)(key := env_dispatchCount e key + 1)\<rparr>)"

definition OnDispatchEvent :: "string \<Rightarrow> env \<Rightarrow> env" where
  "OnDispatchEvent eventType = OnGuildDispatchEvent eventType 0"

definition SafeOnGuildDispatchEvent :: "string \<Rightarrow> GuildID option \<Rightarrow> env \<Rightarrow> env" where
  "SafeOnGuildDispatchEvent eventType guildIDPtr =
     (case guildIDPtr of
        Some g \<Rightarrow> OnGuildDispatchEvent eventType g
      | None \<Rightarrow> OnDispatchEvent eventType)"

section \<open>Decoding, extras, results\<close>

definition decodeContent :: "'p decoder \<Rightarrow> GatewayPayload \<Rightarrow> 'p \<times> go_error option" where
  "decodeContent dec msg = dec (gp_Data msg)"

definition decoding :: "'p decoder \<Rightarrow> GatewayPayload \<Rightarrow> ('p \<Rightarrow> (env, outcome) prog) \<Rightarrow> (env, outcome) prog" where
  "decoding dec msg body =
     (case decodeContent dec msg of
        (_, Some err) \<Rightarrow> ret (zero_EventDispatch, False, Some err)
      | (p, None) \<Rightarrow> body p)"

definition with_extra ::
    "lib \<Rightarrow> bool \<Rightarrow> (string \<times> anyval) list \<Rightarrow> ((string \<rightharpoonup> bytes) \<Rightarrow> (env, outcome) prog) \<Rightarrow> (env, outcome) prog" where
  "with_extra lb ok kvs body =
     (case makeExtra (lib_marshal lb) kvs of
        (_, Some err) \<Rightarrow> ret (zero_EventDispatch, ok, Some (ErrWrap ''failed to marshal extras'' (ErrNew err)))
      | (extra, None) \<Rightarrow> body extra)"

definition dispatch :: "GatewayPayload \<Rightarrow> (string \<rightharpoonup> bytes) \<Rightarrow> EventDispatchIdentifier \<Rightarrow> (env, outcome) prog" where
  "dispatch msg extra edi =
     ret (\<lparr> ed_Extra = extra, ed_EventDispatchIdentifier = Some edi, ed_Data = gp_Data msg \<rparr>, True, None)"

definition for_guild :: "GuildID option \<Rightarrow> EventDispatchIdentifier" where
  "for_guild g = \<lparr> edi_GuildID = g, edi_UserID = None, edi_GloballyRouted = False \<rparr>"

lemma counting_frame [simp]:
  "env_State (OnGuildDispatchEvent t g e) = env_State e"
  "env_Shard (OnGuildDispatchEvent t g e) = env_Shard e"
  "env_ShardGroup (OnGuildDispatchEvent t g e) = env_ShardGroup e"
  "env_Manager (OnGuildDispatchEvent t g e) = env_Manager e"
  "env_Dedupe (OnGuildDispatchEvent t g e) = env_Dedupe e"
  "env_guildChunks (OnGuildDispatchEvent t g e) = env_guildChunks e"
  "env_now (OnGuildDispatchEvent t g e) = env_now e"
  "env_log (OnGuildDispatchEvent t g e) = env_log e"
  "env_inbox (OnGuildDispatchEvent t g e) = env_inbox e"
  "env_chunks (OnGuildDispatchEvent t g e) = env_chunks e"
  by (simp_all add: OnGuildDispatchEvent_def Let_def)

lemma counting_frame2 [simp]:
  "env_State (OnDispatchEvent t e) = env_State e"
  "env_Shard (OnDispatchEvent t e) = env_Shard e"
  "env_ShardGroup (OnDispatchEvent t e) = env_ShardGroup e"
  "env_Manager (OnDispatchEvent t e) = env_Manager e"
  "env_State (SafeOnGuildDispatchEvent t p e) = env_State e"
  "env_Shard (SafeOnGuildDispatchEvent t p e) = env_Shard e"
  "env_ShardGroup (SafeOnGuildDispatchEvent t p e) = env_ShardGroup e"
  "env_Manager (SafeOnGuildDispatchEvent t p e) = env_Manager e"
  "env_Dedupe (OnDispatchEvent t e) = env_Dedupe e"
  "env_Dedupe (SafeOnGuildDispatchEvent t p e) = env_Dedupe e"
  "env_log (OnDispatchEvent t e) = env_log e"
  "env_log (SafeOnGuildDispatchEvent t p e) = env_log e"
  "env_inbox (OnDispatchEvent t e) = env_inbox e"
  "env_inbox (SafeOnGuildDispatchEvent t p e) = env_inbox e"
  by (simp_all add: OnDispatchEvent_def SafeOnGuildDispatchEvent_def split: option.splits)

end
