(* ===== verification/Dispatch_Guild.thy ===== *)
theory Dispatch_Guild
  imports Handler
begin

text \<open>
  The handlers of \<^verbatim>\<open>internal/events_dispatch.go\<close> for guilds, channels, threads, emojis, stickers and
  roles. Each definition is the handler in the order of the source: decoding, the deferred count, the
  state operations, the extra values, the result.
\<close>

section \<open>Guilds\<close>

text \<open>
  \<open>OnGuildCreate\<close>: \<^verbatim>\<open>lazy, _ := ctx.Lazy.Load(id)\<close> keeps the value of the set's entry, an empty struct,
  and drops the flag.
\<close>

definition empty_struct_of :: "unit option \<Rightarrow> anyval" where
  "empty_struct_of v = (case v of Some () \<Rightarrow> AnyStruct | None \<Rightarrow> AnyStruct)"

definition OnGuildCreate :: handler where
  "OnGuildCreate lb ctx msg =
     decoding (dec_Guild lb) msg (\<lambda>p.
     deferred (OnGuildDispatchEvent (gp_Type msg) (guild_ID p))
     (bnd (SetGuild lb ctx p) (\<lambda>_.
      bnd (rd (\<lambda>e. empty_struct_of (Cache_Load csm (sh_Lazy (env_Shard e)) (guild_ID p)))) (\<lambda>lazy.
      bnd (upd (on_Shard (\<lambda>sh. sh\<lparr>sh_Lazy := Cache_Delete csm (sh_Lazy sh) (guild_ID p)\<rparr>))) (\<lambda>_.
      bnd (rd (\<lambda>e. empty_struct_of (Cache_Load csm (sh_Unavailable (env_Shard e)) (guild_ID p)))) (\<lambda>unavailable.
      bnd (upd (on_Shard (\<lambda>sh. sh\<lparr>sh_Unavailable := Cache_Delete csm (sh_Unavailable sh) (guild_ID p)\<rparr>))) (\<lambda>_.
      with_extra lb False [(''lazy'', lazy), (''unavailable'', unavailable)] (\<lambda>extra.
      dispatch msg extra (for_guild (Some (guild_ID p)))))))))))"

text \<open>\<open>OnGuildUpdate\<close> keeps the values that only a \<^verbatim>\<open>GUILD_CREATE\<close> carries.\<close>

definition preserve_create_only :: "Guild \<Rightarrow> Guild \<Rightarrow> Guild" where
  "preserve_create_only beforeGuild g =
     (let g = (if guild_StageInstances g = None then g\<lparr>guild_StageInstances := guild_StageInstances beforeGuild\<rparr> else g);
          g = (if guild_Channels g = None then g\<lparr>guild_Channels := guild_Channels beforeGuild\<rparr> else g);
          g = (if guild_Members g = None then g\<lparr>guild_Members := guild_Members beforeGuild\<rparr> else g);
          g = (if guild_VoiceStates g = None then g\<lparr>guild_VoiceStates := guild_VoiceStates beforeGuild\<rparr> else g);
          g = (if guild_MemberCount g = 0 then g\<lparr>guild_MemberCount := guild_MemberCount beforeGuild\<rparr> else g)
      in g\<lparr>guild_Large := guild_Large beforeGuild, guild_JoinedAt := guild_JoinedAt beforeGuild\<rparr>)"

definition OnGuildUpdate :: handler where
  "OnGuildUpdate lb ctx msg =
     decoding (dec_Guild lb) msg (\<lambda>p.
     deferred (OnGuildDispatchEvent (gp_Type msg) (guild_ID p))
     (bnd (rd (\<lambda>e. GetGuild (env_State e) (guild_ID p))) (\<lambda>(beforeGuild, ok).
      let p = (if ok then preserve_create_only beforeGuild p else p) in
      bnd (SetGuild lb ctx p) (\<lambda>_.
      with_extra lb ok [(''before'', AnyGuild beforeGuild)] (\<lambda>extra.
      dispatch msg extra (for_guild (Some (guild_ID p))))))))"

text \<open>\<open>OnGuildDelete\<close> reports the event even when it cannot decode the payload or marshal the old guild.\<close>

definition OnGuildDelete :: handler where
  "OnGuildDelete lb ctx msg =
     (case decodeContent (dec_UnavailableGuild lb) msg of
        (p, Some _) \<Rightarrow> dispatch msg Map.empty (for_guild (Some (ugd_ID p)))
      | (p, None) \<Rightarrow>
     deferred (OnGuildDispatchEvent (gp_Type msg) (ugd_ID p))
     (bnd (rd (\<lambda>e. GetGuild (env_State e) (ugd_ID p))) (\<lambda>(beforeGuild, _).
      bnd (if ugd_Unavailable p
           then upd (on_Shard (\<lambda>sh. sh\<lparr>sh_Unavailable := Cache_Store csm (sh_Unavailable sh) (ugd_ID p) ()\<rparr>))
           else bnd (upd (on_ShardGroup (\<lambda>sg. sg\<lparr>sg_Guilds := Cache_Delete csm (sg_Guilds sg) (ugd_ID p)\<rparr>))) (\<lambda>_.
                upd (on_Shard (\<lambda>sh. sh\<lparr>sh_Guilds := Cache_Delete csm (sh_Guilds sh) (ugd_ID p)\<rparr>)))) (\<lambda>_.
      case makeExtra (lib_marshal lb) [(''before'', AnyGuild beforeGuild)] of
        (_, Some _) \<Rightarrow> dispatch msg Map.empty (for_guild (Some (ugd_ID p)))
      | (extra, None) \<Rightarrow> dispatch msg extra (for_guild (Some (ugd_ID p)))))))"

definition OnGuildAuditLogEntryCreate :: handler where
  "OnGuildAuditLogEntryCreate lb ctx msg =
     deferred (OnDispatchEvent (gp_Type msg))
     (decoding (dec_AuditLogEntry lb) msg (\<lambda>p.
      dispatch msg Map.empty (for_guild (Some (gale_GuildID p)))))"

definition OnGuildBanAdd :: handler where
  "OnGuildBanAdd lb ctx msg =
     decoding (dec_GuildBan lb) msg (\<lambda>p.
     bnd (deref (ban_GuildID p)) (\<lambda>g.
     deferred (OnGuildDispatchEvent (gp_Type msg) g)
     (dispatch msg Map.empty (for_guild (ban_GuildID p)))))"

definition OnGuildBanRemove :: handler where
  "OnGuildBanRemove lb ctx msg =
     decoding (dec_GuildBan lb) msg (\<lambda>p.
     bnd (deref (ban_GuildID p)) (\<lambda>g.
     deferred (OnGuildDispatchEvent (gp_Type msg) g)
     (dispatch msg Map.empty (for_guild (ban_GuildID p)))))"

definition OnGuildEmojisUpdate :: handler where
  "OnGuildEmojisUpdate lb ctx msg =
     decoding (dec_GuildEmojisUpdate lb) msg (\<lambda>p.
     deferred (OnGuildDispatchEvent (gp_Type msg) (geu_GuildID p))
     (bnd (rd (\<lambda>e. zero_or None (GetAllGuildEmojis (env_State e) (geu_GuildID p)))) (\<lambda>beforeEmojis.
      bnd (upd (on_State (RemoveAllGuildEmojis (geu_GuildID p)))) (\<lambda>_.
      bnd (upd (SetGuildEmojis ctx (geu_GuildID p) (geu_Emojis p))) (\<lambda>_.
      with_extra lb False [(''before'', AnyEmojis beforeEmojis)] (\<lambda>extra.
      dispatch msg extra (for_guild (Some (geu_GuildID p)))))))))"

definition OnGuildStickersUpdate :: handler where
  "OnGuildStickersUpdate lb ctx msg =
     decoding (dec_GuildStickersUpdate lb) msg (\<lambda>p.
     deferred (OnGuildDispatchEvent (gp_Type msg) (gsu_GuildID p))
     (bnd (rd (\<lambda>e. GetGuild (env_State e) (gsu_GuildID p))) (\<lambda>(beforeGuild, ok).
      let beforeStickers = guild_Stickers beforeGuild in
      bnd (if ok then SetGuild lb ctx (beforeGuild\<lparr>guild_Stickers := gsu_Stickers p\<rparr>) else ret ()) (\<lambda>_.
      with_extra lb ok [(''before'', AnyStickers beforeStickers)] (\<lambda>extra.
      dispatch msg extra (for_guild (Some (gsu_GuildID p))))))))"

definition OnGuildIntegrationsUpdate :: handler where
  "OnGuildIntegrationsUpdate lb ctx msg =
     decoding (dec_GuildIntegrationsUpdate lb) msg (\<lambda>p.
     deferred (OnGuildDispatchEvent (gp_Type msg) (giu_GuildID p))
     (dispatch msg Map.empty (for_guild (Some (giu_GuildID p)))))"

section \<open>Channels\<close>

definition guild_ptr_set :: "GuildID option \<Rightarrow> bool" where
  "guild_ptr_set p = (case p of None \<Rightarrow> False | Some g \<Rightarrow> \<not> IsNil g)"

definition is_dm :: "Channel \<Rightarrow> bool" where
  "is_dm c \<longleftrightarrow> chan_Type c = ChannelTypeDM \<or> chan_Type c = ChannelTypeGroupDM"

definition OnChannelCreate :: handler where
  "OnChannelCreate lb ctx msg =
     decoding (dec_Channel lb) msg (\<lambda>p.
     deferred (SafeOnGuildDispatchEvent (gp_Type msg) (chan_GuildID p))
     (bnd (if guild_ptr_set (chan_GuildID p) then
             bnd (deref (chan_GuildID p)) (\<lambda>g. upd (SetGuildChannel ctx g p))
           else if is_dm p then
             (case elems (chan_Recipients p) of
                [] \<Rightarrow> ret ()
              | r # _ \<Rightarrow> upd (AddDMChannel (user_ID r) p))
           else ret ()) (\<lambda>_.
      dispatch msg Map.empty (for_guild (chan_GuildID p)))))"

definition OnChannelUpdate :: handler where
  "OnChannelUpdate lb ctx msg =
     decoding (dec_Channel lb) msg (\<lambda>p.
     deferred (SafeOnGuildDispatchEvent (gp_Type msg) (chan_GuildID p))
     (bnd (if guild_ptr_set (chan_GuildID p) then
             bnd (deref (chan_GuildID p)) (\<lambda>g.
             bnd (rd (\<lambda>e. fst (GetGuildChannel (env_State e) g (chan_ID p)))) (\<lambda>before.
             bnd (upd (SetGuildChannel ctx g p)) (\<lambda>_. ret (Some before))))
           else if is_dm p then
             bnd (act (GetDMChannel (chan_ID p))) (\<lambda>(before, _).
             bnd (upd (on_State (\<lambda>ss. snd (UpdateDMChannelByChannelID (chan_ID p)
                    (\<lambda>c. c\<lparr>dm_Channel := p\<rparr>) ss)))) (\<lambda>_. ret (Some before)))
           else ret None) (\<lambda>beforeChannel.
      with_extra lb False [(''before'', AnyChannelPtr beforeChannel)] (\<lambda>extra.
      dispatch msg extra (for_guild (chan_GuildID p))))))"

definition OnChannelDelete :: handler where
  "OnChannelDelete lb ctx msg =
     decoding (dec_Channel lb) msg (\<lambda>p.
     deferred (SafeOnGuildDispatchEvent (gp_Type msg) (chan_GuildID p))
     (bnd (if guild_ptr_set (chan_GuildID p) then
             bnd (deref (chan_GuildID p)) (\<lambda>g.
             bnd (rd (\<lambda>e. fst (GetGuildChannel (env_State e) g (chan_ID p)))) (\<lambda>before.
             bnd (upd (on_State (RemoveGuildChannel g (chan_ID p)))) (\<lambda>_. ret (Some before))))
           else if is_dm p then
             bnd (act (GetDMChannel (chan_ID p))) (\<lambda>(before, _).
             bnd (upd (on_State (RemoveDMChannelByChannelID (chan_ID p)))) (\<lambda>_. ret (Some before)))
           else ret None) (\<lambda>beforeChannel.
      with_extra lb False [(''before'', AnyChannelPtr beforeChannel)] (\<lambda>extra.
      dispatch msg extra (for_guild (chan_GuildID p))))))"

definition OnChannelPinsUpdate :: handler where
  "OnChannelPinsUpdate lb ctx msg =
     decoding (dec_ChannelPinsUpdate lb) msg (\<lambda>p.
     deferred (OnGuildDispatchEvent (gp_Type msg) (cpu_GuildID p))
     (bnd (if IsNil (cpu_GuildID p)
           then upd (on_State (\<lambda>ss. snd (UpdateDMChannelByChannelID (cpu_ChannelID p)
                  (\<lambda>c. c\<lparr>dm_Channel := (dm_Channel c)\<lparr>chan_LastPinTimestamp := Some (cpu_LastPinTimestamp p)\<rparr>\<rparr>) ss)))
           else upd (on_State (\<lambda>ss. snd (UpdateGuildChannel (cpu_GuildID p) (cpu_ChannelID p)
                  (\<lambda>c. c\<lparr>chan_LastPinTimestamp := Some (cpu_LastPinTimestamp p)\<rparr>) ss)))) (\<lambda>_.
      dispatch msg Map.empty (for_guild (Some (cpu_GuildID p))))))"

definition OnThreadUpdate :: handler where
  "OnThreadUpdate lb ctx msg =
     deferred (OnDispatchEvent (gp_Type msg))
     (decoding (dec_Channel lb) msg (\<lambda>p.
      bnd (if guild_ptr_set (chan_GuildID p) then
             bnd (deref (chan_GuildID p)) (\<lambda>g.
             rd (\<lambda>e. Some (fst (GetGuildChannel (env_State e) g (chan_ID p)))))
           else ret None) (\<lambda>beforeChannel.
      with_extra lb False [(''before'', AnyChannelPtr beforeChannel)] (\<lambda>extra.
      dispatch msg extra (for_guild (chan_GuildID p))))))"

section \<open>Roles\<close>

definition OnGuildRoleCreate :: handler where
  "OnGuildRoleCreate lb ctx msg =
     decoding (dec_GuildRoleCreate lb) msg (\<lambda>p.
     deferred (OnGuildDispatchEvent (gp_Type msg) (grc_GuildID p))
     (bnd (SetGuildRole (grc_GuildID p) (grc_Role p)) (\<lambda>_.
      dispatch msg Map.empty (for_guild (Some (grc_GuildID p))))))"

definition OnGuildRoleUpdate :: handler where
  "OnGuildRoleUpdate lb ctx msg =
     decoding (dec_GuildRoleUpdate lb) msg (\<lambda>p.
     deferred (OnGuildDispatchEvent (gp_Type msg) (gru_GuildID p))
     (bnd (rd (\<lambda>e. zero_or zero_Role (GetGuildRole (env_State e) (gru_GuildID p) (role_ID (gru_Role p))))) (\<lambda>beforeRole.
      bnd (SetGuildRole (gru_GuildID p) (gru_Role p)) (\<lambda>_.
      with_extra lb False [(''before'', AnyRole beforeRole)] (\<lambda>extra.
      dispatch msg extra (for_guild (Some (gru_GuildID p))))))))"

definition OnGuildRoleDelete :: handler where
  "OnGuildRoleDelete lb ctx msg =
     decoding (dec_GuildRoleDelete lb) msg (\<lambda>p.
     deferred (OnGuildDispatchEvent (gp_Type msg) (grd_GuildID p))
     (bnd (upd (on_State (RemoveGuildRole (grd_GuildID p) (grd_RoleID p)))) (\<lambda>_.
      dispatch msg Map.empty (for_guild (Some (grd_GuildID p))))))"

end
