(* ===== verification/Dispatch_Member.thy ===== *)
theory Dispatch_Member
  imports Handler
begin

text \<open>
  The handlers of \<^verbatim>\<open>internal/events_dispatch.go\<close> for members, users and voice states.
\<close>

section \<open>Members\<close>

text \<open>
  A join is counted once: the key of the join is checked and set, the key of the leave is freed, and the
  guild's member count goes up. A join that is a duplicate returns at once, before the event is counted.
\<close>

definition incr_MemberCount :: "GuildID \<Rightarrow> SandwichState \<Rightarrow> SandwichState" where
  "incr_MemberCount g ss =
     ss\<lparr>Guilds := snd (Cache_Update csm (Guilds ss) g
                     (\<lambda>guild. guild\<lparr>guild_MemberCount := guild_MemberCount guild + 1\<rparr>))\<rparr>"

definition decr_MemberCount :: "GuildID \<Rightarrow> SandwichState \<Rightarrow> SandwichState" where
  "decr_MemberCount g ss =
     (case Cache_Load csm (Guilds ss) g of
        None \<Rightarrow> ss
      | Some guild \<Rightarrow>
          ss\<lparr>Guilds := Cache_SetIfPresent csm (Guilds ss) g
               (guild\<lparr>guild_MemberCount := guild_MemberCount guild - 1\<rparr>)\<rparr>)"

definition check_and_add :: "string \<Rightarrow> (env, bool) prog" where
  "check_and_add key =
     act (\<lambda>e. case CheckAndAddDedupe (env_now e) key (env_Dedupe e) of (dup, d) \<Rightarrow> (dup, e\<lparr>env_Dedupe := d\<rparr>))"

definition remove_dedupe :: "string \<Rightarrow> env \<Rightarrow> env" where
  "remove_dedupe key e = e\<lparr>env_Dedupe := RemoveDedupe key (env_Dedupe e)\<rparr>"

definition OnGuildMemberAdd :: handler where
  "OnGuildMemberAdd lb ctx msg =
     decoding (dec_GuildMember lb) msg (\<lambda>p.
     bnd (deref (gm_GuildID p)) (\<lambda>g.
     bnd (deref (gm_User p)) (\<lambda>u.
     let ddRemoveKey = createDedupeMemberRemoveKey g (user_ID u);
         ddAddKey = createDedupeMemberAddKey g (user_ID u)
     in
     bnd (check_and_add ddAddKey) (\<lambda>dup.
     if \<not> dup then
       bnd (upd (remove_dedupe ddRemoveKey)) (\<lambda>_.
       bnd (upd (on_State (incr_MemberCount g))) (\<lambda>_.
       deferred (OnGuildDispatchEvent (gp_Type msg) g)
       (bnd (SetGuildMember ctx g p) (\<lambda>_.
        bnd (if ctx_StoreMutuals ctx
             then upd (on_State (AddUserMutualGuild ctx (user_ID u) g))
             else ret ()) (\<lambda>_.
        dispatch msg Map.empty (for_guild (gm_GuildID p)))))))
     else ret (zero_EventDispatch, False, None)))))"

definition OnGuildMemberRemove :: handler where
  "OnGuildMemberRemove lb ctx msg =
     decoding (dec_GuildMemberRemove lb) msg (\<lambda>p.
     let g = gmr_GuildID p; uid = user_ID (gmr_User p);
         ddRemoveKey = createDedupeMemberRemoveKey g uid;
         ddAddKey = createDedupeMemberAddKey g uid
     in
     bnd (check_and_add ddRemoveKey) (\<lambda>dup.
     if \<not> dup then
       bnd (upd (remove_dedupe ddAddKey)) (\<lambda>_.
       bnd (upd (on_State (decr_MemberCount g))) (\<lambda>_.
       deferred (OnGuildDispatchEvent (gp_Type msg) g)
       (bnd (lift_res (\<lambda>e. GetGuildMember lb (env_State e) g uid)) (\<lambda>(guildMember, _).
        bnd (upd (on_State (RemoveGuildMember g uid))) (\<lambda>_.
        bnd (upd (on_State (RemoveUserMutualGuild uid g))) (\<lambda>_.
        with_extra lb False [(''before'', AnyMember guildMember)] (\<lambda>extra.
        dispatch msg extra (for_guild (Some g)))))))))
     else ret (zero_EventDispatch, False, None)))"

definition OnGuildMemberUpdate :: handler where
  "OnGuildMemberUpdate lb ctx msg =
     decoding (dec_GuildMember lb) msg (\<lambda>p.
     bnd (deref (gm_GuildID p)) (\<lambda>g.
     deferred (OnGuildDispatchEvent (gp_Type msg) g)
     (bnd (deref (gm_User p)) (\<lambda>u.
      bnd (lift_res (\<lambda>e. GetGuildMember lb (env_State e) g (user_ID u))) (\<lambda>(beforeGuildMember, _).
      bnd (SetGuildMember ctx g p) (\<lambda>_.
      with_extra lb False [(''before'', AnyMember beforeGuildMember)] (\<lambda>extra.
      dispatch msg extra (for_guild (gm_GuildID p)))))))))"

text \<open>
  A chunk of members forces caching of users and members for this event. The chunk table's entry is
  loaded by value: its channel is shared, its counter and its flags are copies.
\<close>

definition OnGuildMembersChunk :: handler where
  "OnGuildMembersChunk lb ctx msg =
     deferred (OnDispatchEvent (gp_Type msg))
     (decoding (dec_GuildMembersChunk lb) msg (\<lambda>p.
      let ctx = ctx\<lparr>ctx_CacheUsers := True, ctx_CacheMembers := True\<rparr> in
      bnd (each (SetGuildMember ctx (gmc_GuildID p)) (elems (gmc_Members p))) (\<lambda>_.
      bnd (rd (\<lambda>e. Cache_Load csm (env_guildChunks e) (gmc_GuildID p))) (\<lambda>entry.
      case entry of
        None \<Rightarrow> dispatch msg Map.empty (for_guild (Some (gmc_GuildID p)))
      | Some guildChunk \<Rightarrow>
          bnd (case gc_ChunkingChannel guildChunk of
                 Some ch \<Rightarrow> upd (emit (EfOfferChunk ch p))
               | None \<Rightarrow>
                   bnd (ret (gc_ChunkCount guildChunk + 1)) (\<lambda>totalRecv.
                   if sint (gmc_ChunkCount p) \<le> sint totalRecv
                   then ret () \<comment> \<open>marks the copy complete\<close>
                   else ret ())) (\<lambda>_.
          dispatch msg Map.empty (for_guild (Some (gmc_GuildID p))))))))"

section \<open>Users, presences, voice\<close>

definition OnPresenceUpdate :: handler where
  "OnPresenceUpdate lb ctx msg =
     decoding (dec_PresenceUpdate lb) msg (\<lambda>p.
     deferred (OnGuildDispatchEvent (gp_Type msg) (pres_GuildID p))
     (dispatch msg Map.empty (for_guild (Some (pres_GuildID p)))))"

definition OnUserUpdate :: handler where
  "OnUserUpdate lb ctx msg =
     deferred (OnDispatchEvent (gp_Type msg))
     (decoding (dec_User lb) msg (\<lambda>p.
      bnd (rd (\<lambda>e. zero_or zero_User (GetUser (env_State e) (user_ID p)))) (\<lambda>beforeUser.
      with_extra lb False [(''before'', AnyUser beforeUser)] (\<lambda>extra.
      dispatch msg extra \<lparr> edi_GuildID = None, edi_UserID = None, edi_GloballyRouted = True \<rparr>))))"

definition OnVoiceStateUpdate :: handler where
  "OnVoiceStateUpdate lb ctx msg =
     decoding (dec_VoiceState lb) msg (\<lambda>p.
     let guildID = zero_or 0 (vs_GuildID p);
         counted = (case vs_GuildID p of
                      Some g \<Rightarrow> deferred (OnGuildDispatchEvent (gp_Type msg) g)
                    | None \<Rightarrow> (\<lambda>m. m))
     in counted
     (bnd (lift_res (\<lambda>e. GetVoiceState lb (env_State e) guildID (vs_UserID p))) (\<lambda>(beforeVoiceState, _).
      bnd (if IsNil guildID then upd (RemoveVoiceState ctx guildID (vs_UserID p))
           else UpdateVoiceState lb ctx p) (\<lambda>_.
      with_extra lb False [(''before'', AnyVoiceState beforeVoiceState)] (\<lambda>extra.
      dispatch msg extra (for_guild (vs_GuildID p)))))))"

end
