(* ===== verification/Dispatch_Message.thy ===== *)
theory Dispatch_Message
  imports Handler
begin

text \<open>
  The handlers of \<^verbatim>\<open>internal/events_dispatch.go\<close> that only route: messages, reactions, invites, typing,
  entitlements, resumption, and the fallback for events without a handler of their own.
\<close>

section \<open>Shard status\<close>

definition SetStatus :: "ShardStatus \<Rightarrow> env \<Rightarrow> env" where
  "SetStatus status e =
     (let e = on_Shard (\<lambda>sh. sh\<lparr>sh_Status := status\<rparr>) e
      in emit (EfGlobalEvent (SandwichEventShardStatusUpdate
           \<lparr> ssu_Manager = mg_Identifier (env_Manager e),
             ssu_ShardGroup = sg_ID (env_ShardGroup e),
             ssu_Shard = sh_ShardID (env_Shard e),
             ssu_Status = sh_Status (env_Shard e) \<rparr>)) e)"

definition GetStatus :: "Shard \<Rightarrow> ShardStatus" where
  "GetStatus sh = sh_Status sh"

text \<open>\<open>OnResumed\<close> fills the one-slot ready channel without blocking.\<close>

definition OnResumed :: handler where
  "OnResumed lb ctx msg =
     deferred (OnDispatchEvent (gp_Type msg))
     (bnd (upd (on_Shard (\<lambda>sh. sh\<lparr>sh_ready := True\<rparr>))) (\<lambda>_.
      bnd (upd (on_Shard (\<lambda>sh. sh\<lparr>sh_IsReady := True\<rparr>))) (\<lambda>_.
      bnd (upd (SetStatus ShardStatusReady)) (\<lambda>_.
      dispatch msg Map.empty zero_EDI))))"

section \<open>Messages and reactions\<close>

definition OnInviteCreate :: handler where
  "OnInviteCreate lb ctx msg =
     decoding (dec_Invite lb) msg (\<lambda>p.
     (case invite_GuildID p of
        Some g \<Rightarrow> deferred (SafeOnGuildDispatchEvent (gp_Type msg) (Some g))
      | None \<Rightarrow> (\<lambda>m. m))
     (dispatch msg Map.empty (for_guild (invite_GuildID p))))"

definition OnInviteDelete :: handler where
  "OnInviteDelete lb ctx msg =
     decoding (dec_Invite lb) msg (\<lambda>p.
     (case invite_GuildID p of
        Some g \<Rightarrow> deferred (SafeOnGuildDispatchEvent (gp_Type msg) (Some g))
      | None \<Rightarrow> (\<lambda>m. m))
     (dispatch msg Map.empty (for_guild (invite_GuildID p))))"

definition OnMessageCreate :: handler where
  "OnMessageCreate lb ctx msg =
     decoding (dec_Message lb) msg (\<lambda>p.
     deferred (SafeOnGuildDispatchEvent (gp_Type msg) (message_GuildID p))
     (dispatch msg Map.empty \<lparr> edi_GuildID = message_GuildID p,
        edi_UserID = Some (user_ID (message_Author p)), edi_GloballyRouted = False \<rparr>))"

definition OnMessageUpdate :: handler where
  "OnMessageUpdate lb ctx msg =
     decoding (dec_Message lb) msg (\<lambda>p.
     deferred (SafeOnGuildDispatchEvent (gp_Type msg) (message_GuildID p))
     (dispatch msg Map.empty \<lparr> edi_GuildID = message_GuildID p,
        edi_UserID = Some (user_ID (message_Author p)), edi_GloballyRouted = False \<rparr>))"

definition OnMessageDelete :: handler where
  "OnMessageDelete lb ctx msg =
     decoding (dec_MessageDelete lb) msg (\<lambda>p.
     deferred (SafeOnGuildDispatchEvent (gp_Type msg) (msgdel_GuildID p))
     (dispatch msg Map.empty (for_guild (msgdel_GuildID p))))"

definition OnMessageDeleteBulk :: handler where
  "OnMessageDeleteBulk lb ctx msg =
     decoding (dec_MessageDeleteBulk lb) msg (\<lambda>p.
     deferred (SafeOnGuildDispatchEvent (gp_Type msg) (msgbulk_GuildID p))
     (dispatch msg Map.empty (for_guild (msgbulk_GuildID p))))"

definition OnMessageReactionAdd :: handler where
  "OnMessageReactionAdd lb ctx msg =
     decoding (dec_MessageReactionAdd lb) msg (\<lambda>p.
     deferred (OnGuildDispatchEvent (gp_Type msg) (mra_GuildID p))
     (dispatch msg Map.empty \<lparr> edi_GuildID = Some (mra_GuildID p),
        edi_UserID = Some (mra_UserID p), edi_GloballyRouted = False \<rparr>))"

definition OnMessageReactionRemove :: handler where
  "OnMessageReactionRemove lb ctx msg =
     decoding (dec_MessageReactionRemove lb) msg (\<lambda>p.
     deferred (SafeOnGuildDispatchEvent (gp_Type msg) (mrr_GuildID p))
     (dispatch msg Map.empty \<lparr> edi_GuildID = mrr_GuildID p,
        edi_UserID = Some (mrr_UserID p), edi_GloballyRouted = False \<rparr>))"

definition OnMessageReactionRemoveAll :: handler where
  "OnMessageReactionRemoveAll lb ctx msg =
     decoding (dec_MessageReactionRemoveAll lb) msg (\<lambda>p.
     deferred (OnGuildDispatchEvent (gp_Type msg) (mrra_GuildID p))
     (dispatch msg Map.empty (for_guild (Some (mrra_GuildID p)))))"

definition OnMessageReactionRemoveEmoji :: handler where
  "OnMessageReactionRemoveEmoji lb ctx msg =
     decoding (dec_MessageReactionRemoveEmoji lb) msg (\<lambda>p.
     deferred (SafeOnGuildDispatchEvent (gp_Type msg) (mrre_GuildID p))
     (dispatch msg Map.empty (for_guild (mrre_GuildID p))))"

definition OnTypingStart :: handler where
  "OnTypingStart lb ctx msg =
     decoding (dec_TypingStart lb) msg (\<lambda>p.
     deferred (SafeOnGuildDispatchEvent (gp_Type msg) (ts_GuildID p))
     (dispatch msg Map.empty (for_guild (ts_GuildID p))))"

section \<open>Entitlements and the fallback\<close>

definition for_entitlement :: "Entitlement \<Rightarrow> EventDispatchIdentifier" where
  "for_entitlement p = \<lparr> edi_GuildID = ent_GuildID p, edi_UserID = None,
     edi_GloballyRouted = (ent_GuildID p = None) \<rparr>"

definition OnEntitlementCreate :: handler where
  "OnEntitlementCreate lb ctx msg =
     deferred (OnDispatchEvent (gp_Type msg))
     (decoding (dec_Entitlement lb) msg (\<lambda>p. dispatch msg Map.empty (for_entitlement p)))"

definition OnEntitlementUpdate :: handler where
  "OnEntitlementUpdate lb ctx msg =
     deferred (OnDispatchEvent (gp_Type msg))
     (decoding (dec_Entitlement lb) msg (\<lambda>p. dispatch msg Map.empty (for_entitlement p)))"

definition OnEntitlementDelete :: handler where
  "OnEntitlementDelete lb ctx msg =
     deferred (OnDispatchEvent (gp_Type msg))
     (decoding (dec_Entitlement lb) msg (\<lambda>p. dispatch msg Map.empty (for_entitlement p)))"

definition WildcardEvent :: handler where
  "WildcardEvent lb ctx msg =
     deferred (OnDispatchEvent (gp_Type msg))
     (decoding (dec_Wildcard lb) msg (\<lambda>p.
      dispatch msg Map.empty \<lparr> edi_GuildID = wc_GuildID p, edi_UserID = wc_UserID p,
        edi_GloballyRouted = (wc_GuildID p = None) \<rparr>))"

end
