(* ===== verification/Sample.thy ===== *)
theory Sample
  imports World
begin

text \<open>
  Concrete values on which the theorems are applied: the zero values of the event payloads, a library
  whose decoders reject every payload (a witness replaces the decoder it needs), and a daemon that has
  just started: empty caches, one connected shard, an open floodgate and a producer.
\<close>

section \<open>Zero payloads\<close>

definition zero_Hello :: Hello where
  "zero_Hello = \<lparr> hello_HeartbeatInterval = 0 \<rparr>"

definition zero_Application :: Application where
  "zero_Application = \<lparr> app_Owner = None, app_Bot = None, app_PrimarySKUID = None, app_GuildID = None, app_Team = None,
     app_PrivacyPolicyURL = [], app_TermsOfServiceURL = [], app_VerifyKey = [], app_Description = [], app_Icon = [], app_Slug = [],
     app_CoverImage = [], app_Name = [], app_RPCOrigins = None, app_ID = 0, app_Flags = 0, app_BotRequireCodeGrant = False,
     app_BotPublic = False \<rparr>"

definition zero_Ready :: Ready where
  "zero_Ready = \<lparr> ready_SessionID = [], ready_ResumeGatewayUrl = [], ready_Guilds = None, ready_Shard = None,
     ready_Application = zero_Application, ready_User = zero_User, ready_Version = 0 \<rparr>"

definition zero_GuildMembersChunk :: GuildMembersChunk where
  "zero_GuildMembersChunk = \<lparr> gmc_Nonce = [], gmc_Members = None, gmc_NotFound = None, gmc_Presences =
     None, gmc_GuildID = 0, gmc_ChunkIndex = 0, gmc_ChunkCount = 0 \<rparr>"

definition zero_ChannelPinsUpdate :: ChannelPinsUpdate where
  "zero_ChannelPinsUpdate = \<lparr> cpu_LastPinTimestamp = [], cpu_GuildID = 0, cpu_ChannelID = 0 \<rparr>"

definition zero_GuildAuditLogEntryCreate :: GuildAuditLogEntryCreate where
  "zero_GuildAuditLogEntryCreate = \<lparr> gale_AuditLogEntry = \<lparr> ale_TargetID = None, ale_UserID = None, ale_Options = None,
     ale_Reason = [], ale_Changes = None, ale_ID = 0, ale_ActionType = 0 \<rparr>, gale_GuildID = 0 \<rparr>"

definition zero_GuildBan :: GuildBan where
  "zero_GuildBan = \<lparr> ban_GuildID = None, ban_Reason = [], ban_User = zero_User \<rparr>"

definition zero_GuildEmojisUpdate :: GuildEmojisUpdate where
  "zero_GuildEmojisUpdate = \<lparr> geu_Emojis = None, geu_GuildID = 0 \<rparr>"

definition zero_GuildStickersUpdate :: GuildStickersUpdate where
  "zero_GuildStickersUpdate = \<lparr> gsu_Stickers = None, gsu_GuildID = 0 \<rparr>"

definition zero_GuildIntegrationsUpdate :: GuildIntegrationsUpdate where
  "zero_GuildIntegrationsUpdate = \<lparr> giu_GuildID = 0 \<rparr>"

definition zero_GuildMemberRemove :: GuildMemberRemove where
  "zero_GuildMemberRemove = \<lparr> gmr_User = zero_User, gmr_GuildID = 0 \<rparr>"

definition zero_GuildRoleCreate :: GuildRoleCreate where
  "zero_GuildRoleCreate = \<lparr> grc_Role = zero_Role, grc_GuildID = 0 \<rparr>"

definition zero_GuildRoleUpdate :: GuildRoleUpdate where
  "zero_GuildRoleUpdate = \<lparr> gru_Role = zero_Role, gru_GuildID = 0 \<rparr>"

definition zero_GuildRoleDelete :: GuildRoleDelete where
  "zero_GuildRoleDelete = \<lparr> grd_GuildID = 0, grd_RoleID = 0 \<rparr>"

definition zero_Invite :: Invite where
  "zero_Invite = \<lparr> invite_ExpiresAt = [], invite_CreatedAt = [], invite_ScheduledEvent = None, invite_StageInstance = None,
     invite_Inviter = None, invite_TargetType = None, invite_TargetUser = None, invite_TargetApplication = None, invite_Guild = None,
     invite_Channel = None, invite_GuildID = None, invite_Code = [], invite_ApproximateMemberCount = 0, invite_Uses = 0,
     invite_MaxUses = 0, invite_MaxAge = 0, invite_ApproximatePresenceCount = 0, invite_Temporary = False \<rparr>"

definition zero_Message :: Message where
  "zero_Message = Message \<lparr> msg_WebhookID = None, msg_Member = None, msg_GuildID = None, msg_Thread = None, msg_Interaction = None,
     msg_Flags = None, msg_Application = None, msg_Activity = None, msg_Timestamp = [], msg_EditedTimestamp = [], msg_Content = [],
     msg_Embeds = None, msg_MentionRoles = None, msg_Reactions = None, msg_StickerItems = None, msg_Attachments = None,
     msg_Components = None, msg_MentionChannels = None, msg_Mentions = None, msg_MessageReference = None, msg_Author = zero_User,
     msg_ID = 0, msg_ChannelID = 0, msg_Type = 0, msg_MentionEveryone = False, msg_TTS = False, msg_Pinned = False \<rparr> None"

definition zero_MessageDelete :: MessageDelete where
  "zero_MessageDelete = \<lparr> msgdel_GuildID = None, msgdel_ID = 0, msgdel_ChannelID = 0 \<rparr>"

definition zero_MessageDeleteBulk :: MessageDeleteBulk where
  "zero_MessageDeleteBulk = \<lparr> msgbulk_GuildID = None, msgbulk_IDs = None, msgbulk_ChannelID = 0
     \<rparr>"

definition zero_MessageReactionAdd :: MessageReactionAdd where
  "zero_MessageReactionAdd = \<lparr> mra_Member = None, mra_MessageAuthorID = None, mra_BurstColors = None,
     mra_Emoji = zero_Emoji, mra_UserID = 0, mra_ChannelID = 0, mra_MessageID = 0, mra_GuildID = 0, mra_Type =
     0, mra_Burst = False \<rparr>"

definition zero_MessageReactionRemove :: MessageReactionRemove where
  "zero_MessageReactionRemove = \<lparr> mrr_GuildID = None, mrr_Emoji = zero_Emoji, mrr_Type = 0, mrr_UserID
     = 0, mrr_ChannelID = 0, mrr_MessageID = 0, mrr_Burst = False \<rparr>"

definition zero_MessageReactionRemoveAll :: MessageReactionRemoveAll where
  "zero_MessageReactionRemoveAll = \<lparr> mrra_ChannelID = 0, mrra_MessageID = 0, mrra_GuildID = 0 \<rparr>"

definition zero_MessageReactionRemoveEmoji :: MessageReactionRemoveEmoji where
  "zero_MessageReactionRemoveEmoji = \<lparr> mrre_GuildID = None, mrre_Emoji = zero_Emoji, mrre_ChannelID =
     0, mrre_MessageID = 0 \<rparr>"

definition zero_ClientStatus :: ClientStatus where
  "zero_ClientStatus = \<lparr> cst_Desktop = [], cst_Mobile = [], cst_Web = [] \<rparr>"

definition zero_PresenceUpdate :: PresenceUpdate where
  "zero_PresenceUpdate = \<lparr> pres_ClientStatus = zero_ClientStatus, pres_Status = [], pres_Activities =
     None, pres_User = zero_User, pres_GuildID = 0 \<rparr>"

definition zero_TypingStart :: TypingStart where
  "zero_TypingStart = \<lparr> ts_GuildID = None, ts_Member = None, ts_ChannelID = 0, ts_UserID = 0,
     ts_Timestamp = 0 \<rparr>"

definition zero_WildcardPayload :: WildcardPayload where
  "zero_WildcardPayload = \<lparr> wc_GuildID = None, wc_UserID = None \<rparr>"

definition zero_Entitlement :: Entitlement where
  "zero_Entitlement = \<lparr> ent_UserID = None, ent_GiftCodeFlags = None, ent_StartsAt = None, ent_EndsAt =
     None, ent_GuildID = None, ent_SubscriptionID = None, ent_ID = 0, ent_SkuID = 0, ent_ApplicationID = 0,
     ent_Type = 0, ent_Deleted = False \<rparr>"

definition zero_UpdateStatus :: UpdateStatus where
  "zero_UpdateStatus = \<lparr> us_Status = [], us_Activities = None, us_Since = 0, us_AFK = False \<rparr>"

section \<open>A library\<close>

definition reject :: "'p \<Rightarrow> 'p decoder" where
  "reject p = (\<lambda>_. (p, Some (ErrLib ''unexpected payload'')))"

definition accept :: "'p \<Rightarrow> 'p decoder" where
  "accept p = (\<lambda>_. (p, None))"

definition sample_lib :: lib where
  "sample_lib = \<lparr>
     lib_rfc3339 = (\<lambda>_. True),
     lib_marshal = (\<lambda>_. Inr ''{}''),
     lib_publish = (\<lambda>_ _. None),
     lib_randomHex = ''c0ffee'',
     lib_marshal_sent = (\<lambda>_ _. Inr ''{}''),
     lib_marshal_status = (\<lambda>_. Inr ''{}''),
     lib_hash = (\<lambda>_. ''5f4dcc''),
     lib_url_ok = (\<lambda>_. True),
     lib_marshal_identify = (\<lambda>_. None),
     lib_identify_service = (\<lambda>_ _. [Inr (\<lparr> ir_Message = [], ir_Wait = 0, ir_Success = True \<rparr>, None)]),
     lib_goos = ''linux'',
     lib_error_text = (\<lambda>_. []),
     lib_gatewayURL = ''wss://gateway.discord.gg'',
     lib_identifyURL = ''http://identify'',
     dec_Hello = reject zero_Hello,
     dec_resumable = reject False,
     dec_Ready = reject zero_Ready,
     dec_Guild = reject zero_Guild,
     dec_UnavailableGuild = reject zero_UnavailableGuild,
     dec_GuildMembersChunk = reject zero_GuildMembersChunk,
     dec_Channel = reject zero_Channel,
     dec_ChannelPinsUpdate = reject zero_ChannelPinsUpdate,
     dec_AuditLogEntry = reject zero_GuildAuditLogEntryCreate,
     dec_GuildBan = reject zero_GuildBan,
     dec_GuildEmojisUpdate = reject zero_GuildEmojisUpdate,
     dec_GuildStickersUpdate = reject zero_GuildStickersUpdate,
     dec_GuildIntegrationsUpdate = reject zero_GuildIntegrationsUpdate,
     dec_GuildMember = reject zero_GuildMember,
     dec_GuildMemberRemove = reject zero_GuildMemberRemove,
     dec_GuildRoleCreate = reject zero_GuildRoleCreate,
     dec_GuildRoleUpdate = reject zero_GuildRoleUpdate,
     dec_GuildRoleDelete = reject zero_GuildRoleDelete,
     dec_Invite = reject zero_Invite,
     dec_Message = reject zero_Message,
     dec_MessageDelete = reject zero_MessageDelete,
     dec_MessageDeleteBulk = reject zero_MessageDeleteBulk,
     dec_MessageReactionAdd = reject zero_MessageReactionAdd,
     dec_MessageReactionRemove = reject zero_MessageReactionRemove,
     dec_MessageReactionRemoveAll = reject zero_MessageReactionRemoveAll,
     dec_MessageReactionRemoveEmoji = reject zero_MessageReactionRemoveEmoji,
     dec_PresenceUpdate = reject zero_PresenceUpdate,
     dec_TypingStart = reject zero_TypingStart,
     dec_User = reject zero_User,
     dec_VoiceState = reject zero_VoiceState,
     dec_Wildcard = reject zero_WildcardPayload,
     dec_Entitlement = reject zero_Entitlement \<rparr>"

section \<open>A daemon\<close>

definition sample_config :: ManagerConfiguration where
  "sample_config = \<lparr> mc_ShardIDs = [], mc_ShardCount = 1, mc_AutoSharded = True,
     mc_Identifier = ''main'', mc_ProducerIdentifier = ''main'', mc_Token = ''token'', mc_FriendlyName = ''Main'',
     mc_EventBlacklist = None,
     mc_ProduceBlacklist = None, mc_ClientName = ''sandwich'', mc_ChannelName = ''events'', mc_UseRandomSuffix = False, mc_Intents = 0, mc_DefaultPresence = zero_UpdateStatus,
     mc_ChunkGuildsOnStartup = False, mc_CacheUsers = True, mc_CacheMembers = True, mc_StoreMutuals = True,
     mc_AutoStart = True, mc_DisableTrace = False,
     mc_VirtualShards = \<lparr> vsc_Enabled = True, vsc_Count = 8, vsc_DmShard = 0 \<rparr>, mc_GatewayBotMaxConcurrency = 0 \<rparr>"

definition sample_metadata :: SandwichMetadata where
  "sample_metadata = \<lparr> md_Version = ''v'', md_Identifier = ''main'', md_Application = ''main'',
     md_ApplicationID = 1, md_Shard = (1, 0, 1) \<rparr>"

definition sample_manager :: Manager where
  "sample_manager = \<lparr> mg_hasProducer = True, mg_ProducerClosed = False, mg_ProducerType = ''websocket'', mg_Error = [], mg_Identifier = ''main'', mg_Configuration = sample_config,
     mg_IsClosing = False, mg_UserID = 1, mg_metadata = sample_metadata, mg_eventBlacklist = [],
     mg_produceBlacklist = [], mg_ClientToken = ''token'', mg_GatewayURL = ''wss://gateway.discord.gg'', mg_GatewayShards = 2,
     mg_GatewayTotal = 1000, mg_GatewayRemaining = 1000, mg_GatewayResetAfter = 0, mg_GatewayMaxConcurrency = 1,
     mg_User = zero_User, mg_noShards = 1 \<rparr>"

definition sample_group :: ShardGroup where
  "sample_group = \<lparr> sg_Error = [], sg_WaitingFor = 0, sg_User = None, sg_Guilds = NewCache 50,
     sg_ShardIDs = [0], sg_ID = 1, sg_ShardCount = 1, sg_Status = ShardGroupStatusConnected,
     sg_floodgate = True, sg_allShardsReady = True \<rparr>"

definition sample_shard :: Shard where
  "sample_shard = \<lparr> sh_RetriesRemaining = 10, sh_ResumeGatewayURL = [], sh_HeartbeatActive = True,
     sh_LastHeartbeatAck = 0, sh_LastHeartbeatSent = 0, sh_Unavailable = NewCache 0, sh_Lazy = NewCache 0,
     sh_Guilds = NewCache 0, sh_Sequence = 0, sh_SessionID = [], sh_wsConn = Some 0, sh_ready = False,
     sh_metadata = sample_metadata, sh_HeartbeatInterval = 0, sh_HeartbeatFailureInterval = 0,
     sh_ShardID = 0, sh_Status = ShardStatusReady, sh_IsReady = True \<rparr>"

definition sample_env :: env where
  "sample_env = \<lparr> env_State = NewSandwichState, env_Dedupe = [], env_guildChunks = NewCache 50,
     env_Manager = sample_manager, env_ShardGroup = sample_group, env_Shard = sample_shard,
     env_now = 1700000000, env_dispatchCount = (\<lambda>_. 0), env_log = [], env_inbox = [], env_chunks = [],
     env_dials = [], env_writes = [], env_fresh = 1, env_ctx = 0, env_ctx_done = False \<rparr>"

lemmas sample_defs = sample_env_def sample_shard_def sample_group_def sample_manager_def sample_config_def
  sample_metadata_def

definition sample_msg :: "string \<Rightarrow> GatewayPayload" where
  "sample_msg t = \<lparr> gp_Type = t, gp_Data = ''{}'', gp_Sequence = 7, gp_Op = GatewayOpDispatch \<rparr>"

end
