(* ===== verification/Routing.thy ===== *)
theory Routing
  imports Handler Sample
begin

text \<open>
  How an event finds its consumer: the routing functions of \<^verbatim>\<open>internal/manager.go\<close>, the publishing of a
  shard's events (\<^verbatim>\<open>internal/messaging.go\<close>) and of global events (\<^verbatim>\<open>internal/sandwich.go\<close>).

  A payload holds its metadata by pointer. \<open>RoutePayloadToConsumer\<close> writes the shard triple through that
  pointer; for a shard's event it is the shard's own metadata, so \<open>PublishEvent\<close> stores it back. The
  producer is a third-party client (or the websocket server of the theory \<open>Chat_Server\<close>): its result is
  \<open>lib_publish\<close>, and what it is given is logged.
\<close>

section \<open>Shard counts\<close>

definition ConsumerShardCount :: "Manager \<Rightarrow> int32" where
  "ConsumerShardCount mg =
     (if vsc_Enabled (mc_VirtualShards (mg_Configuration mg))
      then vsc_Count (mc_VirtualShards (mg_Configuration mg))
      else mg_noShards mg)"

text \<open>\<^verbatim>\<open>for i := int32(0); i < shardCount; i++\<close> appends every shard ID: \<open>range_loop\<close> without a bound of its own.\<close>

definition getInitialShardCount ::
    "int32 \<Rightarrow> string \<Rightarrow> bool \<Rightarrow> Manager \<Rightarrow> (int32 list \<times> int32) \<times> Manager" where
  "getInitialShardCount customShardCount customShardIDs autoSharded mg =
     (let (shardIDs, shardCount) =
        (if autoSharded then
           let shardCount = mg_GatewayShards mg in
           (if customShardIDs = [] then range_loop 0 shardCount shardCount
            else returnRangeInt32 customShardIDs shardCount, shardCount)
         else (returnRangeInt32 customShardIDs customShardCount, customShardCount))
      in ((shardIDs, shardCount), mg\<lparr>mg_noShards := shardCount\<rparr>))"

definition AllReady :: "bool \<Rightarrow> (int32 \<times> ShardGroup) list \<Rightarrow> bool" where
  "AllReady isClosing shardGroups =
     (if length shardGroups = 0 \<or> isClosing then False
      else range_until (\<lambda>_ sg isReady. if \<not> sg_allShardsReady sg then (True, False) else (False, isReady))
             shardGroups True)"

section \<open>Routing\<close>

definition set_shard :: "SandwichPayload \<Rightarrow> int32 \<times> int32 \<times> int32 \<Rightarrow> (go_error option \<times> SandwichPayload) res" where
  "set_shard payload sh =
     (case sp_Metadata payload of
        None \<Rightarrow> Panic ''nil pointer dereference''
      | Some md \<Rightarrow> Ok (None, payload\<lparr>sp_Metadata := Some (md\<lparr>md_Shard := sh\<rparr>)\<rparr>))"

definition RoutePayloadToConsumer ::
    "Manager \<Rightarrow> SandwichPayload \<Rightarrow> (go_error option \<times> SandwichPayload) res" where
  "RoutePayloadToConsumer mg payload =
     (let vs = mc_VirtualShards (mg_Configuration mg) in
      if \<not> vsc_Enabled vs then Ok (None, payload)
      else case sp_EventDispatchIdentifier payload of
        None \<Rightarrow> Ok (Some (ErrNew ''eventDispatchIdentifier is nil and cannot be remapped''), payload)
      | Some edi \<Rightarrow>
          if edi_GloballyRouted edi then set_shard payload (0, 0, 0)
          else case edi_GuildID edi of
            Some g \<Rightarrow>
              if g \<noteq> 0 then set_shard payload (0, GetShardIdOfGuild g (vsc_Count vs), vsc_Count vs)
              else set_shard payload (0, vsc_DmShard vs, vsc_Count vs)
          | None \<Rightarrow> set_shard payload (0, vsc_DmShard vs, vsc_Count vs))"

text \<open>
  A producer can be given packets when there is one and its connection is there: all but the one for JetStream forget
  theirs when they are closed and dereference it when they are used again, as the theory \<open>Broker\<close> shows.
\<close>

definition producer_usable :: "Manager \<Rightarrow> bool" where
  "producer_usable mg \<longleftrightarrow> mg_hasProducer mg \<and> (mg_ProducerClosed mg \<longrightarrow> mg_ProducerType mg = ''jetstream'')"

text \<open>\<^verbatim>\<open>Shard.PublishEvent\<close>.\<close>

definition with_publish_trace :: "bool \<Rightarrow> int64 \<Rightarrow> SandwichTrace option \<Rightarrow> SandwichTrace option" where
  "with_publish_trace disableTrace now tr =
     (if disableTrace then tr
      else Some ((case tr of None \<Rightarrow> Map.empty | Some t \<Rightarrow> t)(''publish'' \<mapsto> now)))"

definition PublishEvent :: "lib \<Rightarrow> SandwichPayload \<Rightarrow> (env, go_error option) prog" where
  "PublishEvent lb packet =
     bnd (rd (\<lambda>e. packet\<lparr>sp_Metadata := Some (sh_metadata (env_Shard e)),
                      sp_Trace := with_publish_trace (mc_DisableTrace (mg_Configuration (env_Manager e)))
                                    (env_now e) (sp_Trace packet)\<rparr>)) (\<lambda>packet.
     bnd (lift_res (\<lambda>e. RoutePayloadToConsumer (env_Manager e) packet)) (\<lambda>(err, packet).
     bnd (upd (on_Shard (\<lambda>sh. case sp_Metadata packet of
                               None \<Rightarrow> sh | Some md \<Rightarrow> sh\<lparr>sh_metadata := md\<rparr>))) (\<lambda>_.
     case err of
       Some e \<Rightarrow> ret (Some (ErrWrap ''publishEvent RoutePayloadToConsumer'' e))
     | None \<Rightarrow>
         bnd (rd (\<lambda>e. producer_usable (env_Manager e))) (\<lambda>usable.
         if \<not> usable then panic ''nil pointer dereference''
         else
         bnd (rd (\<lambda>e. mc_ChannelName (mg_Configuration (env_Manager e)))) (\<lambda>channelName.
         bnd (upd (emit (EfPublish packet channelName))) (\<lambda>_.
         case lib_publish lb packet channelName of
           Some e \<Rightarrow> ret (Some (ErrWrap ''publishEvent publish'' e))
         | None \<Rightarrow> ret None))))))"

text \<open>
  \<^verbatim>\<open>Sandwich.PublishGlobalEvent\<close>: one packet, routed and published for every manager in turn. The result
  is the list of publications, and a panic when a manager has no producer yet.
\<close>

definition VERSION :: string where "VERSION = ''1.19.0-antiraid''"

definition global_packet :: "string \<Rightarrow> bytes \<Rightarrow> SandwichPayload" where
  "global_packet eventType payload =
     \<lparr> sp_Extra = Map.empty,
       sp_Metadata = Some \<lparr> md_Version = VERSION, md_Identifier = [], md_Application = [],
                            md_ApplicationID = 0, md_Shard = (0, 0, 0) \<rparr>,
       sp_Trace = None, sp_Type = eventType, sp_Data = payload, sp_Sequence = 0,
       sp_Op = GatewayOpDispatch,
       sp_EventDispatchIdentifier =
         Some \<lparr> edi_GuildID = None, edi_UserID = None, edi_GloballyRouted = True \<rparr> \<rparr>"

fun publish_all ::
    "Manager list \<Rightarrow> (SandwichPayload \<times> (SandwichPayload \<times> string) list, unit) prog" where
  "publish_all [] s = (Ok (), s)"
| "publish_all (manager # ms) (packet, out) =
     (case RoutePayloadToConsumer manager packet of
        Panic why \<Rightarrow> (Panic why, (packet, out))
      | Ok (_, packet') \<Rightarrow>
          if \<not> producer_usable manager then (Panic ''nil pointer dereference'', (packet', out))
          else publish_all ms
                 (packet', out @ [(packet', mc_ChannelName (mg_Configuration manager))]))"

definition PublishGlobalEvent ::
    "Manager list \<Rightarrow> string \<Rightarrow> bytes \<Rightarrow> unit res \<times> (SandwichPayload \<times> string) list" where
  "PublishGlobalEvent managers eventType payload =
     (case publish_all managers (global_packet eventType payload, []) of (r, (_, out)) \<Rightarrow> (r, out))"

section \<open>Properties of the routing\<close>

text \<open>The shard triple a payload should be routed to, as \<^verbatim>\<open>README.md\<close> describes virtual sharding.\<close>

definition route_spec :: "VirtualShardsConfig \<Rightarrow> EventDispatchIdentifier \<Rightarrow> int32 \<times> int32 \<times> int32" where
  "route_spec vs edi =
     (if edi_GloballyRouted edi then (0, 0, 0)
      else (0, if edi_GuildID edi \<in> {None, Some 0} then vsc_DmShard vs
               else word_of_int ((sint (the (edi_GuildID edi)) div 2 ^ 22) smod sint (vsc_Count vs)),
            vsc_Count vs))"

text \<open>C26. With virtual shards on, every identified payload with metadata is routed as specified.\<close>

theorem route_meets_spec:
  assumes "vsc_Enabled (mc_VirtualShards (mg_Configuration mg))"
    and "0 < sint (vsc_Count (mc_VirtualShards (mg_Configuration mg)))"
    and "sp_EventDispatchIdentifier p = Some edi" and "sp_Metadata p = Some md"
  shows "RoutePayloadToConsumer mg p = Ok (None, p\<lparr>sp_Metadata :=
     Some (md\<lparr>md_Shard := route_spec (mc_VirtualShards (mg_Configuration mg)) edi\<rparr>)\<rparr>)"
  using assms
  by (auto simp: RoutePayloadToConsumer_def Let_def set_shard_def route_spec_def GetShardIdOfGuild_def
      sint_shift22 not_le split: option.splits)

lemma global_route:
  "RoutePayloadToConsumer mg (global_packet t d) = Ok (None, global_packet t d)"
  by (simp add: RoutePayloadToConsumer_def Let_def set_shard_def global_packet_def)

lemma publish_all_global:
  assumes "\<forall>m \<in> set ms. producer_usable m"
  shows "publish_all ms (global_packet t d, out) =
     (Ok (), (global_packet t d, out @ map (\<lambda>m. (global_packet t d, mc_ChannelName (mg_Configuration m))) ms))"
  using assms by (induction ms arbitrary: out) (simp_all add: global_route)

text \<open>A global event reaches every manager, in order, with the shard triple \<open>(0, 0, 0)\<close>.\<close>

lemma global_event_reaches_all:
  assumes "\<forall>m \<in> set ms. producer_usable m"
  shows "PublishGlobalEvent ms t d =
     (Ok (), map (\<lambda>m. (global_packet t d, mc_ChannelName (mg_Configuration m))) ms)"
  by (simp add: PublishGlobalEvent_def publish_all_global [OF assms])

text \<open>Every shard ID a manager starts with is below its shard count, whatever the configuration says.\<close>

lemma initial_shards_in_range:
  assumes "getInitialShardCount cnt ids auto mg = ((shardIDs, shardCount), mg')" and "x \<in> set shardIDs"
  shows "0 \<le> sint x \<and> sint x < sint shardCount \<and> mg_noShards mg' = shardCount"
proof -
  have "\<And>x s mx. x \<in> set (returnRangeInt32 s mx) \<Longrightarrow> 0 \<le> sint x \<and> sint x < sint mx"
    by (auto simp: returnRangeInt32_def range_part_def Let_def split: sum.splits if_splits
      dest: set_range_loop)
  then show ?thesis
    using assms by (auto simp: getInitialShardCount_def Let_def dest: set_range_loop split: if_splits)
qed

lemma initial_shards_auto:
  assumes "0 \<le> sint (mg_GatewayShards mg)"
  shows "map sint (fst (fst (getInitialShardCount cnt [] True mg))) = [0 .. sint (mg_GatewayShards mg) - 1]"
proof -
  have "filter (\<lambda>k. 0 \<le> k \<and> k < n) [0 .. n - 1] = [0 .. n - 1]" for n :: int
    by (rule filter_True) auto
  then show ?thesis
    using assms by (simp add: getInitialShardCount_def Let_def range_loop_upto)
qed

lemma AllReady_iff:
  "AllReady closing sgs \<longleftrightarrow> sgs \<noteq> [] \<and> \<not> closing \<and> (\<forall>sg \<in> snd ` set sgs. sg_allShardsReady sg)"
proof -
  have "range_until (\<lambda>_ sg isReady. if \<not> sg_allShardsReady sg then (True, False) else (False, isReady)) xs b
      \<longleftrightarrow> b \<and> (\<forall>sg \<in> snd ` set xs. sg_allShardsReady sg)" if "b" for b and xs :: "(int32 \<times> ShardGroup) list"
    using that by (induction xs) (auto split: if_splits)
  then show ?thesis by (auto simp: AllReady_def)
qed

section \<open>The properties at work\<close>

definition sample_guild_packet :: SandwichPayload where
  "sample_guild_packet = (global_packet ''MESSAGE_CREATE'' [])\<lparr>sp_EventDispatchIdentifier :=
     Some \<lparr> edi_GuildID = Some (5 * 2 ^ 22), edi_UserID = None, edi_GloballyRouted = False \<rparr>\<rparr>"

theorem route_meets_spec_witness:
  "route_spec (mc_VirtualShards (mg_Configuration sample_manager))
     \<lparr> edi_GuildID = Some (5 * 2 ^ 22), edi_UserID = None, edi_GloballyRouted = False \<rparr> = (0, 5, 8)
   \<and> RoutePayloadToConsumer sample_manager sample_guild_packet = Ok (None, sample_guild_packet\<lparr>sp_Metadata :=
     map_option (\<lambda>md. md\<lparr>md_Shard := (0, 5, 8)\<rparr>) (sp_Metadata sample_guild_packet)\<rparr>)"
proof -
  have spec: "route_spec (mc_VirtualShards (mg_Configuration sample_manager))
     \<lparr> edi_GuildID = Some (5 * 2 ^ 22), edi_UserID = None, edi_GloballyRouted = False \<rparr> = (0, 5, 8)"
    by code_simp
  show ?thesis
    using spec route_meets_spec [of sample_manager sample_guild_packet
        "\<lparr> edi_GuildID = Some (5 * 2 ^ 22), edi_UserID = None, edi_GloballyRouted = False \<rparr>"
        "the (sp_Metadata sample_guild_packet)"]
    by (simp add: sample_defs sample_guild_packet_def global_packet_def)
qed

theorem initial_shards_in_range_witness:
  "(1 :: int32) \<in> set (fst (fst (getInitialShardCount 0 [] True sample_manager)))
   \<and> 0 \<le> sint (1 :: int32) \<and> sint (1 :: int32) < sint (snd (fst (getInitialShardCount 0 [] True sample_manager)))"
proof -
  have mem: "(1 :: int32) \<in> set (fst (fst (getInitialShardCount 0 [] True sample_manager)))"
    by code_simp
  then show ?thesis
    using initial_shards_in_range [of 0 "[]" True sample_manager
        "fst (fst (getInitialShardCount 0 [] True sample_manager))"
        "snd (fst (getInitialShardCount 0 [] True sample_manager))"
        "snd (getInitialShardCount 0 [] True sample_manager)" 1] by simp
qed

end
