(* ===== verification/Lifecycle.thy ===== *)
theory Lifecycle
  imports Routing Dispatch_Message
begin

text \<open>
  \<^verbatim>\<open>internal/shard.go\<close>: creating a shard, reading and writing its websocket, identifying, resuming,
  connecting, closing and reconnecting.

  Connections are named by \<open>env_fresh\<close>; the outcomes of dials, writes and reads are the scripts of \<open>env\<close>,
  and what is written is logged. The clock has a resolution of one second. The shard's own context is
  \<open>env_ctx\<close>: \<open>Connect\<close> cancels and replaces it, \<open>Close\<close> cancels it; the cancellation of the manager's context appears
  as the errors of the scripts. \<open>WriteJSON\<close> reconnects when there is no connection
  and \<open>Connect\<close> writes, so the code is mutually recursive: \<open>WriteJSON\<close> takes the reconnection as its
  argument \<open>rc\<close>, and \<open>Connect_rc\<close> shows that inside \<open>Connect\<close> it is never used.
\<close>

definition ShardConnectRetries :: int32 where "ShardConnectRetries = 10"
definition ShardMaxHeartbeatFailures :: int where "ShardMaxHeartbeatFailures = 50"
definition WebsocketReconnectCloseCode :: int where "WebsocketReconnectCloseCode = 4000"
definition StatusNormalClosure :: int where "StatusNormalClosure = 1000"
definition GatewayLargeThreshold :: int32 where "GatewayLargeThreshold = 250"

definition now_ms :: "env \<Rightarrow> int" where "now_ms e = sint (env_now e) * 1000"

section \<open>Creating a shard\<close>

definition NewShard :: "ShardGroup \<Rightarrow> Manager \<Rightarrow> int32 \<Rightarrow> Shard" where
  "NewShard sg mg shardID = \<lparr>
     sh_RetriesRemaining = ShardConnectRetries,
     sh_ResumeGatewayURL = [],
     sh_HeartbeatActive = False,
     sh_LastHeartbeatAck = 0,
     sh_LastHeartbeatSent = 0,
     sh_Unavailable = NewCache 0,
     sh_Lazy = NewCache 0,
     sh_Guilds = NewCache 0,
     sh_Sequence = 0,
     sh_SessionID = [],
     sh_wsConn = None,
     sh_ready = False,
     sh_metadata = \<lparr> md_Version = VERSION,
                     md_Identifier = mc_ProducerIdentifier (mg_Configuration mg),
                     md_Application = mg_Identifier mg,
                     md_ApplicationID = mg_UserID mg,
                     md_Shard = (sg_ID sg, shardID, sg_ShardCount sg) \<rparr>,
     sh_HeartbeatInterval = 0,
     sh_HeartbeatFailureInterval = 0,
     sh_ShardID = shardID,
     sh_Status = ShardStatusIdle,
     sh_IsReady = False \<rparr>"

section \<open>Reading and writing\<close>

definition hasWsConn :: "Shard \<Rightarrow> bool" where
  "hasWsConn sh \<longleftrightarrow> sh_wsConn sh \<noteq> None"

text \<open>A read skips expired tickers, which only \<^verbatim>\<open>OnReady\<close> looks at.\<close>

fun next_read :: "read_event list \<Rightarrow> (go_error + GatewayPayload) \<times> read_event list" where
  "next_read [] = (Inl ErrContextCanceled, [])"
| "next_read (RdTimeout # rest) = next_read rest"
| "next_read (RdMsg msg # rest) = (Inr msg, rest)"
| "next_read (RdErr err # rest) = (Inl err, rest)"

definition readMessage :: "(env, go_error + GatewayPayload) prog" where
  "readMessage =
     bnd (rd (\<lambda>e. hasWsConn (env_Shard e))) (\<lambda>present.
     if \<not> present then panic ''nil pointer dereference''
     else act (\<lambda>e. case next_read (env_inbox e) of (r, rest) \<Rightarrow> (r, e\<lparr>env_inbox := rest\<rparr>)))"

fun pop :: "'a option list \<Rightarrow> 'a option \<times> 'a option list" where
  "pop [] = (None, [])"
| "pop (x # xs) = (x, xs)"

definition wsWrite :: "nat \<Rightarrow> bytes \<Rightarrow> env \<Rightarrow> go_error option \<times> env" where
  "wsWrite conn b e =
     (case pop (env_writes e) of
        (None, rest) \<Rightarrow> (None, emit (EfWrite conn b) (e\<lparr>env_writes := rest\<rparr>))
      | (Some err, rest) \<Rightarrow> (Some err, e\<lparr>env_writes := rest\<rparr>))"

definition wrap :: "string \<Rightarrow> go_error option \<Rightarrow> go_error option" where
  "wrap m err = (case err of None \<Rightarrow> None | Some e \<Rightarrow> Some (ErrWrap m e))"

text \<open>
  \<^verbatim>\<open>fmt.Errorf\<close> builds an error whatever \<open>rc\<close> returned, so a missing connection is an error even after a
  successful reconnection. The deferred function recovers from every panic and the call then returns nil.
\<close>

definition WriteJSON ::
    "(int \<Rightarrow> (env, go_error option) prog) \<Rightarrow> lib \<Rightarrow> GatewayOp \<Rightarrow> sent_data \<Rightarrow> (env, go_error option) prog" where
  "WriteJSON rc lb op i =
     recovered None
     (bnd (rd (\<lambda>e. hasWsConn (env_Shard e))) (\<lambda>present.
      if \<not> present then
        bnd (rc WebsocketReconnectCloseCode) (\<lambda>err.
        ret (Some (case err of
                     None \<Rightarrow> ErrNew ''no websocket connection: %!w(<nil>)''
                   | Some e \<Rightarrow> ErrWrap ''no websocket connection'' e)))
      else case lib_marshal_sent lb op i of
        Inl err \<Rightarrow> ret (Some (ErrWrap ''failed to marshal payload'' (ErrNew err)))
      | Inr b \<Rightarrow>
          bnd (bnd (rd (\<lambda>e. sh_wsConn (env_Shard e))) deref) (\<lambda>wsConn.
          bnd (act (wsWrite wsConn b)) (\<lambda>err.
          ret (wrap ''failed to write message'' err)))))"

definition SendEvent ::
    "(int \<Rightarrow> (env, go_error option) prog) \<Rightarrow> lib \<Rightarrow> GatewayOp \<Rightarrow> sent_data \<Rightarrow> (env, go_error option) prog" where
  "SendEvent rc lb op i =
     bnd (WriteJSON rc lb op i) (\<lambda>err. ret (wrap ''sendEvent writeJson'' err))"

section \<open>Identifying and resuming\<close>

text \<open>\<^verbatim>\<open>strings.ReplaceAll\<close> with a non-empty pattern.\<close>

function ReplaceAll :: "string \<Rightarrow> string \<Rightarrow> string \<Rightarrow> string" where
  "ReplaceAll s old new =
     (if old = [] \<or> s = [] then s
      else if take (length old) s = old then new @ ReplaceAll (drop (length old) s) old new
      else hd s # ReplaceAll (tl s) old new)"
  by pat_completeness auto
termination
  by (relation "measure (\<lambda>(s, _). length s)") auto

declare ReplaceAll.simps [simp del]

definition fill_name :: "int32 \<Rightarrow> int32 \<Rightarrow> string \<Rightarrow> string" where
  "fill_name shardID shardGroupID s =
     ReplaceAll (ReplaceAll s ''{{shard_id}}'' (format_int (sint shardID)))
       ''{{shardgroup_id}}'' (format_int (sint shardGroupID))"

definition fillInUpdateStatus :: "int32 \<Rightarrow> int32 \<Rightarrow> UpdateStatus \<Rightarrow> UpdateStatus" where
  "fillInUpdateStatus shardID shardGroupID us =
     us\<lparr>us_Activities := map_option (map (\<lambda>a. a\<lparr>actv_Name := fill_name shardID shardGroupID (actv_Name a),
                                            actv_State := fill_name shardID shardGroupID (actv_State a)\<rparr>))
                         (us_Activities us)\<rparr>"

text \<open>
  \<^verbatim>\<open>UpdateStatus\<close> is passed by value but its activities are a slice: filling them in writes to the array
  that the manager's configuration holds too. \<open>fill_presence\<close> returns the status and updates both.
\<close>

definition fill_presence :: "(env, UpdateStatus) prog" where
  "fill_presence = act (\<lambda>e.
     let us = fillInUpdateStatus (sh_ShardID (env_Shard e)) (sg_ID (env_ShardGroup e))
                (mc_DefaultPresence (mg_Configuration (env_Manager e)))
     in (us, on_Manager (\<lambda>mg. mg\<lparr>mg_Configuration := (mg_Configuration mg)\<lparr>mc_DefaultPresence := us\<rparr>\<rparr>) e))"

text \<open>
  \<^verbatim>\<open>WaitForIdentify\<close>: without an identify URL it waits for the bucket of the shard modulo the maximum concurrency; with
  one it asks that service until it grants the identify, sleeping in between. \<open>identify_retries\<close> goes through the replies.
\<close>

fun identify_retries :: "identify_reply list \<Rightarrow> (env, go_error option) prog" where
  "identify_retries [] = panic out_of_fuel"
| "identify_retries (Inl err # rs) = identify_retries rs"
| "identify_retries (Inr (identifyResponse, Some err) # rs) = identify_retries rs"
| "identify_retries (Inr (identifyResponse, None) # rs) =
     (if ir_Success identifyResponse then ret None else identify_retries rs)"

definition identify_url :: "string \<Rightarrow> IdentifyPayload \<Rightarrow> string" where
  "identify_url identifyURL p =
     ReplaceAll (ReplaceAll (ReplaceAll (ReplaceAll (ReplaceAll identifyURL
       ''{shard_id}'' (format_int (sint (ip_ShardID p))))
       ''{shard_count}'' (format_int (sint (ip_ShardCount p))))
       ''{token}'' (ip_Token p))
       ''{token_hash}'' (ip_TokenHash p))
       ''{max_concurrency}'' (format_int (sint (ip_MaxConcurrency p)))"

definition identify_payload_of :: "lib \<Rightarrow> Manager \<Rightarrow> int32 \<Rightarrow> int32 \<Rightarrow> IdentifyPayload" where
  "identify_payload_of lb mg shardID shardCount =
     \<lparr> ip_Token = mc_Token (mg_Configuration mg), ip_TokenHash = lib_hash lb (mc_Token (mg_Configuration mg)),
       ip_ShardID = shardID, ip_ShardCount = shardCount, ip_MaxConcurrency = mg_GatewayMaxConcurrency mg \<rparr>"

definition WaitForIdentify :: "lib \<Rightarrow> int32 \<Rightarrow> int32 \<Rightarrow> (env, go_error option) prog" where
  "WaitForIdentify lb shardID shardCount =
     (if lib_identifyURL lb = [] then
        bnd (rd (\<lambda>e. mg_GatewayMaxConcurrency (env_Manager e))) (\<lambda>maxConcurrency.
        if maxConcurrency = 0 then panic ''integer divide by zero'' else ret None)
      else
        bnd (rd (\<lambda>e. identify_payload_of lb (env_Manager e) shardID shardCount)) (\<lambda>identifyPayload.
        let sendURL = identify_url (lib_identifyURL lb) identifyPayload in
        if \<not> lib_url_ok lb sendURL then ret (Some (ErrNew ''failed to create valid identify URL: %!w(<nil>)''))
        else
          (case lib_marshal_identify lb identifyPayload of
             Some e \<Rightarrow> ret (Some (ErrWrap ''failed to encode identify payload'' e))
           | None \<Rightarrow> identify_retries (lib_identify_service lb sendURL identifyPayload))))"

definition Identify ::
    "(int \<Rightarrow> (env, go_error option) prog) \<Rightarrow> lib \<Rightarrow> (env, go_error option) prog" where
  "Identify rc lb =
     bnd (upd (on_Manager (\<lambda>mg. mg\<lparr>mg_GatewayRemaining := mg_GatewayRemaining mg - 1\<rparr>))) (\<lambda>_.
     bnd (rd (\<lambda>e. (sh_ShardID (env_Shard e), sg_ShardCount (env_ShardGroup e)))) (\<lambda>(shardID, shardCount).
     bnd (WaitForIdentify lb shardID shardCount) (\<lambda>err.
     case err of
       Some e \<Rightarrow> ret (Some (ErrWrap ''failed to wait for identify'' e))
     | None \<Rightarrow>
         bnd (rd (\<lambda>e. mg_Configuration (env_Manager e))) (\<lambda>cfg.
         bnd fill_presence (\<lambda>presence.
         SendEvent rc lb GatewayOpIdentify (SentIdentify \<lparr>
           idf_Properties = (lib_goos lb, ''Sandwich '' @ VERSION, ''Sandwich '' @ VERSION),
           idf_Presence = Some presence,
           idf_Token = mc_Token cfg,
           idf_Shard = (shardID, shardCount),
           idf_LargeThreshold = GatewayLargeThreshold,
           idf_Intents = mc_Intents cfg,
           idf_Compress = True \<rparr>))))))"

definition Resume ::
    "(int \<Rightarrow> (env, go_error option) prog) \<Rightarrow> lib \<Rightarrow> (env, go_error option) prog" where
  "Resume rc lb =
     bnd (rd (\<lambda>e. \<lparr> rsm_Token = mc_Token (mg_Configuration (env_Manager e)),
                    rsm_SessionID = sh_SessionID (env_Shard e),
                    rsm_Sequence = sh_Sequence (env_Shard e) \<rparr>)) (\<lambda>r.
     SendEvent rc lb GatewayOpResume (SentResume r))"

text \<open>\<open>UpdatePresence\<close> fills in the slice of its caller, who gets it back as well.\<close>

definition UpdatePresence ::
    "(int \<Rightarrow> (env, go_error option) prog) \<Rightarrow> lib \<Rightarrow> UpdateStatus \<Rightarrow> (env, go_error option \<times> UpdateStatus) prog" where
  "UpdatePresence rc lb us =
     bnd (rd (\<lambda>e. fillInUpdateStatus (sh_ShardID (env_Shard e)) (sg_ID (env_ShardGroup e)) us)) (\<lambda>us.
     case lib_marshal_status lb us of
       Inl err \<Rightarrow> ret (Some (ErrWrap ''failed to marshal status'' (ErrNew err)), us)
     | Inr b \<Rightarrow> bnd (SendEvent rc lb GatewayOpStatusUpdate (SentRaw b)) (\<lambda>err. ret (err, us)))"

section \<open>Connecting\<close>

definition dial :: "string \<Rightarrow> (env, go_error option) prog" where
  "dial u = act (\<lambda>e.
     case pop (env_dials e) of
       (Some err, rest) \<Rightarrow>
         (Some (ErrWrap ''failed to connect to websocket'' err),
          on_Shard (\<lambda>sh. sh\<lparr>sh_ResumeGatewayURL := []\<rparr>) (e\<lparr>env_dials := rest\<rparr>))
     | (None, rest) \<Rightarrow>
         (None, emit (EfDial u) (on_Shard (\<lambda>sh. sh\<lparr>sh_wsConn := Some (env_fresh e)\<rparr>)
                  (e\<lparr>env_dials := rest, env_fresh := Suc (env_fresh e)\<rparr>))))"

definition CloseWS :: "int \<Rightarrow> env \<Rightarrow> env" where
  "CloseWS statusCode e =
     (case sh_wsConn (env_Shard e) of
        None \<Rightarrow> e
      | Some conn \<Rightarrow> emit (EfCloseWS conn statusCode) (on_Shard (\<lambda>sh. sh\<lparr>sh_wsConn := None\<rparr>) e))"

text \<open>
  The deferred functions of \<^verbatim>\<open>Connect\<close> look at its variable \<open>err\<close>: they run in reverse order, so the one
  that closes the websocket (and overwrites \<open>err\<close> with the nil that \<^verbatim>\<open>CloseWS\<close> returns) is first, and
  the one that sets the status sees what it leaves. A failed dial and an invalid heartbeat interval return
  an error that is not in that variable. \<open>connect_cleanup\<close> takes the value of the variable.
\<close>

definition connect_cleanup :: "go_error option \<Rightarrow> env \<Rightarrow> env" where
  "connect_cleanup err e =
     (if err = None then e
      else if hasWsConn (env_Shard e) then CloseWS StatusNormalClosure e
      else SetStatus ShardStatusErroring e)"

definition failing :: "go_error \<Rightarrow> (env, go_error option) prog" where
  "failing err = bnd (upd (connect_cleanup (Some err))) (\<lambda>_. ret (Some err))"

definition connect_hello ::
    "(int \<Rightarrow> (env, go_error option) prog) \<Rightarrow> lib \<Rightarrow> (env, go_error option) prog" where
  "connect_hello rc lb =
     bnd readMessage (\<lambda>r.
     case r of
       Inl err \<Rightarrow> failing err
     | Inr msg \<Rightarrow>
     (case decodeContent (dec_Hello lb) msg of
       (_, Some err) \<Rightarrow> failing err
     | (hello, None) \<Rightarrow>
     bnd (upd (\<lambda>e. on_Shard (\<lambda>sh. sh\<lparr>sh_LastHeartbeatAck := now_ms e, sh_LastHeartbeatSent := now_ms e\<rparr>) e)) (\<lambda>_.
     if sint (hello_HeartbeatInterval hello) \<le> 0 then ret (Some ErrInvalidHeartbeatInterval)
     else
     bnd (upd (on_Shard (\<lambda>sh. sh\<lparr>sh_HeartbeatInterval := sint (hello_HeartbeatInterval hello),
            sh_HeartbeatFailureInterval := sint (hello_HeartbeatInterval hello) * ShardMaxHeartbeatFailures\<rparr>))) (\<lambda>_.
     bnd (upd (on_Shard (\<lambda>sh. sh\<lparr>sh_HeartbeatActive := True\<rparr>))) (\<lambda>_.
     bnd (rd (\<lambda>e. (sh_Sequence (env_Shard e), sh_SessionID (env_Shard e)))) (\<lambda>(sequence, sessionID).
     bnd (if sessionID = [] \<or> sequence = 0 then Identify rc lb else Resume rc lb) (\<lambda>err.
     case err of
       Some e \<Rightarrow> failing e
     | None \<Rightarrow>
         bnd (upd (SetStatus ShardStatusConnected)) (\<lambda>_. ret None)))))))) "

definition Connect ::
    "(int \<Rightarrow> (env, go_error option) prog) \<Rightarrow> lib \<Rightarrow> (env, go_error option) prog" where
  "Connect rc lb =
     bnd (upd (\<lambda>e. if GetStatus (env_Shard e) \<noteq> ShardStatusReconnecting
                  then SetStatus ShardStatusConnecting e else e)) (\<lambda>_.
     bnd (upd (on_Shard (\<lambda>sh. if sh_ready sh then sh\<lparr>sh_ready := False, sh_IsReady := True\<rparr> else sh))) (\<lambda>_.
     bnd (upd new_ctx) (\<lambda>_.
     bnd (rd (\<lambda>e. if sh_ResumeGatewayURL (env_Shard e) = [] then lib_gatewayURL lb
                  else sh_ResumeGatewayURL (env_Shard e))) (\<lambda>wsURL.
     bnd (rd (\<lambda>e. hasWsConn (env_Shard e))) (\<lambda>present.
     bnd (if present then ret None else dial wsURL) (\<lambda>err.
     case err of
       Some e \<Rightarrow> ret (Some e)
     | None \<Rightarrow> connect_hello rc lb))))))"

section \<open>Closing and reconnecting\<close>

definition Close :: "int \<Rightarrow> bool \<Rightarrow> env \<Rightarrow> env" where
  "Close code intermittentGwIssue e =
     (let e = on_Shard (\<lambda>sh. sh\<lparr>sh_IsReady := False\<rparr>) e;
          e = SetStatus ShardStatusClosing e;
          e = cancel_ctx e;
          e = CloseWS code e;
          e = (if mg_hasProducer (env_Manager e)
               then emit (EfCloseConsumers (sh_ShardID (env_Shard e)) intermittentGwIssue) e else e)
      in SetStatus ShardStatusClosed e)"

text \<open>
  The loop of \<^verbatim>\<open>Reconnect\<close>, with as much fuel as attempts. \<^verbatim>\<open>RetriesRemaining.Sub(-1)\<close> adds one to the
  counter and returns it; the loop gives up when that is not positive.
\<close>

primrec reconnect_loop :: "nat \<Rightarrow> lib \<Rightarrow> int \<Rightarrow> (env, go_error option) prog" where
  "reconnect_loop 0 lb code = panic out_of_fuel"
| "reconnect_loop (Suc n) lb code =
     bnd (Connect (\<lambda>_. panic out_of_fuel) lb) (\<lambda>err.
     if err = None then
       bnd (upd (on_Shard (\<lambda>sh. sh\<lparr>sh_RetriesRemaining := ShardConnectRetries\<rparr>))) (\<lambda>_. ret None)
     else
       bnd (upd (on_Shard (\<lambda>sh. sh\<lparr>sh_RetriesRemaining := sh_RetriesRemaining sh - (- 1)\<rparr>))) (\<lambda>_.
       bnd (rd (\<lambda>e. sh_RetriesRemaining (env_Shard e))) (\<lambda>retries.
       if sint retries \<le> 0 then
         bnd (upd (Close code False)) (\<lambda>_. Connect (\<lambda>_. panic out_of_fuel) lb)
       else reconnect_loop n lb code)))"

definition Reconnect :: "nat \<Rightarrow> lib \<Rightarrow> int \<Rightarrow> (env, go_error option) prog" where
  "Reconnect fuel lb code =
     bnd (upd (SetStatus ShardStatusReconnecting)) (\<lambda>_.
     bnd (upd (Close code True)) (\<lambda>_.
     reconnect_loop fuel lb code))"

section \<open>Properties\<close>

lemma SetStatus_frame [simp]:
  "sh_Status (env_Shard (SetStatus st e)) = st"
  "sh_wsConn (env_Shard (SetStatus st e)) = sh_wsConn (env_Shard e)"
  "sh_RetriesRemaining (env_Shard (SetStatus st e)) = sh_RetriesRemaining (env_Shard e)"
  "sh_SessionID (env_Shard (SetStatus st e)) = sh_SessionID (env_Shard e)"
  "sh_Sequence (env_Shard (SetStatus st e)) = sh_Sequence (env_Shard e)"
  "sh_ResumeGatewayURL (env_Shard (SetStatus st e)) = sh_ResumeGatewayURL (env_Shard e)"
  "sh_IsReady (env_Shard (SetStatus st e)) = sh_IsReady (env_Shard e)"
  "sh_ready (env_Shard (SetStatus st e)) = sh_ready (env_Shard e)"
  "env_dials (SetStatus st e) = env_dials e"
  "env_inbox (SetStatus st e) = env_inbox e"
  "env_writes (SetStatus st e) = env_writes e"
  "env_Manager (SetStatus st e) = env_Manager e"
  "env_State (SetStatus st e) = env_State e"
  "env_ShardGroup (SetStatus st e) = env_ShardGroup e"
  by (simp_all add: SetStatus_def Let_def)

lemma bnd_cong_at:
  assumes "\<And>x s'. m s = (Ok x, s') \<Longrightarrow> k x s' = k' x s'"
  shows "bnd m k s = bnd m k' s"
  using assms by (simp add: bnd_def split: prod.splits res.splits)

lemma bnd_cong_left: "m s = m' s \<Longrightarrow> bnd m k s = bnd m' k s"
  by (simp add: bnd_def)

lemma readMessage_keeps:
  "readMessage e = (r, e') \<Longrightarrow> env_Shard e' = env_Shard e"
  by (auto simp: readMessage_def bnd_eval panic_def act_def split: if_splits prod.splits)

lemma WriteJSON_rc:
  "hasWsConn (env_Shard e) \<Longrightarrow> WriteJSON rc lb op i e = WriteJSON rc' lb op i e"
  by (simp add: WriteJSON_def recovered_def bnd_eval)

lemma SendEvent_rc:
  "hasWsConn (env_Shard e) \<Longrightarrow> SendEvent rc lb op i e = SendEvent rc' lb op i e"
  by (simp add: SendEvent_def bnd_def WriteJSON_rc [of e rc lb op i rc'])

text \<open>What the service is asked, whether it can be, and whether it grants the identify in the end.\<close>

definition service_asked :: "lib \<Rightarrow> Manager \<Rightarrow> int32 \<Rightarrow> int32 \<Rightarrow> identify_reply list option" where
  "service_asked lb mg shardID shardCount =
     (let p = identify_payload_of lb mg shardID shardCount; url = identify_url (lib_identifyURL lb) p
      in if lib_url_ok lb url \<and> lib_marshal_identify lb p = None then Some (lib_identify_service lb url p) else None)"

definition grants :: "identify_reply list \<Rightarrow> bool" where
  "grants rs \<longleftrightarrow> (\<exists>response. Inr (response, None) \<in> set rs \<and> ir_Success response)"

lemma identify_retries_run: "identify_retries rs e = (if grants rs then (Ok None, e) else (Panic out_of_fuel, e))"
  by (induction rs rule: identify_retries.induct) (auto simp: grants_def ret_def panic_def)

lemma WaitForIdentify_keeps:
  "WaitForIdentify lb i n e = (r, e') \<Longrightarrow> e' = e"
  by (auto simp: WaitForIdentify_def Let_def bnd_eval ret_def panic_def identify_retries_run split: if_splits option.splits)

lemma fill_presence_keeps:
  "fill_presence e = (r, e') \<Longrightarrow> env_Shard e' = env_Shard e"
  by (auto simp: fill_presence_def act_def Let_def)

lemma Identify_rc:
  assumes "hasWsConn (env_Shard e)" shows "Identify rc lb e = Identify rc' lb e"
proof -
  have send: "SendEvent rc lb op i s = SendEvent rc' lb op i s" if "env_Shard s = env_Shard e" for op i s
    using assms that by (intro SendEvent_rc) simp
  show ?thesis
    unfolding Identify_def
    by (auto intro!: bnd_cong_at send simp: upd_def rd_def dest!: WaitForIdentify_keeps fill_presence_keeps
        split: option.splits)
qed

lemma Resume_rc:
  assumes "hasWsConn (env_Shard e)" shows "Resume rc lb e = Resume rc' lb e"
  using assms by (simp add: Resume_def bnd_eval SendEvent_rc [of e rc lb _ _ rc'])

lemma connect_hello_rc: "connect_hello rc lb = connect_hello rc' lb"
proof (rule ext)
  fix e
  show "connect_hello rc lb e = connect_hello rc' lb e"
  proof (cases "hasWsConn (env_Shard e)")
    case False
    then show ?thesis by (simp add: connect_hello_def readMessage_def bnd_eval bnd_def rd_def panic_def)
  next
    case True
    show ?thesis
      unfolding connect_hello_def
      using True
      by (auto intro!: bnd_cong_at bnd_cong_left Identify_rc Resume_rc simp: rd_def upd_def hasWsConn_def
          dest!: readMessage_keeps split: sum.splits option.splits prod.splits if_splits)
  qed
qed

theorem Connect_rc: "Connect rc lb = Connect rc' lb"
  unfolding Connect_def by (simp add: connect_hello_rc [of rc lb rc'])

text \<open>What sending on a live connection does: the shard is left alone and one payload is written.\<close>

lemma SendEvent_live:
  assumes "sh_wsConn (env_Shard e) = Some conn" and "SendEvent rc lb op i e = (r, e')"
  shows "env_Shard e' = env_Shard e \<and> env_Manager e' = env_Manager e \<and>
    (r = Ok None \<longrightarrow> (\<exists>b. lib_marshal_sent lb op i = Inr b \<and> env_log e' = env_log e @ [EfWrite conn b]))"
  using assms
  by (auto simp: SendEvent_def WriteJSON_def recovered_def bnd_eval bnd_def act_def wsWrite_def hasWsConn_def
      ret_def deref_def rd_def wrap_def emit_def split: sum.splits prod.splits option.splits if_splits res.splits)

lemma Resume_live:
  assumes "sh_wsConn (env_Shard e) = Some conn" and "Resume rc lb e = (r, e')"
  shows "env_Shard e' = env_Shard e \<and> (r = Ok None \<longrightarrow> (\<exists>b. lib_marshal_sent lb GatewayOpResume
      (SentResume \<lparr> rsm_Token = mc_Token (mg_Configuration (env_Manager e)),
         rsm_SessionID = sh_SessionID (env_Shard e), rsm_Sequence = sh_Sequence (env_Shard e) \<rparr>) = Inr b
      \<and> env_log e' = env_log e @ [EfWrite conn b]))"
  using assms SendEvent_live [of e conn rc lb] by (auto simp: Resume_def prog_iffs)

definition identify_payload :: "lib \<Rightarrow> env \<Rightarrow> Identify" where
  "identify_payload lb e = \<lparr>
     idf_Properties = (lib_goos lb, ''Sandwich '' @ VERSION, ''Sandwich '' @ VERSION),
     idf_Presence = Some (fillInUpdateStatus (sh_ShardID (env_Shard e)) (sg_ID (env_ShardGroup e))
                            (mc_DefaultPresence (mg_Configuration (env_Manager e)))),
     idf_Token = mc_Token (mg_Configuration (env_Manager e)),
     idf_Shard = (sh_ShardID (env_Shard e), sg_ShardCount (env_ShardGroup e)),
     idf_LargeThreshold = 250,
     idf_Intents = mc_Intents (mg_Configuration (env_Manager e)),
     idf_Compress = True \<rparr>"

lemma Identify_steps:
  assumes "Identify rc lb e = (r, e')"
  shows "(r \<noteq> Ok None \<and> env_Shard e' = env_Shard e) \<or>
    (\<exists>s. env_Shard s = env_Shard e \<and> env_log s = env_log e \<and>
       SendEvent rc lb GatewayOpIdentify (SentIdentify (identify_payload lb e)) s = (r, e'))"
proof -
  let ?e1 = "on_Manager (\<lambda>mg. mg\<lparr>mg_GatewayRemaining := mg_GatewayRemaining mg - 1\<rparr>) e"
  obtain w s where w: "WaitForIdentify lb (sh_ShardID (env_Shard e)) (sg_ShardCount (env_ShardGroup e)) ?e1 = (w, s)"
    by fastforce
  then have s: "s = ?e1" by (rule WaitForIdentify_keeps)
  show ?thesis
  proof (cases w)
    case (Panic why)
    then show ?thesis using assms w s by (auto simp: Identify_def bnd_eval bnd_Panic)
  next
    case (Ok err)
    then show ?thesis
    proof (cases err)
      case None
      then have "Identify rc lb e = bnd fill_presence (\<lambda>presence. SendEvent rc lb GatewayOpIdentify
          (SentIdentify (identify_payload lb e\<lparr>idf_Presence := Some presence\<rparr>))) ?e1"
        using Ok w s by (simp add: Identify_def bnd_eval bnd_Ok identify_payload_def GatewayLargeThreshold_def)
      also have "\<dots> = SendEvent rc lb GatewayOpIdentify (SentIdentify (identify_payload lb e)) (snd (fill_presence ?e1))"
        by (simp add: fill_presence_def act_def bnd_def Let_def identify_payload_def)
      finally show ?thesis
        using assms by (intro disjI2 exI [of _ "snd (fill_presence ?e1)"])
          (simp add: fill_presence_def act_def Let_def)
    next
      case (Some a)
      then show ?thesis using Ok assms w s by (auto simp: Identify_def bnd_eval bnd_Ok ret_def)
    qed
  qed
qed

lemma Identify_live:
  assumes "sh_wsConn (env_Shard e) = Some conn" and "Identify rc lb e = (r, e')"
  shows "env_Shard e' = env_Shard e \<and> (r = Ok None \<longrightarrow> (\<exists>b. lib_marshal_sent lb GatewayOpIdentify
      (SentIdentify (identify_payload lb e)) = Inr b \<and> env_log e' = env_log e @ [EfWrite conn b]))"
  using Identify_steps [OF assms(2)] SendEvent_live [of _ conn rc lb] assms(1) by metis

text \<open>
  \<open>connect_hello\<close> on a live connection: it succeeds only after a positive heartbeat interval, having
  written one identify or one resume, and it never leaves the status \<open>ShardStatusErroring\<close> behind.
\<close>

definition fresh_session :: "Shard \<Rightarrow> bool" where
  "fresh_session sh \<longleftrightarrow> sh_SessionID sh = [] \<or> sh_Sequence sh = 0"

definition session_payload :: "lib \<Rightarrow> env \<Rightarrow> string + bytes" where
  "session_payload lb e =
     (if fresh_session (env_Shard e)
      then lib_marshal_sent lb GatewayOpIdentify (SentIdentify (identify_payload lb e))
      else lib_marshal_sent lb GatewayOpResume (SentResume \<lparr> rsm_Token = mc_Token (mg_Configuration (env_Manager e)),
         rsm_SessionID = sh_SessionID (env_Shard e), rsm_Sequence = sh_Sequence (env_Shard e) \<rparr>))"

lemma session_live:
  assumes "sh_wsConn (env_Shard e) = Some conn"
    and "(if fresh_session (env_Shard e) then Identify rc lb else Resume rc lb) e = (r, e')"
  shows "env_Shard e' = env_Shard e \<and> (r = Ok None \<longrightarrow>
     (\<exists>b. session_payload lb e = Inr b \<and> env_log e' = env_log e @ [EfWrite conn b]))"
  using assms Identify_live [OF assms(1)] Resume_live [OF assms(1)]
  by (auto simp: session_payload_def split: if_splits)

lemma failing_status:
  assumes "hasWsConn (env_Shard e)" and "failing err e = (r, e')"
  shows "r = Ok (Some err) \<and> sh_Status (env_Shard e') = sh_Status (env_Shard e)"
  using assms by (auto simp: failing_def prog_iffs connect_cleanup_def CloseWS_def hasWsConn_def)

definition hello_done :: "Hello \<Rightarrow> env \<Rightarrow> env" where
  "hello_done hello e = on_Shard (\<lambda>sh. sh\<lparr>sh_LastHeartbeatAck := now_ms e, sh_LastHeartbeatSent := now_ms e,
     sh_HeartbeatInterval := sint (hello_HeartbeatInterval hello),
     sh_HeartbeatFailureInterval := sint (hello_HeartbeatInterval hello) * ShardMaxHeartbeatFailures,
     sh_HeartbeatActive := True\<rparr>) e"

lemma hello_done_frame [simp]:
  "sh_wsConn (env_Shard (hello_done h e)) = sh_wsConn (env_Shard e)"
  "sh_Status (env_Shard (hello_done h e)) = sh_Status (env_Shard e)"
  "sh_HeartbeatInterval (env_Shard (hello_done h e)) = sint (hello_HeartbeatInterval h)"
  "env_log (hello_done h e) = env_log e"
  "fresh_session (env_Shard (hello_done h e)) = fresh_session (env_Shard e)"
  "session_payload lb (hello_done h e) = session_payload lb e"
  by (simp_all add: hello_done_def session_payload_def fresh_session_def identify_payload_def)

lemma session_payload_inbox [simp]: "session_payload lb (e\<lparr>env_inbox := t\<rparr>) = session_payload lb e"
  by (simp add: session_payload_def fresh_session_def identify_payload_def)

definition hello_outcome ::
    "(int \<Rightarrow> (env, go_error option) prog) \<Rightarrow> lib \<Rightarrow> env \<Rightarrow> Hello \<Rightarrow> go_error option res \<times> env" where
  "hello_outcome rc lb e hello =
     (case (if fresh_session (env_Shard e) then Identify rc lb else Resume rc lb) (hello_done hello e) of
        (Panic why, s) \<Rightarrow> (Panic why, s)
      | (Ok (Some err), s) \<Rightarrow> failing err s
      | (Ok None, s) \<Rightarrow> (Ok None, SetStatus ShardStatusConnected s))"

lemma connect_hello_steps:
  assumes "hasWsConn (env_Shard e)"
  shows "connect_hello rc lb e = (case next_read (env_inbox e) of
     (Inl err, t) \<Rightarrow> failing err (e\<lparr>env_inbox := t\<rparr>)
   | (Inr msg, t) \<Rightarrow> (case decodeContent (dec_Hello lb) msg of
       (_, Some err) \<Rightarrow> failing err (e\<lparr>env_inbox := t\<rparr>)
     | (hello, None) \<Rightarrow>
         if sint (hello_HeartbeatInterval hello) \<le> 0
         then (Ok (Some ErrInvalidHeartbeatInterval), on_Shard (\<lambda>sh. sh\<lparr>sh_LastHeartbeatAck := now_ms e,
                 sh_LastHeartbeatSent := now_ms e\<rparr>) (e\<lparr>env_inbox := t\<rparr>))
         else hello_outcome rc lb (e\<lparr>env_inbox := t\<rparr>) hello))"
proof -
  have read: "readMessage e = (Ok (fst (next_read (env_inbox e))), e\<lparr>env_inbox := snd (next_read (env_inbox e))\<rparr>)"
    using assms by (simp add: readMessage_def bnd_eval act_def split: prod.splits)
  then have rb: "bnd readMessage k e = k (fst (next_read (env_inbox e)))
      (e\<lparr>env_inbox := snd (next_read (env_inbox e))\<rparr>)" for k :: "_ \<Rightarrow> (env, go_error option) prog"
    by (simp add: bnd_def)
  have hd: "on_Shard (sh_HeartbeatActive_update (\<lambda>_. True))
      (on_Shard (\<lambda>sh. sh\<lparr>sh_HeartbeatInterval := i, sh_HeartbeatFailureInterval := j\<rparr>)
      (on_Shard (\<lambda>sh. sh\<lparr>sh_LastHeartbeatAck := n, sh_LastHeartbeatSent := n\<rparr>) s))
    = on_Shard (\<lambda>sh. sh\<lparr>sh_LastHeartbeatAck := n, sh_LastHeartbeatSent := n, sh_HeartbeatInterval := i,
        sh_HeartbeatFailureInterval := j, sh_HeartbeatActive := True\<rparr>) s" for i j n s
    by (simp add: on_Shard_def)
  obtain x t where nr: "next_read (env_inbox e) = (x, t)" by fastforce
  show ?thesis
  proof (cases x)
    case (Inl err)
    then show ?thesis by (simp add: connect_hello_def rb nr)
  next
    case (Inr msg)
    obtain hello err where dec: "decodeContent (dec_Hello lb) msg = (hello, err)" by fastforce
    have out: "bnd m (\<lambda>err. case err of None \<Rightarrow> bnd (upd (SetStatus ShardStatusConnected)) (\<lambda>_. ret None)
          | Some e \<Rightarrow> failing e) s
        = (case m s of (Panic why, s) \<Rightarrow> (Panic why, s) | (Ok (Some err), s) \<Rightarrow> failing err s
           | (Ok None, s) \<Rightarrow> (Ok None, SetStatus ShardStatusConnected s))" for m s
      by (auto simp: bnd_def upd_def ret_def split: prod.splits res.splits option.splits)
    show ?thesis
      using Inr dec
      by (cases err) (simp_all add: connect_hello_def rb nr bnd_eval ret_def out hd hello_outcome_def
          hello_done_def fresh_session_def now_ms_def)
  qed
qed

definition identify_granted :: "lib \<Rightarrow> env \<Rightarrow> bool" where
  "identify_granted lb e \<longleftrightarrow>
     (if lib_identifyURL lb = [] then mg_GatewayMaxConcurrency (env_Manager e) \<noteq> 0
      else (case service_asked lb (env_Manager e) (sh_ShardID (env_Shard e)) (sg_ShardCount (env_ShardGroup e)) of
              None \<Rightarrow> False | Some replies \<Rightarrow> grants replies))"

lemma payload_of_remaining [simp]:
  "identify_payload_of lb (mg\<lparr>mg_GatewayRemaining := x\<rparr>) i n = identify_payload_of lb mg i n"
  "service_asked lb (mg\<lparr>mg_GatewayRemaining := x\<rparr>) i n = service_asked lb mg i n"
  by (simp_all add: identify_payload_of_def service_asked_def)

lemma WaitForIdentify_service:
  "lib_identifyURL lb \<noteq> [] \<Longrightarrow> service_asked lb (env_Manager e) i n = Some replies \<Longrightarrow>
     WaitForIdentify lb i n e = (if grants replies then Ok None else Panic out_of_fuel, e)"
  by (auto simp: WaitForIdentify_def service_asked_def Let_def bnd_eval ret_def panic_def identify_retries_run split: if_splits)

lemma WaitForIdentify_granted:
  assumes "identify_granted lb e"
  shows "WaitForIdentify lb (sh_ShardID (env_Shard e)) (sg_ShardCount (env_ShardGroup e))
      (on_Manager (\<lambda>mg. mg\<lparr>mg_GatewayRemaining := f mg\<rparr>) e) = (Ok None, on_Manager (\<lambda>mg. mg\<lparr>mg_GatewayRemaining := f mg\<rparr>) e)"
proof (cases "lib_identifyURL lb = []")
  case True
  then show ?thesis using assms by (simp add: identify_granted_def WaitForIdentify_def bnd_eval ret_def)
next
  case False
  then show ?thesis
    using assms by (auto simp: identify_granted_def WaitForIdentify_service split: option.splits)
qed

lemmas granted_defs = identify_granted_def service_asked_def grants_def

lemma identify_granted_cong:
  "env_Manager e' = env_Manager e \<Longrightarrow> sh_ShardID (env_Shard e') = sh_ShardID (env_Shard e) \<Longrightarrow>
     sg_ShardCount (env_ShardGroup e') = sg_ShardCount (env_ShardGroup e) \<Longrightarrow> identify_granted lb e' = identify_granted lb e"
  by (simp add: identify_granted_def)

lemma identify_granted_frame [simp]:
  "identify_granted lb (e\<lparr>env_dials := ds\<rparr>) = identify_granted lb e"
  "sh_ShardID (f (env_Shard e)) = sh_ShardID (env_Shard e) \<Longrightarrow> identify_granted lb (on_Shard f e) = identify_granted lb e"
  by (simp_all add: identify_granted_def)

definition connect_start :: "env \<Rightarrow> env" where
  "connect_start e =
     new_ctx (on_Shard (\<lambda>sh. if sh_ready sh then sh\<lparr>sh_ready := False, sh_IsReady := True\<rparr> else sh)
       (if GetStatus (env_Shard e) \<noteq> ShardStatusReconnecting then SetStatus ShardStatusConnecting e else e))"

lemma connect_start_frame [simp]:
  "sh_wsConn (env_Shard (connect_start e)) = sh_wsConn (env_Shard e)"
  "sh_Status (env_Shard (connect_start e)) =
     (if sh_Status (env_Shard e) = ShardStatusReconnecting then ShardStatusReconnecting else ShardStatusConnecting)"
  "sh_ResumeGatewayURL (env_Shard (connect_start e)) = sh_ResumeGatewayURL (env_Shard e)"
  "sh_RetriesRemaining (env_Shard (connect_start e)) = sh_RetriesRemaining (env_Shard e)"
  "env_dials (connect_start e) = env_dials e"
  "env_inbox (connect_start e) = env_inbox e"
  "session_payload lb (connect_start e) = session_payload lb e"
  "env_writes (connect_start e) = env_writes e"
  "identify_granted lb (connect_start e) = identify_granted lb e"
  by (auto simp: connect_start_def GetStatus_def session_payload_def fresh_session_def identify_payload_def
      identify_granted_def SetStatus_def Let_def)

lemma Connect_steps:
  "Connect rc lb e =
     (if hasWsConn (env_Shard e) then connect_hello rc lb (connect_start e)
      else case dial (if sh_ResumeGatewayURL (env_Shard e) = [] then lib_gatewayURL lb
                      else sh_ResumeGatewayURL (env_Shard e)) (connect_start e) of
        (Ok (Some err), s) \<Rightarrow> (Ok (Some err), s)
      | (Ok None, s) \<Rightarrow> connect_hello rc lb s
      | (Panic why, s) \<Rightarrow> (Panic why, s))"
proof -
  have step: "bnd (upd (\<lambda>e. if GetStatus (env_Shard e) \<noteq> ShardStatusReconnecting
                  then SetStatus ShardStatusConnecting e else e)) (\<lambda>_.
     bnd (upd (on_Shard (\<lambda>sh. if sh_ready sh then sh\<lparr>sh_ready := False, sh_IsReady := True\<rparr> else sh))) (\<lambda>_.
     bnd (upd new_ctx) (\<lambda>_. k))) e
     = k (connect_start e)" for k :: "(env, go_error option) prog"
    by (simp add: bnd_eval connect_start_def)
  have out: "bnd m (\<lambda>err. case err of None \<Rightarrow> connect_hello rc lb | Some e \<Rightarrow> ret (Some e)) s
      = (case m s of (Ok (Some err), s) \<Rightarrow> (Ok (Some err), s) | (Ok None, s) \<Rightarrow> connect_hello rc lb s
         | (Panic why, s) \<Rightarrow> (Panic why, s))" for m s
    by (auto simp: bnd_def ret_def split: prod.splits res.splits option.splits)
  show ?thesis
    unfolding Connect_def step by (simp add: bnd_eval out ret_def hasWsConn_def)
qed

lemma dial_ok:
  assumes "dial u e = (Ok None, s)"
  shows "s = emit (EfDial u) (on_Shard (\<lambda>sh. sh\<lparr>sh_wsConn := Some (env_fresh e)\<rparr>)
      (e\<lparr>env_dials := tl (env_dials e), env_fresh := Suc (env_fresh e)\<rparr>))"
  using assms by (cases "env_dials e") (auto simp: dial_def act_def split: option.splits)

lemma dial_works: "fst (pop (env_dials e)) = None \<Longrightarrow> fst (dial u e) = Ok None"
  by (auto simp: dial_def act_def split: prod.split option.split)

lemma dial_not_Panic: "dial u e = (r, s) \<Longrightarrow> \<exists>x. r = Ok x"
  by (auto simp: dial_def act_def split: prod.splits option.splits)

lemma connect_hello_live:
  assumes "hasWsConn (env_Shard e)" and "connect_hello rc lb e = (Ok None, e')"
  shows "sh_Status (env_Shard e') = ShardStatusConnected \<and> 0 < sh_HeartbeatInterval (env_Shard e') \<and>
    (\<exists>conn b u. sh_wsConn (env_Shard e') = Some conn \<and> session_payload lb e = Inr b \<and>
       env_log e' = env_log e @ [EfWrite conn b, EfGlobalEvent (SandwichEventShardStatusUpdate u)])"
proof -
  obtain conn where conn: "sh_wsConn (env_Shard e) = Some conn" using assms(1) by (auto simp: hasWsConn_def)
  from assms(2) obtain msg t hello s where
    s: "(if fresh_session (env_Shard e) then Identify rc lb else Resume rc lb)
          (hello_done hello (e\<lparr>env_inbox := t\<rparr>)) = (Ok None, s)"
    and pos: "0 < sint (hello_HeartbeatInterval hello)" and e': "e' = SetStatus ShardStatusConnected s"
    by (auto simp: connect_hello_steps [OF assms(1)] hello_outcome_def failing_def bnd_eval ret_def
        split: prod.splits sum.splits option.splits if_splits res.splits)
  let ?h = "hello_done hello (e\<lparr>env_inbox := t\<rparr>)"
  from session_live [of ?h conn rc lb "Ok None" s] s conn
  have "env_Shard s = env_Shard ?h \<and> (\<exists>b. session_payload lb e = Inr b \<and> env_log s = env_log e @ [EfWrite conn b])"
    by simp
  then show ?thesis using e' pos conn by (auto simp: SetStatus_def Let_def)
qed

lemma connect_hello_status:
  assumes "connect_hello rc lb e = (r, e')"
  shows "sh_Status (env_Shard e') \<in> {sh_Status (env_Shard e), ShardStatusConnected}"
proof (cases "hasWsConn (env_Shard e)")
  case False
  then show ?thesis using assms by (auto simp: connect_hello_def readMessage_def prog_iffs)
next
  case True
  then obtain conn where conn: "sh_wsConn (env_Shard e) = Some conn" by (auto simp: hasWsConn_def)
  have fail: "failing err s = (r, e') \<Longrightarrow> hasWsConn (env_Shard s) \<Longrightarrow>
      sh_Status (env_Shard s) = sh_Status (env_Shard e) \<Longrightarrow> ?thesis" for err s
    using failing_status [of s err r e'] by simp
  have out: ?thesis if o: "hello_outcome rc lb (e\<lparr>env_inbox := t\<rparr>) h = (r, e')" for h t
  proof -
    let ?h = "hello_done h (e\<lparr>env_inbox := t\<rparr>)"
    obtain x s where x: "(if fresh_session (env_Shard e) then Identify rc lb else Resume rc lb) ?h = (x, s)"
      by fastforce
    then have s: "env_Shard s = env_Shard ?h" using session_live [of ?h conn rc lb x s] conn by simp
    show ?thesis
      using o x s conn fail [of _ s]
      by (cases x) (auto simp: hello_outcome_def hasWsConn_def split: option.splits)
  qed
  obtain x t where nr: "next_read (env_inbox e) = (x, t)" by fastforce
  show ?thesis
  proof (cases x)
    case (Inl err)
    then show ?thesis using assms True nr fail [of err "e\<lparr>env_inbox := t\<rparr>"]
      by (simp add: connect_hello_steps)
  next
    case (Inr msg)
    obtain h err where "decodeContent (dec_Hello lb) msg = (h, err)" by fastforce
    then show ?thesis using assms True nr Inr out fail [of _ "e\<lparr>env_inbox := t\<rparr>"]
      by (cases err) (auto simp: connect_hello_steps split: if_splits)
  qed
qed

lemma Connect_ok:
  assumes "Connect rc lb e = (Ok None, e')"
  shows "sh_Status (env_Shard e') = ShardStatusConnected \<and> 0 < sh_HeartbeatInterval (env_Shard e') \<and>
    (\<exists>conn b u out. sh_wsConn (env_Shard e') = Some conn \<and> session_payload lb e = Inr b \<and>
       env_log e' = out @ [EfWrite conn b, EfGlobalEvent (SandwichEventShardStatusUpdate u)])"
proof (cases "hasWsConn (env_Shard e)")
  case True
  then have "connect_hello rc lb (connect_start e) = (Ok None, e')"
    using assms by (simp add: Connect_steps)
  with connect_hello_live [of "connect_start e"] True show ?thesis by (fastforce simp: hasWsConn_def)
next
  case False
  let ?u = "if sh_ResumeGatewayURL (env_Shard e) = [] then lib_gatewayURL lb else sh_ResumeGatewayURL (env_Shard e)"
  obtain s where s: "dial ?u (connect_start e) = (Ok None, s)" and h: "connect_hello rc lb s = (Ok None, e')"
    using assms False by (auto simp: Connect_steps ret_def split: prod.splits res.splits option.splits)
  have "session_payload lb s = session_payload lb (connect_start e)"
    unfolding dial_ok [OF s] by (simp add: session_payload_def fresh_session_def identify_payload_def)
  moreover have "hasWsConn (env_Shard s)"
    unfolding dial_ok [OF s] by (simp add: hasWsConn_def)
  ultimately show ?thesis using connect_hello_live [OF _ h] by (metis connect_start_frame(7))
qed

text \<open>C2. A successful \<open>Connect\<close> ends connected, with a positive heartbeat interval, and the last payload it
  wrote is an identify for a fresh session and a resume of the stored session otherwise.\<close>

theorem connect_identifies_or_resumes:
  assumes "Connect rc lb e = (Ok None, e')"
  shows "sh_Status (env_Shard e') = ShardStatusConnected \<and> 0 < sh_HeartbeatInterval (env_Shard e') \<and>
    (\<exists>conn b u out. sh_wsConn (env_Shard e') = Some conn \<and> session_payload lb e = Inr b \<and>
       env_log e' = out @ [EfWrite conn b, EfGlobalEvent (SandwichEventShardStatusUpdate u)])"
  using assms by (rule Connect_ok)

text \<open>
  When \<open>Connect\<close> does succeed: a dial that works (or a live connection), a hello, a marshaller that works, a
  granted identify and a write that works.
\<close>

lemma SendEvent_succeeds:
  assumes "hasWsConn (env_Shard e)" and "lib_marshal_sent lb op i = Inr b" and "fst (pop (env_writes e)) = None"
  shows "fst (SendEvent rc lb op i e) = Ok None"
  using assms by (auto simp: SendEvent_def WriteJSON_def recovered_def bnd_eval bnd_def act_def wsWrite_def
      hasWsConn_def ret_def deref_def rd_def wrap_def split: prod.splits option.splits)

lemma Identify_succeeds:
  assumes "hasWsConn (env_Shard e)" and "\<And>op i. \<exists>b. lib_marshal_sent lb op i = Inr b"
    and "fst (pop (env_writes e)) = None" and "identify_granted lb e"
  shows "fst (Identify rc lb e) = Ok None"
proof -
  note wait = WaitForIdentify_granted [OF assms(4), of "\<lambda>mg. mg_GatewayRemaining mg - 1"]
  have send: "fst (SendEvent rc lb op i s) = Ok None"
    if "env_Shard s = env_Shard e" "env_writes s = env_writes e" for op i s
    using SendEvent_succeeds [of s lb op i] assms(1-3) that by metis
  show ?thesis
    by (simp add: Identify_def bnd_eval bnd_Ok wait) (simp add: bnd_def fill_presence_def act_def Let_def rd_def send)
qed

lemma connect_hello_succeeds:
  assumes "hasWsConn (env_Shard e)" and "next_read (env_inbox e) = (Inr msg, rest)"
    and "dec_Hello lb (gp_Data msg) = (hello, None)" and "0 < sint (hello_HeartbeatInterval hello)"
    and "\<And>op i. \<exists>b. lib_marshal_sent lb op i = Inr b" and "fst (pop (env_writes e)) = None"
    and "identify_granted lb e"
  shows "fst (connect_hello rc lb e) = Ok None"
proof -
  let ?h = "hello_done hello (e\<lparr>env_inbox := rest\<rparr>)"
  have h: "hasWsConn (env_Shard ?h)" "fst (pop (env_writes ?h)) = None" "identify_granted lb ?h"
    using assms(1,6,7) by (simp_all add: hello_done_def hasWsConn_def identify_granted_def)
  have "fst (Identify rc lb ?h) = Ok None"
    by (rule Identify_succeeds [OF h(1) assms(5) h(2,3)])
  moreover have "fst (Resume rc lb ?h) = Ok None"
    using SendEvent_succeeds [OF h(1) _ h(2)] assms(5) by (auto simp: Resume_def bnd_eval) metis
  ultimately have "fst (hello_outcome rc lb (e\<lparr>env_inbox := rest\<rparr>) hello) = Ok None"
    by (auto simp: hello_outcome_def split: prod.split)
  moreover have "connect_hello rc lb e = hello_outcome rc lb (e\<lparr>env_inbox := rest\<rparr>) hello"
    using assms(4) by (simp add: connect_hello_steps [OF assms(1)] assms(2,3) decodeContent_def)
  ultimately show ?thesis by (simp only:)
qed

lemma Connect_succeeds:
  assumes "fst (pop (env_dials e)) = None" and "next_read (env_inbox e) = (Inr msg, rest)"
    and "dec_Hello lb (gp_Data msg) = (hello, None)" and "0 < sint (hello_HeartbeatInterval hello)"
    and "\<And>op i. \<exists>b. lib_marshal_sent lb op i = Inr b" and "fst (pop (env_writes e)) = None"
    and "identify_granted lb e"
  shows "fst (Connect rc lb e) = Ok None"
proof -
  have start: "identify_granted lb (connect_start e)" "env_writes (connect_start e) = env_writes e"
    using assms(7) by simp_all
  have hello: "fst (connect_hello rc lb s) = Ok None"
    if "hasWsConn (env_Shard s)" "env_inbox s = env_inbox e" "env_writes s = env_writes e" "identify_granted lb s" for s
    by (rule connect_hello_succeeds [where msg = msg and rest = rest and hello = hello])
      (use that assms(2-6) in simp_all)
  show ?thesis
  proof (cases "hasWsConn (env_Shard e)")
    case True
    then have "fst (connect_hello rc lb (connect_start e)) = Ok None"
      using start by (intro hello) (simp_all add: hasWsConn_def)
    with True show ?thesis by (simp add: Connect_steps)
  next
    case False
    let ?u = "if sh_ResumeGatewayURL (env_Shard e) = [] then lib_gatewayURL lb else sh_ResumeGatewayURL (env_Shard e)"
    obtain s where s: "dial ?u (connect_start e) = (Ok None, s)"
      using dial_works [of "connect_start e" ?u] assms(1) by (metis connect_start_frame(5) prod.collapse)
    have "hasWsConn (env_Shard s)" "env_inbox s = env_inbox e" "env_writes s = env_writes e"
      by (simp_all add: dial_ok [OF s] hasWsConn_def start(2))
    moreover have "identify_granted lb s"
      using start(1) by (simp add: dial_ok [OF s] identify_granted_def)
    ultimately have "fst (connect_hello rc lb s) = Ok None" by (rule hello)
    then show ?thesis using False s by (simp add: Connect_steps)
  qed
qed

text \<open>\<open>Connect\<close> never leaves the status \<open>ShardStatusErroring\<close>, although its deferred function is there
  to set it on a failure.\<close>

lemma connect_never_erroring:
  assumes "Connect rc lb e = (r, e')"
  shows "sh_Status (env_Shard e') \<in> {ShardStatusConnecting, ShardStatusReconnecting, ShardStatusConnected}"
proof -
  have start: "sh_Status (env_Shard (connect_start e)) \<in> {ShardStatusConnecting, ShardStatusReconnecting}"
    by simp
  have dialed: "dial u s = (x, t) \<Longrightarrow> sh_Status (env_Shard t) = sh_Status (env_Shard s)" for u s x t
    by (auto simp: dial_def act_def split: prod.splits option.splits)
  show ?thesis
    using assms start connect_hello_status [of rc lb _ r e']
    by (auto simp: Connect_steps split: if_splits prod.splits res.splits option.splits dest!: dialed)
qed

section \<open>Reconnecting\<close>

lemma Connect_dial_fails:
  assumes "sh_wsConn (env_Shard e) = None" and "env_dials e = Some err # ds"
  obtains e' where "Connect rc lb e = (Ok (Some (ErrWrap ''failed to connect to websocket'' err)), e')"
    and "sh_wsConn (env_Shard e') = None" and "env_dials e' = ds"
    and "sh_RetriesRemaining (env_Shard e') = sh_RetriesRemaining (env_Shard e)"
    and "env_inbox e' = env_inbox e" and "env_writes e' = env_writes e"
    and "identify_granted lb e' = identify_granted lb e"
  using assms by (simp add: Connect_steps hasWsConn_def dial_def act_def)

lemma reconnect_loop_stuck:
  assumes "sh_wsConn (env_Shard e) = None" and "n \<le> length (env_dials e)"
    and "\<forall>d \<in> set (take n (env_dials e)). d \<noteq> None"
    and "0 \<le> sint (sh_RetriesRemaining (env_Shard e))"
    and "sint (sh_RetriesRemaining (env_Shard e)) + int n < 2 ^ 31"
  shows "fst (reconnect_loop n lb code e) = Panic out_of_fuel"
  using assms
proof (induction n arbitrary: e)
  case 0
  then show ?case by (simp add: panic_def)
next
  case (Suc n)
  then obtain err ds where ds: "env_dials e = Some err # ds"
    by (cases "env_dials e") auto
  obtain e' where e': "Connect (\<lambda>_. panic out_of_fuel) lb e =
      (Ok (Some (ErrWrap ''failed to connect to websocket'' err)), e')"
    "sh_wsConn (env_Shard e') = None" "env_dials e' = ds"
    "sh_RetriesRemaining (env_Shard e') = sh_RetriesRemaining (env_Shard e)"
    using Connect_dial_fails [OF Suc.prems(1) ds] by blast
  let ?r = "sh_RetriesRemaining (env_Shard e)"
  have r: "sint (?r + 1) = sint ?r + 1"
    using Suc.prems(4,5) by (intro sint_succ32) auto
  have "fst (reconnect_loop n lb code (on_Shard (\<lambda>sh. sh\<lparr>sh_RetriesRemaining := sh_RetriesRemaining sh + 1\<rparr>) e'))
      = Panic out_of_fuel"
    using Suc.prems e' ds r by (intro Suc.IH) auto
  then show ?case
    using e' r Suc.prems(4) by (simp add: bnd_Ok bnd_eval)
qed

text \<open>C35. \<^verbatim>\<open>Sub(-1)\<close> counts up: while every dial fails, \<open>Reconnect\<close> has not given up after any number of
  attempts that keeps the counter within an int32.\<close>

theorem reconnect_never_gives_up:
  assumes "n \<le> length (env_dials e)" and "\<forall>d \<in> set (take n (env_dials e)). d \<noteq> None"
    and "0 \<le> sint (sh_RetriesRemaining (env_Shard e))"
    and "sint (sh_RetriesRemaining (env_Shard e)) + int n < 2 ^ 31"
  shows "fst (Reconnect n lb code e) = Panic out_of_fuel"
proof -
  let ?e = "Close code True (SetStatus ShardStatusReconnecting e)"
  have "sh_wsConn (env_Shard ?e) = None" "env_dials ?e = env_dials e"
    "sh_RetriesRemaining (env_Shard ?e) = sh_RetriesRemaining (env_Shard e)"
    by (auto simp: Close_def CloseWS_def Let_def split: option.splits)
  with assms have "fst (reconnect_loop n lb code ?e) = Panic out_of_fuel"
    by (intro reconnect_loop_stuck) auto
  then show ?thesis by (simp add: Reconnect_def bnd_eval)
qed

lemma reconnect_loop_succeeds:
  assumes "sh_wsConn (env_Shard e) = None" and "env_dials e = map Some errs"
    and "next_read (env_inbox e) = (Inr msg, rest)"
    and "dec_Hello lb (gp_Data msg) = (hello, None)" and "0 < sint (hello_HeartbeatInterval hello)"
    and "\<And>op i. \<exists>b. lib_marshal_sent lb op i = Inr b" and "fst (pop (env_writes e)) = None"
    and "identify_granted lb e"
    and "0 \<le> sint (sh_RetriesRemaining (env_Shard e))"
    and "sint (sh_RetriesRemaining (env_Shard e)) + int (length errs) < 2 ^ 31"
  shows "fst (reconnect_loop (Suc (length errs)) lb code e) = Ok None"
  using assms
proof (induction errs arbitrary: e)
  case Nil
  then have "fst (Connect (\<lambda>_. panic out_of_fuel) lb e) = Ok None"
    by (intro Connect_succeeds [where msg = msg and rest = rest and hello = hello]) simp_all
  then show ?case
    by (cases "Connect (\<lambda>_. panic out_of_fuel) lb e") (simp add: bnd_Ok bnd_eval ret_def)
next
  case (Cons err errs)
  obtain e' where e': "Connect (\<lambda>_. panic out_of_fuel) lb e =
      (Ok (Some (ErrWrap ''failed to connect to websocket'' err)), e')"
    "sh_wsConn (env_Shard e') = None" "env_dials e' = map Some errs"
    "sh_RetriesRemaining (env_Shard e') = sh_RetriesRemaining (env_Shard e)"
    "env_inbox e' = env_inbox e" "env_writes e' = env_writes e"
    "identify_granted lb e' = identify_granted lb e"
    using Connect_dial_fails [OF Cons.prems(1), of err "map Some errs"] Cons.prems(2) by auto
  let ?r = "sh_RetriesRemaining (env_Shard e)"
  let ?s = "on_Shard (\<lambda>sh. sh\<lparr>sh_RetriesRemaining := sh_RetriesRemaining sh + 1\<rparr>) e'"
  have r: "sint (?r + 1) = sint ?r + 1"
    using Cons.prems(9,10) by (intro sint_succ32) auto
  have "identify_granted lb ?s" using e'(7) Cons.prems(8) by simp
  then have "fst (reconnect_loop (Suc (length errs)) lb code ?s) = Ok None"
    using Cons.prems e' r by (intro Cons.IH) auto
  moreover have "reconnect_loop (Suc (length (err # errs))) lb code e = reconnect_loop (Suc (length errs)) lb code ?s"
    using e' r Cons.prems(9) by (subst reconnect_loop.simps) (simp add: bnd_Ok bnd_eval del: reconnect_loop.simps)
  ultimately show ?case by simp
qed

lemma Reconnect_succeeds:
  assumes "env_dials e = map Some errs" and "next_read (env_inbox e) = (Inr msg, rest)"
    and "dec_Hello lb (gp_Data msg) = (hello, None)" and "0 < sint (hello_HeartbeatInterval hello)"
    and "\<And>op i. \<exists>b. lib_marshal_sent lb op i = Inr b" and "fst (pop (env_writes e)) = None"
    and "identify_granted lb e"
    and "0 \<le> sint (sh_RetriesRemaining (env_Shard e))"
    and "sint (sh_RetriesRemaining (env_Shard e)) + int (length errs) < 2 ^ 31"
  shows "fst (Reconnect (Suc (length errs)) lb code e) = Ok None"
proof -
  let ?e = "Close code True (SetStatus ShardStatusReconnecting e)"
  have frame: "sh_wsConn (env_Shard ?e) = None" "env_dials ?e = env_dials e" "env_inbox ?e = env_inbox e"
    "env_writes ?e = env_writes e" "env_Manager ?e = env_Manager e" "env_ShardGroup ?e = env_ShardGroup e"
    "sh_ShardID (env_Shard ?e) = sh_ShardID (env_Shard e)"
    "sh_RetriesRemaining (env_Shard ?e) = sh_RetriesRemaining (env_Shard e)"
    by (auto simp: Close_def CloseWS_def Let_def SetStatus_def split: option.split)
  then have "identify_granted lb ?e" using assms(7) by (simp add: identify_granted_cong [of ?e e])
  have "fst (reconnect_loop (Suc (length errs)) lb code ?e) = Ok None"
    by (rule reconnect_loop_succeeds [where msg = msg and rest = rest and hello = hello])
      (use frame \<open>identify_granted lb ?e\<close> assms in simp_all)
  then show ?thesis by (simp add: Reconnect_def bnd_eval del: reconnect_loop.simps)
qed


lemma reconnect_loop_ok:
  "reconnect_loop n lb code e = (Ok None, e') \<Longrightarrow>
     sh_Status (env_Shard e') = ShardStatusConnected"
proof (induction n arbitrary: e)
  case (Suc n)
  then show ?case
    by (auto simp: prog_iffs split: if_splits dest: Connect_ok)
qed (simp add: panic_def)

lemma reconnect_connected:
  "Reconnect fuel lb code e = (Ok None, e') \<Longrightarrow> sh_Status (env_Shard e') = ShardStatusConnected"
  by (auto simp: Reconnect_def bnd_eval dest: reconnect_loop_ok)

text \<open>Identifying replaces the placeholders of the configured presence for every later shard as well.\<close>

lemma identify_overwrites_presence:
  assumes "identify_granted lb e" and "hasWsConn (env_Shard e)"
  shows "mc_DefaultPresence (mg_Configuration (env_Manager (snd (Identify rc lb e))))
    = fillInUpdateStatus (sh_ShardID (env_Shard e)) (sg_ID (env_ShardGroup e))
        (mc_DefaultPresence (mg_Configuration (env_Manager e)))"
proof -
  obtain conn where conn: "sh_wsConn (env_Shard e) = Some conn" using assms(2) by (auto simp: hasWsConn_def)
  have send: "env_Manager (snd (SendEvent rc lb op i s)) = env_Manager s"
    if "env_Shard s = env_Shard e" for op i s
    using SendEvent_live [of s conn rc lb op i] conn that by (metis prod.collapse)
  show ?thesis
    using WaitForIdentify_granted [OF assms(1), of "\<lambda>mg. mg_GatewayRemaining mg - 1"]
    by (simp add: Identify_def bnd_eval fill_presence_def bnd_def act_def Let_def send ret_def upd_def rd_def)
qed

section \<open>The properties at work\<close>

definition hello_lib :: lib where
  "hello_lib = sample_lib\<lparr>dec_Hello := accept \<lparr> hello_HeartbeatInterval = 41250 \<rparr>\<rparr>"

definition hello_env :: env where
  "hello_env = sample_env\<lparr>env_inbox := [RdMsg (sample_msg ''HELLO'')]\<rparr>"

abbreviation "no_rc \<equiv> (\<lambda>_. panic out_of_fuel)"

theorem connect_identifies_or_resumes_witness:
  "sh_Status (env_Shard (snd (Connect no_rc hello_lib hello_env))) = ShardStatusConnected
   \<and> session_payload hello_lib hello_env = Inr ''{}''"
proof -
  have "fst (Connect no_rc hello_lib hello_env) = Ok None" by code_simp
  then have "Connect no_rc hello_lib hello_env = (Ok None, snd (Connect no_rc hello_lib hello_env))"
    by (metis prod.collapse)
  from connect_identifies_or_resumes [OF this] show ?thesis
    by (simp add: session_payload_def hello_lib_def sample_lib_def)
qed

theorem reconnect_never_gives_up_witness:
  "fst (Reconnect 12 sample_lib 4000 (sample_env\<lparr>env_dials := replicate 12 (Some (ErrLib ''refused''))\<rparr>))
     = Panic out_of_fuel"
  by (rule reconnect_never_gives_up) (simp_all add: sample_defs)


end
