(* ===== verification/Chunk.thy ===== *)
theory Chunk
  imports Lifecycle
begin

text \<open>
  Requesting the members of guilds: \<^verbatim>\<open>ChunkGuild\<close> and \<^verbatim>\<open>ChunkAllGuilds\<close> of \<^verbatim>\<open>internal/shard.go\<close>.

  What arrives on the chunking channel is the script \<open>env_chunks\<close>. The entry of the chunk table is copied
  when it is loaded, so marking the copy started, incomplete or complete changes nothing in the table; only
  the entry that is stored for a new guild, and its channel, are shared.
\<close>

definition new_chunk_entry :: "nat \<Rightarrow> GuildChunks" where
  "new_chunk_entry channel = \<lparr> gc_StartedAt = 0, gc_CompletedAt = 0, gc_ChunkingChannel = Some channel,
     gc_ChunkCount = 0, gc_Complete = False \<rparr>"

definition chunk_entry :: "GuildID \<Rightarrow> env \<Rightarrow> env" where
  "chunk_entry guildID e =
     (case Cache_Load csm (env_guildChunks e) guildID of
        Some _ \<Rightarrow> e
      | None \<Rightarrow> e\<lparr>env_guildChunks := Cache_Store csm (env_guildChunks e) guildID (new_chunk_entry (env_fresh e)),
                 env_fresh := Suc (env_fresh e)\<rparr>)"

definition needs_chunking :: "SandwichState \<Rightarrow> GuildID \<Rightarrow> bool" where
  "needs_chunking ss guildID =
     (let memberCount = (case DC_Inner csm (GuildMembers ss) guildID of
                           Some gm \<Rightarrow> Cache_Count csm gm | None \<Rightarrow> 0)
      in case Cache_Load csm (Guilds ss) guildID of
           None \<Rightarrow> True
         | Some guild \<Rightarrow> sint (word_of_nat memberCount :: int32) < sint (guild_MemberCount guild))"

text \<open>
  The receiving loop: \<open>None\<close> in the script is the timeout. Chunks of another nonce are skipped. The counter
  of received chunks and the total of the last one decide when it ends.
\<close>

fun receive_chunks ::
    "string \<Rightarrow> GuildMembersChunk option list \<Rightarrow> int32 \<Rightarrow> (int32 \<times> bool) \<times> GuildMembersChunk option list" where
  "receive_chunks nonce [] received = ((received, False), [])"
| "receive_chunks nonce (None # rest) received = ((received, False), rest)"
| "receive_chunks nonce (Some c # rest) received =
     (if gmc_Nonce c \<noteq> nonce then receive_chunks nonce rest received
      else let received = received + 1 in
           if sint (gmc_ChunkCount c) \<le> sint received then ((received, True), rest)
           else receive_chunks nonce rest received)"

definition chunk_request :: "lib \<Rightarrow> GuildID \<Rightarrow> RequestGuildMembers option \<Rightarrow> RequestGuildMembers" where
  "chunk_request lb guildID chunkReq =
     (case chunkReq of
        Some req \<Rightarrow> req
      | None \<Rightarrow> \<lparr> rgm_Query = [], rgm_Nonce = lib_randomHex lb, rgm_UserIDs = None, rgm_GuildID = guildID,
                  rgm_Limit = 0, rgm_Presences = False \<rparr>)"

definition ChunkGuild ::
    "(int \<Rightarrow> (env, go_error option) prog) \<Rightarrow> lib \<Rightarrow> GuildID \<Rightarrow> bool \<Rightarrow> RequestGuildMembers option
     \<Rightarrow> (env, bool \<times> go_error option) prog" where
  "ChunkGuild rc lb guildID alwaysChunk chunkReq =
     bnd (upd (chunk_entry guildID)) (\<lambda>_.
     bnd (rd (\<lambda>e. needs_chunking (env_State e) guildID)) (\<lambda>needsChunking.
     if needsChunking \<or> alwaysChunk then
       let req = chunk_request lb guildID chunkReq in
       bnd (SendEvent rc lb GatewayOpRequestGuildMembers (SentRequest req)) (\<lambda>err.
       case err of
         Some e \<Rightarrow> ret (False, Some (ErrWrap ''failed to send request guild members event'' e))
       | None \<Rightarrow>
           bnd (act (\<lambda>e. case receive_chunks (rgm_Nonce req) (env_chunks e) 0 of
                  (r, rest) \<Rightarrow> (r, e\<lparr>env_chunks := rest\<rparr>))) (\<lambda>_.
           ret (True, None)))
     else ret (False, None)))"

definition ChunkAllGuilds :: "(int \<Rightarrow> (env, go_error option) prog) \<Rightarrow> lib \<Rightarrow> (env, unit) prog" where
  "ChunkAllGuilds rc lb =
     bnd (rd (\<lambda>e. Cache_Range csm (sh_Guilds (env_Shard e)) (\<lambda>g _ acc. (False, acc @ [g])) [])) (\<lambda>guilds.
     each (\<lambda>guildID. bnd (ChunkGuild rc lb guildID False None) (\<lambda>_. ret ())) guilds)"

section \<open>Properties\<close>

lemma receive_chunks_suffix: "\<exists>pre. script = pre @ snd (receive_chunks nonce script n)"
proof (induction nonce script n rule: receive_chunks.induct)
  case (3 nonce c rest received)
  then show ?case by (auto simp: Let_def intro: exI [of _ "Some c # _"]) (metis append_Cons)+
qed auto

lemma receive_chunks_all:
  assumes "\<forall>c \<in> set cs. gmc_Nonce c = nonce \<longrightarrow> sint (gmc_ChunkCount c) = int tot"
    and "0 \<le> sint n" and "nat (sint n) + length (filter (\<lambda>c. gmc_Nonce c = nonce) cs) = tot"
    and "cs \<noteq> []" and "gmc_Nonce (last cs) = nonce" and "tot < 2 ^ 31"
  shows "receive_chunks nonce (map Some cs @ rest) n = ((word_of_nat tot, True), rest)"
  using assms
proof (induction cs arbitrary: n)
  case Nil
  then show ?case by simp
next
  case (Cons c cs)
  show ?case
  proof (cases "gmc_Nonce c = nonce")
    case False
    then have "cs \<noteq> []" using Cons.prems by auto
    then show ?thesis using Cons.IH [of n] Cons.prems False by auto
  next
    case True
    have lt: "sint n + 1 < 2 ^ 31" using Cons.prems True by simp
    have s: "sint (n + 1) = sint n + 1" using Cons.prems(2) lt by (intro sint_succ32) auto
    show ?thesis
    proof (cases "cs = []")
      case True
      then have "sint n + 1 = int tot" using Cons.prems \<open>gmc_Nonce c = nonce\<close> by simp
      moreover from this have "n + 1 = word_of_nat tot"
      proof -
        have "word_of_int (sint (n + 1)) = n + 1" by simp
        then show ?thesis using s \<open>sint n + 1 = int tot\<close> by simp
      qed
      ultimately show ?thesis using True Cons.prems \<open>gmc_Nonce c = nonce\<close> s by simp
    next
      case False
      have "filter (\<lambda>c. gmc_Nonce c = nonce) cs \<noteq> []"
        using False Cons.prems(5) by (auto simp: filter_empty_conv intro!: bexI [of _ "last cs"])
      then have "sint n + 1 < int tot" using Cons.prems(2,3) True
        by (cases "filter (\<lambda>c. gmc_Nonce c = nonce) cs") auto
      then show ?thesis using Cons.IH [of "n + 1"] Cons.prems True False s by (auto simp: nat_add_distrib)
    qed
  qed
qed

text \<open>When the chunks of a request arrive in any order between chunks of other requests, the loop ends
  exactly when the announced number of them has come, and leaves the rest on the channel.\<close>

lemma chunks_collected:
  assumes "\<forall>c \<in> set cs. gmc_Nonce c = nonce \<longrightarrow> sint (gmc_ChunkCount c) = int tot"
    and "length (filter (\<lambda>c. gmc_Nonce c = nonce) cs) = tot"
    and "cs \<noteq> []" and "gmc_Nonce (last cs) = nonce" and "tot < 2 ^ 31"
  shows "receive_chunks nonce (map Some cs @ rest) 0 = ((word_of_nat tot, True), rest)"
  using assms by (intro receive_chunks_all) auto

definition sample_chunk :: "string \<Rightarrow> GuildMembersChunk" where
  "sample_chunk n = zero_GuildMembersChunk\<lparr>gmc_Nonce := n, gmc_ChunkCount := 2\<rparr>"

end
