(* ===== verification/Events.thy ===== *)
theory Events
  imports Dispatch_Guild Dispatch_Member Dispatch_Message Chunk
begin

text \<open>
  Dispatching: the handler of \<^verbatim>\<open>READY\<close> and the table of handlers (\<^verbatim>\<open>internal/events_dispatch.go\<close>), the
  path of an event from the gateway to the producer (\<^verbatim>\<open>internal/events.go\<close>), the handlers of the gateway
  operations (\<^verbatim>\<open>internal/events_gateway.go\<close>) and the reading loop (\<^verbatim>\<open>internal/shard.go\<close>).

  \<open>OnReady\<close> itself reads and dispatches the events that follow it, so it and \<open>OnDispatch\<close> are mutually
  recursive: the handlers take the loop as an argument, and \<open>ready_loop\<close> unfolds as often as its fuel says.
  Each turn consumes a read, so a fuel above the length of the inbox is enough (theory \<open>Inbox\<close>).

  The trace is a Go map shared by reference; within one event every entry is written with the same clock,
  so passing it by value gives the same packets.
\<close>

section \<open>READY\<close>

definition mark_guilds :: "UnavailableGuild list \<Rightarrow> Shard \<Rightarrow> Shard" where
  "mark_guilds gs sh = fold (\<lambda>g sh. sh\<lparr>sh_Lazy := Cache_Store csm (sh_Lazy sh) (ugd_ID g) (),
                                   sh_Guilds := Cache_Store csm (sh_Guilds sh) (ugd_ID g) ()\<rparr>) gs sh"

definition OnReady ::
    "(int \<Rightarrow> (env, go_error option) prog) \<Rightarrow> (SandwichTrace option \<Rightarrow> (env, unit) prog)
     \<Rightarrow> SandwichTrace option \<Rightarrow> handler" where
  "OnReady rc loop trace lb ctx msg =
     deferred (OnDispatchEvent (gp_Type msg))
     (decoding (dec_Ready lb) msg (\<lambda>p.
      bnd (upd (on_Shard (\<lambda>sh. sh\<lparr>sh_IsReady := True, sh_ResumeGatewayURL := ready_ResumeGatewayUrl p,
                                  sh_SessionID := ready_SessionID p\<rparr>))) (\<lambda>_.
      bnd (upd (on_ShardGroup (\<lambda>sg. sg\<lparr>sg_User := Some (ready_User p)\<rparr>))) (\<lambda>_.
      bnd (upd (on_Manager (\<lambda>mg. mg\<lparr>mg_UserID := user_ID (ready_User p), mg_User := ready_User p\<rparr>))) (\<lambda>_.
      bnd (upd (on_Shard (mark_guilds (elems (ready_Guilds p))))) (\<lambda>_.
      bnd (loop trace) (\<lambda>_.
      bnd (upd (on_Shard (\<lambda>sh. sh\<lparr>sh_ready := True\<rparr>))) (\<lambda>_.
      bnd (upd (SetStatus ShardStatusReady)) (\<lambda>_.
      bnd (rd (\<lambda>e. mc_ChunkGuildsOnStartup (mg_Configuration (env_Manager e)))) (\<lambda>chunkGuildOnStartup.
      bnd (if chunkGuildOnStartup then ChunkAllGuilds rc lb else ret ()) (\<lambda>_.
      ret (zero_EventDispatch\<lparr>ed_EventDispatchIdentifier := Some zero_EDI\<rparr>, False, None))))))))))))"

section \<open>The table of handlers\<close>

definition dispatchHandlers :: "handler \<Rightarrow> (string \<times> handler) list" where
  "dispatchHandlers ready = [
     (''READY'', ready),
     (''RESUMED'', OnResumed),
     (''GUILD_MEMBERS_CHUNK'', OnGuildMembersChunk),
     (''CHANNEL_CREATE'', OnChannelCreate),
     (''CHANNEL_UPDATE'', OnChannelUpdate),
     (''CHANNEL_DELETE'', OnChannelDelete),
     (''CHANNEL_PINS_UPDATE'', OnChannelPinsUpdate),
     (''THREAD_UPDATE'', OnThreadUpdate),
     (''GUILD_CREATE'', OnGuildCreate),
     (''GUILD_AUDIT_LOG_ENTRY_CREATE'', OnGuildAuditLogEntryCreate),
     (''GUILD_UPDATE'', OnGuildUpdate),
     (''GUILD_DELETE'', OnGuildDelete),
     (''GUILD_BAN_ADD'', OnGuildBanAdd),
     (''GUILD_BAN_REMOVE'', OnGuildBanRemove),
     (''GUILD_EMOJIS_UPDATE'', OnGuildEmojisUpdate),
     (''GUILD_STICKERS_UPDATE'', OnGuildStickersUpdate),
     (''GUILD_INTEGRATIONS_UPDATE'', OnGuildIntegrationsUpdate),
     (''GUILD_MEMBER_ADD'', OnGuildMemberAdd),
     (''GUILD_MEMBER_REMOVE'', OnGuildMemberRemove),
     (''GUILD_MEMBER_UPDATE'', OnGuildMemberUpdate),
     (''GUILD_ROLE_CREATE'', OnGuildRoleCreate),
     (''GUILD_ROLE_UPDATE'', OnGuildRoleUpdate),
     (''GUILD_ROLE_DELETE'', OnGuildRoleDelete),
     (''INVITE_CREATE'', OnInviteCreate),
     (''INVITE_DELETE'', OnInviteDelete),
     (''MESSAGE_CREATE'', OnMessageCreate),
     (''MESSAGE_UPDATE'', OnMessageUpdate),
     (''MESSAGE_DELETE'', OnMessageDelete),
     (''MESSAGE_DELETE_BULK'', OnMessageDeleteBulk),
     (''MESSAGE_REACTION_ADD'', OnMessageReactionAdd),
     (''MESSAGE_REACTION_REMOVE'', OnMessageReactionRemove),
     (''MESSAGE_REACTION_REMOVE_ALL'', OnMessageReactionRemoveAll),
     (''MESSAGE_REACTION_REMOVE_EMOJI'', OnMessageReactionRemoveEmoji),
     (''PRESENCE_UPDATE'', OnPresenceUpdate),
     (''TYPING_START'', OnTypingStart),
     (''USER_UPDATE'', OnUserUpdate),
     (''VOICE_STATE_UPDATE'', OnVoiceStateUpdate),
     (''ENTITLEMENT_CREATE'', OnEntitlementCreate),
     (''ENTITLEMENT_UPDATE'', OnEntitlementUpdate),
     (''ENTITLEMENT_DELETE'', OnEntitlementDelete)]"

definition StateDispatch :: "handler \<Rightarrow> handler" where
  "StateDispatch ready lb ctx event =
     (case map_of (dispatchHandlers ready) (gp_Type event) of
        Some f \<Rightarrow> f lb ctx event
      | None \<Rightarrow> WildcardEvent lb ctx event)"

section \<open>From the gateway to the producer\<close>

definition trace_at :: "bool \<Rightarrow> string \<Rightarrow> int64 \<Rightarrow> SandwichTrace option \<Rightarrow> SandwichTrace option" where
  "trace_at disableTrace key now trace =
     (if disableTrace then trace
      else Some ((case trace of None \<Rightarrow> Map.empty | Some t \<Rightarrow> t)(key \<mapsto> now)))"

definition state_ctx :: "ManagerConfiguration \<Rightarrow> StateCtx" where
  "state_ctx cfg = \<lparr> ctx_CacheUsers = mc_CacheUsers cfg, ctx_CacheMembers = mc_CacheMembers cfg,
     ctx_Stateless = False, ctx_StoreMutuals = mc_StoreMutuals cfg \<rparr>"

definition globally_routed :: EventDispatchIdentifier where
  "globally_routed = \<lparr> edi_GuildID = None, edi_UserID = None, edi_GloballyRouted = True \<rparr>"

definition event_packet :: "GatewayPayload \<Rightarrow> EventDispatch \<Rightarrow> SandwichTrace option \<Rightarrow> SandwichPayload" where
  "event_packet msg result trace =
     \<lparr> sp_Extra = ed_Extra result, sp_Metadata = None, sp_Trace = trace, sp_Type = gp_Type msg,
       sp_Data = ed_Data result, sp_Sequence = gp_Sequence msg, sp_Op = gp_Op msg,
       sp_EventDispatchIdentifier =
         Some (case ed_EventDispatchIdentifier result of None \<Rightarrow> globally_routed | Some edi \<Rightarrow> edi) \<rparr>"

definition OnDispatch_with ::
    "(SandwichTrace option \<Rightarrow> handler) \<Rightarrow> lib \<Rightarrow> GatewayPayload \<Rightarrow> SandwichTrace option
     \<Rightarrow> (env, go_error option) prog" where
  "OnDispatch_with ready lb msg trace =
     recovered None
     (bnd (rd env_Manager) (\<lambda>mg.
      if \<not> mg_hasProducer mg then ret (Some ErrProducerMissing)
      else if gp_Type msg \<in> set (mg_eventBlacklist mg) then ret None
      else
      let cfg = mg_Configuration mg in
      bnd (rd (\<lambda>e. trace_at (mc_DisableTrace cfg) ''state'' (env_now e) trace)) (\<lambda>trace.
      bnd (StateDispatch (ready trace) lb (state_ctx cfg) msg) (\<lambda>(result, continuable, err).
      case err of
        Some e \<Rightarrow> ret (Some e)
      | None \<Rightarrow>
          bnd (rd (\<lambda>e. sg_floodgate (env_ShardGroup e))) (\<lambda>floodgate.
          if \<not> floodgate \<or> \<not> continuable then ret None
          else
          bnd (rd (\<lambda>e. gp_Type msg \<in> set (mg_produceBlacklist (env_Manager e)))) (\<lambda>contains.
          if contains then ret None
          else PublishEvent lb (event_packet msg result trace)))))))"

primrec ready_loop ::
    "nat \<Rightarrow> lib \<Rightarrow> (int \<Rightarrow> (env, go_error option) prog) \<Rightarrow> SandwichTrace option \<Rightarrow> (env, unit) prog" where
  "ready_loop 0 lb rc trace = panic out_of_fuel"
| "ready_loop (Suc n) lb rc trace =
     bnd (rd env_inbox) (\<lambda>inbox.
     case inbox of
       RdTimeout # rest \<Rightarrow> upd (\<lambda>e. e\<lparr>env_inbox := rest\<rparr>)
     | _ \<Rightarrow>
         bnd readMessage (\<lambda>r.
         case r of
           Inl err \<Rightarrow> ret ()
         | Inr msg \<Rightarrow>
             bnd (OnDispatch_with (OnReady rc (ready_loop n lb rc)) lb msg trace) (\<lambda>_.
             ready_loop n lb rc trace)))"

definition OnDispatch ::
    "(int \<Rightarrow> (env, go_error option) prog) \<Rightarrow> lib \<Rightarrow> GatewayPayload \<Rightarrow> SandwichTrace option
     \<Rightarrow> (env, go_error option) prog" where
  "OnDispatch rc lb msg trace e =
     OnDispatch_with (OnReady rc (ready_loop (Suc (length (env_inbox e))) lb rc)) lb msg trace e"

section \<open>Gateway operations\<close>

type_synonym gateway_handler =
  "nat \<Rightarrow> lib \<Rightarrow> GatewayPayload \<Rightarrow> SandwichTrace option \<Rightarrow> (env, go_error option) prog"

definition gatewayOpDispatch :: gateway_handler where
  "gatewayOpDispatch fuel lb msg trace =
     bnd (upd (on_Shard (\<lambda>sh. sh\<lparr>sh_Sequence := gp_Sequence msg\<rparr>))) (\<lambda>_.
     bnd (rd (\<lambda>e. map_option (\<lambda>t. t(''dispatch'' \<mapsto> env_now e)) trace)) (\<lambda>trace.
     bnd (OnDispatch (Reconnect fuel lb) lb msg trace) (\<lambda>_.
     ret None)))"

definition gatewayOpHeartbeat :: gateway_handler where
  "gatewayOpHeartbeat fuel lb msg trace =
     bnd (rd (\<lambda>e. sh_Sequence (env_Shard e))) (\<lambda>s.
     bnd (SendEvent (Reconnect fuel lb) lb GatewayOpHeartbeat (SentSequence s)) (\<lambda>err.
     if err \<noteq> None then Reconnect fuel lb StatusNormalClosure else ret None))"

definition gatewayOpReconnect :: gateway_handler where
  "gatewayOpReconnect fuel lb msg trace = Reconnect fuel lb WebsocketReconnectCloseCode"

definition gatewayOpInvalidSession :: gateway_handler where
  "gatewayOpInvalidSession fuel lb msg trace =
     (case dec_resumable lb (gp_Data msg) of
        (_, Some err) \<Rightarrow> ret (Some err)
      | (resumable, None) \<Rightarrow>
          bnd (upd (\<lambda>e. if \<not> resumable
                       then on_Shard (\<lambda>sh. sh\<lparr>sh_SessionID := [], sh_Sequence := 0, sh_ResumeGatewayURL := []\<rparr>) e
                       else e)) (\<lambda>_.
          Reconnect fuel lb WebsocketReconnectCloseCode))"

definition gatewayOpHello :: gateway_handler where
  "gatewayOpHello fuel lb msg trace =
     (case decodeContent (dec_Hello lb) msg of
        (_, Some err) \<Rightarrow> ret (Some err)
      | (hello, None) \<Rightarrow>
          bnd (upd (\<lambda>e. on_Shard (\<lambda>sh. sh\<lparr>sh_LastHeartbeatSent := now_ms e, sh_LastHeartbeatAck := now_ms e\<rparr>) e)) (\<lambda>_.
          if sint (hello_HeartbeatInterval hello) \<le> 0 then ret (Some ErrInvalidHeartbeatInterval)
          else
          bnd (upd (on_Shard (\<lambda>sh. sh\<lparr>sh_HeartbeatInterval := sint (hello_HeartbeatInterval hello),
                 sh_HeartbeatFailureInterval := sint (hello_HeartbeatInterval hello) * ShardMaxHeartbeatFailures\<rparr>))) (\<lambda>_.
          ret None)))"

definition gatewayOpHeartbeatACK :: gateway_handler where
  "gatewayOpHeartbeatACK fuel lb msg trace =
     bnd (upd (\<lambda>e. on_Shard (\<lambda>sh. sh\<lparr>sh_LastHeartbeatAck := now_ms e\<rparr>) e)) (\<lambda>_. ret None)"

definition gatewayHandlers :: "(GatewayOp \<times> gateway_handler) list" where
  "gatewayHandlers = [
     (GatewayOpDispatch, gatewayOpDispatch),
     (GatewayOpHeartbeat, gatewayOpHeartbeat),
     (GatewayOpReconnect, gatewayOpReconnect),
     (GatewayOpInvalidSession, gatewayOpInvalidSession),
     (GatewayOpHello, gatewayOpHello),
     (GatewayOpHeartbeatACK, gatewayOpHeartbeatACK)]"

definition GatewayDispatch :: gateway_handler where
  "GatewayDispatch fuel lb event trace =
     (case map_of gatewayHandlers (gp_Op event) of
        Some f \<Rightarrow> f fuel lb event trace
      | None \<Rightarrow> ret (Some ErrNoGatewayHandler))"

definition OnEvent :: "nat \<Rightarrow> lib \<Rightarrow> GatewayPayload \<Rightarrow> SandwichTrace option \<Rightarrow> (env, unit) prog" where
  "OnEvent fuel lb msg trace = bnd (GatewayDispatch fuel lb msg trace) (\<lambda>_. ret ())"

section \<open>The reading loop\<close>

definition fatal_close_codes :: "int list" where
  "fatal_close_codes = [4004, 4010, 4011, 4012, 4013, 4014]"

text \<open>
  One call of \<^verbatim>\<open>Listen\<close>, whose only caller passes the context the shard has at that time. The call ends once
  that context is cancelled, as it is when the shard is closed or connects again. \<open>wsConn\<close> is the connection at
  the start of the call; an error on another connection does not reconnect.
\<close>

primrec listen_loop :: "nat \<Rightarrow> nat \<Rightarrow> lib \<Rightarrow> nat \<Rightarrow> bool \<Rightarrow> nat option \<Rightarrow> (env, go_error option) prog" where
  "listen_loop 0 fuel lb ctx disableTrace wsConn = panic out_of_fuel"
| "listen_loop (Suc n) fuel lb ctx disableTrace wsConn =
     bnd (rd (ctx_done ctx)) (\<lambda>done.
     if done then ret None
     else bnd readMessage (\<lambda>r.
     case r of
       Inr msg \<Rightarrow>
         bnd (rd (\<lambda>e. trace_at disableTrace ''receive'' (env_now e) None)) (\<lambda>trace.
         bnd (OnEvent fuel lb msg trace) (\<lambda>_.
         listen_loop n fuel lb ctx disableTrace wsConn))
     | Inl err \<Rightarrow>
         if errors_Is err ErrContextCanceled \<or> errors_Is err ErrDeadlineExceeded then ret None
         else if (case close_code err of None \<Rightarrow> False | Some code \<Rightarrow> code \<in> set fatal_close_codes) then
           bnd (upd (on_ShardGroup (\<lambda>sg. sg\<lparr>sg_Error := lib_error_text lb err\<rparr>))) (\<lambda>_. ret (Some err))
         else
           bnd (rd (\<lambda>e. wsConn = sh_wsConn (env_Shard e))) (\<lambda>connEqual.
           if connEqual then Reconnect fuel lb StatusNormalClosure
           else listen_loop n fuel lb ctx disableTrace wsConn)))"

definition Listen :: "nat \<Rightarrow> lib \<Rightarrow> (env, go_error option) prog" where
  "Listen fuel lb e =
     listen_loop (Suc (length (env_inbox e))) fuel lb (env_ctx e) (mc_DisableTrace (mg_Configuration (env_Manager e)))
       (sh_wsConn (env_Shard e)) e"

end
