(* ===== verification/Invariant.thy ===== *)
theory Invariant
  imports Events
begin

text \<open>
  What every event preserves. The locale \<open>state_invariant\<close> takes a predicate on \<open>env\<close> and asks that each
  single update the code makes keeps it; its lemmas give that every handler, every dispatch, every
  reconnection and every run of the reading loop keeps it, whether it returns, fails or panics. The
  interpretations are in the theories \<open>Inbox\<close> (the fuel of the loops), \<open>Voice\<close> (what becomes of voice
  states) and \<open>Cached\<close> (the shape of what is cached).
\<close>

section \<open>Rules for the program constructs\<close>

lemma keeps_lift_res [keeps_intros]: "keeps P (lift_res f)"
  by (simp add: keeps_def lift_res_def)

lemma keeps_identify_retries [keeps_intros]: "keeps P (identify_retries rs)"
  by (simp add: keeps_def identify_retries_run)

lemma keeps_decoding [keeps_intros]:
  "(\<And>p. keeps P (body p)) \<Longrightarrow> keeps P (decoding dec msg body)"
  by (auto simp: decoding_def intro!: keeps_intros)

lemma keeps_with_extra [keeps_intros]:
  "(\<And>x. keeps P (body x)) \<Longrightarrow> keeps P (with_extra lb ok kvs body)"
  by (auto simp: with_extra_def intro!: keeps_intros)

lemma keeps_dispatch [keeps_intros]: "keeps P (dispatch msg extra edi)"
  by (simp add: dispatch_def keeps_ret)

section \<open>The interface\<close>

definition put_user :: "int64 \<Rightarrow> User \<Rightarrow> SandwichState \<Rightarrow> SandwichState" where
  "put_user t u ss = ss\<lparr>Users := Cache_Store csm (Users ss) (user_ID u) (UserToState t u)\<rparr>"

definition put_member :: "GuildID \<Rightarrow> User \<Rightarrow> GuildMember \<Rightarrow> SandwichState \<Rightarrow> SandwichState" where
  "put_member g u m ss = ss\<lparr>GuildMembers := DC_Store csm csm (GuildMembers ss) g (user_ID u) m\<rparr>"

definition put_role :: "GuildID \<Rightarrow> Role \<Rightarrow> SandwichState \<Rightarrow> SandwichState" where
  "put_role g r ss = ss\<lparr>GuildRoles := DC_Store csm csm (GuildRoles ss) g (role_ID r) r\<rparr>"

definition put_channel :: "GuildID \<Rightarrow> Channel \<Rightarrow> SandwichState \<Rightarrow> SandwichState" where
  "put_channel g c ss = ss\<lparr>GuildChannels := DC_Store csm csm (GuildChannels ss) g (chan_ID c) c\<rparr>"

definition put_emojis :: "GuildID \<Rightarrow> Emoji slice \<Rightarrow> SandwichState \<Rightarrow> SandwichState" where
  "put_emojis g es ss = ss\<lparr>GuildEmojis := Cache_Store csm (GuildEmojis ss) g es\<rparr>"

definition put_guild :: "Guild \<Rightarrow> SandwichState \<Rightarrow> SandwichState" where
  "put_guild g ss = ss\<lparr>Guilds := Cache_Store csm (Guilds ss) (guild_ID g) g\<rparr>"

definition put_dm :: "ChannelID \<Rightarrow> StateDMChannel \<Rightarrow> SandwichState \<Rightarrow> SandwichState" where
  "put_dm c d ss = ss\<lparr>DmChannels := Cache_Store csm (DmChannels ss) c d\<rparr>"

definition del_voice :: "GuildID \<Rightarrow> UserID \<Rightarrow> SandwichState \<Rightarrow> SandwichState" where
  "del_voice g u ss = ss\<lparr>GuildVoiceStates := DC_Delete csm csm (GuildVoiceStates ss) g u\<rparr>"

lemma put_folds:
  "(\<lambda>ss. ss\<lparr>Users := Cache_Store csm (Users ss) (user_ID u) (UserToState t u)\<rparr>) = put_user t u"
  "(\<lambda>ss. ss\<lparr>GuildMembers := DC_Store csm csm (GuildMembers ss) g (user_ID u) m\<rparr>) = put_member g u m"
  "(\<lambda>ss. ss\<lparr>GuildRoles := DC_Store csm csm (GuildRoles ss) g (role_ID r) r\<rparr>) = put_role g r"
  "(\<lambda>ss. ss\<lparr>GuildEmojis := Cache_Store csm (GuildEmojis ss) g es\<rparr>) = put_emojis g es"
  "(\<lambda>ss. ss\<lparr>Guilds := Cache_Store csm (Guilds ss) (guild_ID guild) guild\<rparr>) = put_guild guild"
  "(\<lambda>ss. ss\<lparr>DmChannels := Cache_Store csm (DmChannels ss) c d\<rparr>) = put_dm c d"
  "(\<lambda>ss. ss\<lparr>GuildVoiceStates := DC_Delete csm csm (GuildVoiceStates ss) g uid\<rparr>) = del_voice g uid"
  by (simp_all add: fun_eq_iff put_user_def put_member_def put_role_def put_emojis_def put_guild_def
      put_dm_def del_voice_def)

text \<open>The single updates, as a set of state transformers.\<close>

inductive state_update :: "(SandwichState \<Rightarrow> SandwichState) \<Rightarrow> bool" where
  "state_update (put_user t u)"
| "gm_User m = Some u \<Longrightarrow> state_update (put_member g u m)"
| "role_ID r \<noteq> 0 \<Longrightarrow> state_update (put_role g r)"
| "chan_GuildID c = Some g \<Longrightarrow> state_update (put_channel g c)"
| "state_update (put_emojis g es)"
| "state_update (put_guild guild)"
| "state_update (put_dm c d)"
| "state_update (del_voice g uid)"
| "state_update (incr_MemberCount g)"
| "state_update (decr_MemberCount g)"
| "state_update (RemoveGuildMember g uid)"
| "state_update (RemoveGuildRole g rid)"
| "state_update (RemoveGuildChannel g c)"
| "state_update (RemoveAllGuildEmojis g)"
| "state_update (RemoveDMChannelByChannelID c)"
| "state_update (AddUserMutualGuild ctx uid g)"
| "state_update (RemoveUserMutualGuild uid g)"
| "(\<And>c. chan_ID (fn c) = chan_ID c \<and> chan_GuildID (fn c) = chan_GuildID c) \<Longrightarrow>
     state_update (\<lambda>ss. snd (UpdateGuildChannel g c fn ss))"
| "state_update (\<lambda>ss. snd (UpdateDMChannelByChannelID c dfn ss))"

fun is_publish :: "effect \<Rightarrow> bool" where
  "is_publish (EfPublish p c) = True"
| "is_publish x = False"

locale state_invariant =
  fixes P :: "env \<Rightarrow> bool"
  assumes shard: "P e \<Longrightarrow> P (on_Shard f1 e)"
    and group: "P e \<Longrightarrow> P (on_ShardGroup f2 e)"
    and manager: "P e \<Longrightarrow> (\<And>mg. mg_IsClosing (f3 mg) = mg_IsClosing mg) \<Longrightarrow> P (on_Manager f3 e)"
    and logged: "P e \<Longrightarrow> \<not> is_publish x \<Longrightarrow> P (emit x e)"
    and counted: "P e \<Longrightarrow> P (e\<lparr>env_dispatchCount := c\<rparr>)"
    and deduped: "P e \<Longrightarrow> P (e\<lparr>env_Dedupe := d\<rparr>)"
    and chunked: "P e \<Longrightarrow> P (e\<lparr>env_guildChunks := gc\<rparr>)"
    and freshened: "P e \<Longrightarrow> P (e\<lparr>env_fresh := n\<rparr>)"
    and contexted: "P e \<Longrightarrow> P (new_ctx e)"
    and cancelled: "P e \<Longrightarrow> P (cancel_ctx e)"
    and scripted: "P e \<Longrightarrow> P (e\<lparr>env_chunks := cs\<rparr>)"
    and dialled: "P e \<Longrightarrow> P (e\<lparr>env_dials := ds\<rparr>)"
    and written: "P e \<Longrightarrow> P (e\<lparr>env_writes := ws\<rparr>)"
    and inbox: "P e \<Longrightarrow> length t \<le> length (env_inbox e) \<Longrightarrow> P (e\<lparr>env_inbox := t\<rparr>)"
    and state: "P e \<Longrightarrow> state_update f \<Longrightarrow> P (on_State f e)"
    and voice: "P e \<Longrightarrow> P (snd (store_voice_state lb g v e))"

text \<open>An invariant that publishing keeps as well.\<close>

locale event_invariant = state_invariant +
  assumes published: "P e \<Longrightarrow> P (emit (EfPublish packet channel) e)"

context state_invariant
begin

lemma counts: "P e \<Longrightarrow> P (OnGuildDispatchEvent t g e)" "P e \<Longrightarrow> P (OnDispatchEvent t e)"
  "P e \<Longrightarrow> P (SafeOnGuildDispatchEvent t p e)"
  by (auto simp: OnDispatchEvent_def SafeOnGuildDispatchEvent_def OnGuildDispatchEvent_def Let_def counted
      split: option.split)

lemma keeps_counted:
  "keeps P m \<Longrightarrow> keeps P (deferred (OnGuildDispatchEvent t g) m)"
  "keeps P m \<Longrightarrow> keeps P (deferred (OnDispatchEvent t) m)"
  "keeps P m \<Longrightarrow> keeps P (deferred (SafeOnGuildDispatchEvent t p) m)"
  by (auto intro: keeps_deferred counts)

lemma keeps_counted_ptr:
  "keeps P m \<Longrightarrow> keeps P ((case x of None \<Rightarrow> (\<lambda>m. m) | Some g \<Rightarrow> deferred (OnGuildDispatchEvent t g)) m)"
  "keeps P m \<Longrightarrow> keeps P ((case x of None \<Rightarrow> (\<lambda>m. m)
      | Some g \<Rightarrow> deferred (SafeOnGuildDispatchEvent t (Some g))) m)"
  by (auto intro: keeps_counted split: option.split)

lemma keeps_upds:
  "keeps P (upd (on_Shard f1))" "keeps P (upd (on_ShardGroup f2))"
  "(\<And>mg. mg_IsClosing (f3 mg) = mg_IsClosing mg) \<Longrightarrow> keeps P (upd (on_Manager f3))"
  "\<not> is_publish x \<Longrightarrow> keeps P (upd (emit x))"
  by (auto intro: keeps_upd shard group manager logged)

lemma keeps_state: "state_update f \<Longrightarrow> keeps P (upd (on_State f))"
  by (auto intro: keeps_upd state)

lemma status: "P e \<Longrightarrow> P (SetStatus st e)"
  by (simp add: SetStatus_def Let_def logged shard)

lemma set_user: "P e \<Longrightarrow> P (SetUser ctx u e)"
  by (simp add: SetUser_def put_folds state state_update.intros)

lemma set_users: "P e \<Longrightarrow> P (fold (SetUser ctx) us e)"
  by (induction us arbitrary: e) (auto intro: set_user)

lemma set_member: "keeps P (SetGuildMember ctx g m)"
  unfolding SetGuildMember_def put_folds
  by (intro keeps_intros keeps_deref_bnd keeps_state state_update.intros keeps_upd set_user) auto

lemma set_role: "keeps P (SetGuildRole g r)"
  unfolding SetGuildRole_def put_folds
  by (intro keeps_intros keeps_state state_update.intros) auto

lemma set_channel: "P e \<Longrightarrow> P (SetGuildChannel ctx g c e)"
  using state [OF _ state_update.intros(4), of e "c\<lparr>chan_GuildID := Some g\<rparr>" g]
  by (simp add: SetGuildChannel_def put_channel_def [abs_def] Let_def set_users)

lemma set_emojis: "P e \<Longrightarrow> P (SetGuildEmojis ctx g es e)"
proof -
  assume "P e"
  then have "P (on_State (put_emojis g es) e)" by (intro state state_update.intros)
  moreover have "P s \<Longrightarrow> P (fold (\<lambda>em e. case emoji_User em of None \<Rightarrow> e | Some u \<Rightarrow> SetUser ctx u e) xs s)" for xs s
    by (induction xs arbitrary: s) (auto intro: set_user split: option.split)
  ultimately show ?thesis by (simp add: SetGuildEmojis_def put_folds)
qed

lemma get_dm: "P e \<Longrightarrow> P (snd (GetDMChannel c e))"
  by (auto simp: GetDMChannel_def put_folds intro!: state state_update.intros split: option.split)

lemma add_dm: "P e \<Longrightarrow> P (AddDMChannel u c e)"
  by (simp add: AddDMChannel_def put_folds state state_update.intros)

lemma set_channel_upd: "keeps P (upd (SetGuildChannel ctx g c))"
  by (intro keeps_upd set_channel)

lemma set_emojis_upd: "keeps P (upd (SetGuildEmojis ctx g es))"
  by (intro keeps_upd set_emojis)

lemma recount: "keeps P (recount_voice_channel ctx p c)"
  unfolding recount_voice_channel_def
  by (intro keeps_intros set_channel_upd keeps_state state_update.intros)

lemma put_voice: "keeps P (store_voice_state lb g v)"
  by (intro keepsI voice)

lemma update_voice: "keeps P (UpdateVoiceState lb ctx v)"
  unfolding UpdateVoiceState_def by (intro keeps_intros set_member recount put_voice)

lemma remove_voice: "P e \<Longrightarrow> P (RemoveVoiceState ctx g u e)"
  unfolding RemoveVoiceState_def Let_def put_folds
  by (auto intro!: set_channel state state_update.intros split: option.split prod.split)

lemma set_guild: "keeps P (SetGuild lb ctx guild)"
  unfolding SetGuild_def Let_def put_folds
  by (intro keeps_intros keeps_upds keeps_state state_update.intros set_role set_member update_voice
      set_channel_upd set_emojis_upd)

lemma more_upds:
  "keeps P (upd (SetUser ctx u))" "keeps P (upd (RemoveVoiceState ctx g uid))"
  "keeps P (upd (AddDMChannel uid c))" "keeps P (upd (SetStatus st))" "keeps P (act (GetDMChannel cid))"
  "keeps P (upd (remove_dedupe key))" "keeps P (check_and_add key)"
  by (auto intro!: keeps_upd keeps_act set_user remove_voice add_dm status get_dm
      simp: remove_dedupe_def check_and_add_def deduped split: prod.split)

lemmas updates = keeps_intros keeps_upds keeps_state state_update.intros set_role set_member update_voice
  set_channel_upd set_emojis_upd set_guild keeps_counted keeps_counted_ptr more_upds

section \<open>Every handler\<close>

lemma handler_OnGuildCreate: "keeps P (OnGuildCreate lb ctx msg)"
  unfolding OnGuildCreate_def by (intro updates)

lemma handler_OnGuildUpdate: "keeps P (OnGuildUpdate lb ctx msg)"
  unfolding OnGuildUpdate_def by (intro updates)

lemma handler_OnGuildDelete: "keeps P (OnGuildDelete lb ctx msg)"
  unfolding OnGuildDelete_def by (intro updates)

lemma handler_OnGuildAuditLogEntryCreate: "keeps P (OnGuildAuditLogEntryCreate lb ctx msg)"
  unfolding OnGuildAuditLogEntryCreate_def by (intro updates)

lemma handler_OnGuildBanAdd: "keeps P (OnGuildBanAdd lb ctx msg)"
  unfolding OnGuildBanAdd_def by (intro updates)

lemma handler_OnGuildBanRemove: "keeps P (OnGuildBanRemove lb ctx msg)"
  unfolding OnGuildBanRemove_def by (intro updates)

lemma handler_OnGuildEmojisUpdate: "keeps P (OnGuildEmojisUpdate lb ctx msg)"
  unfolding OnGuildEmojisUpdate_def by (intro updates)

lemma handler_OnGuildStickersUpdate: "keeps P (OnGuildStickersUpdate lb ctx msg)"
  unfolding OnGuildStickersUpdate_def by (intro updates)

lemma handler_OnGuildIntegrationsUpdate: "keeps P (OnGuildIntegrationsUpdate lb ctx msg)"
  unfolding OnGuildIntegrationsUpdate_def by (intro updates)

lemma handler_OnChannelCreate: "keeps P (OnChannelCreate lb ctx msg)"
  unfolding OnChannelCreate_def by (intro updates)

lemma handler_OnChannelUpdate: "keeps P (OnChannelUpdate lb ctx msg)"
  unfolding OnChannelUpdate_def by (intro updates)

lemma handler_OnChannelDelete: "keeps P (OnChannelDelete lb ctx msg)"
  unfolding OnChannelDelete_def by (intro updates)

lemma handler_OnChannelPinsUpdate: "keeps P (OnChannelPinsUpdate lb ctx msg)"
  unfolding OnChannelPinsUpdate_def by (intro updates) simp

lemma handler_OnThreadUpdate: "keeps P (OnThreadUpdate lb ctx msg)"
  unfolding OnThreadUpdate_def by (intro updates)

lemma handler_OnGuildRoleCreate: "keeps P (OnGuildRoleCreate lb ctx msg)"
  unfolding OnGuildRoleCreate_def by (intro updates)

lemma handler_OnGuildRoleUpdate: "keeps P (OnGuildRoleUpdate lb ctx msg)"
  unfolding OnGuildRoleUpdate_def by (intro updates)

lemma handler_OnGuildRoleDelete: "keeps P (OnGuildRoleDelete lb ctx msg)"
  unfolding OnGuildRoleDelete_def by (intro updates)

lemma handler_OnGuildMemberAdd: "keeps P (OnGuildMemberAdd lb ctx msg)"
  unfolding OnGuildMemberAdd_def by (intro updates)

lemma handler_OnGuildMemberRemove: "keeps P (OnGuildMemberRemove lb ctx msg)"
  unfolding OnGuildMemberRemove_def by (intro updates)

lemma handler_OnGuildMemberUpdate: "keeps P (OnGuildMemberUpdate lb ctx msg)"
  unfolding OnGuildMemberUpdate_def by (intro updates)

lemma handler_OnGuildMembersChunk: "keeps P (OnGuildMembersChunk lb ctx msg)"
  unfolding OnGuildMembersChunk_def by (intro updates) simp

lemma handler_OnPresenceUpdate: "keeps P (OnPresenceUpdate lb ctx msg)"
  unfolding OnPresenceUpdate_def by (intro updates)

lemma handler_OnUserUpdate: "keeps P (OnUserUpdate lb ctx msg)"
  unfolding OnUserUpdate_def by (intro updates)

lemma handler_OnVoiceStateUpdate: "keeps P (OnVoiceStateUpdate lb ctx msg)"
  unfolding OnVoiceStateUpdate_def Let_def by (intro updates)

lemma message_handlers:
  "keeps P (OnResumed lb ctx msg)"
  "keeps P (OnInviteCreate lb ctx msg)"
  "keeps P (OnInviteDelete lb ctx msg)"
  "keeps P (OnMessageCreate lb ctx msg)"
  "keeps P (OnMessageUpdate lb ctx msg)"
  "keeps P (OnMessageDelete lb ctx msg)"
  "keeps P (OnMessageDeleteBulk lb ctx msg)"
  "keeps P (OnMessageReactionAdd lb ctx msg)"
  "keeps P (OnMessageReactionRemove lb ctx msg)"
  "keeps P (OnMessageReactionRemoveAll lb ctx msg)"
  "keeps P (OnMessageReactionRemoveEmoji lb ctx msg)"
  "keeps P (OnTypingStart lb ctx msg)"
  "keeps P (OnEntitlementCreate lb ctx msg)"
  "keeps P (OnEntitlementUpdate lb ctx msg)"
  "keeps P (OnEntitlementDelete lb ctx msg)"
  "keeps P (WildcardEvent lb ctx msg)"
  unfolding OnResumed_def OnInviteCreate_def OnInviteDelete_def OnMessageCreate_def OnMessageUpdate_def OnMessageDelete_def OnMessageDeleteBulk_def OnMessageReactionAdd_def OnMessageReactionRemove_def OnMessageReactionRemoveAll_def OnMessageReactionRemoveEmoji_def OnTypingStart_def OnEntitlementCreate_def OnEntitlementUpdate_def OnEntitlementDelete_def WildcardEvent_def
  by (intro updates)+

lemmas handlers = handler_OnGuildCreate handler_OnGuildUpdate handler_OnGuildDelete handler_OnGuildAuditLogEntryCreate handler_OnGuildBanAdd handler_OnGuildBanRemove handler_OnGuildEmojisUpdate handler_OnGuildStickersUpdate handler_OnGuildIntegrationsUpdate handler_OnChannelCreate handler_OnChannelUpdate handler_OnChannelDelete handler_OnChannelPinsUpdate handler_OnThreadUpdate handler_OnGuildRoleCreate handler_OnGuildRoleUpdate handler_OnGuildRoleDelete handler_OnGuildMemberAdd handler_OnGuildMemberRemove handler_OnGuildMemberUpdate handler_OnGuildMembersChunk handler_OnPresenceUpdate handler_OnUserUpdate handler_OnVoiceStateUpdate
  message_handlers

lemma keeps_table:
  assumes "\<And>lb ctx msg. keeps P (ready lb ctx msg)" and "(t, h) \<in> set (dispatchHandlers ready)"
  shows "keeps P (h lb ctx msg)"
  using assms(2) unfolding dispatchHandlers_def by (auto intro: handlers assms(1))

lemma keeps_StateDispatch:
  assumes "\<And>lb ctx msg. keeps P (ready lb ctx msg)"
  shows "keeps P (StateDispatch ready lb ctx msg)"
  unfolding StateDispatch_def
  by (intro keeps_option handlers keeps_table [OF assms] map_of_SomeD)

section \<open>Every reconnection\<close>

lemma read_shrinks: "length (snd (next_read rs)) \<le> length rs"
  by (induction rs rule: next_read.induct) auto

lemma keeps_readMessage: "keeps P readMessage"
  unfolding readMessage_def
  by (intro keeps_intros keeps_act) (auto intro!: inbox dest: arg_cong [where f = snd] split: prod.split
      simp: read_shrinks [of "env_inbox _"] intro: order_trans [OF _ read_shrinks])

lemma close_ws: "P e \<Longrightarrow> P (CloseWS code e)"
  by (auto simp: CloseWS_def intro!: logged shard split: option.split)

lemma close: "P e \<Longrightarrow> P (Close code b e)"
  by (simp add: Close_def Let_def status close_ws logged shard cancelled)

lemma keeps_send:
  assumes "\<And>code. keeps P (rc code)"
  shows "keeps P (SendEvent rc lb op i)"
  unfolding SendEvent_def WriteJSON_def
  by (intro keeps_intros assms keeps_act) (auto simp: wsWrite_def intro!: logged written split: option.split prod.split)

lemma keeps_dial: "keeps P (dial u)"
  unfolding dial_def
  by (intro keeps_act) (auto intro!: logged shard dialled simp: freshened dialled split: option.split prod.split)

lemma keeps_Identify:
  assumes "\<And>code. keeps P (rc code)"
  shows "keeps P (Identify rc lb)"
  unfolding Identify_def WaitForIdentify_def fill_presence_def
  by (intro updates keeps_send assms keeps_act) (simp_all add: Let_def manager)

lemma keeps_Resume:
  assumes "\<And>code. keeps P (rc code)"
  shows "keeps P (Resume rc lb)"
  unfolding Resume_def by (intro updates keeps_send assms)

lemma failing_keeps: "keeps P (failing err)"
  unfolding failing_def connect_cleanup_def by (intro updates keeps_upd) (simp add: close_ws status)

lemma keeps_beat: "keeps P (upd (\<lambda>e. on_Shard (f e) e))"
  by (intro keeps_upd shard)

lemma keeps_Connect:
  assumes "\<And>code. keeps P (rc code)"
  shows "keeps P (Connect rc lb)"
proof -
  have hello: "keeps P (connect_hello rc lb)"
    unfolding connect_hello_def
    by (intro updates keeps_readMessage failing_keeps keeps_Identify keeps_Resume assms keeps_beat)
  show ?thesis
    unfolding Connect_def
    by (intro keeps_intros hello keeps_dial keeps_upds keeps_upd contexted) (simp add: status)
qed

lemma keeps_reconnect_loop: "keeps P (reconnect_loop fuel lb code)"
proof (induction fuel)
  case 0
  show ?case by (simp add: keeps_panic)
next
  case (Suc fuel)
  show ?case unfolding reconnect_loop.simps by (intro updates keeps_Connect keeps_panic Suc.IH keeps_upd close)
qed

lemma keeps_Reconnect: "keeps P (Reconnect fuel lb code)"
  unfolding Reconnect_def by (intro updates keeps_upd close keeps_reconnect_loop)

lemma keeps_ChunkGuild:
  assumes "\<And>code. keeps P (rc code)"
  shows "keeps P (ChunkGuild rc lb g always req)"
  unfolding ChunkGuild_def
  by (intro updates keeps_send assms keeps_act keeps_upd)
    (auto simp: chunk_entry_def scripted intro!: freshened chunked split: option.split prod.split)

lemma keeps_ChunkAllGuilds:
  assumes "\<And>code. keeps P (rc code)"
  shows "keeps P (ChunkAllGuilds rc lb)"
  unfolding ChunkAllGuilds_def by (intro updates keeps_ChunkGuild assms)

section \<open>Every event\<close>

lemma keeps_OnReady:
  assumes "\<And>code. keeps P (rc code)" and "\<And>trace. keeps P (loop trace)"
  shows "keeps P (OnReady rc loop trace lb ctx msg)"
  unfolding OnReady_def by (intro updates keeps_ChunkAllGuilds assms) simp_all

end

context event_invariant
begin

lemma keeps_publish: "keeps P (upd (emit (EfPublish packet channel)))"
  by (intro keeps_upd published)

lemma keeps_PublishEvent: "keeps P (PublishEvent lb packet)"
  unfolding PublishEvent_def by (intro updates keeps_publish)

lemma keeps_OnDispatch_with:
  assumes "\<And>trace lb ctx msg. keeps P (ready trace lb ctx msg)"
  shows "keeps P (OnDispatch_with ready lb msg trace)"
  unfolding OnDispatch_with_def
  by (intro updates keeps_StateDispatch keeps_PublishEvent assms)

lemma keeps_ready_loop:
  assumes "\<And>code. keeps P (rc code)"
  shows "keeps P (ready_loop n lb rc trace)"
proof (induction n arbitrary: trace)
  case 0
  show ?case by (simp add: keeps_panic)
next
  case (Suc n)
  have timeout: "keeps P (bnd (rd env_inbox) (\<lambda>inbox. case inbox of
       RdTimeout # rest \<Rightarrow> upd (\<lambda>e. e\<lparr>env_inbox := rest\<rparr>) | _ \<Rightarrow> m))" if "keeps P m" for m
    using that by (auto simp: keeps_def bnd_eval upd_def intro!: inbox split: list.split read_event.split)
  show ?case
    unfolding ready_loop.simps
    by (intro timeout updates keeps_readMessage keeps_OnDispatch_with keeps_OnReady assms Suc.IH)
qed

lemma keeps_OnDispatch:
  assumes "\<And>code. keeps P (rc code)"
  shows "keeps P (OnDispatch rc lb msg trace)"
  using keeps_OnDispatch_with [OF keeps_OnReady [OF assms keeps_ready_loop [OF assms]]]
  by (simp add: keeps_def OnDispatch_def)

lemma keeps_gateway: "(op, h) \<in> set gatewayHandlers \<Longrightarrow> keeps P (h fuel lb msg trace)"
  unfolding gatewayHandlers_def
  by (auto simp: gatewayOpDispatch_def gatewayOpHeartbeat_def gatewayOpReconnect_def
      gatewayOpInvalidSession_def gatewayOpHello_def gatewayOpHeartbeatACK_def
      intro!: updates keeps_OnDispatch keeps_send keeps_Reconnect keeps_beat keeps_upd shard)

lemma keeps_OnEvent: "keeps P (OnEvent fuel lb msg trace)"
  unfolding OnEvent_def GatewayDispatch_def by (intro updates keeps_gateway map_of_SomeD)

lemma keeps_listen_loop: "keeps P (listen_loop n fuel lb ctx b conn)"
proof (induction n)
  case 0
  show ?case by (simp add: keeps_panic)
next
  case (Suc n)
  show ?case
    unfolding listen_loop.simps by (intro updates keeps_OnEvent keeps_Reconnect keeps_readMessage Suc.IH)
qed

lemma keeps_Listen: "keeps P (Listen fuel lb)"
  using keeps_listen_loop unfolding keeps_def Listen_def by blast

end

end
