(* ===== verification/Inbox.thy ===== *)
theory Inbox
  imports Invariant
begin

text \<open>
  The fuel of the loops that read: no event makes the inbox longer, so a fuel above its length is enough
  for the loop of \<^verbatim>\<open>OnReady\<close> and for \<^verbatim>\<open>Listen\<close>, and more of it changes nothing.
\<close>

lemma store_voice_frame: "env_inbox (snd (store_voice_state lb g v e)) = env_inbox e"
  by (simp add: store_voice_state_def bnd_def act_def lift_res_def upd_def ret_def
      split: prod.splits res.splits if_splits)

interpretation inbox: event_invariant "\<lambda>e. length (env_inbox e) \<le> k" for k :: nat
  by unfold_locales (auto simp: store_voice_frame)

definition agree :: "nat \<Rightarrow> (env, 'a) prog \<Rightarrow> (env, 'a) prog \<Rightarrow> bool" where
  "agree k m m' \<longleftrightarrow> (\<forall>e. length (env_inbox e) \<le> k \<longrightarrow> m e = m' e)"

lemma agree_refl: "agree k m m"
  by (simp add: agree_def)

lemma agree_bnd_left:
  "agree k m m' \<Longrightarrow> agree k (bnd m f) (bnd m' f)"
  unfolding agree_def by (blast intro: bnd_cong_left)

lemma agree_bnd:
  assumes "keeps (\<lambda>e. length (env_inbox e) \<le> k) m" and "\<And>x. agree k (f x) (f' x)"
  shows "agree k (bnd m f) (bnd m f')"
  using assms by (auto simp: agree_def dest: keepsD intro!: bnd_cong_at)

lemma agree_recovered: "agree k m m' \<Longrightarrow> agree k (recovered x m) (recovered x m')"
  by (simp add: agree_def recovered_def)

lemma agree_deferred: "agree k m m' \<Longrightarrow> agree k (deferred d m) (deferred d m')"
  by (simp add: agree_def deferred_def)

lemma agree_decoding: "(\<And>p. agree k (f p) (f' p)) \<Longrightarrow> agree k (decoding dec msg f) (decoding dec msg f')"
  by (simp add: agree_def decoding_def split: prod.split option.split)

lemma agree_if: "(b \<Longrightarrow> agree k m m') \<Longrightarrow> (\<not> b \<Longrightarrow> agree k n n') \<Longrightarrow>
    agree k (if b then m else n) (if b then m' else n')"
  by simp

lemma OnReady_agree:
  assumes "\<And>trace. agree k (loop trace) (loop' trace)"
  shows "agree k (OnReady rc loop trace lb ctx msg) (OnReady rc loop' trace lb ctx msg)"
  unfolding OnReady_def
  by (intro agree_deferred agree_decoding agree_bnd agree_bnd_left assms inbox.keeps_upds) simp_all

lemma StateDispatch_agree:
  assumes "\<And>lb ctx msg. agree k (ready lb ctx msg) (ready' lb ctx msg)"
  shows "agree k (StateDispatch ready lb ctx msg) (StateDispatch ready' lb ctx msg)"
proof (cases "gp_Type msg = ''READY''")
  case True
  then show ?thesis using assms by (simp add: StateDispatch_def dispatchHandlers_def)
next
  case False
  then have "map_of (dispatchHandlers ready) (gp_Type msg) = map_of (dispatchHandlers ready') (gp_Type msg)"
    by (simp add: dispatchHandlers_def)
  then show ?thesis by (simp add: StateDispatch_def agree_refl)
qed

lemma OnDispatch_with_agree:
  assumes "\<And>trace lb ctx msg. agree k (ready trace lb ctx msg) (ready' trace lb ctx msg)"
  shows "agree k (OnDispatch_with ready lb msg trace) (OnDispatch_with ready' lb msg trace)"
  unfolding OnDispatch_with_def Let_def
  by (intro agree_recovered agree_bnd agree_if agree_refl agree_bnd_left StateDispatch_agree assms keeps_rd)

lemma read_consumes:
  assumes "readMessage e = (Ok (Inr msg), e')"
  shows "length (env_inbox e') < length (env_inbox e)"
proof -
  have "next_read rs = (Inr msg, t) \<Longrightarrow> length t < length rs" for rs t
    by (induction rs rule: next_read.induct) auto
  with assms show ?thesis
    by (auto simp: readMessage_def bnd_eval panic_def act_def split: if_splits prod.splits)
qed

lemma ready_loop_agree:
  assumes "\<And>code k. keeps (\<lambda>e. length (env_inbox e) \<le> k) (rc code)"
  shows "k < n \<Longrightarrow> k < m \<Longrightarrow> agree k (ready_loop n lb rc trace) (ready_loop m lb rc trace)"
proof (induction n arbitrary: m k trace)
  case 0
  then show ?case by simp
next
  case (Suc n)
  then obtain m' where m: "m = Suc m'" by (cases m) auto
  show ?case
    unfolding agree_def
  proof (intro allI impI)
    fix e :: env
    assume k: "length (env_inbox e) \<le> k"
    have body: "bnd readMessage (\<lambda>r. case r of Inl err \<Rightarrow> ret () | Inr msg \<Rightarrow>
          bnd (OnDispatch_with (OnReady rc (ready_loop n lb rc)) lb msg trace) (\<lambda>_. ready_loop n lb rc trace)) e
        = bnd readMessage (\<lambda>r. case r of Inl err \<Rightarrow> ret () | Inr msg \<Rightarrow>
          bnd (OnDispatch_with (OnReady rc (ready_loop m' lb rc)) lb msg trace) (\<lambda>_. ready_loop m' lb rc trace)) e"
    proof (rule bnd_cong_at)
      fix r s assume r: "readMessage e = (Ok r, s)"
      show "(case r of Inl err \<Rightarrow> ret () | Inr msg \<Rightarrow>
          bnd (OnDispatch_with (OnReady rc (ready_loop n lb rc)) lb msg trace) (\<lambda>_. ready_loop n lb rc trace)) s
        = (case r of Inl err \<Rightarrow> ret () | Inr msg \<Rightarrow>
          bnd (OnDispatch_with (OnReady rc (ready_loop m' lb rc)) lb msg trace) (\<lambda>_. ready_loop m' lb rc trace)) s"
      proof (cases r)
        case (Inr msg)
        let ?j = "length (env_inbox s)"
        have j: "?j < n" "?j < m'" using read_consumes [of e msg s] r Inr k Suc.prems m by auto
        have IH: "agree ?j (ready_loop n lb rc trace') (ready_loop m' lb rc trace')" for trace'
          using Suc.IH [OF j] .
        have "agree ?j (bnd (OnDispatch_with (OnReady rc (ready_loop n lb rc)) lb msg trace) (\<lambda>_. ready_loop n lb rc trace))
            (bnd (OnDispatch_with (OnReady rc (ready_loop n lb rc)) lb msg trace) (\<lambda>_. ready_loop m' lb rc trace))"
          by (intro agree_bnd IH inbox.keeps_OnDispatch_with inbox.keeps_OnReady inbox.keeps_ready_loop assms)
        moreover have "agree ?j (bnd (OnDispatch_with (OnReady rc (ready_loop n lb rc)) lb msg trace) (\<lambda>_. ready_loop m' lb rc trace))
            (bnd (OnDispatch_with (OnReady rc (ready_loop m' lb rc)) lb msg trace) (\<lambda>_. ready_loop m' lb rc trace))"
          by (intro agree_bnd_left OnDispatch_with_agree OnReady_agree IH)
        ultimately show ?thesis using Inr by (simp add: agree_def)
      qed simp
    qed
    show "ready_loop (Suc n) lb rc trace e = ready_loop m lb rc trace e"
      unfolding m ready_loop.simps
      by (simp add: bnd_eval body split: list.split read_event.split)
  qed
qed

text \<open>The fuel that \<open>OnDispatch\<close> gives to the loop of \<^verbatim>\<open>OnReady\<close> is enough: any larger one yields the same
  run, for the reconnection the daemon uses.\<close>

lemma dispatch_fuel_enough:
  assumes "length (env_inbox e) < n"
  shows "OnDispatch_with (OnReady (Reconnect fuel lb) (ready_loop n lb (Reconnect fuel lb))) lb msg trace e
    = OnDispatch (Reconnect fuel lb) lb msg trace e"
proof -
  have "agree (length (env_inbox e)) (ready_loop n lb (Reconnect fuel lb) t)
      (ready_loop (Suc (length (env_inbox e))) lb (Reconnect fuel lb) t)" for t
    using assms by (intro ready_loop_agree inbox.keeps_Reconnect) auto
  then have "agree (length (env_inbox e))
      (OnDispatch_with (OnReady (Reconnect fuel lb) (ready_loop n lb (Reconnect fuel lb))) lb msg trace)
      (OnDispatch_with (OnReady (Reconnect fuel lb)
        (ready_loop (Suc (length (env_inbox e))) lb (Reconnect fuel lb))) lb msg trace)"
    by (intro OnDispatch_with_agree OnReady_agree)
  then show ?thesis by (simp add: agree_def OnDispatch_def)
qed

lemma listen_loop_fuel:
  "length (env_inbox e) < n \<Longrightarrow> length (env_inbox e) < m \<Longrightarrow>
     listen_loop n fuel lb ctx b conn e = listen_loop m fuel lb ctx b conn e"
proof (induction n arbitrary: m e)
  case 0
  then show ?case by simp
next
  case (Suc n)
  then obtain m' where m: "m = Suc m'" by (cases m) auto
  have go: "listen_loop n fuel lb ctx b conn s = listen_loop m' fuel lb ctx b conn s"
    if "length (env_inbox s) < length (env_inbox e)" for s
    using that Suc.prems m by (intro Suc.IH) auto
  have ev: "length (env_inbox t) < length (env_inbox e)"
    if "readMessage e = (Ok (Inr msg), s)" "OnEvent fuel lb msg tr s = (x, t)" for msg s tr x t
    using read_consumes [OF that(1)] keepsD [OF inbox.keeps_OnEvent [of "length (env_inbox s)"] _ that(2)] by simp
  have er: "length (env_inbox s) < length (env_inbox e)"
    if "readMessage e = (Ok (Inl err), s)" "env_inbox e \<noteq> []" for err s
  proof -
    have "rs \<noteq> [] \<Longrightarrow> length (snd (next_read rs)) < length rs" for rs
      using inbox.read_shrinks by (cases rs rule: next_read.cases) (auto simp: less_Suc_eq_le)
    then show ?thesis using that
      by (auto simp: readMessage_def bnd_eval panic_def act_def split: if_splits prod.splits)
        (metis snd_conv)
  qed
  have nil: "err = ErrContextCanceled" if "readMessage e = (Ok (Inl err), s)" "env_inbox e = []" for err s
    using that by (auto simp: readMessage_def bnd_eval panic_def act_def split: if_splits)
  show ?case
    unfolding m listen_loop.simps
    by (simp add: bnd_eval) (intro impI bnd_cong_at, rename_tac r s, case_tac r; cases "env_inbox e = []";
        auto simp: bnd_eval intro!: bnd_cong_at go dest: ev er nil split: option.splits)
qed

text \<open>\<open>Listen\<close> has enough fuel too: any larger fuel for its loop yields the same run.\<close>

lemma listen_fuel_enough:
  assumes "length (env_inbox e) < n"
  shows "listen_loop n fuel lb (env_ctx e) (mc_DisableTrace (mg_Configuration (env_Manager e))) (sh_wsConn (env_Shard e)) e
    = Listen fuel lb e"
  unfolding Listen_def using assms by (intro listen_loop_fuel) auto

section \<open>The properties at work\<close>

end
