(* ===== verification/Voice.thy ===== *)
theory Voice
  imports Invariant
begin

text \<open>
  What becomes of voice states. \<^verbatim>\<open>UpdateVoiceState\<close> is the only code that stores one, into the copy of an
  inner cache that \<^verbatim>\<open>LoadOrNew\<close> returns. That cache has no map, so the map that the store creates belongs
  to the copy. \<open>hollow\<close> is the resulting invariant: no inner cache of the voice states ever has a map.
\<close>

definition hollow :: "SandwichState \<Rightarrow> bool" where
  "hollow ss \<longleftrightarrow> (\<forall>g c. Cache_Load csm (dinner (GuildVoiceStates ss)) g = Some c \<longrightarrow> inner c = None)"

lemma hollow_New: "hollow NewSandwichState"
  by (simp add: hollow_def NewSandwichState_def NewDoubleCache_def)

lemma hollow_cong: "GuildVoiceStates ss' = GuildVoiceStates ss \<Longrightarrow> hollow ss' = hollow ss"
  by (simp add: hollow_def)

lemma hollow_write_through:
  assumes "hollow ss" and "Cache_Load csm (dinner (GuildVoiceStates ss)) g = Some c"
  shows "write_through csm (GuildVoiceStates ss) g c after = GuildVoiceStates ss"
  using assms by (simp add: hollow_def write_through_def)

lemma hollow_state_update: "state_update f \<Longrightarrow> hollow ss \<Longrightarrow> hollow (f ss)"
proof (induction rule: state_update.induct)
  case (8 g uid)
  then show ?case
    by (cases "Cache_Load csm (dinner (GuildVoiceStates ss)) g")
      (simp_all add: del_voice_def DC_Delete_def hollow_write_through)
qed (auto intro: hollow_cong [THEN iffD2] simp: put_user_def put_member_def put_role_def put_channel_def put_emojis_def
    put_guild_def put_dm_def incr_MemberCount_def decr_MemberCount_def RemoveGuildMember_def
    RemoveGuildRole_def RemoveGuildChannel_def RemoveAllGuildEmojis_def RemoveDMChannelByChannelID_def
    AddUserMutualGuild_def RemoveUserMutualGuild_def UpdateGuildChannel_def UpdateDMChannelByChannelID_def
    split: option.splits prod.splits)

lemma LoadOrNew_hollow:
  assumes "hollow ss" and "DC_LoadOrNew csm (GuildVoiceStates ss) g = (copy, d)"
  shows "hollow (ss\<lparr>GuildVoiceStates := d\<rparr>) \<and> inner copy = None"
  using assms
  by (auto simp: DC_LoadOrNew_def hollow_def Let_def NewCache_def Cache_Store_def Cache_Load_def
      created_def update_conv' split: option.splits if_splits)

lemma hollow_store_voice: "hollow (env_State e) \<Longrightarrow> hollow (env_State (snd (store_voice_state lb g v e)))"
proof -
  assume h: "hollow (env_State e)"
  obtain copy d where new: "DC_LoadOrNew csm (GuildVoiceStates (env_State e)) g = (copy, d)"
    by fastforce
  have "hollow ((env_State e)\<lparr>GuildVoiceStates := d\<rparr>)" and "inner copy = None"
    using LoadOrNew_hollow [OF h new] by auto
  then show ?thesis
    using new by (simp add: store_voice_state_def bnd_def act_def lift_res_def upd_def ret_def write_through_def
        split: prod.splits res.splits if_splits)
qed

interpretation voice: event_invariant "\<lambda>e. hollow (env_State e)"
  by unfold_locales (simp_all add: hollow_state_update hollow_store_voice)

lemma hollow_lookups:
  assumes "hollow ss"
  shows "DC_Load csm csm (GuildVoiceStates ss) g u = None"
    and "CountMembersForVoiceChannel ss g c = 0"
    and "GetVoiceState lb ss g u = Ok (zero_VoiceState, False)"
proof -
  show none: "DC_Load csm csm (GuildVoiceStates ss) g u = None"
    using assms by (auto simp: hollow_def DC_Load_def Cache_Load_def [of _ _ u] split: option.split)
  show "CountMembersForVoiceChannel ss g c = 0"
    using assms by (auto simp: CountMembersForVoiceChannel_def hollow_def DC_Inner_def Cache_Range_def split: option.split)
  show "GetVoiceState lb ss g u = Ok (zero_VoiceState, False)"
    by (simp add: GetVoiceState_def none)
qed

lemma hollow_guild: "hollow ss \<Longrightarrow> GetGuild ss g = (guild, True) \<Longrightarrow> guild_VoiceStates guild = Some []"
  by (auto simp: GetGuild_def hollow_def DC_Inner_def Cache_Range_def Let_def split: option.splits if_splits)

text \<open>C25. Voice states are never cached: after a daemon whose caches start empty has listened to any stream of
  events, every look-up of a voice state fails, every voice channel counts zero members, and every guild that
  is read back has an empty list of voice states.\<close>

theorem voice_states_lost:
  assumes "env_State e = NewSandwichState" and "Listen fuel lb e = (r, e')"
  shows "GetVoiceState lb (env_State e') g u = Ok (zero_VoiceState, False)
    \<and> CountMembersForVoiceChannel (env_State e') g c = 0
    \<and> (let (guild, ok) = GetGuild (env_State e') g in ok \<longrightarrow> guild_VoiceStates guild = Some [])"
proof -
  have "hollow (env_State e')"
    using keepsD [OF voice.keeps_Listen _ assms(2)] assms(1) hollow_New by simp
  then show ?thesis by (auto simp: hollow_lookups hollow_guild split: prod.splits)
qed

definition voice_lib :: lib where
  "voice_lib = sample_lib\<lparr>dec_VoiceState := accept (zero_VoiceState\<lparr>vs_GuildID := Some 1, vs_UserID := 2,
     vs_ChannelID := 3, vs_Member := Some (zero_GuildMember\<lparr>gm_User := Some (zero_User\<lparr>user_ID := 2\<rparr>)\<rparr>)\<rparr>)\<rparr>"

text \<open>A user joins a voice channel, and is not there.\<close>

theorem voice_states_lost_witness:
  "GetVoiceState voice_lib (env_State (snd (Listen 3 voice_lib
      (sample_env\<lparr>env_inbox := [RdMsg (sample_msg ''VOICE_STATE_UPDATE'')]\<rparr>)))) 1 2 = Ok (zero_VoiceState, False)"
proof -
  let ?e = "sample_env\<lparr>env_inbox := [RdMsg (sample_msg ''VOICE_STATE_UPDATE'')]\<rparr>"
  have "env_State ?e = NewSandwichState" by (simp add: sample_env_def)
  from voice_states_lost [OF this, of 3 voice_lib "fst (Listen 3 voice_lib ?e)" "snd (Listen 3 voice_lib ?e)" 1 2 3]
  show ?thesis by simp
qed

end
