(* ===== verification/Cached.thy ===== *)
theory Cached
  imports Invariant
begin

text \<open>
  The shape of what is cached. \<open>state_ok\<close> says that the maps are well formed and that every value sits
  under its own identifier: a user under its ID, a member under the ID of the user it points at (which is
  never nil), a role under its ID (which is never 0), a channel under its ID and with the guild set, a guild
  under its ID. Every event keeps it, so a look-up in the running daemon never panics on a member without
  a user.
\<close>

definition users_ok :: "SandwichState \<Rightarrow> bool" where
  "users_ok ss \<longleftrightarrow> wf_cache ok_alist (Users ss) \<and>
     (\<forall>u s. Cache_Load csm (Users ss) u = Some s \<longrightarrow> user_ID (su_User s) = u)"

definition members_ok :: "SandwichState \<Rightarrow> bool" where
  "members_ok ss \<longleftrightarrow> wf_dcache csm ok_alist ok_alist (GuildMembers ss) \<and>
     (\<forall>g u m. find2 csm csm (GuildMembers ss) (g, u) = Some m \<longrightarrow> map_option user_ID (gm_User m) = Some u)"

definition roles_ok :: "SandwichState \<Rightarrow> bool" where
  "roles_ok ss \<longleftrightarrow> wf_dcache csm ok_alist ok_alist (GuildRoles ss) \<and>
     (\<forall>g r x. find2 csm csm (GuildRoles ss) (g, r) = Some x \<longrightarrow> role_ID x = r \<and> r \<noteq> 0)"

definition channels_ok :: "SandwichState \<Rightarrow> bool" where
  "channels_ok ss \<longleftrightarrow> wf_dcache csm ok_alist ok_alist (GuildChannels ss) \<and>
     (\<forall>g c x. find2 csm csm (GuildChannels ss) (g, c) = Some x \<longrightarrow> chan_ID x = c \<and> chan_GuildID x = Some g)"

definition guilds_ok :: "SandwichState \<Rightarrow> bool" where
  "guilds_ok ss \<longleftrightarrow> wf_cache ok_alist (Guilds ss) \<and>
     (\<forall>g x. Cache_Load csm (Guilds ss) g = Some x \<longrightarrow> guild_ID x = g)"

definition maps_ok :: "SandwichState \<Rightarrow> bool" where
  "maps_ok ss \<longleftrightarrow> wf_cache ok_alist (GuildEmojis ss) \<and> wf_cache ok_alist (DmChannels ss) \<and>
     wf_dcache csm ok_alist ok_alist (Mutuals ss)"

definition state_ok :: "SandwichState \<Rightarrow> bool" where
  "state_ok ss \<longleftrightarrow> users_ok ss \<and> members_ok ss \<and> roles_ok ss \<and> channels_ok ss \<and> guilds_ok ss \<and> maps_ok ss"

lemmas state_ok_defs = state_ok_def users_ok_def members_ok_def roles_ok_def channels_ok_def guilds_ok_def
  maps_ok_def

lemma find2_New [simp]: "find2 csm csm (NewDoubleCache m n) k = None"
  by (simp add: find2_def DC_Load_def NewDoubleCache_def)

lemma state_ok_New: "state_ok NewSandwichState"
  by (simp add: state_ok_defs NewSandwichState_def)

lemma ok_frames [simp]:
  "users_ok (ss\<lparr>Guilds := x0\<rparr>) = users_ok ss"
  "users_ok (ss\<lparr>GuildMembers := x1\<rparr>) = users_ok ss"
  "users_ok (ss\<lparr>GuildChannels := x2\<rparr>) = users_ok ss"
  "users_ok (ss\<lparr>GuildRoles := x3\<rparr>) = users_ok ss"
  "users_ok (ss\<lparr>GuildEmojis := x4\<rparr>) = users_ok ss"
  "users_ok (ss\<lparr>DmChannels := x6\<rparr>) = users_ok ss"
  "users_ok (ss\<lparr>Mutuals := x7\<rparr>) = users_ok ss"
  "users_ok (ss\<lparr>GuildVoiceStates := x8\<rparr>) = users_ok ss"
  "members_ok (ss\<lparr>Guilds := x0\<rparr>) = members_ok ss"
  "members_ok (ss\<lparr>GuildChannels := x2\<rparr>) = members_ok ss"
  "members_ok (ss\<lparr>GuildRoles := x3\<rparr>) = members_ok ss"
  "members_ok (ss\<lparr>GuildEmojis := x4\<rparr>) = members_ok ss"
  "members_ok (ss\<lparr>Users := x5\<rparr>) = members_ok ss"
  "members_ok (ss\<lparr>DmChannels := x6\<rparr>) = members_ok ss"
  "members_ok (ss\<lparr>Mutuals := x7\<rparr>) = members_ok ss"
  "members_ok (ss\<lparr>GuildVoiceStates := x8\<rparr>) = members_ok ss"
  "roles_ok (ss\<lparr>Guilds := x0\<rparr>) = roles_ok ss"
  "roles_ok (ss\<lparr>GuildMembers := x1\<rparr>) = roles_ok ss"
  "roles_ok (ss\<lparr>GuildChannels := x2\<rparr>) = roles_ok ss"
  "roles_ok (ss\<lparr>GuildEmojis := x4\<rparr>) = roles_ok ss"
  "roles_ok (ss\<lparr>Users := x5\<rparr>) = roles_ok ss"
  "roles_ok (ss\<lparr>DmChannels := x6\<rparr>) = roles_ok ss"
  "roles_ok (ss\<lparr>Mutuals := x7\<rparr>) = roles_ok ss"
  "roles_ok (ss\<lparr>GuildVoiceStates := x8\<rparr>) = roles_ok ss"
  "channels_ok (ss\<lparr>Guilds := x0\<rparr>) = channels_ok ss"
  "channels_ok (ss\<lparr>GuildMembers := x1\<rparr>) = channels_ok ss"
  "channels_ok (ss\<lparr>GuildRoles := x3\<rparr>) = channels_ok ss"
  "channels_ok (ss\<lparr>GuildEmojis := x4\<rparr>) = channels_ok ss"
  "channels_ok (ss\<lparr>Users := x5\<rparr>) = channels_ok ss"
  "channels_ok (ss\<lparr>DmChannels := x6\<rparr>) = channels_ok ss"
  "channels_ok (ss\<lparr>Mutuals := x7\<rparr>) = channels_ok ss"
  "channels_ok (ss\<lparr>GuildVoiceStates := x8\<rparr>) = channels_ok ss"
  "guilds_ok (ss\<lparr>GuildMembers := x1\<rparr>) = guilds_ok ss"
  "guilds_ok (ss\<lparr>GuildChannels := x2\<rparr>) = guilds_ok ss"
  "guilds_ok (ss\<lparr>GuildRoles := x3\<rparr>) = guilds_ok ss"
  "guilds_ok (ss\<lparr>GuildEmojis := x4\<rparr>) = guilds_ok ss"
  "guilds_ok (ss\<lparr>Users := x5\<rparr>) = guilds_ok ss"
  "guilds_ok (ss\<lparr>DmChannels := x6\<rparr>) = guilds_ok ss"
  "guilds_ok (ss\<lparr>Mutuals := x7\<rparr>) = guilds_ok ss"
  "guilds_ok (ss\<lparr>GuildVoiceStates := x8\<rparr>) = guilds_ok ss"
  "maps_ok (ss\<lparr>Guilds := x0\<rparr>) = maps_ok ss"
  "maps_ok (ss\<lparr>GuildMembers := x1\<rparr>) = maps_ok ss"
  "maps_ok (ss\<lparr>GuildChannels := x2\<rparr>) = maps_ok ss"
  "maps_ok (ss\<lparr>GuildRoles := x3\<rparr>) = maps_ok ss"
  "maps_ok (ss\<lparr>Users := x5\<rparr>) = maps_ok ss"
  "maps_ok (ss\<lparr>GuildVoiceStates := x8\<rparr>) = maps_ok ss"
  by (simp_all add: users_ok_def members_ok_def roles_ok_def channels_ok_def guilds_ok_def maps_ok_def)

section \<open>The single updates\<close>

lemmas csm_laws = csm.Load_Store csm.Load_Delete csm.wf_Store csm.wf_Delete csm.Load_Update csm.wf_Update
  csm.Load_SetIfPresent csm.wf_SetIfPresent csm2.Load_DC_Store csm2.good_DC_Store csm2.Load_DC_Delete
  csm2.good_DC_Delete csm2.Load_DC_Update csm2.good_DC_Update

lemma users_put: "users_ok ss \<Longrightarrow> users_ok (put_user t u ss)"
  by (simp add: users_ok_def put_user_def csm_laws UserToState_def)

lemma members_put: "members_ok ss \<Longrightarrow> gm_User m = Some u \<Longrightarrow> members_ok (put_member g u m ss)"
  by (auto simp: members_ok_def put_member_def csm_laws)

lemma members_remove: "members_ok ss \<Longrightarrow> members_ok (RemoveGuildMember g uid ss)"
  by (auto simp: members_ok_def RemoveGuildMember_def csm_laws)

lemma roles_put: "roles_ok ss \<Longrightarrow> role_ID r \<noteq> 0 \<Longrightarrow> roles_ok (put_role g r ss)"
  by (auto simp: roles_ok_def put_role_def csm_laws)

lemma roles_remove: "roles_ok ss \<Longrightarrow> roles_ok (RemoveGuildRole g rid ss)"
  by (auto simp: roles_ok_def RemoveGuildRole_def csm_laws)

lemma channels_put: "channels_ok ss \<Longrightarrow> chan_GuildID c = Some g \<Longrightarrow> channels_ok (put_channel g c ss)"
  by (auto simp: channels_ok_def put_channel_def csm_laws)

lemma channels_remove: "channels_ok ss \<Longrightarrow> channels_ok (RemoveGuildChannel g c ss)"
  by (auto simp: channels_ok_def RemoveGuildChannel_def csm_laws)

lemma UpdateGuildChannel_snd:
  "snd (UpdateGuildChannel g c fn ss) = ss\<lparr>GuildChannels := snd (DC_Update csm csm (GuildChannels ss) g c fn)\<rparr>"
  by (simp add: UpdateGuildChannel_def split: prod.split)

lemma UpdateDMChannel_snd:
  "snd (UpdateDMChannelByChannelID c fn ss) = ss\<lparr>DmChannels := snd (Cache_Update csm (DmChannels ss) c fn)\<rparr>"
  by (simp add: UpdateDMChannelByChannelID_def split: prod.split)

lemma channels_update:
  assumes "channels_ok ss" and "\<And>c. chan_ID (fn c) = chan_ID c \<and> chan_GuildID (fn c) = chan_GuildID c"
  shows "channels_ok (snd (UpdateGuildChannel g c fn ss))"
  using assms by (auto simp: channels_ok_def UpdateGuildChannel_snd csm_laws split: if_splits)

lemma guilds_put: "guilds_ok ss \<Longrightarrow> guilds_ok (put_guild g ss)"
  by (simp add: guilds_ok_def put_guild_def csm_laws)

lemma guilds_incr: "guilds_ok ss \<Longrightarrow> guilds_ok (incr_MemberCount g ss)"
  by (auto simp: guilds_ok_def incr_MemberCount_def csm_laws)

lemma guilds_decr: "guilds_ok ss \<Longrightarrow> guilds_ok (decr_MemberCount g ss)"
  by (auto simp: guilds_ok_def decr_MemberCount_def csm_laws split: option.split)

lemma maps_put:
  "maps_ok ss \<Longrightarrow> maps_ok (put_emojis g es ss)" "maps_ok ss \<Longrightarrow> maps_ok (put_dm c d ss)"
  "maps_ok ss \<Longrightarrow> maps_ok (RemoveAllGuildEmojis g ss)" "maps_ok ss \<Longrightarrow> maps_ok (RemoveDMChannelByChannelID c ss)"
  "maps_ok ss \<Longrightarrow> maps_ok (AddUserMutualGuild ctx uid g ss)" "maps_ok ss \<Longrightarrow> maps_ok (RemoveUserMutualGuild uid g ss)"
  "maps_ok ss \<Longrightarrow> maps_ok (snd (UpdateDMChannelByChannelID c dfn ss))"
  by (simp_all add: maps_ok_def put_emojis_def put_dm_def RemoveAllGuildEmojis_def RemoveDMChannelByChannelID_def
      AddUserMutualGuild_def RemoveUserMutualGuild_def UpdateDMChannel_snd csm_laws)

lemmas updates_ok = users_put members_put members_remove roles_put roles_remove channels_put channels_remove
  channels_update guilds_put guilds_incr guilds_decr maps_put

lemmas update_defs = put_user_def put_member_def put_role_def put_channel_def put_emojis_def put_guild_def
  put_dm_def del_voice_def RemoveGuildMember_def RemoveGuildRole_def RemoveGuildChannel_def
  RemoveAllGuildEmojis_def RemoveDMChannelByChannelID_def AddUserMutualGuild_def RemoveUserMutualGuild_def
  UpdateGuildChannel_snd UpdateDMChannel_snd incr_MemberCount_def

lemma decr_ok [simp]:
  "users_ok (decr_MemberCount g ss) = users_ok ss" "members_ok (decr_MemberCount g ss) = members_ok ss"
  "roles_ok (decr_MemberCount g ss) = roles_ok ss" "channels_ok (decr_MemberCount g ss) = channels_ok ss"
  "maps_ok (decr_MemberCount g ss) = maps_ok ss"
  by (simp_all add: decr_MemberCount_def split: option.split)

lemma state_ok_update: "state_update f \<Longrightarrow> state_ok ss \<Longrightarrow> state_ok (f ss)"
proof (induction rule: state_update.induct)
  case (1 t u)
  then show ?case using users_put [of ss t u] by (simp add: state_ok_def update_defs)
next
  case (2 m u g)
  then show ?case using members_put [of ss m u g] by (simp add: state_ok_def update_defs)
next
  case (3 r g)
  then show ?case using roles_put [of ss r g] by (simp add: state_ok_def update_defs)
next
  case (4 c g)
  then show ?case using channels_put [of ss c g] by (simp add: state_ok_def update_defs)
next
  case (5 g es)
  then show ?case using maps_put(1) [of ss g es] by (simp add: state_ok_def update_defs)
next
  case (6 guild)
  then show ?case using guilds_put [of ss guild] by (simp add: state_ok_def update_defs)
next
  case (7 c d)
  then show ?case using maps_put(2) [of ss c d] by (simp add: state_ok_def update_defs)
next
  case (8 g uid)
  then show ?case by (simp add: state_ok_def update_defs)
next
  case (9 g)
  then show ?case using guilds_incr [of ss g] by (simp add: state_ok_def update_defs)
next
  case (10 g)
  then show ?case using guilds_decr [of ss g] by (simp add: state_ok_def update_defs)
next
  case (11 g uid)
  then show ?case using members_remove [of ss g uid] by (simp add: state_ok_def update_defs)
next
  case (12 g rid)
  then show ?case using roles_remove [of ss g rid] by (simp add: state_ok_def update_defs)
next
  case (13 g c)
  then show ?case using channels_remove [of ss g c] by (simp add: state_ok_def update_defs)
next
  case (14 g)
  then show ?case using maps_put(3) [of ss g] by (simp add: state_ok_def update_defs)
next
  case (15 c)
  then show ?case using maps_put(4) [of ss c] by (simp add: state_ok_def update_defs)
next
  case (16 ctx uid g)
  then show ?case using maps_put(5) [of ss ctx uid g] by (simp add: state_ok_def update_defs)
next
  case (17 uid g)
  then show ?case using maps_put(6) [of ss uid g] by (simp add: state_ok_def update_defs)
next
  case (18 fn g c)
  then show ?case using channels_update [of ss fn g c] by (simp add: state_ok_def update_defs)
next
  case (19 c dfn)
  then show ?case using maps_put(7) [of ss c dfn] by (simp add: state_ok_def update_defs)
qed

text \<open>Voice states are outside this invariant, and only they are touched here.\<close>

lemma store_voice_ok: "state_ok (env_State e) \<Longrightarrow> state_ok (env_State (snd (store_voice_state lb g v e)))"
  by (simp add: store_voice_state_def bnd_def act_def lift_res_def upd_def ret_def state_ok_def
      split: prod.splits res.splits if_splits)

interpretation cached: event_invariant "\<lambda>e. state_ok (env_State e)"
  by unfold_locales (simp_all add: state_ok_update store_voice_ok)

section \<open>Properties\<close>

text \<open>C1. Whatever it listens to, a daemon that starts with well-formed caches keeps them well formed: every
  user, member, role, channel and guild stays under its own identifier.\<close>

theorem listen_keeps_state_ok:
  assumes "state_ok (env_State e)" and "Listen fuel lb e = (r, e')"
  shows "state_ok (env_State e')"
  using keepsD [OF cached.keeps_Listen _ assms(2)] assms(1) .

lemma GetUser_id: "users_ok ss \<Longrightarrow> GetUser ss u = Some x \<Longrightarrow> user_ID x = u"
  by (auto simp: GetUser_def users_ok_def UserFromState_def)

lemma member_lookup:
  assumes "state_ok ss"
  shows "\<exists>m ok. GetGuildMember lb ss g u = Ok (m, ok) \<and>
    (ok \<longrightarrow> map_option user_ID (gm_User m) = Some u \<and> GetUser ss u = gm_User m) \<and>
    (ok \<longleftrightarrow> DC_Load csm csm (GuildMembers ss) g u \<noteq> None \<and> GetUser ss u \<noteq> None)"
proof (cases "DC_Load csm csm (GuildMembers ss) g u")
  case None
  then have "GetGuildMember lb ss g u = Ok (zero_GuildMember, False)"
    by (cases "Cache_Load csm (dinner (GuildMembers ss)) g") (simp_all add: GetGuildMember_def DC_Load_def DC_Inner_def)
  then show ?thesis using None by auto
next
  case (Some m)
  then obtain x where x: "gm_User m = Some x" "user_ID x = u"
    using assms unfolding state_ok_def members_ok_def find2_def by fastforce
  from Some obtain c where c: "DC_Inner csm (GuildMembers ss) g = Some c" "Cache_Load csm c u = Some m"
    by (auto simp: DC_Load_def DC_Inner_def split: option.splits)
  show ?thesis
  proof (cases "GetUser ss u")
    case None
    then have "\<exists>m. GetGuildMember lb ss g u = Ok (m, False)" using c x by (simp add: GetGuildMember_def Let_def)
    then show ?thesis using None by auto
  next
    case (Some y)
    then have y: "user_ID y = u" using assms GetUser_id by (auto simp: state_ok_def)
    from c x Some have "\<exists>m. GetGuildMember lb ss g u = Ok (m\<lparr>gm_User := Some y\<rparr>, True)"
      by (simp add: GetGuildMember_def Let_def) blast
    then show ?thesis using y Some \<open>DC_Load csm csm (GuildMembers ss) g u = Some m\<close> by fastforce
  qed
qed

text \<open>C33. Looking a member up never panics in a daemon that started empty, and when it succeeds the member
  has the identifier that was asked for and the cached user of that identifier. It fails when the member is
  cached without its user.\<close>

theorem member_lookup_safe:
  assumes "env_State e = NewSandwichState" and "Listen fuel lb e = (r, e')"
  shows "\<exists>m ok. GetGuildMember lb (env_State e') g u = Ok (m, ok) \<and>
    (ok \<longrightarrow> map_option user_ID (gm_User m) = Some u \<and> GetUser (env_State e') u = gm_User m) \<and>
    (ok \<longleftrightarrow> DC_Load csm csm (GuildMembers (env_State e')) g u \<noteq> None \<and> GetUser (env_State e') u \<noteq> None)"
proof -
  have "state_ok (env_State e')"
    using keepsD [OF cached.keeps_Listen _ assms(2)] assms(1) state_ok_New by simp
  then show ?thesis by (rule member_lookup)
qed

section \<open>The properties at work\<close>

definition join_lib :: lib where
  "join_lib = sample_lib\<lparr>dec_GuildMember := accept (zero_GuildMember\<lparr>gm_GuildID := Some 1,
     gm_User := Some (zero_User\<lparr>user_ID := 2\<rparr>)\<rparr>)\<rparr>"

definition join_env :: env where
  "join_env = sample_env\<lparr>env_inbox := [RdMsg (sample_msg ''GUILD_MEMBER_ADD'')]\<rparr>"

theorem listen_keeps_state_ok_witness:
  "state_ok (env_State (snd (Listen 3 join_lib join_env)))"
proof -
  have "state_ok (env_State join_env)" by (simp add: join_env_def sample_env_def state_ok_New)
  from listen_keeps_state_ok [OF this, of 3 join_lib "fst (Listen 3 join_lib join_env)"] show ?thesis by simp
qed

theorem member_lookup_safe_witness:
  "\<exists>m ok. GetGuildMember join_lib (env_State (snd (Listen 3 join_lib join_env))) 1 2 = Ok (m, ok)
     \<and> (ok \<longrightarrow> map_option user_ID (gm_User m) = Some 2)"
proof -
  have "env_State join_env = NewSandwichState" by (simp add: join_env_def sample_env_def)
  from member_lookup_safe [OF this, of 3 join_lib "fst (Listen 3 join_lib join_env)"
      "snd (Listen 3 join_lib join_env)" 1 2]
  show ?thesis by auto
qed

end
