(* ===== verification/Dispatching.thy ===== *)
theory Dispatching
  imports Invariant
begin

text \<open>
  What an event does to the producer: the handlers themselves publish nothing, so an event is published at
  most once, with its own type, operation and sequence, and only past the two blacklists and the floodgate.
\<close>

lemma store_voice_log: "env_log (snd (store_voice_state lb g v e)) = env_log e"
  by (simp add: store_voice_state_def bnd_def act_def lift_res_def upd_def ret_def
      split: prod.splits res.splits if_splits)

interpretation quiet: state_invariant "\<lambda>e. filter is_publish (env_log e) = ps" for ps
  by unfold_locales (auto simp: store_voice_log emit_def)

lemma quiet_StateDispatch:
  assumes "gp_Type msg \<noteq> ''READY''"
  shows "keeps (\<lambda>e. filter is_publish (env_log e) = ps) (StateDispatch ready lb ctx msg)"
proof -
  have "StateDispatch ready lb ctx msg = StateDispatch OnResumed lb ctx msg"
    using assms by (simp add: StateDispatch_def dispatchHandlers_def)
  moreover have "keeps (\<lambda>e. filter is_publish (env_log e) = ps) (StateDispatch OnResumed lb ctx msg)"
    by (intro quiet.keeps_StateDispatch quiet.handlers)
  ultimately show ?thesis by simp
qed

definition publishable :: "GatewayPayload \<Rightarrow> SandwichPayload \<Rightarrow> bool" where
  "publishable msg p \<longleftrightarrow> sp_Type p = gp_Type msg \<and> sp_Op p = gp_Op msg \<and> sp_Sequence p = gp_Sequence msg \<and>
     sp_Metadata p \<noteq> None \<and> sp_EventDispatchIdentifier p \<noteq> None"

lemma route_keeps:
  assumes "RoutePayloadToConsumer mg p = Ok (err, p')"
  shows "sp_Type p' = sp_Type p \<and> sp_Op p' = sp_Op p \<and> sp_Sequence p' = sp_Sequence p \<and>
    (sp_Metadata p' = None) = (sp_Metadata p = None) \<and>
    sp_EventDispatchIdentifier p' = sp_EventDispatchIdentifier p"
  using assms by (auto simp: RoutePayloadToConsumer_def Let_def set_shard_def split: if_splits option.splits)

lemma PublishEvent_effect:
  assumes "PublishEvent lb p e = (r, e')" and "sp_EventDispatchIdentifier p \<noteq> None"
  shows "env_Manager e' = env_Manager e \<and> env_ShardGroup e' = env_ShardGroup e \<and>
    (env_log e' = env_log e \<or> (\<exists>q. env_log e' = env_log e @
       [EfPublish q (mc_ChannelName (mg_Configuration (env_Manager e')))] \<and>
       sp_Type q = sp_Type p \<and> sp_Op q = sp_Op p \<and> sp_Sequence q = sp_Sequence p \<and>
       sp_Metadata q \<noteq> None \<and> sp_EventDispatchIdentifier q \<noteq> None))"
proof -
  let ?p = "p\<lparr>sp_Metadata := Some (sh_metadata (env_Shard e)),
      sp_Trace := with_publish_trace (mc_DisableTrace (mg_Configuration (env_Manager e))) (env_now e) (sp_Trace p)\<rparr>"
  show ?thesis
  proof (cases "RoutePayloadToConsumer (env_Manager e) ?p")
    case (Panic why)
    then show ?thesis using assms by (auto simp: PublishEvent_def bnd_eval lift_res_def bnd_Panic)
  next
    case (Ok x)
    obtain err q where x: "x = (err, q)" by fastforce
    from route_keeps [OF Ok [unfolded x]] assms(2)
    have q: "sp_Type q = sp_Type p" "sp_Op q = sp_Op p" "sp_Sequence q = sp_Sequence p"
      "sp_Metadata q \<noteq> None" "sp_EventDispatchIdentifier q \<noteq> None" by auto
    have "bnd (lift_res (\<lambda>e. RoutePayloadToConsumer (env_Manager e) ?p)) k e = k (err, q) e"
      for k :: "_ \<Rightarrow> (env, go_error option) prog"
      by (simp add: bnd_def lift_res_def Ok x)
    then show ?thesis
      using assms(1) q by (auto simp: PublishEvent_def bnd_eval prog_iffs emit_def split: option.splits if_splits)
  qed
qed

text \<open>C4. An event other than \<^verbatim>\<open>READY\<close> is published at most once, and then as itself, with metadata and an
  identifier, to the manager's channel, outside both blacklists and with the floodgate open.\<close>

theorem published_at_most_once:
  assumes "gp_Type msg \<noteq> ''READY''" and "OnDispatch rc lb msg trace e = (r, e')"
  shows "\<exists>ps. filter is_publish (env_log e') = filter is_publish (env_log e) @ ps \<and>
    (ps = [] \<or> (\<exists>p. ps = [EfPublish p (mc_ChannelName (mg_Configuration (env_Manager e')))] \<and> publishable msg p \<and>
       gp_Type msg \<notin> set (mg_eventBlacklist (env_Manager e)) \<union> set (mg_produceBlacklist (env_Manager e')) \<and>
       sg_floodgate (env_ShardGroup e')))"
proof -
  define ready where "ready = OnReady rc (ready_loop (Suc (length (env_inbox e))) lb rc)"
  define cfg where "cfg = mg_Configuration (env_Manager e)"
  define tr where "tr = trace_at (mc_DisableTrace cfg) ''state'' (env_now e) trace"
  define body where "body = (\<lambda>(result, continuable, err). case err of Some e \<Rightarrow> ret (Some e) | None \<Rightarrow>
     bnd (rd (\<lambda>e. sg_floodgate (env_ShardGroup e))) (\<lambda>floodgate.
      if \<not> floodgate \<or> \<not> continuable then ret None
      else bnd (rd (\<lambda>e. gp_Type msg \<in> set (mg_produceBlacklist (env_Manager e)))) (\<lambda>contains.
      if contains then ret None
      else PublishEvent lb (event_packet msg result tr))))"
  obtain x s where run: "StateDispatch (ready tr) lb (state_ctx cfg) msg e = (x, s)" by fastforce
  have qs: "filter is_publish (env_log s) = filter is_publish (env_log e)"
    using keepsD [OF quiet_StateDispatch [OF assms(1)] refl run] .
  have disp: "OnDispatch rc lb msg trace e =
      recovered None (\<lambda>e. if \<not> mg_hasProducer (env_Manager e) then ret (Some ErrProducerMissing) e
        else if gp_Type msg \<in> set (mg_eventBlacklist (env_Manager e)) then ret None e
        else bnd (StateDispatch (ready tr) lb (state_ctx cfg) msg) body e) e"
    unfolding OnDispatch_def OnDispatch_with_def recovered_def body_def tr_def ready_def cfg_def Let_def bnd_eval
    by simp
  have body: "\<exists>ps. filter is_publish (env_log t) = filter is_publish (env_log s) @ ps \<and>
    (ps = [] \<or> (\<exists>p. ps = [EfPublish p (mc_ChannelName (mg_Configuration (env_Manager t)))] \<and> publishable msg p \<and>
       gp_Type msg \<notin> set (mg_produceBlacklist (env_Manager t)) \<and> sg_floodgate (env_ShardGroup t)))"
    if b: "body y s = (z, t)" for y z t
  proof -
    obtain result continuable err where y: "y = (result, continuable, err)" by (cases y)
    show ?thesis
    proof (cases "err = None \<and> sg_floodgate (env_ShardGroup s) \<and> continuable \<and>
        gp_Type msg \<notin> set (mg_produceBlacklist (env_Manager s))")
      case True
      then have "PublishEvent lb (event_packet msg result tr) s = (z, t)"
        using b by (simp add: y body_def bnd_eval)
      from PublishEvent_effect [OF this] True show ?thesis
        by (auto simp: event_packet_def publishable_def)
    next
      case False
      then have "t = s" using b by (auto simp: y body_def bnd_eval ret_def split: option.splits if_splits)
      then show ?thesis by auto
    qed
  qed
  have "\<exists>ps. filter is_publish (env_log t) = filter is_publish (env_log e) @ ps \<and>
    (ps = [] \<or> (\<exists>p. ps = [EfPublish p (mc_ChannelName (mg_Configuration (env_Manager t)))] \<and> publishable msg p \<and>
       gp_Type msg \<notin> set (mg_produceBlacklist (env_Manager t)) \<and> sg_floodgate (env_ShardGroup t)))"
    if "bnd (StateDispatch (ready tr) lb (state_ctx cfg) msg) body e = (z, t)" for z t
    using that run qs body by (cases x) (auto simp: bnd_def)
  then show ?thesis
    using assms(2) unfolding disp
    by (auto simp: recovered_def ret_def split: if_splits prod.splits res.splits)
qed

text \<open>An event on the event blacklist, or while the manager has no producer, changes nothing at all.\<close>

lemma blacklisted_ignored:
  assumes "\<not> mg_hasProducer (env_Manager e) \<or> gp_Type msg \<in> set (mg_eventBlacklist (env_Manager e))"
  shows "OnDispatch rc lb msg trace e =
    (Ok (if mg_hasProducer (env_Manager e) then None else Some ErrProducerMissing), e)"
  using assms by (auto simp: OnDispatch_def OnDispatch_with_def recovered_def bnd_eval ret_def)

text \<open>The only panic that leaves \<open>OnDispatch\<close> is a reconnection that is still retrying: a panic of a
  handler is recovered, and the event is then dropped without an error.\<close>

lemma dispatch_recovers:
  "fst (OnDispatch rc lb msg trace e) \<in> {Ok x | x. True} \<union> {Panic out_of_fuel}"
  by (auto simp: OnDispatch_def OnDispatch_with_def recovered_def split: prod.splits res.splits)

section \<open>The properties at work\<close>

definition typing_lib :: lib where
  "typing_lib = sample_lib\<lparr>dec_TypingStart := accept (zero_TypingStart\<lparr>ts_GuildID := Some 1\<rparr>)\<rparr>"

theorem published_at_most_once_witness:
  "length (filter is_publish (env_log (snd (OnDispatch no_rc typing_lib (sample_msg ''TYPING_START'') None sample_env))))
     = 1"
proof -
  let ?e = "snd (OnDispatch no_rc typing_lib (sample_msg ''TYPING_START'') None sample_env)"
  have some: "filter is_publish (env_log ?e) \<noteq> []" by code_simp
  have "OnDispatch no_rc typing_lib (sample_msg ''TYPING_START'') None sample_env
      = (fst (OnDispatch no_rc typing_lib (sample_msg ''TYPING_START'') None sample_env), ?e)" by simp
  from published_at_most_once [OF _ this] some show ?thesis
    by (auto simp: sample_msg_def sample_env_def)
qed

theorem blacklisted_ignored_witness:
  "OnDispatch no_rc typing_lib (sample_msg ''TYPING_START'') None
      (on_Manager (\<lambda>mg. mg\<lparr>mg_eventBlacklist := [''TYPING_START'']\<rparr>) sample_env)
    = (Ok None, on_Manager (\<lambda>mg. mg\<lparr>mg_eventBlacklist := [''TYPING_START'']\<rparr>) sample_env)"
  by (subst blacklisted_ignored) (simp_all add: sample_msg_def sample_defs on_Manager_def)

end
