(* ===== verification/Effects.thy ===== *)
theory Effects
  imports Cached
begin

text \<open>
  What the single operations and handlers do to the caches: what \<^verbatim>\<open>SetGuild\<close> makes readable and
  \<^verbatim>\<open>RemoveGuild\<close> forgets, how joins are counted, what the handlers report as the value before, and how
  direct-message channels expire.
\<close>

section \<open>Storing a guild\<close>

text \<open>The caches that members, channels and voice states leave alone.\<close>

definition core :: "SandwichState \<Rightarrow> (GuildID, Guild) kvcache \<times> (GuildID, RoleID, Role) kvdcache \<times>
    (GuildID, Emoji slice) kvcache" where
  "core ss = (Guilds ss, GuildRoles ss, GuildEmojis ss)"

lemma core_SetUser [simp]: "core (env_State (SetUser ctx u e)) = core (env_State e)"
  by (simp add: SetUser_def core_def)

lemma core_SetUsers [simp]: "core (env_State (fold (SetUser ctx) us e)) = core (env_State e)"
  by (induction us arbitrary: e) simp_all

lemma core_SetGuildChannel [simp]: "core (env_State (SetGuildChannel ctx g c e)) = core (env_State e)"
  by (simp add: SetGuildChannel_def Let_def) (simp add: core_def)

lemma core_simps [simp]:
  "core (ss\<lparr>GuildMembers := a\<rparr>) = core ss" "core (ss\<lparr>GuildVoiceStates := b\<rparr>) = core ss"
  "core (snd (UpdateDMChannelByChannelID c fn ss)) = core ss"
  by (simp_all add: core_def UpdateDMChannel_snd)

lemma keeps_core_member: "keeps (\<lambda>e. core (env_State e) = x) (SetGuildMember ctx g m)"
  unfolding SetGuildMember_def by (intro keeps_intros keeps_upd) simp_all

lemma keeps_core_recount: "keeps (\<lambda>e. core (env_State e) = x) (recount_voice_channel ctx p c)"
  unfolding recount_voice_channel_def by (intro keeps_intros keeps_upd) simp_all

lemma keeps_core_store_voice: "keeps (\<lambda>e. core (env_State e) = x) (store_voice_state lb g v)"
  unfolding store_voice_state_def
  by (intro keeps_intros keeps_upd keeps_act) (auto split: prod.split)

lemma keeps_core_voice: "keeps (\<lambda>e. core (env_State e) = x) (UpdateVoiceState lb ctx v)"
  unfolding UpdateVoiceState_def
  by (intro keeps_intros keeps_core_member keeps_core_recount keeps_core_store_voice)

lemma core_emojis:
  "core (env_State (SetGuildEmojis ctx g es e)) =
     core ((env_State e)\<lparr>GuildEmojis := Cache_Store csm (GuildEmojis (env_State e)) g es\<rparr>)"
proof -
  have "core (env_State (fold (\<lambda>em e. case emoji_User em of None \<Rightarrow> e | Some u \<Rightarrow> SetUser ctx u e) xs s))
      = core (env_State s)" for xs :: "Emoji list" and s
    by (induction xs arbitrary: s) (auto split: option.split)
  then show ?thesis by (simp add: SetGuildEmojis_def)
qed

definition store_roles :: "GuildID \<Rightarrow> Role list \<Rightarrow> (GuildID, RoleID, Role) kvdcache \<Rightarrow> (GuildID, RoleID, Role) kvdcache" where
  "store_roles g rs d = fold (\<lambda>r d. DC_Store csm csm d g (role_ID r) r) rs d"

lemma each_SetGuildRole:
  "each (SetGuildRole g) rs e = (Ok (), e') \<Longrightarrow>
     env_State e' = (env_State e)\<lparr>GuildRoles := store_roles g rs (GuildRoles (env_State e))\<rparr>
     \<and> (\<forall>r \<in> set rs. role_ID r \<noteq> 0)"
  by (induction rs arbitrary: e)
    (auto simp: SetGuildRole_def panic_def upd_def store_roles_def split: if_splits)

lemma SetGuild_core:
  assumes "SetGuild lb ctx G e = (Ok (), e')"
  shows "core (env_State e') =
     (Cache_Store csm (Guilds (env_State e)) (guild_ID G) G,
      store_roles (guild_ID G) (elems (guild_Roles G)) (GuildRoles (env_State e)),
      Cache_Store csm (GuildEmojis (env_State e)) (guild_ID G) (guild_Emojis G))
    \<and> (\<forall>r \<in> set (elems (guild_Roles G)). role_ID r \<noteq> 0)"
proof -
  let ?g = "guild_ID G"
  from assms obtain a b c d where
    roles: "each (SetGuildRole ?g) (elems (guild_Roles G)) a = (Ok (), b)"
    and a: "env_State a = (env_State e)\<lparr>Guilds := Cache_Store csm (Guilds (env_State e)) ?g G\<rparr>"
    and channels: "each (\<lambda>channel. upd (SetGuildChannel ctx ?g channel)) (elems (guild_Channels G)) b = (Ok (), c)"
    and members: "each (SetGuildMember ctx ?g) (elems (guild_Members G)) (SetGuildEmojis ctx ?g (guild_Emojis G) c) = (Ok (), d)"
    and voices: "each (\<lambda>v. UpdateVoiceState lb ctx (v\<lparr>vs_GuildID := Some ?g\<rparr>)) (elems (guild_VoiceStates G)) d = (Ok (), e')"
    by (auto simp: SetGuild_def Let_def prog_iffs)
  note each_SetGuildRole [OF roles]
  moreover have "core (env_State c) = core (env_State b)"
  proof -
    have "keeps (\<lambda>e. core (env_State e) = core (env_State b)) (upd (SetGuildChannel ctx ?g ch))" for ch
      by (intro keeps_upd) simp
    from keepsD [OF keeps_each [OF this] refl channels] show ?thesis .
  qed
  moreover have "core (env_State d) = core (env_State (SetGuildEmojis ctx ?g (guild_Emojis G) c))"
    using keepsD [OF keeps_each [OF keeps_core_member] refl members] .
  moreover have "core (env_State e') = core (env_State d)"
    using keepsD [OF keeps_each [OF keeps_core_voice] refl voices] .
  ultimately show ?thesis by (simp add: core_emojis a) (auto simp: core_def)
qed

lemma store_roles_lookup:
  assumes "wf_dcache csm ok_alist ok_alist d"
  shows "distinct (map role_ID rs) \<Longrightarrow> r \<in> set rs \<Longrightarrow> DC_Load csm csm (store_roles g rs d) g (role_ID r) = Some r"
    and "g' \<noteq> g \<Longrightarrow> DC_Load csm csm (store_roles g rs d) g' rid = DC_Load csm csm d g' rid"
proof -
  assume "distinct (map role_ID rs)" "r \<in> set rs"
  then show "DC_Load csm csm (store_roles g rs d) g (role_ID r) = Some r"
    using csm2.store2.put_loop_distinct [OF assms, of "\<lambda>r. (g, role_ID r)" rs r "\<lambda>r. r"]
    by (simp add: store_roles_def find2_def distinct_map inj_on_def)
next
  assume "g' \<noteq> g"
  then show "DC_Load csm csm (store_roles g rs d) g' rid = DC_Load csm csm d g' rid"
    using csm2.store2.put_loop_other [OF assms, of "(g', rid)" "\<lambda>r. (g, role_ID r)" rs "\<lambda>r. r"]
    by (auto simp: store_roles_def find2_def)
qed


text \<open>A role with identifier 0 anywhere in a guild keeps \<^verbatim>\<open>SetGuild\<close> from returning: it panics.\<close>

lemma SetGuild_zero_role:
  assumes "r \<in> set (elems (guild_Roles G))" and "role_ID r = 0"
  shows "SetGuild lb ctx G e \<noteq> (Ok (), e')"
  using SetGuild_core [of lb ctx G e e'] assms by auto

section \<open>Removing a guild\<close>

text \<open>\<^verbatim>\<open>RemoveGuild\<close> without a shard group returns, forgets the guild with its roles, channels, emojis and
  members, and leaves every other guild alone.\<close>

lemma remove_guild_forgets:
  assumes "state_ok ss" and "ctx_Stateless ctx"
  shows "\<exists>ss'. RemoveGuild ctx g (sg, ss) = (Ok (), (sg, ss'))
    \<and> Cache_Load csm (Guilds ss') = (Cache_Load csm (Guilds ss))(g := None)
    \<and> (\<forall>u. DC_Load csm csm (GuildMembers ss') g u = None) \<and> (\<forall>r. GetGuildRole ss' g r = None)
    \<and> (\<forall>c. \<not> snd (GetGuildChannel ss' g c)) \<and> GetAllGuildEmojis ss' g = None
    \<and> (\<forall>g' k. g' \<noteq> g \<longrightarrow> DC_Load csm csm (GuildMembers ss') g' k = DC_Load csm csm (GuildMembers ss) g' k
          \<and> GetGuildRole ss' g' k = GetGuildRole ss g' k \<and> GetAllGuildEmojis ss' g' = GetAllGuildEmojis ss g')"
proof -
  let ?s = "RemoveAllGuildMembers g (RemoveAllGuildEmojis g (RemoveAllGuildChannels g (RemoveAllGuildRoles g
    (ss\<lparr>Guilds := Cache_Delete csm (Guilds ss) g\<rparr>))))"
  have wf: "wf_cache ok_alist (Guilds ss)" "wf_cache ok_alist (GuildEmojis ss)"
    "wf_dcache csm ok_alist ok_alist (GuildMembers ss)" "wf_dcache csm ok_alist ok_alist (GuildRoles ss)"
    "wf_dcache csm ok_alist ok_alist (GuildChannels ss)"
    using assms(1) by (auto simp: state_ok_defs)
  have clear: "DC_Load csm csm (DC_ClearKey csm d g) g' k = (if g' = g then None else DC_Load csm csm d g' k)"
    if "wf_dcache csm ok_alist ok_alist d"
    for d :: "(GuildID, Snowflake, 'v) kvdcache" and g' k
    using csm2.Load_ClearKey [OF that, of g] by (simp add: find2_def fun_eq_iff)
  have "RemoveGuild ctx g (sg, ss) = (Ok (), (sg, ?s))"
    using assms(2) by (simp add: RemoveGuild_def bnd_eval upd_def)
  then show ?thesis
    using wf by (simp add: RemoveAllGuildMembers_def RemoveAllGuildEmojis_def RemoveAllGuildChannels_def
        RemoveAllGuildRoles_def GetGuildRole_def GetGuildChannel_def GetAllGuildEmojis_def clear csm.Load_Delete)
qed

section \<open>Counting joins\<close>

definition member_count :: "SandwichState \<Rightarrow> GuildID \<Rightarrow> int32 option" where
  "member_count ss g = map_option guild_MemberCount (Cache_Load csm (Guilds ss) g)"

lemma member_count_core:
  "core ss' = core ss \<Longrightarrow> member_count ss' g = member_count ss g"
  by (simp add: member_count_def core_def)

lemma core_mutual [simp]: "core (AddUserMutualGuild ctx u g ss) = core ss"
  by (simp add: AddUserMutualGuild_def core_def)

lemma member_count_incr:
  "wf_cache ok_alist (Guilds ss) \<Longrightarrow> member_count (incr_MemberCount g ss) g = map_option (\<lambda>n. n + 1) (member_count ss g)"
  by (simp add: member_count_def incr_MemberCount_def csm.Load_Update option.map_comp comp_def)

lemma dedupe_frame_member: "keeps (\<lambda>e. env_Dedupe e = d \<and> env_now e = t) (SetGuildMember ctx g m)"
  unfolding SetGuildMember_def by (intro keeps_intros keeps_upd) (simp_all add: SetUser_def)

lemma count_frame [simp]:
  "env_now (OnGuildDispatchEvent t g e) = env_now e" by simp

lemma join_runs:
  assumes "dec_GuildMember lb (gp_Data msg) = (p, None)" and "gm_GuildID p = Some g" and "gm_User p = Some u"
  shows "OnGuildMemberAdd lb ctx msg e =
    (let key = createDedupeMemberAddKey g (user_ID u) in
     if CheckDedupe (env_now e) key (env_Dedupe e) then (Ok (zero_EventDispatch, False, None), e)
     else deferred (OnGuildDispatchEvent (gp_Type msg) g)
       (bnd (SetGuildMember ctx g p) (\<lambda>_.
        bnd (if ctx_StoreMutuals ctx
             then upd (on_State (AddUserMutualGuild ctx (user_ID u) g))
             else ret ()) (\<lambda>_.
        dispatch msg Map.empty (for_guild (gm_GuildID p)))))
       (on_State (incr_MemberCount g) (remove_dedupe (createDedupeMemberRemoveKey g (user_ID u))
          (e\<lparr>env_Dedupe := AddDedupe (env_now e) key (env_Dedupe e)\<rparr>))))"
proof -
  have dr: "bnd (deref (Some x)) k s = k x s" for x :: 'x and k :: "'x \<Rightarrow> (env, outcome) prog" and s
    by (simp add: bnd_def deref_def)
  have ca: "bnd (check_and_add key) k e = k (CheckDedupe (env_now e) key (env_Dedupe e))
      (e\<lparr>env_Dedupe := if CheckDedupe (env_now e) key (env_Dedupe e) then env_Dedupe e
                       else AddDedupe (env_now e) key (env_Dedupe e)\<rparr>)"
    for key and k :: "bool \<Rightarrow> (env, outcome) prog"
    by (simp add: bnd_def check_and_add_def act_def CheckAndAdd_spec)
  have "OnGuildMemberAdd lb ctx msg e = bnd (check_and_add (createDedupeMemberAddKey g (user_ID u))) (\<lambda>dup.
       if \<not> dup then
         bnd (upd (remove_dedupe (createDedupeMemberRemoveKey g (user_ID u)))) (\<lambda>_.
         bnd (upd (on_State (incr_MemberCount g))) (\<lambda>_.
         deferred (OnGuildDispatchEvent (gp_Type msg) g)
         (bnd (SetGuildMember ctx g p) (\<lambda>_.
          bnd (if ctx_StoreMutuals ctx
               then upd (on_State (AddUserMutualGuild ctx (user_ID u) g))
               else ret ()) (\<lambda>_.
          dispatch msg Map.empty (for_guild (gm_GuildID p)))))))
       else ret (zero_EventDispatch, False, None)) e"
    unfolding OnGuildMemberAdd_def decoding_def decodeContent_def assms Let_def dr prod.case option.case ..
  then show ?thesis
    unfolding ca Let_def bnd_eval ret_def
    apply (cases "CheckDedupe (env_now e) (createDedupeMemberAddKey g (user_ID u)) (env_Dedupe e)")
    subgoal by (simp only: if_True if_False not_True_eq_False) simp
    subgoal by (simp only: if_True if_False not_False_eq_True)
    done
qed


section \<open>What the handlers report\<close>

text \<open>The \<^verbatim>\<open>lazy\<close> and \<^verbatim>\<open>unavailable\<close> extras of a \<^verbatim>\<open>GUILD_CREATE\<close> say nothing about the guild: whatever
  the two sets of the shard hold, both are the text of an empty struct.\<close>

lemma guild_create_extras_constant:
  assumes "OnGuildCreate lb ctx msg e = (Ok (result, True, err), e')"
  shows "\<exists>b. lib_marshal lb AnyStruct = Inr b \<and> ed_Extra result = [''lazy'' \<mapsto> b, ''unavailable'' \<mapsto> b]"
proof -
  have es: "empty_struct_of v = AnyStruct" for v
    by (simp add: empty_struct_of_def split: option.split unit.split)
  have wx: "\<exists>b. lib_marshal lb AnyStruct = Inr b \<and> ed_Extra result = [''lazy'' \<mapsto> b, ''unavailable'' \<mapsto> b]"
    if "with_extra lb False [(''lazy'', AnyStruct), (''unavailable'', AnyStruct)]
      (\<lambda>extra. dispatch msg extra edi) s = (Ok (result, True, err), t)" for edi s t
    using that
    by (auto simp: with_extra_def makeExtra_def dispatch_def ret_def fun_upd_twist split: sum.splits prod.splits option.splits)
  obtain p derr where p: "decodeContent (dec_Guild lb) msg = (p, derr)" by fastforce
  show ?thesis
  proof (cases derr)
    case (Some x)
    then show ?thesis using assms p by (simp add: OnGuildCreate_def decoding_def ret_def)
  next
    case None
    then show ?thesis using assms p wx
      by (auto simp: OnGuildCreate_def decoding_def deferred_def prog_iffs es split: prod.splits)
  qed
qed

text \<open>Deleting a guild, or its becoming unavailable, leaves everything about it in the collective state; only
  the sets of the shard and its group change.\<close>

lemma guild_delete_keeps_state:
  "env_State (snd (OnGuildDelete lb ctx msg e)) = env_State e \<and> fst (OnGuildDelete lb ctx msg e) \<noteq> Panic why"
proof -
  obtain p err where m: "decodeContent (dec_UnavailableGuild lb) msg = (p, err)" by fastforce
  obtain before ok where g: "GetGuild (env_State e) (ugd_ID p) = (before, ok)" by fastforce
  obtain extra xerr where x: "makeExtra (lib_marshal lb) [(''before'', AnyGuild before)] = (extra, xerr)" by fastforce
  show ?thesis
    by (cases err; cases "ugd_Unavailable p"; cases xerr)
      (simp_all add: OnGuildDelete_def m g x deferred_def bnd_def rd_def upd_def dispatch_def ret_def split: prod.split)
qed

text \<open>A role update reports the role as it was last stored and replaces it.\<close>

lemma role_update_reports_before:
  assumes "dec_GuildRoleUpdate lb (gp_Data msg) = (p, None)" and "role_ID (gru_Role p) \<noteq> 0"
    and "state_ok (env_State e)"
    and "GetGuildRole (env_State e) (gru_GuildID p) (role_ID (gru_Role p)) = Some before"
    and "lib_marshal lb (AnyRole before) = Inr b"
  shows "\<exists>e'. OnGuildRoleUpdate lb ctx msg e =
      (Ok (\<lparr> ed_Extra = [''before'' \<mapsto> b],
             ed_EventDispatchIdentifier = Some (for_guild (Some (gru_GuildID p))),
             ed_Data = gp_Data msg \<rparr>, True, None), e')
    \<and> GetGuildRole (env_State e') (gru_GuildID p) (role_ID (gru_Role p)) = Some (gru_Role p)"
proof -
  have wf: "wf_dcache csm ok_alist ok_alist (GuildRoles (env_State e))"
    using assms(3) by (simp add: state_ok_defs)
  have "DC_Load csm csm (DC_Store csm csm (GuildRoles (env_State e)) g rid r) g rid = Some r" for g rid r
    using csm2.Load_DC_Store [OF wf, of g rid r] by (simp add: find2_def fun_eq_iff)
  then show ?thesis
    using assms(1,2,4,5)
    by (simp add: OnGuildRoleUpdate_def decoding_def decodeContent_def deferred_def bnd_eval SetGuildRole_def
        zero_or_def with_extra_def makeExtra_def dispatch_def ret_def GetGuildRole_def)
qed

text \<open>A channel that is deleted is reported as it was cached and is no longer found.\<close>

lemma channel_delete_forgets:
  assumes "dec_Channel lb (gp_Data msg) = (p, None)" and "chan_GuildID p = Some g" and "g \<noteq> 0"
    and "state_ok (env_State e)"
  shows "\<not> snd (GetGuildChannel (env_State (snd (OnChannelDelete lb ctx msg e))) g (chan_ID p))"
proof -
  have wf: "wf_dcache csm ok_alist ok_alist (GuildChannels (env_State e))"
    using assms(4) by (simp add: state_ok_defs)
  have "DC_Load csm csm (DC_Delete csm csm (GuildChannels (env_State e)) g c) g c = None" for c
    using csm2.Load_DC_Delete [OF wf, of g c] by (simp add: find2_def fun_eq_iff)
  then have "env_State s = RemoveGuildChannel g (chan_ID p) (env_State e) \<Longrightarrow>
      \<not> snd (GetGuildChannel (env_State s) g (chan_ID p))" for s :: env
    by (simp add: GetGuildChannel_def RemoveGuildChannel_def)
  moreover have "env_State (snd (OnChannelDelete lb ctx msg e)) = RemoveGuildChannel g (chan_ID p) (env_State e)"
    using assms(1-3)
    by (auto simp: OnChannelDelete_def decoding_def decodeContent_def deferred_def bnd_def guild_ptr_set_def IsNil_def
        deref_def rd_def upd_def ret_def with_extra_def dispatch_def split: prod.splits option.splits)
  ultimately show ?thesis by blast
qed

text \<open>Asking for an emoji that a cached guild does not have succeeds, with the zero emoji.\<close>

lemma unknown_emoji_found:
  assumes "GetAllGuildEmojis ss g = Some es" and "\<forall>em \<in> set (elems es). emoji_ID em \<noteq> eid"
  shows "GetGuildEmoji ss g eid = (zero_Emoji, True)"
proof -
  have "find (\<lambda>em. emoji_ID em = eid) (elems es) = None"
    using assms(2) by (auto simp: find_None_iff)
  then show ?thesis
    using assms(1) by (simp add: GetGuildEmoji_def GetAllGuildEmojis_def zero_or_def zero_Emoji_def)
qed

section \<open>Direct-message channels\<close>

text \<open>A direct-message channel is found until half an hour after it was last looked up, and not after.\<close>

lemma dm_channel_expires:
  assumes "wf_cache ok_alist (DmChannels (env_State e))" and "sint (env_now e) + 1800 < 2 ^ 63"
  shows "fst (GetDMChannel (chan_ID c) ((AddDMChannel u c e)\<lparr>env_now := t\<rparr>))
    = (if sint t \<le> sint (env_now e) + 1800 then (c, True) else (zero_Channel, False))"
proof -
  have "sint (env_now e + 1800) = sint (env_now e) + 1800"
  proof -
    have "env_now e + 1800 = word_of_int (sint (env_now e) + 1800)" by simp
    moreover have "- (2 ^ 63) \<le> sint (env_now e) + 1800" using sint64_range [of "env_now e"] by simp
    ultimately show ?thesis using assms(2) sint_word_of_int_exact by metis
  qed
  then show ?thesis
    using assms(1)
    by (auto simp: GetDMChannel_def AddDMChannel_def csm.Load_Store memberDMExpiration_def)
qed

section \<open>The properties at work\<close>

definition sample_role :: "RoleID \<Rightarrow> Role" where
  "sample_role rid = zero_Role\<lparr>role_ID := rid\<rparr>"

definition sample_guild :: Guild where
  "sample_guild = zero_Guild\<lparr>guild_ID := 1, guild_MemberCount := 4,
     guild_Roles := Some [sample_role 1, sample_role 5]\<rparr>"

definition caching :: StateCtx where
  "caching = \<lparr> ctx_CacheUsers = True, ctx_CacheMembers = True, ctx_Stateless = False, ctx_StoreMutuals = True \<rparr>"



definition create_lib :: lib where
  "create_lib = sample_lib\<lparr>dec_Guild := accept zero_Guild\<rparr>"

theorem channel_delete_forgets_witness:
  "\<not> snd (GetGuildChannel (env_State (snd (OnChannelDelete
      (sample_lib\<lparr>dec_Channel := accept (zero_Channel\<lparr>chan_ID := 3, chan_GuildID := Some 1\<rparr>)\<rparr>) caching
      (sample_msg ''CHANNEL_DELETE'') (on_State (put_channel 1 (zero_Channel\<lparr>chan_ID := 3, chan_GuildID := Some 1\<rparr>)) sample_env)))) 1 3)"
proof -
  have ok: "state_ok (env_State (on_State (put_channel 1 (zero_Channel\<lparr>chan_ID := 3, chan_GuildID := Some 1\<rparr>)) sample_env))"
    by (simp add: sample_env_def state_ok_update state_update.intros state_ok_New)
  show ?thesis
    using channel_delete_forgets [OF _ _ _ ok, of
        "sample_lib\<lparr>dec_Channel := accept (zero_Channel\<lparr>chan_ID := 3, chan_GuildID := Some 1\<rparr>)\<rparr>"
        "sample_msg ''CHANNEL_DELETE''" "zero_Channel\<lparr>chan_ID := 3, chan_GuildID := Some 1\<rparr>" 1 caching]
    by (simp add: accept_def)
qed

theorem unknown_emoji_found_witness:
  "GetGuildEmoji (put_emojis 1 (Some [zero_Emoji\<lparr>emoji_ID := 4\<rparr>]) NewSandwichState) 1 9 = (zero_Emoji, True)"
  by (rule unknown_emoji_found [where es = "Some [zero_Emoji\<lparr>emoji_ID := 4\<rparr>]"])
    (simp_all add: GetAllGuildEmojis_def put_emojis_def NewSandwichState_def csm.Load_Store)

theorem dm_channel_expires_witness:
  "fst (GetDMChannel 3 ((AddDMChannel 2 (zero_Channel\<lparr>chan_ID := 3\<rparr>) sample_env)\<lparr>env_now := 1700001801\<rparr>))
     = (zero_Channel, False)"
  using dm_channel_expires [where e = sample_env and c = "zero_Channel\<lparr>chan_ID := 3\<rparr>" and u = 2 and t = 1700001801]
  by (simp add: sample_env_def NewSandwichState_def)

end
