(* ===== verification/Reading.thy ===== *)
theory Reading
  imports Inbox
begin

text \<open>
  The session of a shard: what an invalid session leads to.
\<close>

section \<open>Invalid sessions\<close>

text \<open>The session of a shard survives failed attempts to connect.\<close>

lemma CloseWS_session [simp]:
  "sh_SessionID (env_Shard (CloseWS code e)) = sh_SessionID (env_Shard e)"
  by (simp add: CloseWS_def split: option.split)

lemma Close_session [simp]:
  "sh_SessionID (env_Shard (Close code b e)) = sh_SessionID (env_Shard e)"
  by (simp add: Close_def Let_def)

lemma failing_session:
  "failing err e = (r, e') \<Longrightarrow> sh_SessionID (env_Shard e') = sh_SessionID (env_Shard e)"
  by (auto simp: failing_def prog_iffs connect_cleanup_def split: if_splits)

lemma hello_done_session [simp]:
  "sh_SessionID (env_Shard (hello_done h e)) = sh_SessionID (env_Shard e)"
  by (simp add: hello_done_def)

lemma connect_hello_session:
  assumes "connect_hello rc lb e = (r, e')"
  shows "sh_SessionID (env_Shard e') = sh_SessionID (env_Shard e)"
proof (cases "hasWsConn (env_Shard e)")
  case False
  then show ?thesis using assms by (auto simp: connect_hello_def readMessage_def prog_iffs)
next
  case True
  then obtain conn where conn: "sh_wsConn (env_Shard e) = Some conn" by (auto simp: hasWsConn_def)
  have out: ?thesis if o: "hello_outcome rc lb (e\<lparr>env_inbox := t\<rparr>) h = (r, e')" for h t
  proof -
    let ?h = "hello_done h (e\<lparr>env_inbox := t\<rparr>)"
    obtain x s where x: "(if fresh_session (env_Shard e) then Identify rc lb else Resume rc lb) ?h = (x, s)"
      by fastforce
    then have s: "env_Shard s = env_Shard ?h" using session_live [of ?h conn rc lb x s] conn by simp
    show ?thesis
      using o x s by (cases x) (auto simp: hello_outcome_def dest: failing_session split: option.splits)
  qed
  obtain x t where nr: "next_read (env_inbox e) = (x, t)" by fastforce
  show ?thesis
  proof (cases x)
    case (Inl err)
    then show ?thesis using assms True nr by (auto simp: connect_hello_steps dest: failing_session)
  next
    case (Inr msg)
    obtain h err where "decodeContent (dec_Hello lb) msg = (h, err)" by fastforce
    then show ?thesis using assms True nr Inr out
      by (cases err) (auto simp: connect_hello_steps dest: failing_session split: if_splits)
  qed
qed

lemma Connect_session:
  assumes "Connect rc lb e = (r, e')"
  shows "sh_SessionID (env_Shard e') = sh_SessionID (env_Shard e)"
proof -
  have dialed: "dial u s = (x, t) \<Longrightarrow> sh_SessionID (env_Shard t) = sh_SessionID (env_Shard s)" for u s x t
    by (auto simp: dial_def act_def split: prod.splits option.splits)
  have start: "sh_SessionID (env_Shard (connect_start e)) = sh_SessionID (env_Shard e)"
    by (simp add: connect_start_def)
  show ?thesis
    using assms start
    by (auto simp: Connect_steps dest!: connect_hello_session dialed split: if_splits prod.splits res.splits option.splits)
qed

definition ends_with_session :: "lib \<Rightarrow> env \<Rightarrow> env \<Rightarrow> bool" where
  "ends_with_session lb s e' \<longleftrightarrow> (\<exists>conn b u out. session_payload lb s = Inr b \<and>
     env_log e' = out @ [EfWrite conn b, EfGlobalEvent (SandwichEventShardStatusUpdate u)])"

lemma ends_with_session_shard:
  "ends_with_session lb s (on_Shard f e') = ends_with_session lb s e'"
  by (simp add: ends_with_session_def)

lemma reconnect_loop_session:
  "reconnect_loop n lb code e = (Ok None, e') \<Longrightarrow>
    \<exists>s. sh_SessionID (env_Shard s) = sh_SessionID (env_Shard e) \<and> ends_with_session lb s e'"
proof (induction n arbitrary: e)
  case 0
  then show ?case by (simp add: panic_def)
next
  case (Suc n)
  then obtain err s where c: "Connect (\<lambda>_. panic out_of_fuel) lb e = (Ok err, s)"
    by (auto simp: bnd_eq_iff)
  show ?case
  proof (cases err)
    case None
    then have "e' = on_Shard (\<lambda>sh. sh\<lparr>sh_RetriesRemaining := ShardConnectRetries\<rparr>) s"
      using Suc.prems c by (simp add: bnd_Ok bnd_eval ret_def)
    moreover have "ends_with_session lb e s"
      using Connect_ok [OF c [unfolded None]] by (auto simp: ends_with_session_def)
    ultimately show ?thesis by (auto simp: ends_with_session_shard)
  next
    case (Some x)
    let ?s = "on_Shard (\<lambda>sh. sh\<lparr>sh_RetriesRemaining := sh_RetriesRemaining sh + 1\<rparr>) s"
    have ids: "sh_SessionID (env_Shard ?s) = sh_SessionID (env_Shard e)"
      using Connect_session [OF c] by simp
    show ?thesis
    proof (cases "sint (sh_RetriesRemaining (env_Shard ?s)) \<le> 0")
      case True
      then have "Connect (\<lambda>_. panic out_of_fuel) lb (Close code False ?s) = (Ok None, e')"
        using Suc.prems c Some by (simp add: bnd_Ok bnd_eval)
      from Connect_ok [OF this] show ?thesis
        using ids by (auto simp: ends_with_session_def intro!: exI [of _ "Close code False ?s"])
    next
      case False
      then have "reconnect_loop n lb code ?s = (Ok None, e')"
        using Suc.prems c Some by (simp add: bnd_Ok bnd_eval)
      from Suc.IH [OF this] ids show ?thesis by auto
    qed
  qed
qed

text \<open>After an invalid session that cannot be resumed, a reconnection that succeeds has identified afresh:
  the last payload written is an identify.\<close>

lemma invalid_session_identifies:
  assumes "dec_resumable lb (gp_Data msg) = (False, None)"
    and "gatewayOpInvalidSession fuel lb msg trace e = (Ok None, e')"
  shows "\<exists>s conn b u out. lib_marshal_sent lb GatewayOpIdentify (SentIdentify (identify_payload lb s)) = Inr b
    \<and> env_log e' = out @ [EfWrite conn b, EfGlobalEvent (SandwichEventShardStatusUpdate u)]"
proof -
  let ?e = "on_Shard (\<lambda>sh. sh\<lparr>sh_SessionID := [], sh_Sequence := 0, sh_ResumeGatewayURL := []\<rparr>) e"
  have "reconnect_loop fuel lb WebsocketReconnectCloseCode
      (Close WebsocketReconnectCloseCode True (SetStatus ShardStatusReconnecting ?e)) = (Ok None, e')"
    using assms by (simp add: gatewayOpInvalidSession_def bnd_eval Reconnect_def)
  from reconnect_loop_session [OF this] obtain s where
    "sh_SessionID (env_Shard s) = []" "ends_with_session lb s e'" by auto
  then show ?thesis by (auto simp: ends_with_session_def session_payload_def fresh_session_def)
qed

lemma readMessage_bnd:
  assumes "hasWsConn (env_Shard e)"
  shows "bnd readMessage k e = k (fst (next_read (env_inbox e))) (e\<lparr>env_inbox := snd (next_read (env_inbox e))\<rparr>)"
  using assms by (simp add: readMessage_def bnd_def rd_def act_def split: prod.split)

section \<open>The properties at work\<close>

definition session_lib :: lib where
  "session_lib = hello_lib\<lparr>dec_resumable := accept False\<rparr>"

lemma session_reconnects:
  "fst (gatewayOpInvalidSession 1 session_lib (sample_msg ''INVALID'') None hello_env) = Ok None"
proof -
  let ?e = "on_Shard (\<lambda>sh. sh\<lparr>sh_SessionID := [], sh_Sequence := 0, sh_ResumeGatewayURL := []\<rparr>) hello_env"
  have "fst (Reconnect (Suc (length ([] :: go_error list))) session_lib WebsocketReconnectCloseCode ?e) = Ok None"
    by (rule Reconnect_succeeds [where msg = "sample_msg ''HELLO''" and rest = "[]"
          and hello = "\<lparr> hello_HeartbeatInterval = 41250 \<rparr>"])
      (simp_all add: hello_env_def session_lib_def hello_lib_def sample_defs sample_lib_def accept_def
        granted_defs)
  then show ?thesis by (simp add: gatewayOpInvalidSession_def session_lib_def accept_def bnd_eval)
qed

end
