(* ===== verification/Running.thy ===== *)
theory Running
  imports Reading
begin

text \<open>
  \<^verbatim>\<open>internal/shard.go\<close>, the goroutines of a shard: \<^verbatim>\<open>Open\<close>, which listens again and again, \<^verbatim>\<open>Heartbeat\<close>, and
  \<^verbatim>\<open>WaitForReady\<close>, on which its group waits.
\<close>

section \<open>Open\<close>

text \<open>The context of the shard is done when it is cancelled, or with the context of the manager.\<close>

definition shard_gone :: "env \<Rightarrow> bool" where
  "shard_gone e \<longleftrightarrow> env_ctx_done e \<or> env_inbox e = []"

primrec open_loop :: "nat \<Rightarrow> nat \<Rightarrow> lib \<Rightarrow> (env, unit) prog" where
  "open_loop 0 fuel lb = panic out_of_fuel"
| "open_loop (Suc n) fuel lb =
     bnd (Listen fuel lb) (\<lambda>err.
     if (case err of None \<Rightarrow> False | Some e \<Rightarrow> errors_Is e ErrContextCanceled) then ret ()
     else bnd (rd shard_gone) (\<lambda>gone. if gone then ret () else open_loop n fuel lb))"

definition Shard_Open :: "nat \<Rightarrow> lib \<Rightarrow> (env, unit) prog" where
  "Shard_Open fuel lb e = open_loop (Suc (length (env_inbox e))) fuel lb e"

text \<open>It looks at the flag once before and once after each message on the channel, and only the flag ends it.\<close>

definition WaitForReady :: "(env, unit) prog" where
  "WaitForReady =
     bnd (rd (\<lambda>e. sh_IsReady (env_Shard e))) (\<lambda>ready.
     if ready then ret ()
     else bnd (upd (on_Shard (\<lambda>sh. sh\<lparr>sh_ready := False\<rparr>))) (\<lambda>_. panic out_of_fuel))"

section \<open>Heartbeat\<close>

text \<open>
  What the goroutine goes through: a tick of its ticker at a time in milliseconds, an acknowledgement that the
  reading goroutine receives in between, or its end through the dead signal or the context. Times are in
  milliseconds.
\<close>

datatype pulse = PulseTick int | PulseAck int | PulseEnd

definition beat_fails :: "go_error option \<Rightarrow> int \<Rightarrow> env \<Rightarrow> bool" where
  "beat_fails err now e \<longleftrightarrow> err \<noteq> None \<or>
     sh_HeartbeatFailureInterval (env_Shard e) < now - sh_LastHeartbeatAck (env_Shard e)"

fun heartbeat_loop :: "(int \<Rightarrow> (env, go_error option) prog) \<Rightarrow> lib \<Rightarrow> pulse list \<Rightarrow> (env, unit) prog" where
  "heartbeat_loop rc lb [] = panic out_of_fuel"
| "heartbeat_loop rc lb (PulseEnd # ps) = ret ()"
| "heartbeat_loop rc lb (PulseAck t # ps) =
     bnd (upd (on_Shard (\<lambda>sh. sh\<lparr>sh_LastHeartbeatAck := t\<rparr>))) (\<lambda>_. heartbeat_loop rc lb ps)"
| "heartbeat_loop rc lb (PulseTick now # ps) =
     bnd (rd (\<lambda>e. sh_Sequence (env_Shard e))) (\<lambda>seq.
     bnd (SendEvent rc lb GatewayOpHeartbeat (SentSequence seq)) (\<lambda>err.
     bnd (upd (on_Shard (\<lambda>sh. sh\<lparr>sh_LastHeartbeatSent := now\<rparr>))) (\<lambda>_.
     bnd (rd (beat_fails err now)) (\<lambda>fails.
     if fails then ret () else heartbeat_loop rc lb ps))))"

definition Heartbeat :: "(int \<Rightarrow> (env, go_error option) prog) \<Rightarrow> lib \<Rightarrow> pulse list \<Rightarrow> (env, unit) prog" where
  "Heartbeat rc lb pulses =
     bnd (upd (on_Shard (\<lambda>sh. sh\<lparr>sh_HeartbeatActive := True\<rparr>))) (\<lambda>_.
     bnd (rd (\<lambda>e. sh_HeartbeatInterval (env_Shard e))) (\<lambda>interval.
     if interval \<le> 0 then panic ''invalid argument to Int64N''
     else deferred (on_Shard (\<lambda>sh. sh\<lparr>sh_HeartbeatActive := False\<rparr>)) (heartbeat_loop rc lb pulses)))"

section \<open>Open listens on\<close>

text \<open>The context \<open>c\<close> was replaced, or is cancelled. Once this holds it keeps holding.\<close>

definition ctx_over :: "nat \<Rightarrow> env \<Rightarrow> bool" where
  "ctx_over c e \<longleftrightarrow> c < env_ctx e \<or> c = env_ctx e \<and> env_ctx_done e"

lemma ctx_over_done: "ctx_over c e \<Longrightarrow> ctx_done c e"
  by (auto simp: ctx_over_def ctx_done_def)

lemma store_voice_ctx:
  "env_ctx (snd (store_voice_state lb g v e)) = env_ctx e"
  "env_ctx_done (snd (store_voice_state lb g v e)) = env_ctx_done e"
  by (simp_all add: store_voice_state_def bnd_def act_def lift_res_def upd_def ret_def split: prod.splits res.splits if_splits)

interpretation over: event_invariant "ctx_over c" for c :: nat
  by unfold_locales (auto simp: ctx_over_def store_voice_ctx)

lemma Close_over: "ctx_over (env_ctx e) (Close code b e)"
  by (simp add: Close_def Let_def ctx_over_def CloseWS_def SetStatus_def split: option.split)

lemma Reconnect_over:
  assumes "Reconnect fuel lb code e = (r, e')"
  shows "ctx_over (env_ctx e) e'"
proof -
  let ?e = "Close code True (SetStatus ShardStatusReconnecting e)"
  have "ctx_over (env_ctx e) ?e"
    using Close_over [of "SetStatus ShardStatusReconnecting e"] by (simp add: SetStatus_def Let_def)
  moreover have "reconnect_loop fuel lb code ?e = (r, e')"
    using assms by (simp add: Reconnect_def bnd_eval)
  ultimately show ?thesis by (rule keepsD [OF over.keeps_reconnect_loop])
qed

lemma listen_reconnected:
  assumes "hasWsConn (env_Shard e)" and "\<not> env_ctx_done e" and "env_inbox e = RdMsg msg # rest"
    and "gp_Op msg = GatewayOpReconnect"
    and "Reconnect fuel lb WebsocketReconnectCloseCode (e\<lparr>env_inbox := rest\<rparr>) = (Ok err, e')"
  shows "Listen fuel lb e = (Ok None, e')"
proof -
  have "OnEvent fuel lb msg trace (e\<lparr>env_inbox := rest\<rparr>) = (Ok (), e')" for trace
    using assms(4,5)
    by (simp add: OnEvent_def GatewayDispatch_def gatewayHandlers_def gatewayOpReconnect_def GatewayOpDispatch_def
        GatewayOpHeartbeat_def GatewayOpReconnect_def bnd_def ret_def)
  moreover have "ctx_done (env_ctx e) e'"
    using Reconnect_over [OF assms(5)] by (simp add: ctx_over_done)
  ultimately show ?thesis
    using assms(1-3)
    by (simp add: Listen_def bnd_eval ctx_done_def readMessage_bnd bnd_Ok ret_def)
qed

text \<open>C7. When the gateway asks for a reconnection, \<^verbatim>\<open>Open\<close> goes on with the new connection: the call of \<^verbatim>\<open>Listen\<close>
  that received the request ends without an error and without another read, since \<^verbatim>\<open>Connect\<close> replaced its
  context, and unless the shard is closed \<^verbatim>\<open>Listen\<close> is called again.\<close>

theorem open_listens_on:
  assumes "hasWsConn (env_Shard e)" and "\<not> env_ctx_done e" and "env_inbox e = RdMsg msg # rest"
    and "gp_Op msg = GatewayOpReconnect"
    and "Reconnect fuel lb WebsocketReconnectCloseCode (e\<lparr>env_inbox := rest\<rparr>) = (Ok err, e')"
  shows "open_loop (Suc n) fuel lb e = (if shard_gone e' then (Ok (), e') else open_loop n fuel lb e')"
  using listen_reconnected [OF assms] by (simp add: bnd_Ok bnd_eval ret_def)

definition retryable :: "go_error \<Rightarrow> bool" where
  "retryable err \<longleftrightarrow> \<not> errors_Is err ErrContextCanceled \<and> \<not> errors_Is err ErrDeadlineExceeded \<and>
     (case close_code err of None \<Rightarrow> True | Some code \<Rightarrow> code \<notin> set fatal_close_codes)"

text \<open>A fatal close code ends the call of \<^verbatim>\<open>Listen\<close> with an error, but \<^verbatim>\<open>Open\<close> calls it again: the next read of the
  dead connection fails and the shard reconnects, as it would after any other code.\<close>

lemma fatal_close_reconnects:
  assumes "hasWsConn (env_Shard e)" and "\<not> env_ctx_done e" and "code \<in> set fatal_close_codes" and "retryable err"
    and "env_inbox e = RdErr (ErrClose code) # RdErr err # rest"
  shows "open_loop (Suc (Suc n)) fuel lb e =
    bnd (Reconnect fuel lb StatusNormalClosure) (\<lambda>res.
      if (case res of None \<Rightarrow> False | Some e \<Rightarrow> errors_Is e ErrContextCanceled) then ret ()
      else bnd (rd shard_gone) (\<lambda>gone. if gone then ret () else open_loop n fuel lb))
    (on_ShardGroup (\<lambda>sg. sg\<lparr>sg_Error := lib_error_text lb (ErrClose code)\<rparr>) (e\<lparr>env_inbox := rest\<rparr>))"
proof -
  let ?g = "on_ShardGroup (\<lambda>sg. sg\<lparr>sg_Error := lib_error_text lb (ErrClose code)\<rparr>)"
  let ?e = "?g (e\<lparr>env_inbox := RdErr err # rest\<rparr>)"
  have comm: "(?g (e\<lparr>env_inbox := t\<rparr>))\<lparr>env_inbox := rest\<rparr> = ?g (e\<lparr>env_inbox := rest\<rparr>)" for t
    by (cases e) (simp add: on_ShardGroup_def)
  have first: "Listen fuel lb e = (Ok (Some (ErrClose code)), ?e)"
    using assms(1,2,3,5)
    by (simp add: Listen_def bnd_eval ctx_done_def readMessage_bnd ret_def)
  have second: "Listen fuel lb ?e = Reconnect fuel lb StatusNormalClosure (?g (e\<lparr>env_inbox := rest\<rparr>))"
    using assms(1,2,4)
    by (simp add: Listen_def bnd_eval ctx_done_def readMessage_bnd retryable_def comm split: option.splits)
  have "open_loop (Suc (Suc n)) fuel lb e = open_loop (Suc n) fuel lb ?e"
    using assms(2) by (simp add: first bnd_Ok bnd_eval shard_gone_def)
  then show ?thesis by (simp add: second bnd_def [of "Listen fuel lb"] bnd_def [of "Reconnect fuel lb StatusNormalClosure"])
qed

section \<open>Open ends\<close>

lemma read_consumes_any:
  assumes "readMessage e = (Ok r, e')" and "env_inbox e \<noteq> []"
  shows "length (env_inbox e') < length (env_inbox e)"
proof -
  have "rs \<noteq> [] \<Longrightarrow> length (snd (next_read rs)) < length rs" for rs
    using inbox.read_shrinks by (cases rs rule: next_read.cases) (auto simp: less_Suc_eq_le)
  then show ?thesis using assms
    by (auto simp: readMessage_def bnd_eval panic_def act_def split: if_splits prod.splits) (metis snd_conv)
qed

lemma listen_consumes:
  assumes "Listen fuel lb e = (Ok err, e')" and "\<not> shard_gone e"
  shows "length (env_inbox e') < length (env_inbox e)"
proof -
  have open_ctx: "\<not> ctx_done (env_ctx e) e" "env_inbox e \<noteq> []"
    using assms(2) by (auto simp: shard_gone_def ctx_done_def)
  with assms(1) obtain r s where r: "readMessage e = (Ok r, s)"
    by (auto simp: Listen_def bnd_eval bnd_eq_iff)
  have less: "length (env_inbox s) < length (env_inbox e)" using read_consumes_any [OF r open_ctx(2)] .
  have event: "length (env_inbox t) \<le> k" if "OnEvent fuel lb msg tr u = (x, t)" "length (env_inbox u) \<le> k" for msg tr u x t k
    using keepsD [OF inbox.keeps_OnEvent _ that(1)] that(2) by simp
  have again: "length (env_inbox t) \<le> k" if "listen_loop n fuel lb ctx b c u = (x, t)" "length (env_inbox u) \<le> k" for n ctx b c u x t k
    using keepsD [OF inbox.keeps_listen_loop _ that(1)] that(2) by simp
  have rec: "length (env_inbox t) \<le> k" if "Reconnect fuel lb code u = (x, t)" "length (env_inbox u) \<le> k" for code u x t k
    using keepsD [OF inbox.keeps_Reconnect _ that(1)] that(2) by simp
  have "length (env_inbox e') \<le> length (env_inbox s)"
  proof (cases r)
    case (Inl err)
    then show ?thesis using assms(1) open_ctx(1)
      by (auto simp: Listen_def bnd_eval bnd_Ok r ret_def dest: again rec split: if_splits option.splits)
  next
    case (Inr msg)
    then show ?thesis using assms(1) open_ctx(1)
      by (auto simp: Listen_def bnd_eval bnd_Ok r bnd_eq_iff dest!: again event)
  qed
  with less show ?thesis by simp
qed

lemma listen_gone:
  assumes "Listen fuel lb e = (Ok err, e')" and "shard_gone e"
  shows "shard_gone e'"
proof (cases "env_ctx_done e")
  case True
  then show ?thesis using assms by (simp add: Listen_def bnd_eval ctx_done_def ret_def)
next
  case False
  then have "length (env_inbox e) \<le> 0" using assms(2) by (simp add: shard_gone_def)
  with keepsD [OF inbox.keeps_Listen _ assms(1)] have "length (env_inbox e') \<le> 0" .
  then show ?thesis by (simp add: shard_gone_def)
qed

lemma open_loop_fuel:
  "length (env_inbox e) < n \<Longrightarrow> length (env_inbox e) < m \<Longrightarrow> open_loop n fuel lb e = open_loop m fuel lb e"
proof (induction n arbitrary: m e)
  case (Suc n)
  then obtain m' where m: "m = Suc m'" by (cases m) auto
  obtain r e' where run: "Listen fuel lb e = (r, e')" by fastforce
  show ?case
  proof (cases r)
    case (Panic why)
    then show ?thesis by (simp add: m run bnd_Panic)
  next
    case (Ok err)
    have "open_loop n fuel lb e' = open_loop m' fuel lb e'" if "\<not> shard_gone e'"
    proof -
      have "\<not> shard_gone e" using that listen_gone run Ok by blast
      then have "length (env_inbox e') < length (env_inbox e)" using listen_consumes run Ok by blast
      then show ?thesis using Suc.prems by (intro Suc.IH) (simp_all add: m)
    qed
    then show ?thesis by (simp add: m run Ok bnd_Ok bnd_eval)
  qed
qed simp


section \<open>A failed heartbeat\<close>

lemma SendEvent_effects:
  assumes "sh_wsConn (env_Shard e) = Some conn" and "SendEvent rc lb op i e = (r, e')"
  shows "env_Shard e' = env_Shard e \<and> env_dials e' = env_dials e \<and> (\<exists>err. r = Ok err)
    \<and> (env_log e' = env_log e \<or> (\<exists>b. env_log e' = env_log e @ [EfWrite conn b]))"
  using assms
  by (auto simp: SendEvent_def WriteJSON_def recovered_def bnd_eval bnd_def act_def wsWrite_def hasWsConn_def
      ret_def deref_def rd_def wrap_def emit_def split: sum.splits prod.splits option.splits if_splits res.splits)

lemma SendEvent_quiet:
  assumes "sh_wsConn (env_Shard e) = Some conn" and "SendEvent rc lb op i e = (r, e')"
  shows "env_Shard e' = env_Shard e \<and> env_dials e' = env_dials e \<and> (\<exists>ws. env_log e' = env_log e @ map (EfWrite conn) ws)
    \<and> (\<exists>err. r = Ok err)"
proof -
  have "env_log e @ map (EfWrite conn) [] = env_log e" "env_log e @ map (EfWrite conn) [b] = env_log e @ [EfWrite conn b]" for b
    by simp_all
  then show ?thesis using SendEvent_effects [OF assms] by metis
qed

lemma heartbeat_loop_quiet:
  "heartbeat_loop rc lb ps e = (r, e') \<Longrightarrow> sh_wsConn (env_Shard e) = Some conn \<Longrightarrow>
     sh_wsConn (env_Shard e') = Some conn \<and> sh_Status (env_Shard e') = sh_Status (env_Shard e) \<and> env_dials e' = env_dials e
     \<and> (\<exists>ws. env_log e' = env_log e @ map (EfWrite conn) ws)"
proof (induction rc lb ps arbitrary: e rule: heartbeat_loop.induct)
  case (4 rc lb now ps)
  obtain q e1 where send: "SendEvent rc lb GatewayOpHeartbeat (SentSequence (sh_Sequence (env_Shard e))) e = (q, e1)"
    by fastforce
  obtain err ws where e1: "q = Ok err" "env_Shard e1 = env_Shard e" "env_dials e1 = env_dials e"
    "env_log e1 = env_log e @ map (EfWrite conn) ws"
    using SendEvent_quiet [OF 4(3) send] by blast
  let ?e = "on_Shard (\<lambda>sh. sh\<lparr>sh_LastHeartbeatSent := now\<rparr>) e1"
  show ?case
  proof (cases "beat_fails err now ?e")
    case True
    then have "e' = ?e" using 4(2) send e1(1) by (simp add: bnd_eval bnd_Ok ret_def)
    then show ?thesis using e1 4(3) by auto
  next
    case False
    then have "heartbeat_loop rc lb ps ?e = (r, e')" using 4(2) send e1(1) by (simp add: bnd_eval bnd_Ok)
    from 4(1) [OF False this] e1 4(3) obtain vs where
      "sh_wsConn (env_Shard e') = Some conn" "sh_Status (env_Shard e') = sh_Status (env_Shard e)" "env_dials e' = env_dials e"
      "env_log e' = env_log e @ map (EfWrite conn) (ws @ vs)" by auto
    then show ?thesis by blast
  qed
next
  case (3 rc lb t ps)
  then show ?case by (fastforce simp: bnd_eval)
qed (auto simp: panic_def ret_def)

text \<open>A failed heartbeat is not acted on. Whatever ticks and acknowledgements the goroutine goes through, with a
  connection it does nothing but write to it: when a write fails, or no acknowledgement came for the failure
  interval, it stops, and the shard keeps its connection and its status.\<close>

lemma heartbeat_never_reconnects:
  assumes "Heartbeat rc lb pulses e = (Ok (), e')" and "sh_wsConn (env_Shard e) = Some conn"
  shows "\<not> sh_HeartbeatActive (env_Shard e') \<and> sh_wsConn (env_Shard e') = Some conn
    \<and> sh_Status (env_Shard e') = sh_Status (env_Shard e) \<and> (\<exists>ws. env_log e' = env_log e @ map (EfWrite conn) ws)"
proof -
  let ?e = "on_Shard (\<lambda>sh. sh\<lparr>sh_HeartbeatActive := True\<rparr>) e"
  obtain e1 where run: "heartbeat_loop rc lb pulses ?e = (Ok (), e1)"
    and e': "e' = on_Shard (\<lambda>sh. sh\<lparr>sh_HeartbeatActive := False\<rparr>) e1"
    using assms(1) by (auto simp: Heartbeat_def bnd_eval deferred_def panic_def split: if_splits prod.splits)
  from heartbeat_loop_quiet [OF run] assms(2) show ?thesis by (auto simp: e')
qed

section \<open>The properties at work\<close>

definition reconnect_env :: env where
  "reconnect_env = hello_env\<lparr>env_inbox := RdMsg ((sample_msg ''RECONNECT'')\<lparr>gp_Op := GatewayOpReconnect\<rparr>) # env_inbox hello_env\<rparr>"

theorem open_listens_on_witness:
  "\<exists>e'. Reconnect 1 hello_lib WebsocketReconnectCloseCode hello_env = (Ok None, e')
     \<and> open_loop 1 1 hello_lib reconnect_env = (if shard_gone e' then (Ok (), e') else open_loop 0 1 hello_lib e')"
proof -
  have "fst (Reconnect (Suc (length ([] :: go_error list))) hello_lib WebsocketReconnectCloseCode hello_env) = Ok None"
    by (rule Reconnect_succeeds [where msg = "sample_msg ''HELLO''" and rest = "[]"
          and hello = "\<lparr> hello_HeartbeatInterval = 41250 \<rparr>"])
      (simp_all add: hello_env_def hello_lib_def sample_defs sample_lib_def accept_def granted_defs)
  then obtain e' where run: "Reconnect 1 hello_lib WebsocketReconnectCloseCode hello_env = (Ok None, e')"
    by (metis One_nat_def list.size(3) prod.collapse)
  have inbox: "reconnect_env\<lparr>env_inbox := env_inbox hello_env\<rparr> = hello_env"
    by (simp add: reconnect_env_def)
  have fields: "hasWsConn (env_Shard reconnect_env)" "\<not> env_ctx_done reconnect_env"
    "env_inbox reconnect_env = RdMsg ((sample_msg ''RECONNECT'')\<lparr>gp_Op := GatewayOpReconnect\<rparr>) # env_inbox hello_env"
    by (simp_all add: reconnect_env_def hello_env_def sample_defs hasWsConn_def)
  have "open_loop (Suc 0) 1 hello_lib reconnect_env = (if shard_gone e' then (Ok (), e') else open_loop 0 1 hello_lib e')"
    using fields by (rule open_listens_on [where err = None]) (simp_all only: run inbox, simp add: sample_msg_def)
  then show ?thesis using run by auto
qed


end
