(* ===== verification/Group.thy ===== *)
theory Group
  imports Running
begin

text \<open>
  \<^verbatim>\<open>internal/shardgroup.go\<close> and the scaling of \<^verbatim>\<open>internal/manager.go\<close>: groups of shards, how one is opened, becomes
  ready and replaces the others.

  A manager owns its groups and a group its shards, so they are tables here. A shard runs on \<open>env\<close>, into which
  \<open>with_shard\<close> loads it with its group, and from which it stores both back; what \<open>env\<close> has besides is shared by
  all shards. Goroutines run one after the other, each to its end: that of a shard reads what its script has when it
  is started, and the script of a shard whose context lives on ends when nothing more arrives for now.
\<close>

section \<open>The state\<close>

text \<open>A shard with its context and the script of its reads.\<close>

record slot =
  sl_Shard :: Shard
  sl_ctx :: nat
  sl_ctx_done :: bool
  sl_inbox :: "read_event list"

record group =
  gr_Data :: ShardGroup
  gr_Shards :: "(int32 \<times> slot) list"

text \<open>\<open>fl_reads\<close> gives the script of the shard that a group creates.\<close>

record fleet =
  fl_env :: env
  fl_ShardGroups :: "(int32 \<times> group) list"
  fl_shardGroupCounter :: int32
  fl_reads :: "int32 \<Rightarrow> int32 \<Rightarrow> read_event list"

definition on_group :: "int32 \<Rightarrow> (group \<Rightarrow> group) \<Rightarrow> fleet \<Rightarrow> fleet" where
  "on_group gid f fl =
     fl\<lparr>fl_ShardGroups := map (\<lambda>(k, g). (k, if k = gid then f g else g)) (fl_ShardGroups fl)\<rparr>"

definition on_data :: "int32 \<Rightarrow> (ShardGroup \<Rightarrow> ShardGroup) \<Rightarrow> fleet \<Rightarrow> fleet" where
  "on_data gid f = on_group gid (\<lambda>g. g\<lparr>gr_Data := f (gr_Data g)\<rparr>)"

definition group_of :: "fleet \<Rightarrow> int32 \<Rightarrow> group option" where
  "group_of fl = map_of (fl_ShardGroups fl)"

definition emit_all :: "effect \<Rightarrow> fleet \<Rightarrow> fleet" where
  "emit_all x fl = fl\<lparr>fl_env := emit x (fl_env fl)\<rparr>"

definition load_slot :: "group \<Rightarrow> slot \<Rightarrow> env \<Rightarrow> env" where
  "load_slot g s e = e\<lparr>env_ShardGroup := gr_Data g, env_Shard := sl_Shard s, env_ctx := sl_ctx s,
     env_ctx_done := sl_ctx_done s, env_inbox := sl_inbox s\<rparr>"

definition store_slot :: "int32 \<Rightarrow> env \<Rightarrow> group \<Rightarrow> group" where
  "store_slot sid e g = g\<lparr>gr_Data := env_ShardGroup e, gr_Shards := AList.update sid
     \<lparr> sl_Shard = env_Shard e, sl_ctx = env_ctx e, sl_ctx_done = env_ctx_done e, sl_inbox = env_inbox e \<rparr> (gr_Shards g)\<rparr>"

definition with_shard :: "int32 \<Rightarrow> int32 \<Rightarrow> (env, 'a) prog \<Rightarrow> (fleet, 'a) prog" where
  "with_shard gid sid m fl =
     (case group_of fl gid of
        None \<Rightarrow> (Panic ''nil pointer dereference'', fl)
      | Some g \<Rightarrow>
          (case map_of (gr_Shards g) sid of
             None \<Rightarrow> (Panic ''nil pointer dereference'', fl)
           | Some s \<Rightarrow>
               (case m (load_slot g s (fl_env fl)) of
                  (r, e) \<Rightarrow> (r, on_group gid (store_slot sid e) (fl\<lparr>fl_env := e\<rparr>)))))"

section \<open>Groups\<close>

definition NewShardGroup :: "int32 \<Rightarrow> int32 list \<Rightarrow> int32 \<Rightarrow> ShardGroup" where
  "NewShardGroup shardGroupID shardIDs shardCount = \<lparr>
     sg_Error = [], sg_WaitingFor = 0, sg_User = None, sg_Guilds = NewCache 50, sg_ShardIDs = shardIDs,
     sg_ID = shardGroupID, sg_ShardCount = shardCount, sg_Status = ShardGroupStatusIdle, sg_floodgate = False,
     sg_allShardsReady = False \<rparr>"

definition SG_SetStatus :: "int32 \<Rightarrow> ShardGroupStatus \<Rightarrow> fleet \<Rightarrow> fleet" where
  "SG_SetStatus gid status fl =
     emit_all (EfGlobalEvent (SandwichEventShardGroupStatusUpdate
         \<lparr> sgsu_Manager = mg_Identifier (env_Manager (fl_env fl)), sgsu_ShardGroup = gid, sgsu_Status = status \<rparr>))
       (on_data gid (\<lambda>sg. sg\<lparr>sg_Status := status\<rparr>) fl)"

definition SG_GetStatus :: "group \<Rightarrow> ShardGroupStatus" where
  "SG_GetStatus g = sg_Status (gr_Data g)"

definition SG_Close :: "int32 \<Rightarrow> (fleet, unit) prog" where
  "SG_Close gid =
     bnd (upd (SG_SetStatus gid ShardGroupStatusClosing)) (\<lambda>_.
     bnd (rd (\<lambda>fl. case group_of fl gid of None \<Rightarrow> [] | Some g \<Rightarrow> map fst (gr_Shards g))) (\<lambda>sids.
     bnd (each (\<lambda>sid. with_shard gid sid (upd (Close StatusNormalClosure False))) sids) (\<lambda>_.
     bnd (upd (on_data gid (\<lambda>sg. sg\<lparr>sg_Guilds := Cache_Clear csm (sg_Guilds sg)\<rparr>))) (\<lambda>_.
     upd (SG_SetStatus gid ShardGroupStatusClosed)))))"

section \<open>Opening a group\<close>

definition mark_other :: "int32 \<Rightarrow> int32 \<times> group \<Rightarrow> fleet \<Rightarrow> fleet" where
  "mark_other gid = (\<lambda>(k, g) fl.
     if SG_GetStatus g \<noteq> ShardGroupStatusErroring \<and> sg_ID (gr_Data g) \<noteq> gid
     then SG_SetStatus k ShardGroupStatusMarkedForClosure fl else fl)"

definition create_shard :: "int32 \<Rightarrow> int32 \<Rightarrow> fleet \<Rightarrow> fleet" where
  "create_shard gid sid fl =
     on_group gid (\<lambda>g. g\<lparr>gr_Shards := AList.update sid
       \<lparr> sl_Shard = NewShard (gr_Data g) (env_Manager (fl_env fl)) sid, sl_ctx = 0, sl_ctx_done = False,
         sl_inbox = fl_reads fl gid sid \<rparr> (gr_Shards g)\<rparr>) fl"

text \<open>
  Nothing is waited for between two attempts. \<open>Inl\<close> is the error with which the first shard ran out of retries;
  a cancelled context ends the loop as a success does, and stays the result of \<^verbatim>\<open>Open\<close>.
\<close>

primrec initial_loop :: "nat \<Rightarrow> lib \<Rightarrow> int32 \<Rightarrow> int32 \<Rightarrow> (fleet, go_error + go_error option) prog" where
  "initial_loop 0 lb gid sid = panic out_of_fuel"
| "initial_loop (Suc n) lb gid sid =
     bnd (with_shard gid sid (Connect (\<lambda>_. panic out_of_fuel) lb)) (\<lambda>err.
     case err of
       None \<Rightarrow> ret (Inr None)
     | Some e \<Rightarrow>
         if errors_Is e ErrContextCanceled then ret (Inr (Some e))
         else
         bnd (with_shard gid sid (rd (\<lambda>e. sh_RetriesRemaining (env_Shard e)))) (\<lambda>retriesRemaining.
         if sint retriesRemaining \<le> 0 then ret (Inl e)
         else
         bnd (with_shard gid sid (upd (on_Shard (\<lambda>sh. sh\<lparr>sh_RetriesRemaining := sh_RetriesRemaining sh - 1\<rparr>)))) (\<lambda>_.
         initial_loop n lb gid sid)))"

primrec connect_loop :: "nat \<Rightarrow> nat \<Rightarrow> lib \<Rightarrow> int32 \<Rightarrow> int32 \<Rightarrow> (fleet, unit) prog" where
  "connect_loop 0 fuel lb gid sid = panic out_of_fuel"
| "connect_loop (Suc n) fuel lb gid sid =
     bnd (with_shard gid sid (Connect (\<lambda>_. panic out_of_fuel) lb)) (\<lambda>err.
     if (case err of None \<Rightarrow> False | Some e \<Rightarrow> \<not> errors_Is e ErrContextCanceled) then connect_loop n fuel lb gid sid
     else with_shard gid sid (Shard_Open fuel lb))"

text \<open>\<open>SG_Open\<close> returns its error, and whether it has started the goroutine that waits for the shards.\<close>

definition SG_Open :: "nat \<Rightarrow> lib \<Rightarrow> int32 \<Rightarrow> (fleet, go_error option \<times> bool) prog" where
  "SG_Open fuel lb gid =
     bnd (upd (\<lambda>fl. fold (mark_other gid) (fl_ShardGroups fl) fl)) (\<lambda>_.
     bnd (bnd (rd (\<lambda>fl. group_of fl gid)) deref) (\<lambda>sg.
     bnd (upd (fold (create_shard gid) (sg_ShardIDs (gr_Data sg)))) (\<lambda>_.
     case sg_ShardIDs (gr_Data sg) of
       [] \<Rightarrow> ret (Some ErrMissingShards, False)
     | first # others \<Rightarrow>
         bnd (upd (SG_SetStatus gid ShardGroupStatusConnecting)) (\<lambda>_.
         bnd (initial_loop fuel lb gid first) (\<lambda>res.
         case res of
           Inl e \<Rightarrow>
             bnd (upd (on_data gid (\<lambda>sg. sg\<lparr>sg_Error := lib_error_text lb e\<rparr>))) (\<lambda>_.
             bnd (upd (SG_SetStatus gid ShardGroupStatusErroring)) (\<lambda>_.
             bnd (SG_Close gid) (\<lambda>_.
             ret (Some e, False))))
         | Inr err \<Rightarrow>
             bnd (with_shard gid first (Shard_Open fuel lb)) (\<lambda>_.
             bnd (each (connect_loop fuel fuel lb gid) others) (\<lambda>_.
             bnd (upd (SG_SetStatus gid ShardGroupStatusConnected)) (\<lambda>_.
             ret (err, True)))))))))"

text \<open>The goroutine that \<open>SG_Open\<close> starts last. It closes its own floodgate, once for every other group.\<close>

definition group_ready :: "int32 \<Rightarrow> (fleet, unit) prog" where
  "group_ready gid =
     bnd (bnd (rd (\<lambda>fl. group_of fl gid)) deref) (\<lambda>sg.
     bnd (each (\<lambda>sid.
       bnd (upd (on_data gid (\<lambda>sg. sg\<lparr>sg_WaitingFor := sid\<rparr>))) (\<lambda>_.
       with_shard gid sid WaitForReady)) (sg_ShardIDs (gr_Data sg))) (\<lambda>_.
     bnd (upd (on_data gid (\<lambda>sg. sg\<lparr>sg_allShardsReady := True\<rparr>))) (\<lambda>_.
     bnd (rd (\<lambda>fl. map fst (fl_ShardGroups fl))) (\<lambda>gids.
     bnd (each (\<lambda>k.
       if k \<noteq> gid then
         bnd (upd (on_data gid (\<lambda>sg. sg\<lparr>sg_floodgate := False\<rparr>))) (\<lambda>_. SG_Close k)
       else ret ()) gids) (\<lambda>_.
     upd (on_data gid (\<lambda>sg. sg\<lparr>sg_floodgate := True\<rparr>)))))))"

section \<open>Managers\<close>

definition Scale :: "int32 list \<Rightarrow> int32 \<Rightarrow> fleet \<Rightarrow> int32 \<times> fleet" where
  "Scale shardIDs shardCount fl =
     (let gid = fl_shardGroupCounter fl + 1
      in (gid, fl\<lparr>fl_shardGroupCounter := gid, fl_ShardGroups := AList.update gid
           \<lparr> gr_Data = NewShardGroup gid shardIDs shardCount, gr_Shards = [] \<rparr> (fl_ShardGroups fl)\<rparr>))"

definition initial_shards :: "fleet \<Rightarrow> (int32 list \<times> int32) \<times> fleet" where
  "initial_shards fl =
     (let mg = env_Manager (fl_env fl); cfg = mg_Configuration mg in
      case getInitialShardCount (mc_ShardCount cfg) (mc_ShardIDs cfg) (mc_AutoSharded cfg) mg of
        (res, mg') \<Rightarrow> (res, fl\<lparr>fl_env := (fl_env fl)\<lparr>env_Manager := mg'\<rparr>\<rparr>))"

text \<open>After a cancelled connection \<^verbatim>\<open>Open\<close> returns although the goroutine of the group was started; it is left out.\<close>

definition Manager_Open :: "nat \<Rightarrow> lib \<Rightarrow> (fleet, go_error option) prog" where
  "Manager_Open fuel lb =
     bnd (act initial_shards) (\<lambda>(shardIDs, shardCount).
     bnd (act (Scale shardIDs shardCount)) (\<lambda>gid.
     bnd (SG_Open fuel lb gid) (\<lambda>(err, ready).
     case err of
       Some e \<Rightarrow> ret (Some e)
     | None \<Rightarrow> bnd (group_ready gid) (\<lambda>_. ret None))))"

definition Manager_Close :: "(fleet, unit) prog" where
  "Manager_Close =
     bnd (upd (\<lambda>fl. fl\<lparr>fl_env := on_Manager (\<lambda>mg. mg\<lparr>mg_IsClosing := True\<rparr>) (fl_env fl)\<rparr>)) (\<lambda>_.
     bnd (rd (\<lambda>fl. map fst (fl_ShardGroups fl))) (\<lambda>gids. each SG_Close gids))"

definition Manager_AllReady :: "fleet \<Rightarrow> bool" where
  "Manager_AllReady fl = AllReady (mg_IsClosing (env_Manager (fl_env fl)))
     (map (\<lambda>(k, g). (k, gr_Data g)) (fl_ShardGroups fl))"

end
