(* ===== verification/Group_Props.thy ===== *)
theory Group_Props
  imports Group
begin

text \<open>
  Properties of groups: what opening one leaves of the others, when a manager is ready, and how an opening that
  fails ends.
\<close>

section \<open>What an operation leaves of a group\<close>

lemma group_of_on_group [simp]:
  "group_of (on_group k f fl) gid = (if gid = k then map_option f (group_of fl gid) else group_of fl gid)"
proof -
  have "map_of (map (\<lambda>(j, g). (j, if j = k then f g else g)) al) gid
      = (if gid = k then map_option f (map_of al gid) else map_of al gid)" for al
    by (induction al) auto
  then show ?thesis by (simp add: group_of_def on_group_def)
qed

lemma group_of_env [simp]: "group_of (fl\<lparr>fl_env := e\<rparr>) = group_of fl"
  by (simp add: group_of_def fun_eq_iff)

lemma group_of_emit [simp]: "group_of (emit_all x fl) = group_of fl"
  by (simp add: group_of_def emit_all_def fun_eq_iff)

lemma fst_groups [simp]: "map fst (fl_ShardGroups (on_group k f fl)) = map fst (fl_ShardGroups fl)"
  by (simp add: on_group_def comp_def split_def)

text \<open>A field that neither a change of status nor the clearing of the guilds touches.\<close>

definition flag :: "(ShardGroup \<Rightarrow> 'a) \<Rightarrow> int32 \<Rightarrow> fleet \<Rightarrow> 'a option" where
  "flag get gid fl = map_option (\<lambda>g. get (gr_Data g)) (group_of fl gid)"

definition steady :: "(ShardGroup \<Rightarrow> 'a) \<Rightarrow> bool" where
  "steady get \<longleftrightarrow> (\<forall>sg st. get (sg\<lparr>sg_Status := st\<rparr>) = get sg) \<and> (\<forall>sg c. get (sg\<lparr>sg_Guilds := c\<rparr>) = get sg)"

lemma steady_fields [simp]: "steady sg_floodgate" "steady sg_allShardsReady" "steady sg_Error"
  by (simp_all add: steady_def)

lemma flag_on_data: "k \<noteq> gid \<or> (\<forall>sg. get (f sg) = get sg) \<Longrightarrow> flag get gid (on_data k f fl) = flag get gid fl"
  by (auto simp: flag_def on_data_def option.map_comp comp_def)

lemma flag_status: "steady get \<Longrightarrow> flag get gid (SG_SetStatus k st fl) = flag get gid fl"
  by (simp add: SG_SetStatus_def flag_def steady_def on_data_def option.map_comp comp_def)

lemma flag_create: "flag get gid (create_shard k sid fl) = flag get gid fl"
  by (simp add: create_shard_def flag_def option.map_comp comp_def)

lemma with_shard_flag:
  assumes "k \<noteq> gid \<or> keeps (\<lambda>e. get (env_ShardGroup e) = x) m"
  shows "keeps (\<lambda>fl. flag get gid fl = Some x) (with_shard k sid m)"
proof (rule keepsI)
  fix fl assume flag: "flag get gid fl = Some x"
  show "flag get gid (snd (with_shard k sid m fl)) = Some x"
  proof (cases "k = gid")
    case False
    then show ?thesis using flag
      by (simp add: with_shard_def flag_def split: option.split prod.split)
  next
    case True
    with assms have keeps: "keeps (\<lambda>e. get (env_ShardGroup e) = x) m" by simp
    obtain g where g: "group_of fl gid = Some g" "get (gr_Data g) = x" using flag by (auto simp: flag_def)
    show ?thesis
    proof (cases "map_of (gr_Shards g) sid")
      case None
      then show ?thesis using g True by (simp add: with_shard_def flag_def)
    next
      case (Some s)
      obtain r e where run: "m (load_slot g s (fl_env fl)) = (r, e)" by fastforce
      then have "get (env_ShardGroup e) = x" using keepsD [OF keeps _ run] g(2) by (simp add: load_slot_def)
      then show ?thesis using g Some True by (simp add: with_shard_def run flag_def store_slot_def)
    qed
  qed
qed

abbreviation keeps_flag :: "(ShardGroup \<Rightarrow> 'a) \<Rightarrow> int32 \<Rightarrow> 'a \<Rightarrow> (fleet, 'b) prog \<Rightarrow> bool" where
  "keeps_flag get gid x \<equiv> keeps (\<lambda>fl. flag get gid fl = Some x)"

lemma Close_group: "env_ShardGroup (Close code b e) = env_ShardGroup e"
  by (simp add: Close_def CloseWS_def Let_def split: option.split)

lemma keeps_flag_upd: "(\<And>fl. flag get gid (f fl) = flag get gid fl) \<Longrightarrow> keeps_flag get gid x (upd f)"
  by (simp add: keeps_def upd_def)

lemma SG_Close_flag:
  assumes "steady get"
  shows "keeps_flag get gid x (SG_Close k)"
proof -
  have "flag get gid (on_data k (\<lambda>sg. sg\<lparr>sg_Guilds := c sg\<rparr>) fl) = flag get gid fl" for c fl
    using assms by (intro flag_on_data) (simp add: steady_def)
  moreover have "keeps (\<lambda>e. get (env_ShardGroup e) = x) (upd (Close code b))" for code b
    by (simp add: keeps_def upd_def Close_group)
  ultimately show ?thesis
    unfolding SG_Close_def using assms
    by (intro keeps_intros keeps_flag_upd with_shard_flag disjI2) (simp_all add: flag_status)
qed

lemma marks_flag: "steady get \<Longrightarrow> flag get gid (fold (mark_other k) gs fl) = flag get gid fl"
  by (induction gs arbitrary: fl) (auto simp: mark_other_def flag_status)

lemma creates_flag: "flag get gid (fold (create_shard k) sids fl) = flag get gid fl"
  by (induction sids arbitrary: fl) (auto simp: flag_create)

lemma loops_flag:
  assumes "k \<noteq> gid"
  shows "keeps_flag get gid x (initial_loop n lb k sid)" and "keeps_flag get gid x (connect_loop n fuel lb k sid)"
  by (induction n) (use assms in \<open>auto intro!: keeps_intros with_shard_flag\<close>)

lemma SG_Open_flag:
  assumes "k \<noteq> gid" and "steady get"
  shows "keeps_flag get gid x (SG_Open fuel lb k)"
  unfolding SG_Open_def using assms
  by (intro keeps_intros keeps_flag_upd loops_flag with_shard_flag SG_Close_flag)
    (simp_all add: marks_flag creates_flag flag_status flag_on_data)

lemma group_ready_flag:
  assumes "k \<noteq> gid" and "steady get"
  shows "keeps_flag get gid x (group_ready k)"
  unfolding group_ready_def using assms
  by (intro keeps_intros keeps_flag_upd with_shard_flag SG_Close_flag) (simp_all add: flag_on_data)

lemma Scale_flag:
  "fl_shardGroupCounter fl + 1 \<noteq> gid \<Longrightarrow> flag get gid (snd (Scale ids n fl)) = flag get gid fl"
  by (simp add: Scale_def Let_def flag_def group_of_def update_conv')

lemma not_ready:
  "flag sg_allShardsReady gid fl = Some False \<Longrightarrow> \<not> Manager_AllReady fl"
  by (force simp: Manager_AllReady_def AllReady_iff flag_def group_of_def dest: map_of_SomeD)


section \<open>The groups that are replaced\<close>

lemma each_all:
  assumes "\<And>x s s'. body x s = (Ok (), s') \<Longrightarrow> Q x s'"
    and "\<And>x y s s'. Q y s \<Longrightarrow> body x s = (Ok (), s') \<Longrightarrow> Q y s'"
    and "each body xs s = (Ok (), s')" and "x \<in> set xs"
  shows "Q x s'"
  using assms(3,4)
proof (induction xs arbitrary: s)
  case (Cons y ys)
  then obtain t where t: "body y s = (Ok (), t)" "each body ys t = (Ok (), s')"
    by (auto split: prod.splits res.splits)
  have "each body ys t = (Ok (), s') \<Longrightarrow> Q x t \<Longrightarrow> Q x s'" for t
  proof (induction ys arbitrary: t)
    case (Cons z zs)
    then obtain u where "body z t = (Ok (), u)" "each body zs u = (Ok (), s')"
      by (auto split: prod.splits res.splits)
    then show ?case using Cons assms(2) by blast
  qed simp
  then show ?case using t Cons assms(1) by (cases "x = y") auto
qed simp

text \<open>No group is added or removed while shards run.\<close>

abbreviation keeps_keys :: "int32 list \<Rightarrow> (fleet, 'b) prog \<Rightarrow> bool" where
  "keeps_keys ks \<equiv> keeps (\<lambda>fl. map fst (fl_ShardGroups fl) = ks)"

lemma keys_on_data [simp]: "map fst (fl_ShardGroups (on_data k f fl)) = map fst (fl_ShardGroups fl)"
  by (simp add: on_data_def)

lemma keys_upd: "(\<And>fl. map fst (fl_ShardGroups (f fl)) = map fst (fl_ShardGroups fl)) \<Longrightarrow> keeps_keys ks (upd f)"
  by (simp add: keeps_def upd_def)

lemma keys_shard: "keeps_keys ks (with_shard k sid m)"
  by (simp add: keeps_def with_shard_def split: option.split prod.split)

lemma keys_status [simp]: "map fst (fl_ShardGroups (SG_SetStatus k st fl)) = map fst (fl_ShardGroups fl)"
  by (simp add: SG_SetStatus_def emit_all_def)

lemma SG_Close_keys: "keeps_keys ks (SG_Close k)"
  unfolding SG_Close_def by (intro keeps_intros keys_upd keys_shard) simp_all

lemma group_ready_keys: "keeps_keys ks (group_ready k)"
  unfolding group_ready_def by (intro keeps_intros keys_upd keys_shard SG_Close_keys) simp_all

lemma group_keys: "group_of fl k = None \<longleftrightarrow> k \<notin> set (map fst (fl_ShardGroups fl))"
  by (simp add: group_of_def map_of_eq_None_iff)

lemma SG_Close_other:
  assumes "j \<noteq> k"
  shows "keeps_flag get k x (SG_Close j)"
  unfolding SG_Close_def using assms
  by (intro keeps_intros keeps_flag_upd with_shard_flag disjI1) (simp_all add: SG_SetStatus_def flag_def on_data_def)

lemma SG_Close_closed:
  assumes "SG_Close k fl = (Ok (), fl')" and "group_of fl' k \<noteq> None"
  shows "flag sg_Status k fl' = Some ShardGroupStatusClosed"
proof -
  obtain fl1 where "fl' = SG_SetStatus k ShardGroupStatusClosed fl1"
    using assms(1) by (auto simp: SG_Close_def prog_iffs)
  then show ?thesis using assms(2) by (auto simp: SG_SetStatus_def flag_def on_data_def)
qed

text \<open>C8. What the goroutine of a group leaves behind: the group is ready and lets events through, and every other
  group is closed. But none of those has its floodgate closed: the code closes the floodgate of the new group
  in their place, and opens it again at the end.\<close>

theorem replaced_groups:
  assumes "group_ready gid fl = (Ok (), fl')"
  shows "flag sg_floodgate gid fl' = Some True \<and> flag sg_allShardsReady gid fl' = Some True
    \<and> (\<forall>k. k \<noteq> gid \<longrightarrow> group_of fl' k \<noteq> None \<longrightarrow>
         flag sg_Status k fl' = Some ShardGroupStatusClosed \<and> flag sg_floodgate k fl' = flag sg_floodgate k fl)"
proof -
  let ?close = "\<lambda>k. if k \<noteq> gid then bnd (upd (on_data gid (\<lambda>sg. sg\<lparr>sg_floodgate := False\<rparr>))) (\<lambda>_. SG_Close k) else ret ()"
  let ?ready = "on_data gid (\<lambda>sg. sg\<lparr>sg_allShardsReady := True\<rparr>)"
  let ?flood = "on_data gid (\<lambda>sg. sg\<lparr>sg_floodgate := True\<rparr>)"
  obtain sg fl1 fl2 where sg: "group_of fl gid = Some sg"
    and wait: "each (\<lambda>sid. bnd (upd (on_data gid (\<lambda>sg. sg\<lparr>sg_WaitingFor := sid\<rparr>))) (\<lambda>_. with_shard gid sid WaitForReady))
        (sg_ShardIDs (gr_Data sg)) fl = (Ok (), fl1)"
    and run: "each ?close (map fst (fl_ShardGroups (?ready fl1))) (?ready fl1) = (Ok (), fl2)"
    and fl': "fl' = ?flood fl2"
    using assms by (auto simp: group_ready_def prog_iffs deref_def panic_def ret_def split: option.splits)
  have keys: "group_of t k = None \<longleftrightarrow> group_of s k = None" if "keeps_keys (map fst (fl_ShardGroups s)) m" "m s = (r, t)"
    for k m r and s t :: fleet
    using keepsD [OF that(1) refl that(2)] by (simp add: group_keys)
  have close_keys: "keeps_keys ks (?close k)" for k ks
    by (intro keeps_intros keys_upd SG_Close_keys) simp
  have there: "group_of fl' k = None \<longleftrightarrow> group_of fl k = None" "group_of fl2 k = None \<longleftrightarrow> group_of (?ready fl1) k = None" for k
    using keys [OF group_ready_keys assms] keys [OF keeps_each [OF close_keys] run] by blast+
  have "flag sg_allShardsReady gid (?ready fl1) = Some True"
    using there [of gid] sg by (auto simp: fl' flag_def on_data_def)
  moreover have "keeps_flag sg_allShardsReady gid True (?close k)" for k
    by (intro keeps_intros keeps_flag_upd SG_Close_flag) (simp_all add: flag_on_data)
  ultimately have "flag sg_allShardsReady gid fl2 = Some True"
    using keepsD [OF keeps_each _ run] by blast
  then have new: "flag sg_floodgate gid fl' = Some True \<and> flag sg_allShardsReady gid fl' = Some True"
    by (auto simp: fl' flag_def on_data_def)
  have "flag sg_Status k fl' = Some ShardGroupStatusClosed \<and> flag sg_floodgate k fl' = flag sg_floodgate k fl"
    if k: "k \<noteq> gid" "group_of fl' k \<noteq> None" for k
  proof
    let ?Q = "\<lambda>k s. k \<noteq> gid \<longrightarrow> group_of s k \<noteq> None \<longrightarrow> flag sg_Status k s = Some ShardGroupStatusClosed"
    have "?Q k fl2"
    proof (rule each_all [OF _ _ run])
      show "?Q j t" if "?close j s = (Ok (), t)" for j s t
        using that SG_Close_closed by (auto simp: prog_iffs split: if_splits)
      show "?Q y t" if "?Q y s" "?close j s = (Ok (), t)" for j y s t
      proof (cases "j = y")
        case True
        then show ?thesis using that SG_Close_closed by (auto simp: prog_iffs split: if_splits)
      next
        case False
        have flag: "y \<noteq> gid \<Longrightarrow> keeps_flag sg_Status y x (?close j)" for x
          using False by (intro keeps_intros keeps_flag_upd SG_Close_other) (simp_all add: flag_on_data)
        show ?thesis
        proof (intro impI)
          assume y: "y \<noteq> gid" "group_of t y \<noteq> None"
          then have "flag sg_Status y s = Some ShardGroupStatusClosed"
            using that(1) keys [OF close_keys that(2), of y] by simp
          then show "flag sg_Status y t = Some ShardGroupStatusClosed" using keepsD [OF flag [OF y(1)] _ that(2)] by simp
        qed
      qed
      show "k \<in> set (map fst (fl_ShardGroups (?ready fl1)))"
        using k there [of k] by (auto simp: fl' on_data_def group_keys)
    qed
    then show "flag sg_Status k fl' = Some ShardGroupStatusClosed"
      using k by (simp add: fl' flag_def on_data_def)
    obtain x where x: "flag sg_floodgate k fl = Some x" using k(2) there(1) by (auto simp: flag_def)
    have "keeps_flag sg_floodgate k x (group_ready gid)" using k(1) by (intro group_ready_flag) simp_all
    from keepsD [OF this x assms] x show "flag sg_floodgate k fl' = flag sg_floodgate k fl" by simp
  qed
  with new show ?thesis by blast
qed

section \<open>A group that does not get through\<close>

text \<open>The shard \<open>sid\<close> of a group with the data \<open>data\<close> has no connection, \<open>n\<close> retries, and \<open>ds\<close> is what dialling
  leads to.\<close>

definition dialling :: "int32 \<Rightarrow> int32 \<Rightarrow> ShardGroup \<Rightarrow> int \<Rightarrow> go_error option list \<Rightarrow> fleet \<Rightarrow> bool" where
  "dialling gid sid data n ds fl \<longleftrightarrow> (\<exists>g s. group_of fl gid = Some g \<and> gr_Data g = data \<and> map_of (gr_Shards g) sid = Some s \<and>
     sh_wsConn (sl_Shard s) = None \<and> sint (sh_RetriesRemaining (sl_Shard s)) = n \<and> env_dials (fl_env fl) = ds)"

lemma Connect_dial_group:
  assumes "sh_wsConn (env_Shard e) = None" and "env_dials e = Some err # ds" and "Connect rc lb e = (r, e')"
  shows "env_ShardGroup e' = env_ShardGroup e"
proof -
  have "env_ShardGroup (connect_start e) = env_ShardGroup e"
    by (simp add: connect_start_def new_ctx_def SetStatus_def on_Shard_def Let_def)
  with assms show ?thesis by (auto simp: Connect_steps hasWsConn_def dial_def act_def)
qed

lemma with_shard_eval:
  assumes "group_of fl gid = Some g" and "map_of (gr_Shards g) sid = Some s"
    and "m (load_slot g s (fl_env fl)) = (r, e)"
  shows "with_shard gid sid m fl = (r, on_group gid (store_slot sid e) (fl\<lparr>fl_env := e\<rparr>))"
  using assms by (simp add: with_shard_def)

lemma dialling_connect:
  assumes "dialling gid sid data n (Some err # ds) fl"
  obtains fl' where "with_shard gid sid (Connect rc lb) fl
      = (Ok (Some (ErrWrap ''failed to connect to websocket'' err)), fl')" and "dialling gid sid data n ds fl'"
proof -
  obtain g s where g: "group_of fl gid = Some g" "gr_Data g = data" "map_of (gr_Shards g) sid = Some s"
    "sh_wsConn (sl_Shard s) = None" "sint (sh_RetriesRemaining (sl_Shard s)) = n" "env_dials (fl_env fl) = Some err # ds"
    using assms by (auto simp: dialling_def)
  let ?e = "load_slot g s (fl_env fl)"
  obtain e' where e': "Connect rc lb ?e = (Ok (Some (ErrWrap ''failed to connect to websocket'' err)), e')"
    "sh_wsConn (env_Shard e') = None" "env_dials e' = ds"
    "sh_RetriesRemaining (env_Shard e') = sh_RetriesRemaining (env_Shard ?e)"
    by (rule Connect_dial_fails [of ?e err ds rc lb]) (use g in \<open>simp_all add: load_slot_def\<close>)
  have "env_ShardGroup e' = data"
    using Connect_dial_group [of ?e err ds, OF _ _ e'(1)] g by (simp add: load_slot_def)
  then have "dialling gid sid data n ds (on_group gid (store_slot sid e') (fl\<lparr>fl_env := e'\<rparr>))"
    using g e' by (simp add: dialling_def store_slot_def load_slot_def update_conv') (simp add: on_group_def)
  moreover have "with_shard gid sid (Connect rc lb) fl
      = (Ok (Some (ErrWrap ''failed to connect to websocket'' err)), on_group gid (store_slot sid e') (fl\<lparr>fl_env := e'\<rparr>))"
    by (rule with_shard_eval [where g = g and s = s]) (simp_all add: g e')
  ultimately show thesis using that by blast
qed

lemma sint_pred32: "0 < sint (x :: int32) \<Longrightarrow> sint (x - 1) = sint x - 1"
  using sint_word32_exact [of "sint x - 1"] sint32_range [of x] by simp

text \<open>Reading the shard or writing to it between two attempts.\<close>

lemma dialling_upd:
  assumes "dialling gid sid data n ds fl"
    and "\<And>sh. sh_wsConn sh = None \<Longrightarrow> sint (sh_RetriesRemaining sh) = n \<Longrightarrow>
      sh_wsConn (f sh) = None \<and> sint (sh_RetriesRemaining (f sh)) = k"
  obtains fl' where "with_shard gid sid (upd (on_Shard f)) fl = (Ok (), fl')" and "dialling gid sid data k ds fl'"
proof -
  obtain g s where g: "group_of fl gid = Some g" "gr_Data g = data" "map_of (gr_Shards g) sid = Some s"
    "sh_wsConn (sl_Shard s) = None" "sint (sh_RetriesRemaining (sl_Shard s)) = n" "env_dials (fl_env fl) = ds"
    using assms(1) by (auto simp: dialling_def)
  let ?e = "on_Shard f (load_slot g s (fl_env fl))"
  have "dialling gid sid data k ds (on_group gid (store_slot sid ?e) (fl\<lparr>fl_env := ?e\<rparr>))"
    using g assms(2) by (simp add: dialling_def store_slot_def load_slot_def update_conv') (simp add: on_group_def)
  moreover have "with_shard gid sid (upd (on_Shard f)) fl
      = (Ok (), on_group gid (store_slot sid ?e) (fl\<lparr>fl_env := ?e\<rparr>))"
    by (rule with_shard_eval [where g = g and s = s]) (simp_all add: g upd_def)
  ultimately show thesis using that by blast
qed

lemma dialling_retries:
  assumes "dialling gid sid data n ds fl"
  obtains r fl' where "with_shard gid sid (rd (\<lambda>e. sh_RetriesRemaining (env_Shard e))) fl = (Ok r, fl')"
    and "sint r = n" and "dialling gid sid data n ds fl'"
proof -
  obtain g s where g: "group_of fl gid = Some g" "gr_Data g = data" "map_of (gr_Shards g) sid = Some s"
    "sh_wsConn (sl_Shard s) = None" "sint (sh_RetriesRemaining (sl_Shard s)) = n" "env_dials (fl_env fl) = ds"
    using assms(1) by (auto simp: dialling_def)
  let ?e = "load_slot g s (fl_env fl)"
  have "dialling gid sid data n ds (on_group gid (store_slot sid ?e) (fl\<lparr>fl_env := ?e\<rparr>))"
    using g by (simp add: dialling_def store_slot_def load_slot_def update_conv') (simp add: on_group_def)
  moreover have "with_shard gid sid (rd (\<lambda>e. sh_RetriesRemaining (env_Shard e))) fl
      = (Ok (sh_RetriesRemaining (sl_Shard s)), on_group gid (store_slot sid ?e) (fl\<lparr>fl_env := ?e\<rparr>))"
    by (rule with_shard_eval [where g = g and s = s]) (simp_all add: g rd_def load_slot_def)
  ultimately show thesis using that g(5) by blast
qed

lemma initial_loop_fails:
  assumes "dialling gid sid data (int (length errs)) (map Some (errs @ [err]) @ ds) fl"
    and "\<forall>e \<in> set (errs @ [err]). \<not> errors_Is e ErrContextCanceled" and "length errs < n"
  shows "\<exists>fl'. initial_loop n lb gid sid fl = (Ok (Inl (ErrWrap ''failed to connect to websocket'' err)), fl')
    \<and> dialling gid sid data 0 ds fl'"
  using assms
proof (induction errs arbitrary: n fl)
  case Nil
  then obtain m where n: "n = Suc m" by (cases n) auto
  from Nil.prems(1) obtain fl1 where
    c: "with_shard gid sid (Connect (\<lambda>_. panic out_of_fuel) lb) fl = (Ok (Some (ErrWrap ''failed to connect to websocket'' err)), fl1)"
    and d: "dialling gid sid data 0 ds fl1"
    by (auto elim: dialling_connect)
  from d obtain r fl2 where "with_shard gid sid (rd (\<lambda>e. sh_RetriesRemaining (env_Shard e))) fl1 = (Ok r, fl2)" "sint r = 0"
    "dialling gid sid data 0 ds fl2" by (rule dialling_retries)
  then show ?case using c Nil by (simp add: n bnd_Ok ret_def)
next
  case (Cons e errs)
  then obtain m where n: "n = Suc m" by (cases n) auto
  let ?ds = "map Some (errs @ [err]) @ ds" and ?k = "int (length (e # errs))"
  from Cons.prems(1) obtain fl1 where
    c: "with_shard gid sid (Connect (\<lambda>_. panic out_of_fuel) lb) fl = (Ok (Some (ErrWrap ''failed to connect to websocket'' e)), fl1)"
    and d1: "dialling gid sid data ?k ?ds fl1"
    by (auto elim: dialling_connect)
  from d1 obtain r fl2 where r: "with_shard gid sid (rd (\<lambda>e. sh_RetriesRemaining (env_Shard e))) fl1 = (Ok r, fl2)" "sint r = ?k"
    and d2: "dialling gid sid data ?k ?ds fl2" by (rule dialling_retries)
  obtain fl3 where w: "with_shard gid sid (upd (on_Shard (\<lambda>sh. sh\<lparr>sh_RetriesRemaining := sh_RetriesRemaining sh - 1\<rparr>))) fl2 = (Ok (), fl3)"
    and d3: "dialling gid sid data (int (length errs)) ?ds fl3"
    by (rule dialling_upd [OF d2, where f = "\<lambda>sh. sh\<lparr>sh_RetriesRemaining := sh_RetriesRemaining sh - 1\<rparr>"
        and k = "int (length errs)"]) (auto simp: sint_pred32)
  obtain fl' where "initial_loop m lb gid sid fl3 = (Ok (Inl (ErrWrap ''failed to connect to websocket'' err)), fl')"
    "dialling gid sid data 0 ds fl'"
    using Cons.IH [OF d3, of m] Cons.prems(2,3) by (auto simp: n)
  then show ?case using Cons.prems(2) c r w by (simp add: n bnd_Ok)
qed

lemma create_group:
  "group_of (create_shard gid sid fl) gid = map_option (\<lambda>g. g\<lparr>gr_Shards := AList.update sid
     \<lparr> sl_Shard = NewShard (gr_Data g) (env_Manager (fl_env fl)) sid, sl_ctx = 0, sl_ctx_done = False,
       sl_inbox = fl_reads fl gid sid \<rparr> (gr_Shards g)\<rparr>) (group_of fl gid)"
  by (simp add: create_shard_def)

lemma create_env [simp]: "fl_env (create_shard gid sid fl) = fl_env fl"
  by (simp add: create_shard_def on_group_def)

text \<open>The shard \<open>sid\<close> of a group has just been created.\<close>

definition fresh_shard :: "int32 \<Rightarrow> int32 \<Rightarrow> ShardGroup \<Rightarrow> fleet \<Rightarrow> bool" where
  "fresh_shard gid sid data fl \<longleftrightarrow> (\<exists>g s. group_of fl gid = Some g \<and> gr_Data g = data \<and> map_of (gr_Shards g) sid = Some s \<and>
     sh_wsConn (sl_Shard s) = None \<and> sh_RetriesRemaining (sl_Shard s) = ShardConnectRetries)"

lemma create_fresh:
  "group_of fl gid = Some g \<Longrightarrow> fresh_shard gid sid (gr_Data g) (create_shard gid sid fl)"
  by (simp add: fresh_shard_def create_group update_conv' NewShard_def)

lemma create_keeps_fresh: "fresh_shard gid sid data fl \<Longrightarrow> fresh_shard gid sid data (create_shard gid k fl)"
  by (auto simp: fresh_shard_def create_group update_conv' NewShard_def)

lemma creates_fresh:
  assumes "group_of fl gid = Some g"
  shows "fresh_shard gid sid (gr_Data g) (fold (create_shard gid) (sid # sids) fl)"
proof -
  have "fresh_shard gid sid data fl \<Longrightarrow> fresh_shard gid sid data (fold (create_shard gid) sids fl)" for data fl
    by (induction sids arbitrary: fl) (auto intro: create_keeps_fresh)
  then show ?thesis using create_fresh [OF assms] by simp
qed

lemma creates_env: "fl_env (fold (create_shard gid) sids fl) = fl_env fl"
  by (induction sids arbitrary: fl) auto

lemma status_dials [simp]: "env_dials (fl_env (SG_SetStatus k st fl)) = env_dials (fl_env fl)"
  by (simp add: SG_SetStatus_def emit_all_def emit_def on_data_def on_group_def)

lemma status_group:
  "group_of (SG_SetStatus k st fl) gid =
     (if gid = k then map_option (\<lambda>g. g\<lparr>gr_Data := (gr_Data g)\<lparr>sg_Status := st\<rparr>\<rparr>) (group_of fl gid) else group_of fl gid)"
  by (simp add: SG_SetStatus_def on_data_def)

lemma marks_dials: "env_dials (fl_env (fold (mark_other gid) gs fl)) = env_dials (fl_env fl)"
  by (induction gs arbitrary: fl) (auto simp: mark_other_def)

lemma marks_group:
  assumes "\<forall>g. (gid, g) \<in> set gs \<longrightarrow> sg_ID (gr_Data g) = gid"
  shows "group_of (fold (mark_other gid) gs fl) gid = group_of fl gid"
  using assms
proof (induction gs arbitrary: fl)
  case (Cons p gs)
  obtain k h where p: "p = (k, h)" by fastforce
  have "k = gid \<Longrightarrow> sg_ID (gr_Data h) = gid" using Cons.prems by (simp add: p)
  then have "group_of (mark_other gid p fl) gid = group_of fl gid"
    by (simp add: p mark_other_def status_group)
  then show ?case using Cons by simp
qed simp

lemma each_shard_returns:
  assumes "group_of fl gid = Some g" and "set sids \<subseteq> fst ` set (gr_Shards g)"
  shows "\<exists>fl'. each (\<lambda>sid. with_shard gid sid (upd f)) sids fl = (Ok (), fl')"
  using assms
proof (induction sids arbitrary: fl g)
  case (Cons sid sids)
  obtain s where s: "map_of (gr_Shards g) sid = Some s"
    using Cons.prems(2) by (cases "map_of (gr_Shards g) sid") (auto simp: map_of_eq_None_iff)
  let ?e = "f (load_slot g s (fl_env fl))"
  let ?fl = "on_group gid (store_slot sid ?e) (fl\<lparr>fl_env := ?e\<rparr>)"
  have run: "with_shard gid sid (upd f) fl = (Ok (), ?fl)"
    by (rule with_shard_eval [where g = g and s = s]) (simp_all add: Cons.prems s upd_def)
  have "group_of ?fl gid = Some (store_slot sid ?e g)" using Cons.prems(1) by simp
  moreover have "fst ` set (gr_Shards g) \<subseteq> fst ` set (gr_Shards (store_slot sid ?e g))"
    by (simp add: store_slot_def dom_update flip: dom_map_of_conv_image_fst) (simp add: update_conv' subset_insertI)
  ultimately have "\<exists>fl'. each (\<lambda>sid. with_shard gid sid (upd f)) sids ?fl = (Ok (), fl')"
    using Cons.prems(2) by (intro Cons.IH) auto
  then show ?case by (simp add: run)
qed (simp add: ret_def)

lemma SG_Close_returns:
  assumes "group_of fl gid = Some g"
  obtains fl' where "SG_Close gid fl = (Ok (), fl')"
proof -
  let ?fl = "SG_SetStatus gid ShardGroupStatusClosing fl"
  have g: "group_of ?fl gid = Some (g\<lparr>gr_Data := (gr_Data g)\<lparr>sg_Status := ShardGroupStatusClosing\<rparr>\<rparr>)"
    using assms by (simp add: status_group)
  obtain fl1 where "each (\<lambda>sid. with_shard gid sid (upd (Close StatusNormalClosure False))) (map fst (gr_Shards g)) ?fl = (Ok (), fl1)"
    using each_shard_returns [OF g, of "map fst (gr_Shards g)" "Close StatusNormalClosure False"] by auto
  then have "\<exists>fl'. SG_Close gid fl = (Ok (), fl')" using g by (simp add: SG_Close_def bnd_eval bnd_Ok upd_def)
  then show thesis using that by blast
qed

lemma Close_dials: "env_dials (Close code b e) = env_dials e"
  by (simp add: Close_def CloseWS_def Let_def split: option.split)

lemma SG_Close_dials: "keeps (\<lambda>fl. env_dials (fl_env fl) = ds) (SG_Close gid)"
proof -
  have "keeps (\<lambda>fl. env_dials (fl_env fl) = ds) (with_shard gid sid (upd (Close code b)))" for sid code b
    by (auto simp: keeps_def with_shard_def upd_def Close_dials load_slot_def on_group_def split: option.split)
  then show ?thesis unfolding SG_Close_def
    by (intro keeps_intros keeps_upd) (simp_all add: on_data_def on_group_def)
qed


text \<open>Any other shard is dialled again as often as dialling fails, without a bound and without a pause: its retries
  are not counted.\<close>

lemma others_retry_forever:
  assumes "dialling gid sid data n (map Some errs @ ds) fl" and "\<forall>e \<in> set errs. \<not> errors_Is e ErrContextCanceled"
  shows "\<exists>fl'. connect_loop (length errs + k) fuel lb gid sid fl = connect_loop k fuel lb gid sid fl'
    \<and> dialling gid sid data n ds fl'"
  using assms
proof (induction errs arbitrary: fl)
  case (Cons e errs)
  from Cons.prems(1) obtain fl1 where
    "with_shard gid sid (Connect (\<lambda>_. panic out_of_fuel) lb) fl = (Ok (Some (ErrWrap ''failed to connect to websocket'' e)), fl1)"
    and d: "dialling gid sid data n (map Some errs @ ds) fl1"
    by (auto elim: dialling_connect)
  then show ?case using Cons.IH [OF d] Cons.prems(2) by (simp add: bnd_Ok)
qed auto

section \<open>The properties at work\<close>

definition sample_fleet :: "go_error option list \<Rightarrow> fleet" where
  "sample_fleet dials = \<lparr> fl_env = sample_env\<lparr>env_dials := dials\<rparr>,
     fl_ShardGroups = [(1, \<lparr> gr_Data = NewShardGroup 1 [0, 1] 2, gr_Shards = [] \<rparr>), (2, \<lparr> gr_Data = NewShardGroup 2 [] 2, gr_Shards = [] \<rparr>)],
     fl_shardGroupCounter = 2, fl_reads = (\<lambda>_ _. []) \<rparr>"


theorem replaced_groups_witness:
  "flag sg_Status 1 (snd (group_ready 2 (sample_fleet []))) = Some ShardGroupStatusClosed
    \<and> flag sg_floodgate 2 (snd (group_ready 2 (sample_fleet []))) = Some True"
proof -
  have run: "fst (group_ready 2 (sample_fleet [])) = Ok ()" by code_simp
  moreover have "group_of (snd (group_ready 2 (sample_fleet []))) 1 \<noteq> None" by code_simp
  moreover have "(1 :: int32) \<noteq> 2" by code_simp
  ultimately show ?thesis using replaced_groups [of 2 "sample_fleet []"] by (metis prod.collapse)
qed


end
