(* ===== verification/Client.thy ===== *)
theory Client
  imports Group
begin

text \<open>
  \<^verbatim>\<open>internal/client.go\<close>: the client of Discord's HTTP API. What the network answers is a script, one outcome per
  request that is sent.
\<close>

section \<open>Requests and responses\<close>

record Request =
  req_Method :: string
  req_Scheme :: string
  req_Host :: string
  req_Path :: string
  req_Header :: "(string \<times> string) list"
  req_Body :: bytes

text \<open>The body of a response, or the error with which reading it fails.\<close>

record Response =
  res_StatusCode :: int
  res_Body :: "go_error + bytes"

text \<open>An outcome of \<^verbatim>\<open>http.Client.Do\<close>: a response, that may be nil, and an error.\<close>

type_synonym reply = "Response option \<times> go_error option"

text \<open>The replies to come, and the requests that were sent.\<close>

record net =
  net_replies :: "reply list"
  net_sent :: "Request list"

definition Do :: "Request \<Rightarrow> (net, reply) prog" where
  "Do req = act (\<lambda>n. case net_replies n of
     [] \<Rightarrow> ((None, Some (ErrLib ''no reply'')), n\<lparr>net_sent := net_sent n @ [req]\<rparr>)
   | r # rs \<Rightarrow> (r, n\<lparr>net_replies := rs, net_sent := net_sent n @ [req]\<rparr>))"

definition Header_Get :: "Request \<Rightarrow> string \<Rightarrow> string" where
  "Header_Get req k = (case map_of (req_Header req) k of Some v \<Rightarrow> v | None \<Rightarrow> [])"

definition Header_Set :: "string \<Rightarrow> string \<Rightarrow> Request \<Rightarrow> Request" where
  "Header_Set k v req = req\<lparr>req_Header := AList.update k v (req_Header req)\<rparr>"

section \<open>The client\<close>

record Client =
  cl_Token :: string
  cl_APIVersion :: string
  cl_URLHost :: string
  cl_URLScheme :: string
  cl_UserAgent :: string

text \<open>The base URL is given by its scheme and its host.\<close>

definition NewClient :: "string \<times> string \<Rightarrow> string \<Rightarrow> Client" where
  "NewClient baseURL token = \<lparr>
     cl_Token = token, cl_APIVersion = ''9'', cl_URLHost = snd baseURL, cl_URLScheme = fst baseURL,
     cl_UserAgent = ''Sandwich/'' @ VERSION @ '' (github.com/WelcomerTeam/Sandwich-Daemon)'' \<rparr>"

definition prepare :: "Client \<Rightarrow> Request \<Rightarrow> Request" where
  "prepare c req =
     (let req = (if take 4 (req_Path req) \<noteq> ''/api''
                 then req\<lparr>req_Path := ''/api/v'' @ cl_APIVersion c @ req_Path req\<rparr> else req);
          req = req\<lparr>req_Host := replaceIfEmpty (req_Host req) (cl_URLHost c)\<rparr>;
          req = req\<lparr>req_Scheme := replaceIfEmpty (req_Scheme req) (cl_URLScheme c)\<rparr>;
          req = Header_Set ''User-Agent'' (replaceIfEmpty (Header_Get req ''User-Agent'') (cl_UserAgent c)) req
      in if cl_Token c \<noteq> []
         then Header_Set ''Authorization'' (replaceIfEmpty (Header_Get req ''Authorization'') (''Bot '' @ cl_Token c)) req
         else req)"

text \<open>Wrapping a nil error is an error as well.\<close>

definition HandleRequest :: "Client \<Rightarrow> Request \<Rightarrow> (net, reply) prog" where
  "HandleRequest c req =
     bnd (Do (prepare c req)) (\<lambda>(res, err).
     case err of
       Some e \<Rightarrow> ret (res, Some (ErrWrap ''failed to do HTTP request'' e))
     | None \<Rightarrow>
         (case res of
            None \<Rightarrow> ret (None, Some (ErrNew ''failed to do HTTP request: %!w(<nil>)''))
          | Some r \<Rightarrow>
              if res_StatusCode r = 429 then ret (res, Some (ErrNew ''failed to do HTTP request, got 429''))
              else if res_StatusCode r = 401 then ret (res, Some ErrInvalidToken)
              else ret (res, None)))"

definition new_request :: "string \<Rightarrow> string \<times> string \<times> string \<Rightarrow> bytes \<Rightarrow> (string \<times> string) list \<Rightarrow> Request" where
  "new_request meth parsed body headers =
     (case parsed of (scheme, host, path) \<Rightarrow>
        fold (\<lambda>(k, v). Header_Set k v) headers
          \<lparr> req_Method = meth, req_Scheme = scheme, req_Host = host, req_Path = path, req_Header = [], req_Body = body \<rparr>)"

text \<open>\<open>parsed\<close> is what \<^verbatim>\<open>http.NewRequestWithContext\<close> makes of the URL: its scheme, host and path.\<close>

definition Fetch :: "Client \<Rightarrow> string \<Rightarrow> go_error + string \<times> string \<times> string \<Rightarrow> bytes \<Rightarrow> (string \<times> string) list \<Rightarrow>
    (net, bytes \<times> int \<times> go_error option) prog" where
  "Fetch c meth parsed body headers =
     (case parsed of
        Inl e \<Rightarrow> ret ([], 0, Some (ErrWrap ''failed to create request'' e))
      | Inr p \<Rightarrow>
          bnd (HandleRequest c (new_request meth p body headers)) (\<lambda>(res, err).
          case res of
            None \<Rightarrow> ret ([], 0, err)
          | Some r \<Rightarrow>
              if err \<noteq> None then ret ([], 0, err)
              else case res_Body r of
                Inl e \<Rightarrow> ret ([], res_StatusCode r, Some (ErrWrap ''failed to read request body'' e))
              | Inr b \<Rightarrow> ret (b, res_StatusCode r, None)))"

text \<open>\<open>structure\<close> is the value the response is decoded into; it is returned as the decoder leaves it.\<close>

definition FetchJSON :: "Client \<Rightarrow> string \<Rightarrow> go_error + string \<times> string \<times> string \<Rightarrow> bytes \<Rightarrow> (string \<times> string) list \<Rightarrow>
    'a decoder \<Rightarrow> 'a \<Rightarrow> (net, int \<times> go_error option \<times> 'a) prog" where
  "FetchJSON c meth parsed body headers decode structure =
     bnd (Fetch c meth parsed body headers) (\<lambda>(responseBody, status, err).
     case err of
       Some e \<Rightarrow> ret (status, Some e, structure)
     | None \<Rightarrow>
         (case decode responseBody of
            (v, Some e) \<Rightarrow> ret (- 1, Some (ErrWrap ''failed to unmarshal body'' e), v)
          | (v, None) \<Rightarrow> ret (status, None, v)))"

section \<open>What a request yields\<close>

lemma Do_reply: "net_replies n = r # rs \<Longrightarrow> Do req n = (Ok r, n\<lparr>net_replies := rs, net_sent := net_sent n @ [req]\<rparr>)"
  by (simp add: Do_def act_def)

text \<open>What \<open>HandleRequest\<close> makes of a reply.\<close>

definition judged :: "reply \<Rightarrow> reply" where
  "judged r = (case r of (res, err) \<Rightarrow>
     (case err of
        Some e \<Rightarrow> (res, Some (ErrWrap ''failed to do HTTP request'' e))
      | None \<Rightarrow> (case res of
          None \<Rightarrow> (None, Some (ErrNew ''failed to do HTTP request: %!w(<nil>)''))
        | Some r \<Rightarrow> if res_StatusCode r = 429 then (res, Some (ErrNew ''failed to do HTTP request, got 429''))
                   else if res_StatusCode r = 401 then (res, Some ErrInvalidToken) else (res, None))))"

lemma HandleRequest_replied:
  assumes "net_replies n = r # rs"
  shows "HandleRequest c req n = (Ok (judged r), n\<lparr>net_replies := rs, net_sent := net_sent n @ [prepare c req]\<rparr>)"
  using Do_reply [OF assms, of "prepare c req"]
  by (cases r; cases "snd r"; cases "fst r") (simp_all add: HandleRequest_def judged_def bnd_def ret_def)

text \<open>A response is taken for the answer whatever its status is, but for 401 and 429: a body that decodes is a success.\<close>

lemma FetchJSON_decodes:
  assumes "net_replies n = (Some res, None) # rs" and "res_StatusCode res \<notin> {401, 429}" and "res_Body res = Inr b"
    and "decode b = (v, None)"
  shows "FetchJSON c meth (Inr p) body headers decode structure n = (Ok (res_StatusCode res, None, v),
    n\<lparr>net_replies := rs, net_sent := net_sent n @ [prepare c (new_request meth p body headers)]\<rparr>)"
  using assms by (simp add: FetchJSON_def Fetch_def bnd_def HandleRequest_replied judged_def ret_def)

lemma FetchJSON_fails:
  assumes "net_replies n = (res, Some err) # rs"
  shows "FetchJSON c meth (Inr p) body headers decode structure n =
    (Ok (0, Some (ErrWrap ''failed to do HTTP request'' err), structure),
     n\<lparr>net_replies := rs, net_sent := net_sent n @ [prepare c (new_request meth p body headers)]\<rparr>)"
  using assms by (cases res) (simp_all add: FetchJSON_def Fetch_def bnd_def HandleRequest_replied judged_def ret_def)

end
