(* ===== verification/Chat_Server.thy ===== *)
theory Chat_Server
  imports Lifecycle
begin

text \<open>
  \<^verbatim>\<open>internal/msg_websocket.go\<close>: the websocket producer, a server to which consumers connect as they
  would to the gateway of Discord.

  Subscribers are shared by reference, so they live in a store (\<open>cs_heap\<close>) and the table maps a shard to
  references; the order of the table stands for Go's order of iteration, which is arbitrary. A channel is a
  bounded buffer. A send that finds it full waits, as does a lock that is taken: such a call has not
  returned, which is the panic \<open>out_of_fuel\<close> (no deferred function runs). A send on a closed channel panics.

  A subscriber's goroutines are separate operations: one turn of \<^verbatim>\<open>writeMessages\<close> per case of its
  \<^verbatim>\<open>select\<close>, one packet of \<^verbatim>\<open>handleReadMessages\<close>, one tick of the watchdog. The phases of \<^verbatim>\<open>subscribe\<close> are
  three operations, since it waits between them.
\<close>

section \<open>Channels and subscribers\<close>

record 'a chan =
  ch_buf :: "'a list"
  ch_cap :: nat
  ch_closed :: bool

definition new_chan :: "nat \<Rightarrow> 'a chan" where
  "new_chan n = \<lparr> ch_buf = [], ch_cap = n, ch_closed = False \<rparr>"

datatype subscriberStatusCode =
    subscriberStatusInit
  | subscriberStatusReady
  | subscriberStatusIdentified
  | subscriberStatusResuming
  | subscriberStatusMoving
  | subscriberStatusDead

record closeMessage =
  cm_closeString :: string
  cm_closeCode :: int

text \<open>What a subscriber's websocket sees.\<close>

datatype ws_out = WsText bytes | WsClose int string

type_synonym shard_key = "int32 \<times> int32"

text \<open>\<open>sub_done\<close> says that the subscriber's context is cancelled.\<close>

record subscriber =
  sub_done :: bool
  sub_reader :: "SandwichPayload chan"
  sub_writeNormal :: "SandwichPayload chan"
  sub_writeBytes :: "bytes chan"
  sub_writeCloseMessage :: "closeMessage chan"
  sub_writeHeartbeat :: "unit chan"
  sub_sessionId :: string
  sub_shard :: shard_key
  sub_seq :: int32
  sub_status :: subscriberStatusCode
  sub_lastHeartbeat :: int64
  sub_out :: "ws_out list"

text \<open>
  \<open>cs_readers\<close>, \<open>cs_writer\<close> and \<open>cs_waiting\<close> are the read-write mutex: a writer that waits keeps new readers
  out. The manager's fields and the collective state are shared with the rest of the daemon.
\<close>

record chatServer =
  cs_subscribers :: "(shard_key \<times> nat list) list"
  cs_heap :: "nat \<Rightarrow> subscriber"
  cs_next :: nat
  cs_expectedToken :: string
  cs_externalAddress :: string
  cs_address :: string
  cs_quickStart :: bool
  cs_subscriberMessageBuffer :: int
  cs_readers :: nat
  cs_writer :: bool
  cs_waiting :: bool
  cs_manager :: Manager
  cs_shards :: "int32 list"
  cs_State :: SandwichState
  cs_now :: int64
  cs_forwarded :: "(int32 \<times> GatewayOp \<times> bytes) list"

record identify_msg =
  im_Token :: string
  im_Shard :: shard_key

record resume_msg =
  rm_Token :: string
  rm_SessionID :: string
  rm_Seq :: int32

text \<open>The fields of the \<^verbatim>\<open>READY\<close> map.\<close>

record ready_msg =
  rdy_user :: User
  rdy_session_id :: string
  rdy_shard :: shard_key
  rdy_resume_gateway_url :: string
  rdy_guilds :: "UnavailableGuild list"

text \<open>The JSON codec and the random source.\<close>

record ws_lib =
  wl_identify :: "bytes \<Rightarrow> go_error + identify_msg"
  wl_resume :: "bytes \<Rightarrow> go_error + resume_msg"
  wl_payload :: "bytes \<Rightarrow> go_error + SandwichPayload"
  wl_guild_id :: "bytes \<Rightarrow> go_error + GuildID"
  wl_ready :: "ready_msg \<Rightarrow> go_error + bytes"
  wl_guild :: "Guild \<Rightarrow> go_error + bytes"
  wl_message :: "SandwichPayload \<Rightarrow> go_error + bytes"
  wl_randomHex :: string
  wl_error_text :: "go_error \<Rightarrow> string"

definition heartbeatAck :: bytes where
  "heartbeatAck = ''{'' @ [CHR 0x22] @ ''op'' @ [CHR 0x22] @ '':11,'' @ [CHR 0x22] @ ''d'' @ [CHR 0x22] @ '':null}''"

definition helloPayload :: bytes where
  "helloPayload = ''{'' @ [CHR 0x22] @ ''op'' @ [CHR 0x22] @ '':10,'' @ [CHR 0x22] @ ''d'' @ [CHR 0x22] @ '':{''
     @ [CHR 0x22] @ ''heartbeat_interval'' @ [CHR 0x22] @ '':45000}}''"

definition session_text :: "string \<Rightarrow> bytes" where
  "session_text b = ''{'' @ [CHR 0x22] @ ''op'' @ [CHR 0x22] @ '':9,'' @ [CHR 0x22] @ ''d'' @ [CHR 0x22] @ '':'' @ b @ ''}''"

definition resumableInvalidSession :: bytes where "resumableInvalidSession = session_text ''true''"
definition nonresumableInvalidSession :: bytes where "nonresumableInvalidSession = session_text ''false''"
definition invalidSessionOpCode :: int where "invalidSessionOpCode = 4000"
definition heartbeatTimeout :: int where "heartbeatTimeout = 120"

definition on_sub :: "nat \<Rightarrow> (subscriber \<Rightarrow> subscriber) \<Rightarrow> chatServer \<Rightarrow> chatServer" where
  "on_sub r f cs = cs\<lparr>cs_heap := (cs_heap cs)(r := f (cs_heap cs r))\<rparr>"

definition cancelFunc :: "nat \<Rightarrow> chatServer \<Rightarrow> chatServer" where
  "cancelFunc r = on_sub r (\<lambda>s. s\<lparr>sub_done := True\<rparr>)"

definition send ::
    "(subscriber \<Rightarrow> 'a chan) \<Rightarrow> (('a chan \<Rightarrow> 'a chan) \<Rightarrow> subscriber \<Rightarrow> subscriber) \<Rightarrow> nat \<Rightarrow> 'a
     \<Rightarrow> (chatServer, unit) prog" where
  "send get put r x =
     bnd (rd (\<lambda>cs. get (cs_heap cs r))) (\<lambda>c.
     if ch_closed c then panic ''send on closed channel''
     else if length (ch_buf c) < ch_cap c
     then upd (on_sub r (put (\<lambda>c. c\<lparr>ch_buf := ch_buf c @ [x]\<rparr>)))
     else panic out_of_fuel)"

abbreviation "send_normal \<equiv> send sub_writeNormal sub_writeNormal_update"
abbreviation "send_bytes \<equiv> send sub_writeBytes sub_writeBytes_update"
abbreviation "send_close \<equiv> send sub_writeCloseMessage sub_writeCloseMessage_update"
abbreviation "send_heartbeat \<equiv> send sub_writeHeartbeat sub_writeHeartbeat_update"
abbreviation "send_reader \<equiv> send sub_reader sub_reader_update"

definition close_chan ::
    "(subscriber \<Rightarrow> 'a chan) \<Rightarrow> (('a chan \<Rightarrow> 'a chan) \<Rightarrow> subscriber \<Rightarrow> subscriber) \<Rightarrow> nat
     \<Rightarrow> (chatServer, unit) prog" where
  "close_chan get put r =
     bnd (rd (\<lambda>cs. ch_closed (get (cs_heap cs r)))) (\<lambda>closed.
     if closed then panic ''close of closed channel''
     else upd (on_sub r (put (\<lambda>c. c\<lparr>ch_closed := True\<rparr>))))"

section \<open>The mutex of the table\<close>

definition RLock :: "(chatServer, unit) prog" where
  "RLock = bnd (rd (\<lambda>cs. cs_writer cs \<or> cs_waiting cs)) (\<lambda>taken.
     if taken then panic out_of_fuel else upd (\<lambda>cs. cs\<lparr>cs_readers := Suc (cs_readers cs)\<rparr>))"

definition RUnlock :: "chatServer \<Rightarrow> chatServer" where
  "RUnlock cs = cs\<lparr>cs_readers := cs_readers cs - 1\<rparr>"

definition Lock :: "(chatServer, unit) prog" where
  "Lock = bnd (rd (\<lambda>cs. cs_writer cs \<or> 0 < cs_readers cs)) (\<lambda>taken.
     if taken then bnd (upd (\<lambda>cs. cs\<lparr>cs_waiting := True\<rparr>)) (\<lambda>_. panic out_of_fuel)
     else upd (\<lambda>cs. cs\<lparr>cs_writer := True\<rparr>))"

definition Unlock :: "chatServer \<Rightarrow> chatServer" where
  "Unlock cs = cs\<lparr>cs_writer := False\<rparr>"

text \<open>\<^verbatim>\<open>lock; defer unlock; body\<close>: what is deferred does not run while the body waits.\<close>

definition holding ::
    "(chatServer, unit) prog \<Rightarrow> (chatServer \<Rightarrow> chatServer) \<Rightarrow> (chatServer, 'a) prog \<Rightarrow> (chatServer, 'a) prog" where
  "holding acquire release body =
     bnd acquire (\<lambda>_ cs. case body cs of
        (Ok x, cs') \<Rightarrow> (Ok x, release cs')
      | (Panic why, cs') \<Rightarrow> (Panic why, if why = out_of_fuel then cs' else release cs'))"

abbreviation "reading_table \<equiv> holding RLock RUnlock"
abbreviation "writing_table \<equiv> holding Lock Unlock"

section \<open>The table of subscribers\<close>

definition addSubscriber :: "nat \<Rightarrow> shard_key \<Rightarrow> (chatServer, unit) prog" where
  "addSubscriber r shard =
     writing_table (upd (\<lambda>cs. cs\<lparr>cs_subscribers :=
       (case map_of (cs_subscribers cs) shard of
          Some subs \<Rightarrow> AList.update shard (subs @ [r]) (cs_subscribers cs)
        | None \<Rightarrow> AList.update shard [r] (cs_subscribers cs))\<rparr>))"

text \<open>
  The loop of \<open>deleteSubscriber\<close> ranges over the slice it deletes from. \<open>arr\<close> is the array under the slice,
  whose length stays; \<^verbatim>\<open>append(sub[:i], sub[i+1:]...)\<close> moves the elements behind \<open>i\<close> down by one place in it and
  yields its first \<open>length arr - 1\<close> elements.
\<close>

definition append_without :: "nat \<Rightarrow> 'a list \<Rightarrow> 'a list" where
  "append_without i arr = take i arr @ drop (Suc i) arr @ drop (length arr - 1) arr"

function delete_loop :: "nat \<Rightarrow> nat \<Rightarrow> nat list \<Rightarrow> chatServer \<Rightarrow> chatServer" where
  "delete_loop r i arr cs =
     (if length arr \<le> i then cs
      else
        let is = arr ! i in
        if sub_sessionId (cs_heap cs is) = sub_sessionId (cs_heap cs r) \<or> is = r then
          let arr' = append_without i arr;
              cs' = cancelFunc is cs
          in delete_loop r (Suc i) arr'
               (cs'\<lparr>cs_subscribers := AList.update (sub_shard (cs_heap cs r)) (take (length arr - 1) arr')
                  (cs_subscribers cs')\<rparr>)
        else delete_loop r (Suc i) arr cs)"
  by pat_completeness auto
termination
  by (relation "measure (\<lambda>(r, i, arr, cs). length arr - i)") (auto simp: append_without_def Let_def)

definition deleteSubscriber :: "nat \<Rightarrow> (chatServer, unit) prog" where
  "deleteSubscriber r =
     writing_table (upd (\<lambda>cs.
       case map_of (cs_subscribers cs) (sub_shard (cs_heap cs r)) of
         Some sub \<Rightarrow> delete_loop r 0 sub cs
       | None \<Rightarrow> cs))"

definition invalidSession :: "nat \<Rightarrow> string \<Rightarrow> bool \<Rightarrow> (chatServer, unit) prog" where
  "invalidSession r reason resumable =
     bnd (send_bytes r (if resumable then resumableInvalidSession else nonresumableInvalidSession)) (\<lambda>_.
     send_close r \<lparr> cm_closeString = reason, cm_closeCode = invalidSessionOpCode \<rparr>)"

definition subscriber_close :: "nat \<Rightarrow> (chatServer, unit) prog" where
  "subscriber_close r =
     bnd (close_chan sub_reader sub_reader_update r) (\<lambda>_.
     bnd (close_chan sub_writeNormal sub_writeNormal_update r) (\<lambda>_.
     bnd (close_chan sub_writeBytes sub_writeBytes_update r) (\<lambda>_.
     bnd (close_chan sub_writeCloseMessage sub_writeCloseMessage_update r) (\<lambda>_.
     bnd (close_chan sub_writeHeartbeat sub_writeHeartbeat_update r) (\<lambda>_.
     upd (cancelFunc r))))))"

declare delete_loop.simps [simp del]

section \<open>Identifying a subscriber\<close>

text \<open>\<^verbatim>\<open>strings.Replace(s, old, "", 1)\<close>.\<close>

fun remove_first :: "string \<Rightarrow> string \<Rightarrow> string" where
  "remove_first old [] = []"
| "remove_first old (c # cs) =
     (if take (length old) (c # cs) = old then drop (length old) (c # cs) else c # remove_first old cs)"

definition bare_token :: "string \<Rightarrow> string" where
  "bare_token token = remove_first ''Bot '' token"

text \<open>What the \<^verbatim>\<open>select\<close> of \<open>identifyClient\<close> finds: a packet, five seconds without one, or a dead context.\<close>

datatype arrival = ArPacket SandwichPayload | ArTimeout | ArDone

definition ws_identify :: "ws_lib \<Rightarrow> nat \<Rightarrow> SandwichPayload \<Rightarrow> (chatServer, nat option \<times> go_error option) prog" where
  "ws_identify wl r packet =
     (case wl_identify wl (sp_Data packet) of
        Inl err \<Rightarrow> ret (None, Some (ErrWrap ''failed to unmarshal identify packet'' err))
      | Inr identify \<Rightarrow>
          bnd (rd (\<lambda>cs. (cs_expectedToken cs, ConsumerShardCount (cs_manager cs)))) (\<lambda>(expected, csc).
          if bare_token (im_Token identify) \<noteq> expected then ret (None, Some (ErrNew ''invalid token''))
          else
          bnd (upd (on_sub r (\<lambda>s. s\<lparr>sub_sessionId := wl_randomHex wl\<rparr>))) (\<lambda>_.
          let shard = (fst (im_Shard identify),
                       if sint (snd (im_Shard identify)) \<le> 0 then csc else snd (im_Shard identify))
          in
          if sint csc < sint (snd shard) then
            ret (None, Some (ErrNew (''invalid shard count: '' @ format_int (sint (snd shard)) @ '' > '' @ format_int (sint csc))))
          else if sint csc < sint (fst shard) then
            ret (None, Some (ErrNew (''invalid shard id: '' @ format_int (sint (fst shard)) @ '' > '' @ format_int (sint csc))))
          else bnd (upd (on_sub r (\<lambda>s. s\<lparr>sub_shard := shard\<rparr>))) (\<lambda>_. ret (None, None)))))"

text \<open>The search compares the new subscriber's own session with the one asked for, whatever old session it is at.\<close>

definition ws_resume :: "ws_lib \<Rightarrow> nat \<Rightarrow> SandwichPayload \<Rightarrow> (chatServer, nat option \<times> go_error option) prog" where
  "ws_resume wl r packet =
     (case wl_resume wl (sp_Data packet) of
        Inl err \<Rightarrow> ret (None, Some (ErrWrap ''failed to unmarshal resume packet'' err))
      | Inr resume \<Rightarrow>
          bnd (rd (\<lambda>cs. (cs_expectedToken cs, ConsumerShardCount (cs_manager cs)))) (\<lambda>(expected, csc).
          if bare_token (rm_Token resume) \<noteq> expected then ret (None, Some (ErrNew ''invalid token''))
          else
          reading_table
            (bnd (rd (\<lambda>cs. find (\<lambda>old. sub_sessionId (cs_heap cs r) = rm_SessionID resume)
                             (concat (map snd (cs_subscribers cs))))) (\<lambda>found.
             case found of
               None \<Rightarrow> ret (None, Some (ErrNew ''invalid session id''))
             | Some oldSess \<Rightarrow>
                 bnd (rd (\<lambda>cs. sub_shard (cs_heap cs oldSess))) (\<lambda>shard.
                 bnd (upd (on_sub r (\<lambda>s. s\<lparr>sub_seq := rm_Seq resume,
                        sub_shard := (fst shard, if sint (snd shard) \<le> 0 then csc else snd shard)\<rparr>))) (\<lambda>_.
                 ret (Some oldSess, None)))))))"

fun identify_loop :: "ws_lib \<Rightarrow> nat \<Rightarrow> arrival list \<Rightarrow> (chatServer, nat option \<times> go_error option) prog" where
  "identify_loop wl r [] = ret (None, None)"
| "identify_loop wl r (ArDone # as) = ret (None, None)"
| "identify_loop wl r (ArTimeout # as) = ret (None, Some (ErrNew ''timed out waiting for identify''))"
| "identify_loop wl r (ArPacket packet # as) =
     (if sp_Op packet = GatewayOpIdentify then ws_identify wl r packet
      else if sp_Op packet = GatewayOpResume then ws_resume wl r packet
      else identify_loop wl r as)"

definition identifyClient :: "ws_lib \<Rightarrow> nat \<Rightarrow> arrival list \<Rightarrow> (chatServer, nat option \<times> go_error option) prog" where
  "identifyClient wl r script = bnd (send_bytes r helloPayload) (\<lambda>_. identify_loop wl r script)"

section \<open>The initial state\<close>

definition dispatch_payload :: "string \<Rightarrow> bytes \<Rightarrow> SandwichPayload" where
  "dispatch_payload type data = \<lparr> sp_Extra = Map.empty, sp_Metadata = None, sp_Trace = None, sp_Type = type,
     sp_Data = data, sp_Sequence = 0, sp_Op = GatewayOpDispatch, sp_EventDispatchIdentifier = None \<rparr>"

definition guild_shard :: "chatServer \<Rightarrow> GuildID \<Rightarrow> int32" where
  "guild_shard cs g = GetShardIdOfGuild g (ConsumerShardCount (cs_manager cs))"

definition cached_guilds :: "chatServer \<Rightarrow> GuildID list" where
  "cached_guilds cs = Cache_Range csm (Guilds (cs_State cs)) (\<lambda>g _ acc. (False, acc @ [g])) []"

text \<open>
  The second pass over the guilds; its callback stops the iteration once the context is done, which is
  looked at after a guild that was sent. The map from guilds to shards of the first pass holds
  \<open>guild_shard\<close> of every cached guild, which is what the fallback computes.
\<close>

fun send_guilds :: "ws_lib \<Rightarrow> nat \<Rightarrow> GuildID list \<Rightarrow> (chatServer, unit) prog" where
  "send_guilds wl r [] = ret ()"
| "send_guilds wl r (g # gs) =
     bnd (rd (\<lambda>cs. guild_shard cs g = fst (sub_shard (cs_heap cs r)))) (\<lambda>mine.
     if \<not> mine then send_guilds wl r gs
     else bnd (rd (\<lambda>cs. GetGuild (cs_State cs) g)) (\<lambda>(guild, ok).
     if \<not> ok then send_guilds wl r gs
     else case wl_guild wl guild of
       Inl err \<Rightarrow> send_guilds wl r gs
     | Inr b \<Rightarrow>
         bnd (send_normal r (dispatch_payload ''GUILD_CREATE'' b)) (\<lambda>_.
         bnd (rd (\<lambda>cs. sub_done (cs_heap cs r))) (\<lambda>dead.
         if dead then ret () else send_guilds wl r gs))))"

definition dispatchInitial :: "ws_lib \<Rightarrow> nat \<Rightarrow> (chatServer, go_error option) prog" where
  "dispatchInitial wl r =
     bnd (rd (\<lambda>cs. if cs_quickStart cs then []
                   else map (\<lambda>g. \<lparr> ugd_ID = g, ugd_Unavailable = False \<rparr>)
                     (filter (\<lambda>g. guild_shard cs g = fst (sub_shard (cs_heap cs r))) (cached_guilds cs)))) (\<lambda>unavailable.
     bnd (rd (\<lambda>cs. sub_done (cs_heap cs r))) (\<lambda>dead.
     if dead then ret None
     else
     bnd (rd (\<lambda>cs. wl_ready wl \<lparr> rdy_user = mg_User (cs_manager cs), rdy_session_id = sub_sessionId (cs_heap cs r),
        rdy_shard = sub_shard (cs_heap cs r), rdy_resume_gateway_url = cs_externalAddress cs,
        rdy_guilds = unavailable \<rparr>)) (\<lambda>serialized.
     case serialized of
       Inl err \<Rightarrow> ret (Some err)
     | Inr b \<Rightarrow>
         bnd (send_normal r (dispatch_payload ''READY'' b)) (\<lambda>_.
         bnd (rd (\<lambda>cs. if cs_quickStart cs then [] else cached_guilds cs)) (\<lambda>guilds.
         bnd (send_guilds wl r guilds) (\<lambda>_.
         ret None))))))"

end
