(* ===== verification/Chat_Session.thy ===== *)
theory Chat_Session
  imports Chat_Server
begin

text \<open>
  \<^verbatim>\<open>internal/msg_websocket.go\<close>, continued: the goroutines of a subscriber, the phases of \<^verbatim>\<open>subscribe\<close>, publishing,
  and the operations of \<^verbatim>\<open>WebsocketClient\<close> through which the daemon uses the server.
\<close>

section \<open>The goroutines of a subscriber\<close>

text \<open>
  A goroutine recovers from panics, and on its way out cancels the context; a turn returns whether it goes on.
\<close>

definition goroutine :: "nat \<Rightarrow> (chatServer, bool) prog \<Rightarrow> (chatServer, bool) prog" where
  "goroutine r turn cs =
     (case turn cs of
        (Ok True, cs') \<Rightarrow> (Ok True, cs')
      | (Ok False, cs') \<Rightarrow> (Ok False, cancelFunc r cs')
      | (Panic why, cs') \<Rightarrow> if why = out_of_fuel then (Panic why, cs') else (Ok False, cancelFunc r cs'))"

definition zero_payload :: SandwichPayload where
  "zero_payload = \<lparr> sp_Extra = Map.empty, sp_Metadata = None, sp_Trace = None, sp_Type = [], sp_Data = [],
     sp_Sequence = 0, sp_Op = 0, sp_EventDispatchIdentifier = None \<rparr>"

text \<open>A receive waits on an empty channel, and yields the zero value from a closed one.\<close>

definition receive ::
    "(subscriber \<Rightarrow> 'a chan) \<Rightarrow> (('a chan \<Rightarrow> 'a chan) \<Rightarrow> subscriber \<Rightarrow> subscriber) \<Rightarrow> 'a \<Rightarrow> nat
     \<Rightarrow> (chatServer, 'a) prog" where
  "receive get put zero r =
     bnd (rd (\<lambda>cs. get (cs_heap cs r))) (\<lambda>c.
     case ch_buf c of
       x # xs \<Rightarrow> bnd (upd (on_sub r (put (\<lambda>c. c\<lparr>ch_buf := xs\<rparr>)))) (\<lambda>_. ret x)
     | [] \<Rightarrow> if ch_closed c then ret zero else panic out_of_fuel)"

definition ws_put :: "nat \<Rightarrow> ws_out \<Rightarrow> chatServer \<Rightarrow> chatServer" where
  "ws_put r x = on_sub r (\<lambda>s. s\<lparr>sub_out := sub_out s @ [x]\<rparr>)"

definition watchdog_tick :: "nat \<Rightarrow> chatServer \<Rightarrow> chatServer" where
  "watchdog_tick r cs =
     (let s = cs_heap cs r in
      if sub_done s then cs
      else if heartbeatTimeout < sint (cs_now cs) - sint (sub_lastHeartbeat s)
              \<or> sub_status s = subscriberStatusIdentified
      then cancelFunc r cs else cs)"

text \<open>One read of the client's websocket: an error, or a text.\<close>

definition readMessages :: "ws_lib \<Rightarrow> nat \<Rightarrow> bytes option \<Rightarrow> (chatServer, bool) prog" where
  "readMessages wl r input =
     goroutine r
       (bnd (rd (\<lambda>cs. sub_done (cs_heap cs r))) (\<lambda>dead.
        if dead then ret False
        else case input of
          None \<Rightarrow> ret False
        | Some b \<Rightarrow>
            (case wl_payload wl b of
               Inl err \<Rightarrow>
                 bnd (invalidSession r (''failed to unmarshal packet: '' @ wl_error_text wl err) True) (\<lambda>_. ret False)
             | Inr payload \<Rightarrow>
                 if sp_Op payload = GatewayOpHeartbeat then
                   bnd (upd (\<lambda>cs. on_sub r (\<lambda>s. s\<lparr>sub_lastHeartbeat := cs_now cs\<rparr>) cs)) (\<lambda>_.
                   bnd (send_heartbeat r ()) (\<lambda>_. ret True))
                 else bnd (send_reader r payload) (\<lambda>_. ret True))))"

definition getShard :: "chatServer \<Rightarrow> int32 \<Rightarrow> int32 option" where
  "getShard cs shardId = find (\<lambda>i. i = shardId) (cs_shards cs)"

text \<open>
  The shard a packet of a consumer is for: the consumer's own when it uses the real shard count, that of the
  guild the packet names otherwise.
\<close>

definition packet_shard :: "ws_lib \<Rightarrow> nat \<Rightarrow> SandwichPayload \<Rightarrow> chatServer \<Rightarrow> int32 option" where
  "packet_shard wl r msg cs =
     (let s = cs_heap cs r; noShards = mg_noShards (cs_manager cs) in
      if snd (sub_shard s) \<noteq> noShards then
        (case wl_guild_id wl (sp_Data msg) of
           Inl _ \<Rightarrow> None
         | Inr g \<Rightarrow> if g = 0 then None else Some (GetShardIdOfGuild g noShards))
      else Some (fst (sub_shard s)))"

text \<open>\<open>done\<close> says that the \<^verbatim>\<open>select\<close> takes the case of the cancelled context.\<close>

definition handleReadMessages :: "ws_lib \<Rightarrow> nat \<Rightarrow> bool \<Rightarrow> (chatServer, bool) prog" where
  "handleReadMessages wl r done =
     goroutine r
       (bnd (rd (\<lambda>cs. sub_done (cs_heap cs r))) (\<lambda>dead.
        if done then (if dead then ret False else panic out_of_fuel)
        else
        bnd (receive sub_reader sub_reader_update zero_payload r) (\<lambda>msg.
        bnd (rd (packet_shard wl r msg)) (\<lambda>target.
        case target of
          None \<Rightarrow> ret True
        | Some shardId \<Rightarrow>
            bnd (bnd (rd (\<lambda>cs. getShard cs shardId)) deref) (\<lambda>sh.
            bnd (upd (\<lambda>cs. cs\<lparr>cs_forwarded := cs_forwarded cs @ [(sh, sp_Op msg, sp_Data msg)]\<rparr>)) (\<lambda>_.
            ret True))))))"

text \<open>
  The case that the \<^verbatim>\<open>select\<close> of \<open>writeMessages\<close> picks; \<open>ok\<close> says whether the write to the websocket works. The
  write of the first case has a cancelled context and reaches nobody.
\<close>

datatype select_case = SelDone | SelNormal | SelBytes | SelHeartbeat | SelClose

definition StatusInternalError :: int where "StatusInternalError = 1011"

definition write_text :: "nat \<Rightarrow> bool \<Rightarrow> string option \<Rightarrow> bytes \<Rightarrow> (chatServer, bool) prog" where
  "write_text r ok failure b =
     (if ok then bnd (upd (ws_put r (WsText b))) (\<lambda>_. ret True)
      else bnd (upd (case failure of None \<Rightarrow> id | Some t \<Rightarrow> ws_put r (WsClose StatusInternalError t))) (\<lambda>_. ret False))"

definition write_normal :: "ws_lib \<Rightarrow> nat \<Rightarrow> bool \<Rightarrow> (chatServer, bool) prog" where
  "write_normal wl r ok =
     bnd (receive sub_writeNormal sub_writeNormal_update zero_payload r) (\<lambda>msg.
     bnd (act (\<lambda>cs. if sp_Op msg = GatewayOpDispatch
                    then (msg\<lparr>sp_Sequence := sub_seq (cs_heap cs r)\<rparr>, on_sub r (\<lambda>s. s\<lparr>sub_seq := sub_seq s + 1\<rparr>) cs)
                    else (msg\<lparr>sp_Sequence := 0\<rparr>, cs))) (\<lambda>msg.
     case wl_message wl msg of
       Inl err \<Rightarrow> ret True
     | Inr b \<Rightarrow> write_text r ok (Some ''Failed to write message [serialized]'') b))"

definition writeMessages :: "ws_lib \<Rightarrow> nat \<Rightarrow> select_case \<Rightarrow> bool \<Rightarrow> (chatServer, bool) prog" where
  "writeMessages wl r sel ok =
     goroutine r
       (case sel of
          SelDone \<Rightarrow>
            bnd (rd (\<lambda>cs. sub_done (cs_heap cs r))) (\<lambda>dead.
            if \<not> dead then panic out_of_fuel
            else bnd (upd (ws_put r (WsClose invalidSessionOpCode resumableInvalidSession))) (\<lambda>_. ret False))
        | SelNormal \<Rightarrow> write_normal wl r ok
        | SelBytes \<Rightarrow>
            bnd (receive sub_writeBytes sub_writeBytes_update [] r) (\<lambda>b.
            write_text r ok (Some ''Failed to write message [rawBytes]'') b)
        | SelHeartbeat \<Rightarrow>
            bnd (receive sub_writeHeartbeat sub_writeHeartbeat_update () r) (\<lambda>_. write_text r ok None heartbeatAck)
        | SelClose \<Rightarrow>
            bnd (receive sub_writeCloseMessage sub_writeCloseMessage_update
                   \<lparr> cm_closeString = [], cm_closeCode = 0 \<rparr> r) (\<lambda>msg.
            bnd (upd (on_sub r (\<lambda>s. s\<lparr>sub_status := subscriberStatusDead\<rparr>))) (\<lambda>_.
            bnd (upd (cancelFunc r)) (\<lambda>_.
            bnd (upd (ws_put r (WsClose (cm_closeCode msg) (cm_closeString msg)))) (\<lambda>_.
            bnd (deleteSubscriber r) (\<lambda>_. ret False))))))"

section \<open>Subscribing\<close>

definition newSubscriber :: "chatServer \<Rightarrow> subscriber" where
  "newSubscriber cs = (let n = nat (cs_subscriberMessageBuffer cs) in \<lparr>
     sub_done = False, sub_reader = new_chan n, sub_writeNormal = new_chan n, sub_writeBytes = new_chan n,
     sub_writeCloseMessage = new_chan n, sub_writeHeartbeat = new_chan n, sub_sessionId = [], sub_shard = (0, 0),
     sub_seq = 0, sub_status = subscriberStatusInit, sub_lastHeartbeat = cs_now cs, sub_out = [] \<rparr>)"

text \<open>
  The start of \<^verbatim>\<open>subscribe\<close>, up to the goroutines: \<open>sgs\<close> are the shard groups of the manager, and \<open>handshake\<close>
  is the outcome of the handshake. It returns the reference of the new subscriber.
\<close>

definition subscribe_start ::
    "(int32 \<times> ShardGroup) list \<Rightarrow> go_error option \<Rightarrow> (chatServer, go_error + nat) prog" where
  "subscribe_start sgs handshake =
     bnd (rd (\<lambda>cs. AllReady (mg_IsClosing (cs_manager cs)) sgs)) (\<lambda>ready.
     if \<not> ready then ret (Inl (ErrNew ''manager is not yet ready to accept connections''))
     else
     bnd (rd (\<lambda>cs. cs_subscriberMessageBuffer cs < 0)) (\<lambda>negative.
     if negative then panic ''makechan: size out of range''
     else case handshake of
       Some err \<Rightarrow> ret (Inl err)
     | None \<Rightarrow> act (\<lambda>cs. (Inr (cs_next cs),
           cs\<lparr>cs_heap := (cs_heap cs)(cs_next cs := newSubscriber cs), cs_next := Suc (cs_next cs)\<rparr>))))"

text \<open>
  What the loop over the old session's messages does with those in its buffer; then it waits for the channel
  to be closed. \<open>gone\<close> says that the context of the request is done.
\<close>

fun drain_old :: "bool \<Rightarrow> nat \<Rightarrow> nat \<Rightarrow> SandwichPayload list \<Rightarrow> (chatServer, go_error option) prog" where
  "drain_old gone r old [] =
     bnd (rd (\<lambda>cs. ch_closed (sub_writeNormal (cs_heap cs old)))) (\<lambda>closed.
     if closed then ret None else panic out_of_fuel)"
| "drain_old gone r old (msg # msgs) =
     bnd (upd (on_sub old (sub_writeNormal_update (\<lambda>c. c\<lparr>ch_buf := tl (ch_buf c)\<rparr>)))) (\<lambda>_.
     bnd (rd (\<lambda>cs. gone \<or> sub_done (cs_heap cs old))) (\<lambda>stop.
     if stop then ret (Some ErrContextCanceled)
     else if sp_Op msg \<noteq> GatewayOpDispatch then drain_old gone r old msgs
     else bnd (send_normal r msg) (\<lambda>_. drain_old gone r old msgs)))"

definition set_status :: "nat \<Rightarrow> subscriberStatusCode \<Rightarrow> chatServer \<Rightarrow> chatServer" where
  "set_status r st = on_sub r (\<lambda>s. s\<lparr>sub_status := st\<rparr>)"

definition take_over :: "bool \<Rightarrow> nat \<Rightarrow> nat option \<Rightarrow> (chatServer, go_error option) prog" where
  "take_over gone r oldSess =
     (case oldSess of
        None \<Rightarrow> bnd (upd (set_status r subscriberStatusIdentified)) (\<lambda>_. ret None)
      | Some old \<Rightarrow>
          bnd (upd (set_status r subscriberStatusResuming)) (\<lambda>_.
          bnd (upd (set_status old subscriberStatusMoving)) (\<lambda>_.
          bnd (rd (\<lambda>cs. ch_buf (sub_writeNormal (cs_heap cs old)))) (\<lambda>msgs.
          bnd (drain_old gone r old msgs) (\<lambda>err.
          case err of
            Some e \<Rightarrow> ret (Some e)
          | None \<Rightarrow>
              bnd (upd (set_status r subscriberStatusReady)) (\<lambda>_.
              bnd (subscriber_close old) (\<lambda>_. ret None)))))))"

text \<open>The middle of \<^verbatim>\<open>subscribe\<close>, up to the point where it waits for the context to end.\<close>

definition subscribe_identify ::
    "ws_lib \<Rightarrow> bool \<Rightarrow> nat \<Rightarrow> arrival list \<Rightarrow> (chatServer, go_error option) prog" where
  "subscribe_identify wl gone r script =
     bnd (identifyClient wl r script) (\<lambda>(oldSess, err).
     case err of
       Some e \<Rightarrow> bnd (invalidSession r (wl_error_text wl e) False) (\<lambda>_. ret (Some e))
     | None \<Rightarrow>
         bnd (rd (\<lambda>cs. sub_shard (cs_heap cs r))) (\<lambda>shard.
         bnd (addSubscriber r shard) (\<lambda>_.
         bnd (take_over gone r oldSess) (\<lambda>err.
         case err of
           Some e \<Rightarrow> ret (Some e)
         | None \<Rightarrow>
             bnd (rd (\<lambda>cs. sub_status (cs_heap cs r))) (\<lambda>st.
             bnd (if st = subscriberStatusResuming
                  then send_normal r (dispatch_payload ''RESUMED'' ''{}'')
                  else bnd (dispatchInitial wl r) (\<lambda>_. ret ())) (\<lambda>_.
             bnd (upd (set_status r subscriberStatusReady)) (\<lambda>_. ret None)))))))"

text \<open>The end of \<^verbatim>\<open>subscribe\<close>, five minutes after the context ended.\<close>

definition subscribe_end :: "nat \<Rightarrow> (chatServer, unit) prog" where
  "subscribe_end r =
     bnd (rd (\<lambda>cs. sub_status (cs_heap cs r))) (\<lambda>st.
     bnd (if st \<noteq> subscriberStatusMoving then subscriber_close r else ret ()) (\<lambda>_.
     deleteSubscriber r))"

section \<open>Publishing\<close>

definition deliver :: "SandwichPayload \<Rightarrow> nat list \<Rightarrow> (chatServer, unit) prog" where
  "deliver msg = each (\<lambda>s. send_normal s msg)"

definition publish_to :: "shard_key \<Rightarrow> SandwichPayload \<Rightarrow> shard_key \<times> nat list \<Rightarrow> (chatServer, unit) prog" where
  "publish_to shard msg = (\<lambda>(subShard, sub).
     bnd (if snd subShard \<noteq> snd shard
          then bnd (deref (sp_EventDispatchIdentifier msg)) (\<lambda>edi. ret (edi_GuildID edi))
          else ret None) (\<lambda>guild.
     case guild of
       Some g \<Rightarrow>
         if sint (snd subShard) \<le> 0 then
           each (\<lambda>s. invalidSession s (''Invalid Shard Count '' @ format_int (sint (snd subShard))) False) sub
         else if GetShardIdOfGuild g (snd subShard) \<noteq> fst shard then ret ()
         else deliver msg sub
     | None \<Rightarrow> if fst subShard \<noteq> fst shard then ret () else deliver msg sub))"

definition publish :: "shard_key \<Rightarrow> SandwichPayload \<Rightarrow> (chatServer, unit) prog" where
  "publish shard msg = reading_table (bnd (rd cs_subscribers) (each (publish_to shard msg)))"

definition publishGlobal :: "SandwichPayload \<Rightarrow> (chatServer, unit) prog" where
  "publishGlobal msg = reading_table (bnd (rd cs_subscribers) (each (\<lambda>(_, sub). deliver msg sub)))"

text \<open>The producer's \<^verbatim>\<open>Publish\<close>; the shard of the metadata is an array of three, whatever it holds.\<close>

definition Publish :: "SandwichPayload \<Rightarrow> (chatServer, go_error option) prog" where
  "Publish packet =
     bnd (deref (sp_Metadata packet)) (\<lambda>md.
     let (sg, sh, cnt) = md_Shard md in
     bnd (if length [sg, sh, cnt] < 3 then publishGlobal packet else publish (sh, cnt) packet) (\<lambda>_. ret None))"

section \<open>Closing sessions\<close>

datatype MQCloseShardReason = MQCloseShardReasonGateway | MQCloseShardReasonOther

definition all_subscribers :: "chatServer \<Rightarrow> nat list" where
  "all_subscribers cs = concat (map snd (cs_subscribers cs))"

definition drop_session :: "string \<Rightarrow> nat \<Rightarrow> (chatServer, unit) prog" where
  "drop_session reason r = bnd (invalidSession r reason True) (\<lambda>_. deleteSubscriber r)"

definition CloseShard :: "int32 \<Rightarrow> MQCloseShardReason \<Rightarrow> (chatServer, unit) prog" where
  "CloseShard shardID reason =
     (if reason = MQCloseShardReasonGateway then ret ()
      else reading_table (bnd (rd all_subscribers) (each (\<lambda>s.
        bnd (rd (\<lambda>cs. fst (sub_shard (cs_heap cs s)) = shardID)) (\<lambda>mine.
        if mine then drop_session ''Shard closed'' s else ret ())))))"

definition StopSession :: "string \<Rightarrow> (chatServer, unit) prog" where
  "StopSession sessionID =
     reading_table (bnd (rd all_subscribers) (each (\<lambda>s.
       bnd (rd (\<lambda>cs. sub_sessionId (cs_heap cs s) = sessionID)) (\<lambda>mine.
       if mine then drop_session ''Session stopped'' s else ret ()))))"

text \<open>After \<^verbatim>\<open>Close\<close> the client has no server any more.\<close>

definition WS_Close :: "chatServer \<Rightarrow> unit res \<times> chatServer option" where
  "WS_Close cs =
     (case reading_table (bnd (rd all_subscribers) (each (\<lambda>s.
        bnd (invalidSession s ''Connection closed'' True) (\<lambda>_.
        bnd (upd (cancelFunc s)) (\<lambda>_. deleteSubscriber s))))) cs of
        (Ok _, cs') \<Rightarrow> (Ok (), None)
      | (Panic why, cs') \<Rightarrow> (Panic why, Some cs'))"

definition WS_IsClosed :: "chatServer option \<Rightarrow> bool" where
  "WS_IsClosed mq \<longleftrightarrow> mq = None"

end
