(* ===== verification/Chat_Client.thy ===== *)
theory Chat_Client
  imports Chat_Session
begin

text \<open>
  \<^verbatim>\<open>internal/msg_websocket.go\<close>, the rest: the start of the producer from the options of the configuration, and
  the HTTP endpoint through which a packet can be published; \<^verbatim>\<open>GetEntry\<close> of \<^verbatim>\<open>internal/msg_utils.go\<close>.
\<close>

section \<open>Options\<close>

text \<open>
  A value of the options, which come from a YAML file. Of a \<^verbatim>\<open>float64\<close> only its integer part is used. A value
  of any other type, and a missing one, is \<open>OptOther\<close>.
\<close>

datatype opt = OptString string | OptBool bool | OptInt int64 | OptInt64 int64 | OptFloat64 int64 | OptOther

definition lower_char :: "char \<Rightarrow> char" where
  "lower_char c = (let n = of_char c :: nat in if 65 \<le> n \<and> n \<le> 90 then char_of (n + 32) else c)"

text \<open>\<^verbatim>\<open>strings.ToLower\<close> of a text in ASCII.\<close>

definition to_lower :: "string \<Rightarrow> string" where
  "to_lower = map lower_char"

text \<open>The entries are visited in the order of the list, which stands for Go's arbitrary one.\<close>

definition GetEntry :: "(string \<times> opt) list \<Rightarrow> string \<Rightarrow> opt" where
  "GetEntry m key =
     (let key = to_lower key in
      case find (\<lambda>(i, _). to_lower i = key) m of Some (_, k) \<Rightarrow> k | None \<Rightarrow> OptOther)"

fun opt_string :: "opt \<Rightarrow> string option" where
  "opt_string (OptString s) = Some s"
| "opt_string _ = None"

fun opt_bool :: "opt \<Rightarrow> bool option" where
  "opt_bool (OptBool b) = Some b"
| "opt_bool _ = None"

definition external_address :: "string \<Rightarrow> opt \<Rightarrow> string" where
  "external_address address given =
     (case opt_string given of
        Some a \<Rightarrow> a
      | None \<Rightarrow> if take 2 address \<noteq> ''ws'' then ''ws://'' @ address else address)"

text \<open>The text of a parse error is given without the function and the input it also names.\<close>

definition parse_failure :: "num_error \<Rightarrow> string" where
  "parse_failure e = (case e of ErrSyntax \<Rightarrow> ''invalid syntax'' | ErrRange \<Rightarrow> ''value out of range'')"

fun buffer_size :: "opt \<Rightarrow> num_error + int64" where
  "buffer_size (OptInt n) = Inr n"
| "buffer_size (OptInt64 n) = Inr n"
| "buffer_size (OptFloat64 n) = Inr n"
| "buffer_size (OptString s) = (case parse_int s of Inl e \<Rightarrow> Inl e | Inr n \<Rightarrow> Inr (word_of_int n))"
| "buffer_size _ = Inr 100000"

section \<open>Starting\<close>

text \<open>\<open>unallocated\<close> fills the store where no subscriber lives yet.\<close>

definition unallocated :: subscriber where
  "unallocated = \<lparr>
     sub_done = False, sub_reader = new_chan 0, sub_writeNormal = new_chan 0, sub_writeBytes = new_chan 0,
     sub_writeCloseMessage = new_chan 0, sub_writeHeartbeat = new_chan 0, sub_sessionId = [], sub_shard = (0, 0),
     sub_seq = 0, sub_status = subscriberStatusInit, sub_lastHeartbeat = 0, sub_out = [] \<rparr>"

definition newChatServer :: "Manager \<Rightarrow> int32 list \<Rightarrow> SandwichState \<Rightarrow> int64 \<Rightarrow> chatServer" where
  "newChatServer mg shards st now = \<lparr>
     cs_subscribers = [], cs_heap = (\<lambda>_. unallocated), cs_next = 0, cs_expectedToken = [], cs_externalAddress = [],
     cs_address = [], cs_quickStart = False, cs_subscriberMessageBuffer = 0, cs_readers = 0, cs_writer = False,
     cs_waiting = False, cs_manager = mg, cs_shards = shards, cs_State = st, cs_now = now, cs_forwarded = [] \<rparr>"

text \<open>
  \<open>fresh\<close> is the server that \<open>newChatServer\<close> makes, \<open>mq\<close> the one the client has, and \<open>listen\<close> the outcome of
  listening on an address.
\<close>

definition WS_Connect ::
    "(go_error \<Rightarrow> string) \<Rightarrow> (string \<Rightarrow> go_error option) \<Rightarrow> chatServer \<Rightarrow> (string \<times> opt) list \<Rightarrow> chatServer option
     \<Rightarrow> go_error option \<times> chatServer option" where
  "WS_Connect error_text listen fresh args mq =
     (case opt_string (GetEntry args ''Address'') of
        None \<Rightarrow> (Some (ErrNew ''websocketMQ connect: string type assertion failed for Address''), mq)
      | Some address \<Rightarrow>
        let externalAddress = external_address address (GetEntry args ''ExternalAddress'') in
        case opt_string (GetEntry args ''ExpectedToken'') of
          None \<Rightarrow> (Some (ErrNew ''websocketMQ connect: string type assertion failed for ExpectedToken''), mq)
        | Some expectedToken \<Rightarrow>
          let quickStart = (case opt_bool (GetEntry args ''QuickStart'') of Some b \<Rightarrow> b | None \<Rightarrow> True) in
          case listen address of
            Some err \<Rightarrow> (Some (ErrNew (''websocketMQ listen: '' @ error_text err)), mq)
          | None \<Rightarrow>
            let cs = fresh\<lparr>cs_expectedToken := expectedToken, cs_address := address,
                           cs_externalAddress := externalAddress, cs_quickStart := quickStart\<rparr> in
            case buffer_size (GetEntry args ''SubscriberMessageBuffer'') of
              Inl err \<Rightarrow> (Some (ErrNew (''websocketMQ connect: failed to parse SubscriberMessageBuffer: ''
                                            @ parse_failure err)), Some cs)
            | Inr n \<Rightarrow> (None, Some (cs\<lparr>cs_subscriberMessageBuffer := sint n\<rparr>)))"

section \<open>Publishing over HTTP\<close>

text \<open>
  \<^verbatim>\<open>fmt.Sscanf(s, "%d-%d", &a, &b)\<close>: a verb skips spaces but no line break, reads a sign and digits, and fails
  when they do not fit the variable; what follows the second number is ignored.
\<close>

fun skip_space :: "string \<Rightarrow> string option" where
  "skip_space [] = Some []"
| "skip_space (c # cs) =
     (if c = CHR 0x0A then None
      else if c = CHR 0x0D \<and> take 1 cs = [CHR 0x0A] then None
      else if c \<in> {CHR 0x20, CHR 0x09, CHR 0x0B, CHR 0x0C, CHR 0x0D} then skip_space cs
      else Some (c # cs))"

definition scan_int32 :: "string \<Rightarrow> (int32 \<times> string) option" where
  "scan_int32 s =
     (case skip_space s of
        None \<Rightarrow> None
      | Some s \<Rightarrow>
          let sign = takeWhile (\<lambda>c. c \<in> {CHR ''+'', CHR ''-''}) (take 1 s);
              body = drop (length sign) s;
              tok = sign @ takeWhile is_digit body
          in (case parse_int tok of
                Inl _ \<Rightarrow> None
              | Inr i \<Rightarrow> if sint (word_of_int i :: int32) = i then Some (word_of_int i, dropWhile is_digit body) else None))"

definition scan_shard :: "string \<Rightarrow> shard_key option" where
  "scan_shard s =
     (case scan_int32 s of
        None \<Rightarrow> None
      | Some (a, rest) \<Rightarrow>
          (case rest of
             [] \<Rightarrow> None
           | c # rest \<Rightarrow>
               if c \<noteq> CHR ''-'' then None
               else (case scan_int32 rest of None \<Rightarrow> None | Some (b, _) \<Rightarrow> Some (a, b))))"

definition StatusAccepted :: int where "StatusAccepted = 202"
definition StatusBadRequest :: int where "StatusBadRequest = 400"
definition StatusMethodNotAllowed :: int where "StatusMethodNotAllowed = 405"
definition StatusRequestEntityTooLarge :: int where "StatusRequestEntityTooLarge = 413"

text \<open>\<open>body\<close> is \<open>None\<close> when the body cannot be read, as when it is longer than 8192 bytes.\<close>

definition publishHandler :: "ws_lib \<Rightarrow> string \<Rightarrow> string \<Rightarrow> bytes option \<Rightarrow> (chatServer, int) prog" where
  "publishHandler wl method shardStr body =
     (if method \<noteq> ''POST'' then ret StatusMethodNotAllowed
      else case (if shardStr \<noteq> [] then scan_shard shardStr else Some (0, 0)) of
        None \<Rightarrow> ret StatusBadRequest
      | Some shard \<Rightarrow>
          (case body of
             None \<Rightarrow> ret StatusRequestEntityTooLarge
           | Some msg \<Rightarrow>
               (case wl_payload wl msg of
                  Inl _ \<Rightarrow> ret StatusBadRequest
                | Inr payload \<Rightarrow> bnd (publish shard payload) (\<lambda>_. ret StatusAccepted))))"

end
