(* ===== verification/Daemon.thy ===== *)
theory Daemon
  imports Client Chat_Client Group
begin

text \<open>
  \<^verbatim>\<open>internal/sandwich.go\<close> and the creation of managers in \<^verbatim>\<open>internal/manager.go\<close>: the configuration, the table of
  managers, their start, and the ejection of what no shard has any more.

  A manager lives in the table with its groups; \<open>with_manager\<close> loads it into the \<open>fleet\<close> on which the operations
  of \<open>Group\<close> run. The files, the network and the connecting of producers are scripts.
\<close>

section \<open>Configuration\<close>

record SandwichConfiguration =
  sc_IdentifyHeaders :: "(string \<times> string) list"
  sc_IdentifyURL :: string
  sc_ProducerConfiguration :: "(string \<times> opt) list"
  sc_ProducerType :: string
  sc_OAuth :: "string option"
  sc_UserAccess :: "string list"
  sc_Webhooks :: "string list"
  sc_Managers :: "ManagerConfiguration list"

definition zero_SandwichConfiguration :: SandwichConfiguration where
  "zero_SandwichConfiguration = \<lparr>
     sc_IdentifyHeaders = [], sc_IdentifyURL = [], sc_ProducerConfiguration = [], sc_ProducerType = [],
     sc_OAuth = None, sc_UserAccess = [], sc_Webhooks = [], sc_Managers = [] \<rparr>"

fun check_managers :: "ManagerConfiguration list \<Rightarrow> go_error option" where
  "check_managers [] = None"
| "check_managers (mc # mcs) =
     (if mc_Identifier mc = [] then Some (ErrWrap ''manager does not have an identifier'' ErrLoadConfigurationFailure)
      else if vsc_Enabled (mc_VirtualShards mc) \<and> vsc_Count (mc_VirtualShards mc) = 0
      then Some (ErrWrap (''manager '' @ mc_Identifier mc @ '' has virtual shards enabled but shard count is 0'')
                   ErrLoadConfigurationFailure)
      else check_managers mcs)"

text \<open>\<open>file\<close> is what reading the file yields, \<open>yaml\<close> the YAML decoder.\<close>

definition LoadConfiguration ::
    "bytes option \<Rightarrow> SandwichConfiguration decoder \<Rightarrow> SandwichConfiguration \<times> go_error option" where
  "LoadConfiguration file yaml =
     (case file of
        None \<Rightarrow> (zero_SandwichConfiguration, Some ErrReadConfigurationFailure)
      | Some content \<Rightarrow>
          (case yaml content of
             (configuration, Some _) \<Rightarrow> (configuration, Some ErrLoadConfigurationFailure)
           | (configuration, None) \<Rightarrow> (configuration, check_managers (sc_Managers configuration))))"

section \<open>The daemon\<close>

record manager_slot =
  ms_Manager :: Manager
  ms_ShardGroups :: "(int32 \<times> group) list"
  ms_shardGroupCounter :: int32
  ms_instance :: nat

text \<open>What the daemon does outside its own state. \<open>DeOpen\<close> is a goroutine that opens a manager.\<close>

datatype daemon_effect =
    DeSaved SandwichConfiguration
  | DePublish SandwichPayload string
  | DeWebhook string string string
  | DeProducerClose string
  | DeProducerConnect string string
  | DeStopSession string string
  | DeOpen string nat

record daemon =
  dm_env :: env
  dm_Managers :: "(string \<times> manager_slot) list"
  dm_Configuration :: SandwichConfiguration
  dm_HTTPEnabled :: bool
  dm_LastKnownTotalMembers :: int
  dm_net :: net
  dm_connects :: "go_error option list"
  dm_writes :: "go_error option list"
  dm_reads :: "string \<Rightarrow> int32 \<Rightarrow> int32 \<Rightarrow> read_event list"
  dm_instances :: nat
  dm_log :: "daemon_effect list"

text \<open>The codecs of the daemon, and the base URL of the client.\<close>

record daemon_lib =
  dl_lib :: lib
  dl_yaml :: "SandwichConfiguration \<Rightarrow> go_error option"
  dl_GatewayBotResponse :: "(string \<times> int32 \<times> int32 \<times> int32 \<times> int32 \<times> int32) decoder"

definition log_effect :: "daemon_effect \<Rightarrow> daemon \<Rightarrow> daemon" where
  "log_effect x d = d\<lparr>dm_log := dm_log d @ [x]\<rparr>"

definition find_manager :: "daemon \<Rightarrow> string \<Rightarrow> manager_slot option" where
  "find_manager d = map_of (dm_Managers d)"

definition on_slot :: "string \<Rightarrow> (manager_slot \<Rightarrow> manager_slot) \<Rightarrow> daemon \<Rightarrow> daemon" where
  "on_slot key f d = d\<lparr>dm_Managers := map (\<lambda>(k, s). (k, if k = key then f s else s)) (dm_Managers d)\<rparr>"

definition on_mg :: "string \<Rightarrow> (Manager \<Rightarrow> Manager) \<Rightarrow> daemon \<Rightarrow> daemon" where
  "on_mg key f = on_slot key (\<lambda>s. s\<lparr>ms_Manager := f (ms_Manager s)\<rparr>)"

definition load_manager :: "string \<Rightarrow> manager_slot \<Rightarrow> daemon \<Rightarrow> fleet" where
  "load_manager key s d = \<lparr>
     fl_env = (dm_env d)\<lparr>env_Manager := ms_Manager s\<rparr>, fl_ShardGroups = ms_ShardGroups s,
     fl_shardGroupCounter = ms_shardGroupCounter s, fl_reads = dm_reads d key \<rparr>"

definition store_manager :: "fleet \<Rightarrow> manager_slot \<Rightarrow> manager_slot" where
  "store_manager fl s = s\<lparr>ms_Manager := env_Manager (fl_env fl), ms_ShardGroups := fl_ShardGroups fl,
     ms_shardGroupCounter := fl_shardGroupCounter fl\<rparr>"

definition with_manager :: "string \<Rightarrow> (fleet, 'a) prog \<Rightarrow> (daemon, 'a) prog" where
  "with_manager key m d =
     (case find_manager d key of
        None \<Rightarrow> (Panic ''nil pointer dereference'', d)
      | Some s \<Rightarrow>
          (case m (load_manager key s d) of
             (r, fl) \<Rightarrow> (r, on_slot key (store_manager fl) (d\<lparr>dm_env := fl_env fl\<rparr>))))"

definition on_net :: "(net, 'a) prog \<Rightarrow> (daemon, 'a) prog" where
  "on_net m d = (case m (dm_net d) of (r, n) \<Rightarrow> (r, d\<lparr>dm_net := n\<rparr>))"

section \<open>Publishing and saving\<close>

definition publish_global :: "string \<Rightarrow> bytes \<Rightarrow> (daemon, unit) prog" where
  "publish_global eventType payload d =
     (case PublishGlobalEvent (map (ms_Manager \<circ> snd) (dm_Managers d)) eventType payload of
        (r, out) \<Rightarrow> (r, d\<lparr>dm_log := dm_log d @ map (\<lambda>(p, ch). DePublish p ch) out\<rparr>))"

definition SandwichEventConfigurationReload :: string where
  "SandwichEventConfigurationReload = ''SW_CONFIGURATION_RELOAD''"

definition SaveConfiguration :: "daemon_lib \<Rightarrow> SandwichConfiguration \<Rightarrow> (daemon, go_error option) prog" where
  "SaveConfiguration dl configuration =
     (case dl_yaml dl configuration of
        Some e \<Rightarrow> ret (Some (ErrWrap ''failed to marshal configuration'' e))
      | None \<Rightarrow>
          bnd (act (\<lambda>d. case pop (dm_writes d) of (err, rest) \<Rightarrow> (err, d\<lparr>dm_writes := rest\<rparr>))) (\<lambda>err.
          case err of
            Some e \<Rightarrow> ret (Some (ErrWrap ''failed to write configuration to file'' e))
          | None \<Rightarrow>
              bnd (upd (log_effect (DeSaved configuration))) (\<lambda>_.
              bnd (publish_global SandwichEventConfigurationReload []) (\<lambda>_. ret None))))"

section \<open>Managers\<close>

definition baseURL :: "string \<times> string" where "baseURL = (''https'', ''discord.com'')"

definition zero_Manager :: "ManagerConfiguration \<Rightarrow> Manager" where
  "zero_Manager configuration = \<lparr>
     mg_hasProducer = False, mg_ProducerClosed = False, mg_ProducerType = [], mg_Error = [], mg_Identifier = [],
     mg_Configuration = configuration, mg_IsClosing = False, mg_UserID = 0,
     mg_metadata = \<lparr> md_Version = [], md_Identifier = [], md_Application = [], md_ApplicationID = 0, md_Shard = (0, 0, 0) \<rparr>,
     mg_eventBlacklist = [], mg_produceBlacklist = [], mg_ClientToken = [], mg_GatewayURL = [], mg_GatewayShards = 0,
     mg_GatewayTotal = 0, mg_GatewayRemaining = 0, mg_GatewayResetAfter = 0, mg_GatewayMaxConcurrency = 0,
     mg_User = zero_User, mg_noShards = 0 \<rparr>"

definition NewManager :: "ManagerConfiguration \<Rightarrow> Manager" where
  "NewManager configuration = (zero_Manager configuration)\<lparr>
     mg_Identifier := mc_Identifier configuration,
     mg_ClientToken := mc_Token configuration,
     mg_eventBlacklist := elems (mc_EventBlacklist configuration),
     mg_produceBlacklist := elems (mc_ProduceBlacklist configuration),
     mg_metadata := \<lparr> md_Version = VERSION, md_Identifier = mc_Identifier configuration,
       md_Application = mc_Identifier configuration, md_ApplicationID = 0, md_Shard = (0, 0, 0) \<rparr>\<rparr>"

text \<open>\<^verbatim>\<open>sg.Managers.Store\<close> of a manager that was just created, without groups. It replaces another one of that name.\<close>

definition store_new :: "string \<Rightarrow> Manager \<Rightarrow> daemon \<Rightarrow> daemon" where
  "store_new key mg d = d\<lparr>
     dm_Managers := AList.update key \<lparr> ms_Manager = mg, ms_ShardGroups = [], ms_shardGroupCounter = 0,
       ms_instance = dm_instances d \<rparr> (dm_Managers d),
     dm_instances := dm_instances d + 1\<rparr>"

definition the_manager :: "string \<Rightarrow> (daemon, Manager) prog" where
  "the_manager key = bnd (rd (\<lambda>d. find_manager d key)) (\<lambda>s. bnd (deref s) (\<lambda>s. ret (ms_Manager s)))"

text \<open>The fields of the gateway response are in the order of the source: URL, shards, total, remaining, reset, concurrency.\<close>

definition GetGateway :: "daemon_lib \<Rightarrow> string \<Rightarrow>
    (daemon, (string \<times> int32 \<times> int32 \<times> int32 \<times> int32 \<times> int32) \<times> go_error option) prog" where
  "GetGateway dl key =
     bnd (the_manager key) (\<lambda>mg.
     bnd (on_net (FetchJSON (NewClient baseURL (mg_ClientToken mg)) ''GET'' (Inr ([], [], ''/gateway/bot'')) [] []
            (dl_GatewayBotResponse dl) ([], 0, 0, 0, 0, 0))) (\<lambda>(_, err, resp).
     ret (resp, err)))"

definition NewMQClient :: "string \<Rightarrow> go_error option" where
  "NewMQClient mqType =
     (if mqType \<in> {''jetstream'', ''kafka'', ''redis'', ''websocket''} then None
      else Some (ErrNew (mqType @ '' is not a valid MQClient'')))"

text \<open>
  Connecting the client of a broker is a script; the clients are in \<open>Broker\<close> and \<open>Chat_Client\<close>. The old one is closed
  first, and remains the producer of the manager when the new one fails to connect.
\<close>

definition close_producer :: "string \<Rightarrow> Manager \<Rightarrow> (daemon, unit) prog" where
  "close_producer key mg =
     (if \<not> mg_hasProducer mg then ret ()
      else if \<not> producer_usable mg then panic ''nil pointer dereference''
      else upd (\<lambda>d. log_effect (DeProducerClose key) (on_mg key (\<lambda>mg. mg\<lparr>mg_ProducerClosed := True\<rparr>) d)))"

definition restart_producer :: "string \<Rightarrow> string \<Rightarrow> Manager \<Rightarrow> (daemon, go_error option) prog" where
  "restart_producer key clientName mg =
     bnd (close_producer key mg) (\<lambda>_.
     bnd (rd (\<lambda>d. sc_ProducerType (dm_Configuration d))) (\<lambda>mqType.
     case NewMQClient mqType of
       Some e \<Rightarrow> ret (Some e)
     | None \<Rightarrow>
         bnd (upd (log_effect (DeProducerConnect key clientName))) (\<lambda>_.
         bnd (act (\<lambda>d. case pop (dm_connects d) of (err, rest) \<Rightarrow> (err, d\<lparr>dm_connects := rest\<rparr>))) (\<lambda>err.
         case err of
           Some e \<Rightarrow> ret (Some (ErrWrap ''failed to connect to producer'' e))
         | None \<Rightarrow>
             bnd (upd (on_mg key (\<lambda>mg. mg\<lparr>mg_hasProducer := True, mg_ProducerClosed := False, mg_ProducerType := mqType\<rparr>))) (\<lambda>_.
             ret None)))))"

definition Initialize :: "daemon_lib \<Rightarrow> string \<Rightarrow> bool \<Rightarrow> (daemon, go_error option) prog" where
  "Initialize dl key forceRestartProducers =
     bnd (GetGateway dl key) (\<lambda>((url, shards, total, remaining, resetAfter, maxConcurrency), err).
     case err of
       Some e \<Rightarrow> ret (Some e)
     | None \<Rightarrow>
         bnd (the_manager key) (\<lambda>mg.
         let producerRestart = forceRestartProducers \<or> \<not> mg_hasProducer mg \<or> mg_ProducerClosed mg;
             clientName = mc_ClientName (mg_Configuration mg) @
               (if mc_UseRandomSuffix (mg_Configuration mg) then ''-'' @ lib_randomHex (dl_lib dl) else [])
         in
         bnd (if producerRestart then restart_producer key clientName mg else ret None) (\<lambda>err.
         case err of
           Some e \<Rightarrow> ret (Some e)
         | None \<Rightarrow>
             bnd (upd (on_mg key (\<lambda>mg. mg\<lparr>mg_GatewayURL := url, mg_GatewayShards := shards, mg_GatewayTotal := total,
               mg_GatewayRemaining := remaining, mg_GatewayResetAfter := resetAfter,
               mg_GatewayMaxConcurrency := maxConcurrency\<rparr>))) (\<lambda>_. ret None))))"

section \<open>Starting\<close>

text \<open>
  A manager that fails to initialize makes \<^verbatim>\<open>startManagers\<close> call itself, and go on with the next one when that has
  ended. \<open>fuel\<close> bounds the depth.
\<close>

definition start_one :: "(daemon, unit) prog \<Rightarrow> daemon_lib \<Rightarrow> ManagerConfiguration \<Rightarrow> (daemon, unit) prog" where
  "start_one retry dl mc =
     (let key = mc_Identifier mc in
      if key = [] then ret ()
      else
        bnd (rd (\<lambda>d. find_manager d key \<noteq> None)) (\<lambda>duplicate.
        bnd (upd (\<lambda>d. if duplicate then log_effect (DeWebhook ''Manager contains duplicate identifier. Ignoring.'' key []) d else d)) (\<lambda>_.
        bnd (upd (store_new key (NewManager mc))) (\<lambda>_.
        bnd (Initialize dl key False) (\<lambda>err.
        case err of
          Some e \<Rightarrow>
            bnd (upd (on_mg key (\<lambda>mg. mg\<lparr>mg_Error := lib_error_text (dl_lib dl) e\<rparr>))) (\<lambda>_.
            bnd (upd (log_effect (DeWebhook ''Failed to open manager'' (''`'' @ lib_error_text (dl_lib dl) e @ ''`'') []))) (\<lambda>_.
            bnd (upd (log_effect (DeWebhook ''Retrying to open manager'' [] []))) (\<lambda>_.
            retry)))
        | None \<Rightarrow>
            if mc_AutoStart mc
            then upd (\<lambda>d. log_effect (DeOpen key (dm_instances d - 1)) d)
            else ret ())))))"

primrec startManagers :: "nat \<Rightarrow> daemon_lib \<Rightarrow> (daemon, unit) prog" where
  "startManagers 0 dl = panic out_of_fuel"
| "startManagers (Suc fuel) dl =
     bnd (rd (\<lambda>d. sc_Managers (dm_Configuration d))) (\<lambda>mcs. each (start_one (startManagers fuel dl) dl) mcs)"

definition Sandwich_Close :: "(daemon, unit) prog" where
  "Sandwich_Close =
     bnd (upd (log_effect (DeWebhook ''Sandwich closing'' [] []))) (\<lambda>_.
     bnd (rd (\<lambda>d. map fst (dm_Managers d))) (\<lambda>keys. each (\<lambda>key. with_manager key Manager_Close) keys))"

section \<open>The ticks of the ejector and of the gatherer\<close>

text \<open>Ranging over a cache from the first entry to the last.\<close>

definition cache_keys :: "('k, 'v) kvcache \<Rightarrow> 'k list" where
  "cache_keys c = Cache_Range csm c (\<lambda>k _ acc. (False, acc @ [k])) []"

definition shard_guilds :: "daemon \<Rightarrow> GuildID list" where
  "shard_guilds d = concat (map (\<lambda>(_, s). concat (map (\<lambda>(_, g). cache_keys (sg_Guilds (gr_Data g))) (ms_ShardGroups s)))
     (dm_Managers d))"

definition cacheEjectorStateCtx :: StateCtx where
  "cacheEjectorStateCtx = \<lparr> ctx_CacheUsers = False, ctx_CacheMembers = False, ctx_Stateless = True, ctx_StoreMutuals = False \<rparr>"

definition eject_guilds :: "(daemon, unit) prog" where
  "eject_guilds =
     bnd (rd shard_guilds) (\<lambda>allGuildIDs.
     bnd (rd (\<lambda>d. filter (\<lambda>g. g \<notin> set allGuildIDs) (cache_keys (Guilds (env_State (dm_env d)))))) (\<lambda>ejectedGuilds.
     each (\<lambda>g d. case RemoveGuild cacheEjectorStateCtx g (None, env_State (dm_env d)) of
        (r, (_, ss)) \<Rightarrow> (r, d\<lparr>dm_env := on_State (\<lambda>_. ss) (dm_env d)\<rparr>)) ejectedGuilds))"

text \<open>One tick of the ticker.\<close>

definition cacheEjector :: "(daemon, unit) prog" where
  "cacheEjector =
     bnd eject_guilds (\<lambda>_.
     upd (\<lambda>d. d\<lparr>dm_env := (dm_env d)\<lparr>env_Dedupe := eject_dedupes (env_now (dm_env d)) (env_Dedupe (dm_env d))\<rparr>\<rparr>))"

record gauges =
  ga_Guilds :: nat
  ga_Members :: nat
  ga_Roles :: nat
  ga_Emojis :: nat
  ga_Channels :: nat
  ga_Users :: nat
  ga_VoiceStates :: nat

definition gather :: "SandwichState \<Rightarrow> gauges" where
  "gather ss = \<lparr>
     ga_Guilds = Cache_Range csm (Guilds ss) (\<lambda>_ _ n. (False, n + 1)) 0,
     ga_Members = DC_Range csm (GuildMembers ss) (\<lambda>_ c n. (False, n + Cache_Count csm c)) 0,
     ga_Roles = DC_Range csm (GuildRoles ss) (\<lambda>_ c n. (False, n + Cache_Count csm c)) 0,
     ga_Emojis = Cache_Range csm (GuildEmojis ss) (\<lambda>_ emojis n. (False, n + length (elems emojis))) 0,
     ga_Channels = DC_Range csm (GuildChannels ss) (\<lambda>_ c n. (False, n + Cache_Count csm c)) 0,
     ga_Users = Cache_Count csm (Users ss),
     ga_VoiceStates = DC_Range csm (GuildVoiceStates ss) (\<lambda>_ c n. (False, n + Cache_Count csm c)) 0 \<rparr>"

definition total_gauge :: "gauges \<Rightarrow> nat" where
  "total_gauge g = ga_Guilds g + ga_Members g + ga_Roles g + ga_Emojis g + ga_Users g + ga_Channels g + ga_VoiceStates g"

definition prometheusGatherer :: "daemon \<Rightarrow> gauges \<times> daemon" where
  "prometheusGatherer d =
     (let ss = env_State (dm_env d) in
      (gather ss, d\<lparr>dm_LastKnownTotalMembers :=
         Cache_Range csm (Guilds ss) (\<lambda>_ guild n. (False, n + sint (guild_MemberCount guild))) 0\<rparr>))"

end
