(* ===== verification/Daemon_Props.thy ===== *)
theory Daemon_Props
  imports Daemon Effects
begin

text \<open>
  Properties of the daemon: what the ejector removes, what a loaded configuration guarantees, and how managers are
  started when one of them fails.
\<close>

section \<open>Ejecting guilds\<close>

text \<open>What the caches hold of a guild besides its channels: itself, its members, roles and emojis.\<close>

definition guild_view :: "SandwichState \<Rightarrow> GuildID \<Rightarrow>
    Guild option \<times> (UserID \<Rightarrow> GuildMember option) \<times> (RoleID \<Rightarrow> Role option) \<times> Emoji slice option" where
  "guild_view ss g = (Cache_Load csm (Guilds ss) g, DC_Load csm csm (GuildMembers ss) g, GetGuildRole ss g, GetAllGuildEmojis ss g)"

definition forgotten :: "Guild option \<times> (UserID \<Rightarrow> GuildMember option) \<times> (RoleID \<Rightarrow> Role option) \<times> Emoji slice option" where
  "forgotten = (None, \<lambda>_. None, \<lambda>_. None, None)"

definition remove_guild :: "GuildID \<Rightarrow> SandwichState \<Rightarrow> SandwichState" where
  "remove_guild g ss = RemoveAllGuildMembers g (RemoveAllGuildEmojis g (RemoveAllGuildChannels g (RemoveAllGuildRoles g
     (ss\<lparr>Guilds := Cache_Delete csm (Guilds ss) g\<rparr>))))"

lemma RemoveGuild_stateless:
  "RemoveGuild cacheEjectorStateCtx g (sg, ss) = (Ok (), (sg, remove_guild g ss))"
  by (simp add: RemoveGuild_def cacheEjectorStateCtx_def remove_guild_def bnd_eval upd_def)

lemma clear_find2:
  assumes "wf_dcache csm ok_alist ok_alist d"
  shows "find2 csm csm (DC_ClearKey csm d g) p = (if fst p = g then None else find2 csm csm d p)"
  using csm2.Load_ClearKey [OF assms, of g] by (cases p) (simp add: fun_eq_iff)

lemma remove_guild_ok: "state_ok ss \<Longrightarrow> state_ok (remove_guild g ss)"
  by (auto simp: state_ok_defs remove_guild_def RemoveAllGuildMembers_def RemoveAllGuildEmojis_def
      RemoveAllGuildChannels_def RemoveAllGuildRoles_def csm_laws csm2.good_ClearKey clear_find2 split: if_splits)

lemma remove_guild_view:
  assumes "state_ok ss"
  shows "guild_view (remove_guild g ss) = (guild_view ss)(g := forgotten)"
proof -
  have wf: "wf_cache ok_alist (Guilds ss)" "wf_cache ok_alist (GuildEmojis ss)"
    "wf_dcache csm ok_alist ok_alist (GuildMembers ss)" "wf_dcache csm ok_alist ok_alist (GuildRoles ss)"
    using assms by (auto simp: state_ok_defs)
  have clear: "DC_Load csm csm (DC_ClearKey csm d g) g' k = (if g' = g then None else DC_Load csm csm d g' k)"
    if "wf_dcache csm ok_alist ok_alist d" for d :: "(GuildID, Snowflake, 'v) kvdcache" and g' k
    using clear_find2 [OF that, of g "(g', k)"] by (simp add: find2_def)
  show ?thesis
    by (auto simp: fun_eq_iff guild_view_def forgotten_def remove_guild_def RemoveAllGuildMembers_def RemoveAllGuildEmojis_def
        RemoveAllGuildChannels_def RemoveAllGuildRoles_def GetGuildRole_def GetAllGuildEmojis_def clear wf csm.Load_Delete)
qed

lemma cache_keys_entries: "cache_keys c = map fst (entries csm c)"
proof -
  have "range_until (\<lambda>k _ acc. (False, acc @ [k])) kvs acc = acc @ map fst kvs" for kvs :: "('a \<times> 'b) list" and acc
    by (induction kvs arbitrary: acc) auto
  then show ?thesis by (simp add: cache_keys_def Cache_Range_entries)
qed

lemma cache_keys_iff:
  assumes "wf_cache ok_alist c"
  shows "k \<in> set (cache_keys c) \<longleftrightarrow> Cache_Load csm c k \<noteq> None"
  using csm.entries_iff [OF assms] by (force simp: cache_keys_entries)

lemma removes_view:
  "state_ok ss \<Longrightarrow> state_ok (fold remove_guild gs ss) \<and>
     guild_view (fold remove_guild gs ss) = (\<lambda>g. if g \<in> set gs then forgotten else guild_view ss g)"
  by (induction gs arbitrary: ss) (auto simp: remove_guild_ok remove_guild_view fun_eq_iff)

lemma eject_guilds_run:
  "eject_guilds d = (Ok (), d\<lparr>dm_env := on_State (fold remove_guild
     (filter (\<lambda>g. g \<notin> set (shard_guilds d)) (cache_keys (Guilds (env_State (dm_env d)))))) (dm_env d)\<rparr>)"
proof -
  have "each (\<lambda>g d. case RemoveGuild cacheEjectorStateCtx g (None, env_State (dm_env d)) of
      (r, (_, ss)) \<Rightarrow> (r, d\<lparr>dm_env := on_State (\<lambda>_. ss) (dm_env d)\<rparr>)) gs d
    = (Ok (), d\<lparr>dm_env := on_State (fold remove_guild gs) (dm_env d)\<rparr>)" for gs d
    by (induction gs arbitrary: d) (simp_all add: RemoveGuild_stateless on_State_def)
  then show ?thesis by (simp add: eject_guilds_def bnd_eval)
qed

text \<open>C17. A tick of the ejector forgets exactly the guilds that no shard group of any manager has: itself, members, roles
  and emojis. Every other guild stays as it was, and the caches stay well formed.\<close>

theorem ejector_forgets_unknown_guilds:
  assumes "state_ok (env_State (dm_env d))" and "cacheEjector d = (r, d')"
  shows "r = Ok () \<and> state_ok (env_State (dm_env d')) \<and> guild_view (env_State (dm_env d')) g =
    (if Cache_Load csm (Guilds (env_State (dm_env d))) g \<noteq> None \<and> g \<notin> set (shard_guilds d) then forgotten
     else guild_view (env_State (dm_env d)) g)"
proof -
  let ?ss = "env_State (dm_env d)"
  let ?gs = "filter (\<lambda>g. g \<notin> set (shard_guilds d)) (cache_keys (Guilds ?ss))"
  have "wf_cache ok_alist (Guilds ?ss)" using assms(1) by (simp add: state_ok_defs)
  then have "g \<in> set ?gs \<longleftrightarrow> Cache_Load csm (Guilds ?ss) g \<noteq> None \<and> g \<notin> set (shard_guilds d)"
    by (simp add: cache_keys_iff)
  moreover have "r = Ok ()" "env_State (dm_env d') = fold remove_guild ?gs ?ss"
    using assms(2) by (auto simp: cacheEjector_def eject_guilds_run bnd_def upd_def)
  ultimately show ?thesis using removes_view [OF assms(1), of ?gs] by simp
qed

section \<open>A loaded configuration\<close>

lemma check_managers_None:
  "check_managers mcs = None \<longleftrightarrow>
     (\<forall>mc \<in> set mcs. mc_Identifier mc \<noteq> [] \<and> (vsc_Enabled (mc_VirtualShards mc) \<longrightarrow> vsc_Count (mc_VirtualShards mc) \<noteq> 0))"
  by (induction mcs) auto

section \<open>Starting managers\<close>

text \<open>The managers that a log says were opened, and those of a configuration that are to be.\<close>

definition opens :: "daemon_effect list \<Rightarrow> string list" where
  "opens = concat \<circ> map (\<lambda>x. case x of DeOpen key _ \<Rightarrow> [key] | _ \<Rightarrow> [])"

definition auto_started :: "ManagerConfiguration list \<Rightarrow> string list" where
  "auto_started mcs = map mc_Identifier (filter (\<lambda>mc. mc_Identifier mc \<noteq> [] \<and> mc_AutoStart mc) mcs)"

lemma opens_append [simp]: "opens (xs @ ys) = opens xs @ opens ys"
  by (simp add: opens_def)

lemma opens_simps [simp]:
  "opens [] = []" "opens (DeOpen key n # xs) = key # opens xs" "opens (DeWebhook a b c # xs) = opens xs"
  "opens (DeProducerConnect k c # xs) = opens xs" "opens (DeProducerClose k # xs) = opens xs"
  by (simp_all add: opens_def)

text \<open>The answers to \<^verbatim>\<open>/gateway/bot\<close> that make a manager start, and those with which it does not.\<close>

definition answers :: "daemon_lib \<Rightarrow> reply \<Rightarrow> bool" where
  "answers dl r \<longleftrightarrow> (case r of
     (Some res, None) \<Rightarrow> res_StatusCode res \<notin> {401, 429} \<and>
       (case res_Body res of Inl _ \<Rightarrow> False | Inr b \<Rightarrow> snd (dl_GatewayBotResponse dl b) = None)
   | _ \<Rightarrow> False)"

text \<open>The daemon can start managers: connecting a producer works, and the replies to come are \<open>rs\<close>.\<close>

definition starting :: "SandwichConfiguration \<Rightarrow> reply list \<Rightarrow> daemon \<Rightarrow> bool" where
  "starting cfg rs d \<longleftrightarrow> dm_Configuration d = cfg \<and> NewMQClient (sc_ProducerType cfg) = None \<and> dm_connects d = []
     \<and> net_replies (dm_net d) = rs"

lemma find_on_slot [simp]:
  "find_manager (on_slot k f d) key = (if key = k then map_option f (find_manager d key) else find_manager d key)"
proof -
  have "map_of (map (\<lambda>(j, s). (j, if j = k then f s else s)) al) key
      = (if key = k then map_option f (map_of al key) else map_of al key)" for al
    by (induction al) auto
  then show ?thesis by (simp add: find_manager_def on_slot_def)
qed

lemma find_store_new [simp]:
  "find_manager (store_new k mg d) key = (if key = k then Some \<lparr> ms_Manager = mg, ms_ShardGroups = [], ms_shardGroupCounter = 0,
     ms_instance = dm_instances d \<rparr> else find_manager d key)"
  by (simp add: find_manager_def store_new_def update_conv')

lemma find_log [simp]: "find_manager (log_effect x d) = find_manager d"
  by (simp add: find_manager_def log_effect_def fun_eq_iff)

lemma starting_frame [simp]:
  "starting cfg rs (on_mg k f d) = starting cfg rs d" "starting cfg rs (log_effect x d) = starting cfg rs d"
  "starting cfg rs (store_new k mg d) = starting cfg rs d"
  by (simp_all add: starting_def on_mg_def on_slot_def log_effect_def store_new_def)

lemma log_frame [simp]:
  "dm_log (on_mg k f d) = dm_log d" "dm_log (store_new k mg d) = dm_log d" "dm_log (log_effect x d) = dm_log d @ [x]"
  by (simp_all add: on_mg_def on_slot_def log_effect_def store_new_def)

lemma the_manager_eval: "find_manager d key = Some s \<Longrightarrow> the_manager key d = (Ok (ms_Manager s), d)"
  by (simp add: the_manager_def bnd_eval bnd_def deref_def ret_def rd_def)

lemma GetGateway_answered:
  assumes "find_manager d key = Some s" and "net_replies (dm_net d) = r # rs" and "answers dl r"
  obtains gw n where "GetGateway dl key d = (Ok (gw, None), d\<lparr>dm_net := n\<rparr>)" and "net_replies n = rs"
proof -
  obtain res b v where r: "r = (Some res, None)" "res_StatusCode res \<notin> {401, 429}" "res_Body res = Inr b"
    "dl_GatewayBotResponse dl b = (v, None)"
    using assms(3) by (cases r) (auto simp: answers_def prod_eq_iff split: option.splits sum.splits)
  let ?n = "(dm_net d)\<lparr>net_replies := rs, net_sent := net_sent (dm_net d) @
    [prepare (NewClient baseURL (mg_ClientToken (ms_Manager s))) (new_request ''GET'' ([], [], ''/gateway/bot'') [] [])]\<rparr>"
  have "GetGateway dl key d = (Ok (v, None), d\<lparr>dm_net := ?n\<rparr>)"
    unfolding GetGateway_def using assms(2) r
    by (simp add: bnd_def the_manager_eval [OF assms(1)] on_net_def FetchJSON_decodes ret_def)
  then show thesis by (rule that) simp
qed

lemma GetGateway_failed:
  assumes "find_manager d key = Some s" and "net_replies (dm_net d) = (res, Some err) # rs"
  obtains gw e n where "GetGateway dl key d = (Ok (gw, Some e), d\<lparr>dm_net := n\<rparr>)" and "net_replies n = rs"
proof -
  let ?n = "(dm_net d)\<lparr>net_replies := rs, net_sent := net_sent (dm_net d) @
    [prepare (NewClient baseURL (mg_ClientToken (ms_Manager s))) (new_request ''GET'' ([], [], ''/gateway/bot'') [] [])]\<rparr>"
  have "GetGateway dl key d = (Ok (([], 0, 0, 0, 0, 0), Some (ErrWrap ''failed to do HTTP request'' err)), d\<lparr>dm_net := ?n\<rparr>)"
    unfolding GetGateway_def using assms(2)
    by (simp add: bnd_def the_manager_eval [OF assms(1)] on_net_def FetchJSON_fails ret_def)
  then show thesis by (rule that) simp
qed

lemma find_fields [simp]:
  "find_manager (d\<lparr>dm_env := a1\<rparr>) = find_manager d" "find_manager (d\<lparr>dm_Configuration := a2\<rparr>) = find_manager d"
  "find_manager (d\<lparr>dm_log := a3\<rparr>) = find_manager d" "find_manager (d\<lparr>dm_connects := a4\<rparr>) = find_manager d"
  "find_manager (d\<lparr>dm_writes := a5\<rparr>) = find_manager d"
  by (simp_all add: find_manager_def fun_eq_iff)

lemma find_net [simp]: "find_manager (d\<lparr>dm_net := n\<rparr>) = find_manager d"
  by (simp add: find_manager_def fun_eq_iff)

lemma NewManager_no_producer [simp]: "\<not> mg_hasProducer (NewManager mc)"
  by (simp add: NewManager_def zero_Manager_def)

lemma restart_producer_works:
  assumes "starting cfg rs d" and "\<not> mg_hasProducer mg"
  shows "\<exists>d'. restart_producer key clientName mg d = (Ok None, d') \<and> starting cfg rs d' \<and> opens (dm_log d') = opens (dm_log d)
    \<and> dm_instances d' = dm_instances d"
  using assms unfolding starting_def restart_producer_def close_producer_def
  by (simp add: bnd_eval bnd_def act_def upd_def rd_def ret_def on_mg_def on_slot_def log_effect_def split: list.split)

lemma Initialize_answered:
  assumes "find_manager d key = Some s" and "starting cfg (r # rs) d" and "answers dl r" and "\<not> mg_hasProducer (ms_Manager s)"
  obtains d' where "Initialize dl key force d = (Ok None, d')" and "starting cfg rs d'" and "opens (dm_log d') = opens (dm_log d)"
    and "dm_instances d' = dm_instances d"
proof -
  have "net_replies (dm_net d) = r # rs" using assms(2) by (simp add: starting_def)
  then obtain gw n where gw: "GetGateway dl key d = (Ok (gw, None), d\<lparr>dm_net := n\<rparr>)" "net_replies n = rs"
    using GetGateway_answered [OF assms(1) _ assms(3)] by blast
  let ?d = "d\<lparr>dm_net := n\<rparr>" and ?mg = "ms_Manager s"
  have d: "starting cfg rs ?d" "find_manager ?d key = Some s" using assms(1,2) gw(2) by (simp_all add: starting_def)
  obtain d1 where d1: "(if force \<or> \<not> mg_hasProducer ?mg \<or> mg_ProducerClosed ?mg
      then restart_producer key (mc_ClientName (mg_Configuration ?mg) @
        (if mc_UseRandomSuffix (mg_Configuration ?mg) then ''-'' @ lib_randomHex (dl_lib dl) else [])) ?mg
      else ret None) ?d = (Ok None, d1)" "starting cfg rs d1" "opens (dm_log d1) = opens (dm_log d)" "dm_instances d1 = dm_instances d"
    using restart_producer_works [OF d(1) assms(4)] d(1) by (cases "force \<or> \<not> mg_hasProducer ?mg \<or> mg_ProducerClosed ?mg") (fastforce simp: ret_def)+
  have "\<exists>f. Initialize dl key force d = (Ok None, on_mg key f d1)"
    using gw(1) d1(1) the_manager_eval [OF d(2)]
    by (cases gw) (auto simp add: Initialize_def bnd_def [of "GetGateway dl key"] bnd_Ok Let_def upd_def bnd_eval ret_def)
  then obtain f where "Initialize dl key force d = (Ok None, on_mg key f d1)" ..
  then show thesis using that d1 by (simp add: on_mg_def on_slot_def starting_def)
qed

lemma Initialize_failed:
  assumes "find_manager d key = Some s" and "starting cfg ((res, Some err) # rs) d"
  obtains e d' where "Initialize dl key force d = (Ok (Some e), d')" and "starting cfg rs d'" and "dm_log d' = dm_log d"
proof -
  have "net_replies (dm_net d) = (res, Some err) # rs" using assms(2) by (simp add: starting_def)
  then obtain gw e n where gw: "GetGateway dl key d = (Ok (gw, Some e), d\<lparr>dm_net := n\<rparr>)" "net_replies n = rs"
    using GetGateway_failed [OF assms(1)] by blast
  then have "Initialize dl key force d = (Ok (Some e), d\<lparr>dm_net := n\<rparr>)"
    by (cases gw) (simp add: Initialize_def bnd_def ret_def)
  then show thesis by (rule that) (use assms(2) gw(2) in \<open>simp_all add: starting_def\<close>)
qed

lemma start_one_answered:
  assumes "starting cfg (r # rs) d" and "answers dl r" and "mc_Identifier mc \<noteq> []"
  obtains d' where "start_one retry dl mc d = (Ok (), d')" and "starting cfg rs d'"
    and "opens (dm_log d') = opens (dm_log d) @ auto_started [mc]"
proof -
  let ?key = "mc_Identifier mc"
  let ?log = "\<lambda>d. if find_manager d ?key \<noteq> None
    then log_effect (DeWebhook ''Manager contains duplicate identifier. Ignoring.'' ?key []) d else d"
  let ?d = "store_new ?key (NewManager mc) (?log d)"
  have d: "starting cfg (r # rs) ?d" "opens (dm_log ?d) = opens (dm_log d)" using assms(1) by simp_all
  obtain d1 where d1: "Initialize dl ?key False ?d = (Ok None, d1)" "starting cfg rs d1" "opens (dm_log d1) = opens (dm_log d)"
    by (rule Initialize_answered [OF _ d(1) assms(2), of ?key _ False]) (auto simp: d(2) intro: that)
  let ?d' = "if mc_AutoStart mc then log_effect (DeOpen ?key (dm_instances d1 - 1)) d1 else d1"
  have "start_one retry dl mc d = (Ok (), ?d')"
    using assms(3) d1(1) by (simp add: start_one_def Let_def bnd_eval bnd_Ok upd_def ret_def)
  then show thesis by (rule that) (use d1(2,3) assms(3) in \<open>auto simp: auto_started_def\<close>)
qed

lemma start_one_failed:
  assumes "starting cfg ((res, Some err) # rs) d" and "mc_Identifier mc \<noteq> []"
  obtains d' where "start_one retry dl mc d = retry d'" and "starting cfg rs d'" and "opens (dm_log d') = opens (dm_log d)"
proof -
  let ?key = "mc_Identifier mc"
  let ?log = "\<lambda>d. if find_manager d ?key \<noteq> None
    then log_effect (DeWebhook ''Manager contains duplicate identifier. Ignoring.'' ?key []) d else d"
  let ?d = "store_new ?key (NewManager mc) (?log d)"
  have d: "starting cfg ((res, Some err) # rs) ?d" "opens (dm_log ?d) = opens (dm_log d)" using assms(1) by simp_all
  obtain e d1 where d1: "Initialize dl ?key False ?d = (Ok (Some e), d1)" "starting cfg rs d1" "dm_log d1 = dm_log ?d"
    by (rule Initialize_failed [OF _ d(1), of ?key _ dl False]) (auto intro: that)
  let ?d' = "log_effect (DeWebhook ''Retrying to open manager'' [] [])
    (log_effect (DeWebhook ''Failed to open manager'' (''`'' @ lib_error_text (dl_lib dl) e @ ''`'') [])
    (on_mg ?key (\<lambda>mg. mg\<lparr>mg_Error := lib_error_text (dl_lib dl) e\<rparr>) d1))"
  have "start_one retry dl mc d = retry ?d'"
    using assms(2) d1(1) by (simp add: start_one_def Let_def bnd_eval bnd_Ok)
  then show thesis by (rule that) (use d1(2,3) d(2) in simp_all)
qed

lemma each_answered:
  assumes "starting cfg (good @ rs) d" and "length good = length mcs" and "\<forall>r \<in> set good. answers dl r"
    and "\<forall>mc \<in> set mcs. mc_Identifier mc \<noteq> []"
  shows "\<exists>d'. each (start_one retry dl) mcs d = (Ok (), d') \<and> starting cfg rs d'
    \<and> opens (dm_log d') = opens (dm_log d) @ auto_started mcs"
  using assms
proof (induction mcs arbitrary: good d)
  case (Cons mc mcs)
  then obtain r good' where good: "good = r # good'" by (cases good) auto
  obtain d1 where d1: "start_one retry dl mc d = (Ok (), d1)" "starting cfg (good' @ rs) d1"
    "opens (dm_log d1) = opens (dm_log d) @ auto_started [mc]"
    using start_one_answered [of cfg r "good' @ rs" d dl mc retry] Cons.prems good by auto
  obtain d' where "each (start_one retry dl) mcs d1 = (Ok (), d')" "starting cfg rs d'"
    "opens (dm_log d') = opens (dm_log d1) @ auto_started mcs"
    using Cons.IH [OF d1(2)] Cons.prems good by auto
  then show ?case using d1 by (simp add: auto_started_def)
qed (simp add: auto_started_def)

lemma each_append: "each body (xs @ ys) s = bnd (each body xs) (\<lambda>_. each body ys) s"
  by (induction xs arbitrary: s) (auto simp: bnd_def split: prod.splits res.splits)

text \<open>When the answers all come, every manager that is to start is opened once, as often as the configuration lists it:
  a duplicate that the log says is ignored is opened as well.\<close>

lemma managers_started:
  assumes "starting cfg (good @ rs) d" and "length good = length (sc_Managers cfg)" and "\<forall>r \<in> set good. answers dl r"
    and "\<forall>mc \<in> set (sc_Managers cfg). mc_Identifier mc \<noteq> []"
  shows "\<exists>d'. startManagers (Suc n) dl d = (Ok (), d') \<and> opens (dm_log d') = opens (dm_log d) @ auto_started (sc_Managers cfg)"
  using each_answered [OF assms(1-4), of "startManagers n dl"] assms(1) by (auto simp: bnd_eval starting_def)

text \<open>C18. When one manager fails to initialize, just once, the others are opened twice: those before it before and by the
  retry, which starts all managers, and those after it by the retry and afterwards, as the loop goes on.\<close>

theorem failed_start_opens_twice:
  assumes "sc_Managers cfg = before @ mc # after"
    and "starting cfg (good @ (res, Some err) # good' @ good'' @ rs) d"
    and "length good = length before" and "length good' = length (sc_Managers cfg)" and "length good'' = length after"
    and "\<forall>r \<in> set (good @ good' @ good''). answers dl r"
    and "\<forall>mc \<in> set (sc_Managers cfg). mc_Identifier mc \<noteq> []"
  shows "\<exists>d'. startManagers (Suc (Suc n)) dl d = (Ok (), d') \<and> opens (dm_log d') =
    opens (dm_log d) @ auto_started before @ auto_started (before @ mc # after) @ auto_started after"
proof -
  let ?retry = "startManagers (Suc n) dl"
  obtain d1 where d1: "each (start_one ?retry dl) before d = (Ok (), d1)" "starting cfg ((res, Some err) # good' @ good'' @ rs) d1"
    "opens (dm_log d1) = opens (dm_log d) @ auto_started before"
    using each_answered [OF assms(2,3), of dl ?retry] assms(1,6,7) by auto
  obtain d2 where d2: "start_one ?retry dl mc d1 = ?retry d2" "starting cfg (good' @ good'' @ rs) d2" "opens (dm_log d2) = opens (dm_log d1)"
    using start_one_failed [OF d1(2), of mc ?retry dl] assms(1,7) by auto
  obtain d3 where d3: "each (start_one (startManagers n dl) dl) (sc_Managers cfg) d2 = (Ok (), d3)" "starting cfg (good'' @ rs) d3"
    "opens (dm_log d3) = opens (dm_log d2) @ auto_started (sc_Managers cfg)"
    using each_answered [OF d2(2) assms(4), of dl "startManagers n dl"] assms(6,7) by auto
  obtain d4 where d4: "each (start_one ?retry dl) after d3 = (Ok (), d4)" "opens (dm_log d4) = opens (dm_log d3) @ auto_started after"
    using each_answered [OF d3(2) assms(5), of dl ?retry] assms(1,6,7) by auto
  have "?retry d2 = (Ok (), d3)" using d2(2) d3(1) by (simp add: bnd_eval starting_def)
  then have "startManagers (Suc (Suc n)) dl d = (Ok (), d4)"
    using assms(1,2) d1(1) d2(1) d4(1) by (simp add: starting_def bnd_eval each_append bnd_Ok del: startManagers.simps)
      (simp add: starting_def bnd_eval each_append bnd_Ok)
  then show ?thesis using d1(3) d2(3) d3(3) d4(2) assms(1) by simp
qed

section \<open>Restarting a producer\<close>

lemma Initialize_restarts:
  assumes "find_manager d key = Some s" and "net_replies (dm_net d) = r # rs" and "answers dl r"
    and "force \<or> mg_ProducerClosed (ms_Manager s)" and "mg_hasProducer (ms_Manager s)"
  obtains name n k where "Initialize dl key force d = bnd (restart_producer key name (ms_Manager s)) k (d\<lparr>dm_net := n\<rparr>)"
    and "net_replies n = rs" and "\<And>e. k (Some e) = ret (Some e)"
proof -
  obtain gw n where gw: "GetGateway dl key d = (Ok (gw, None), d\<lparr>dm_net := n\<rparr>)" "net_replies n = rs"
    using GetGateway_answered [OF assms(1-3)] by blast
  have mg: "the_manager key (d\<lparr>dm_net := n\<rparr>) = (Ok (ms_Manager s), d\<lparr>dm_net := n\<rparr>)"
    using assms(1) by (intro the_manager_eval) simp
  obtain url shards total remaining resetAfter maxConcurrency where g: "gw = (url, shards, total, remaining, resetAfter, maxConcurrency)"
    by (cases gw)
  let ?name = "mc_ClientName (mg_Configuration (ms_Manager s)) @
    (if mc_UseRandomSuffix (mg_Configuration (ms_Manager s)) then ''-'' @ lib_randomHex (dl_lib dl) else [])"
  have "Initialize dl key force d = bnd (restart_producer key ?name (ms_Manager s)) (\<lambda>err. case err of Some e \<Rightarrow> ret (Some e)
      | None \<Rightarrow> bnd (upd (on_mg key (\<lambda>mg. mg\<lparr>mg_GatewayURL := url, mg_GatewayShards := shards, mg_GatewayTotal := total,
          mg_GatewayRemaining := remaining, mg_GatewayResetAfter := resetAfter, mg_GatewayMaxConcurrency := maxConcurrency\<rparr>)))
          (\<lambda>_. ret None)) (d\<lparr>dm_net := n\<rparr>)"
    using gw(1) mg assms(4,5) by (simp add: Initialize_def bnd_def [of "GetGateway dl key"] g bnd_Ok Let_def)
  then show thesis by (rule that) (simp_all add: gw(2))
qed

text \<open>C19. When a producer is restarted and its successor fails to connect, the manager keeps the closed one. The next time it is
  initialized, forced or not, it closes that one again, which dereferences its forgotten connection: the daemon ends,
  unless the producer is the one for JetStream.\<close>

theorem failed_restart_panics:
  assumes "find_manager d key = Some s" and "mg_hasProducer (ms_Manager s)" and "\<not> mg_ProducerClosed (ms_Manager s)"
    and "mg_ProducerType (ms_Manager s) \<noteq> ''jetstream''" and "NewMQClient (sc_ProducerType (dm_Configuration d)) = None"
    and "net_replies (dm_net d) = r # r' # rs" and "answers dl r" and "answers dl r'" and "dm_connects d = Some err # cs"
  shows "\<exists>e d'. Initialize dl key True d = (Ok (Some e), d') \<and> (\<exists>why. fst (Initialize dl key force d') = Panic why)"
proof -
  let ?mg = "ms_Manager s"
  obtain name n k where run: "Initialize dl key True d = bnd (restart_producer key name ?mg) k (d\<lparr>dm_net := n\<rparr>)"
    "net_replies n = r' # rs" "\<And>e. k (Some e) = ret (Some e)"
    by (rule Initialize_restarts [OF assms(1,6,7) _ assms(2), of True]) (auto intro: that)
  let ?d = "log_effect (DeProducerConnect key name) (log_effect (DeProducerClose key)
    (on_mg key (\<lambda>mg. mg\<lparr>mg_ProducerClosed := True\<rparr>) (d\<lparr>dm_net := n\<rparr>)))\<lparr>dm_connects := cs\<rparr>"
  have "restart_producer key name ?mg (d\<lparr>dm_net := n\<rparr>) = (Ok (Some (ErrWrap ''failed to connect to producer'' err)), ?d)"
    using assms(2,3,5,9)
    by (simp add: restart_producer_def close_producer_def producer_usable_def bnd_eval bnd_def act_def on_mg_def on_slot_def
        log_effect_def upd_def rd_def ret_def)
  then have first: "Initialize dl key True d = (Ok (Some (ErrWrap ''failed to connect to producer'' err)), ?d)"
    using run(1,3) by (simp add: bnd_Ok ret_def)
  let ?s = "s\<lparr>ms_Manager := ?mg\<lparr>mg_ProducerClosed := True\<rparr>\<rparr>"
  have found: "find_manager ?d key = Some ?s" using assms(1) by (simp add: on_mg_def)
  have replies: "net_replies (dm_net ?d) = r' # rs" using run(2) by (simp add: log_effect_def on_mg_def on_slot_def)
  have gone: "force \<or> mg_ProducerClosed (ms_Manager ?s)" "mg_hasProducer (ms_Manager ?s)" using assms(2) by simp_all
  obtain name' n' k' where second: "Initialize dl key force ?d = bnd (restart_producer key name' (ms_Manager ?s)) k' (?d\<lparr>dm_net := n'\<rparr>)"
    by (rule Initialize_restarts [OF found replies assms(8) gone])
  have "fst (Initialize dl key force ?d) = Panic ''nil pointer dereference''"
    using assms(2,4) by (simp add: second restart_producer_def close_producer_def producer_usable_def bnd_def panic_def)
  with first show ?thesis by blast
qed

section \<open>The properties at work\<close>

definition sample_dl :: daemon_lib where
  "sample_dl = \<lparr> dl_lib = sample_lib, dl_yaml = (\<lambda>_. None), dl_GatewayBotResponse = accept (''wss://gateway.discord.gg'', 2, 1000, 999, 0, 1) \<rparr>"

definition two_managers :: SandwichConfiguration where
  "two_managers = zero_SandwichConfiguration\<lparr>sc_ProducerType := ''redis'',
     sc_Managers := [sample_config, sample_config\<lparr>mc_Identifier := ''other''\<rparr>]\<rparr>"

definition sample_daemon :: "reply list \<Rightarrow> daemon" where
  "sample_daemon replies = \<lparr> dm_env = sample_env, dm_Managers = [], dm_Configuration = two_managers, dm_HTTPEnabled = True,
     dm_LastKnownTotalMembers = 0, dm_net = \<lparr> net_replies = replies, net_sent = [] \<rparr>, dm_connects = [], dm_writes = [],
     dm_reads = (\<lambda>_ _ _. []), dm_instances = 0, dm_log = [] \<rparr>"

definition an_answer :: reply where "an_answer = (Some \<lparr> res_StatusCode = 200, res_Body = Inr ''{}'' \<rparr>, None)"

lemma an_answer_answers: "answers sample_dl an_answer"
  by (simp add: answers_def an_answer_def sample_dl_def accept_def)

lemma sample_starting: "starting two_managers rs (sample_daemon rs)"
  by (simp add: starting_def sample_daemon_def two_managers_def zero_SandwichConfiguration_def NewMQClient_def)

lemma two_managers_list: "sc_Managers two_managers = [sample_config, sample_config\<lparr>mc_Identifier := ''other''\<rparr>]"
  by (simp add: two_managers_def)

lemma sample_identifiers: "\<forall>mc \<in> set (sc_Managers two_managers). mc_Identifier mc \<noteq> []"
  by (simp add: two_managers_list sample_config_def)

lemma sample_auto: "auto_started [sample_config, sample_config\<lparr>mc_Identifier := ''other''\<rparr>] = [''main'', ''other'']"
  "auto_started [sample_config\<lparr>mc_Identifier := ''other''\<rparr>] = [''other'']" "auto_started [] = []"
  by (simp_all add: auto_started_def sample_config_def)

theorem failed_start_opens_twice_witness:
  "\<exists>d'. startManagers (Suc (Suc 0)) sample_dl (sample_daemon ((None, Some (ErrLib ''timeout'')) # replicate 3 an_answer)) = (Ok (), d')
    \<and> opens (dm_log d') = [''main'', ''other'', ''other'']"
proof -
  let ?rs = "(None, Some (ErrLib ''timeout'')) # replicate 3 an_answer"
  have "starting two_managers ([] @ (None, Some (ErrLib ''timeout'')) # [an_answer, an_answer] @ [an_answer] @ []) (sample_daemon ?rs)"
    using sample_starting [of ?rs] by (simp add: numeral_3_eq_3)
  from failed_start_opens_twice [OF _ this, of "[]" sample_config "[sample_config\<lparr>mc_Identifier := ''other''\<rparr>]" sample_dl 0]
  have "\<exists>d'. startManagers (Suc (Suc 0)) sample_dl (sample_daemon ?rs) = (Ok (), d') \<and> opens (dm_log d') = opens (dm_log (sample_daemon ?rs)) @
      auto_started [] @ auto_started ([] @ sample_config # [sample_config\<lparr>mc_Identifier := ''other''\<rparr>]) @
      auto_started [sample_config\<lparr>mc_Identifier := ''other''\<rparr>]"
    using sample_identifiers by (simp add: two_managers_list an_answer_answers)
  moreover have "opens (dm_log (sample_daemon ?rs)) = []" by (simp add: sample_daemon_def)
  ultimately show ?thesis by (simp add: sample_auto)
qed

theorem ejector_forgets_unknown_guilds_witness:
  "guild_view (env_State (dm_env (snd (cacheEjector ((sample_daemon [])\<lparr>dm_env := on_State (put_guild sample_guild) sample_env\<rparr>)))))
    (guild_ID sample_guild) = forgotten"
proof -
  let ?d = "(sample_daemon [])\<lparr>dm_env := on_State (put_guild sample_guild) sample_env\<rparr>"
  have "state_ok (env_State (dm_env ?d))"
    by (simp add: sample_env_def state_ok_update state_update.intros state_ok_New)
  moreover have "Cache_Load csm (Guilds (env_State (dm_env ?d))) (guild_ID sample_guild) \<noteq> None"
    by (simp add: put_guild_def sample_env_def NewSandwichState_def csm.Load_Store)
  moreover have "shard_guilds ?d = []" by (simp add: shard_guilds_def sample_daemon_def)
  ultimately show ?thesis
    using ejector_forgets_unknown_guilds [of ?d "fst (cacheEjector ?d)" "snd (cacheEjector ?d)"] by simp
qed

theorem failed_restart_panics_witness:
  "\<exists>e d'. Initialize sample_dl ''main'' True ((store_new ''main'' ((NewManager sample_config)\<lparr>mg_hasProducer := True, mg_ProducerType := ''redis''\<rparr>)
       (sample_daemon [an_answer, an_answer]))\<lparr>dm_connects := [Some (ErrLib ''refused'')]\<rparr>) = (Ok (Some e), d')
     \<and> (\<exists>why. fst (Initialize sample_dl ''main'' False d') = Panic why)"
proof -
  let ?d = "(store_new ''main'' ((NewManager sample_config)\<lparr>mg_hasProducer := True, mg_ProducerType := ''redis''\<rparr>)
       (sample_daemon [an_answer, an_answer]))\<lparr>dm_connects := [Some (ErrLib ''refused'')]\<rparr>"
  obtain s where s: "find_manager ?d ''main'' = Some s"
    "ms_Manager s = (NewManager sample_config)\<lparr>mg_hasProducer := True, mg_ProducerType := ''redis''\<rparr>" by simp
  have "\<not> mg_ProducerClosed (NewManager sample_config)" by (simp add: NewManager_def zero_Manager_def)
  moreover have "net_replies (dm_net ?d) = [an_answer, an_answer]" "NewMQClient (sc_ProducerType (dm_Configuration ?d)) = None"
    by (simp_all add: store_new_def sample_daemon_def two_managers_def zero_SandwichConfiguration_def NewMQClient_def)
  ultimately show ?thesis
    using failed_restart_panics [OF s(1), of an_answer an_answer "[]" sample_dl "ErrLib ''refused''" "[]" False] s(2) an_answer_answers
    by simp
qed

end
