(* ===== verification/Rest.thy ===== *)
theory Rest
  imports Daemon "HOL-Library.List_Lexorder" "HOL-Library.Char_ord"
begin

text \<open>
  \<^verbatim>\<open>internal/rest.go\<close>, the frame of the HTTP interface: the context of a request, its answer, who is logged in, and the
  guards of the endpoints. The router, the sessions and the OAuth client are third-party: what they answer is in the
  context and in \<open>rest_lib\<close>.
\<close>

section \<open>Answers\<close>

record StatusEndpointShardGroup =
  ssg_Shards :: "(int \<times> int \<times> int \<times> int \<times> int \<times> int) list"
  ssg_Uptime :: int
  ssg_ShardGroupID :: int32
  ssg_Status :: ShardGroupStatus

record StatusEndpointManager =
  sem_DisplayName :: string
  sem_ShardGroups :: "StatusEndpointShardGroup list"
  sem_UserCount :: int
  sem_MemberCount :: int

record StatusEndpointResponse =
  ser_Managers :: "StatusEndpointManager list"
  ser_Uptime :: int

datatype rest_data =
    DataNone
  | DataText string
  | DataUser User
  | DataChannels "Channel list"
  | DataChannel "Channel option"
  | DataRoles "Role list"
  | DataMember GuildMember
  | DataGuild Guild
  | DataInts "int list"
  | DataStatus StatusEndpointResponse
  | DataManager StatusEndpointManager
  | DataUserResponse User bool bool
  | DataConfiguration SandwichConfiguration

record BaseRestResponse =
  brr_Data :: rest_data
  brr_Error :: string
  brr_Ok :: bool

record GatewayBotResponse =
  gbr_URL :: string
  gbr_Shards :: int32
  gbr_Total :: int32
  gbr_Remaining :: int32
  gbr_ResetAfter :: int32
  gbr_MaxConcurrency :: int32

datatype rest_body = RestResponse BaseRestResponse | RawGateway GatewayBotResponse

section \<open>Requests\<close>

text \<open>
  \<open>rc_Session\<close> is what the session provider finds: an error, or what the session stores under \<^verbatim>\<open>user\<close>;
  \<open>rc_SessionSave\<close> the outcome of saving a session. Next come the user values of the context, which are unset at
  first (\<open>rc_manager\<close> is the part of the path that the router stores), and the response.
\<close>

record RequestCtx =
  rc_Method :: string
  rc_Path :: string
  rc_Header :: "string \<Rightarrow> string"
  rc_Query :: "string \<Rightarrow> string"
  rc_PostBody :: bytes
  rc_Session :: "go_error + bytes option"
  rc_SessionSave :: "go_error option"
  rc_manager :: "string option"
  rc_isLoggedIn :: "bool option"
  rc_isAuthenticated :: "bool option"
  rc_user :: "User option"
  rc_StatusCode :: int
  rc_Written :: "rest_body list"
  rc_ResponseHeader :: "(string \<times> string) list"

record web =
  wb_ctx :: RequestCtx
  wb_daemon :: daemon

definition on_ctx :: "(RequestCtx \<Rightarrow> RequestCtx) \<Rightarrow> web \<Rightarrow> web" where
  "on_ctx f w = w\<lparr>wb_ctx := f (wb_ctx w)\<rparr>"

definition on_daemon :: "(daemon, 'a) prog \<Rightarrow> (web, 'a) prog" where
  "on_daemon m w = (case m (wb_daemon w) of (r, d) \<Rightarrow> (r, w\<lparr>wb_daemon := d\<rparr>))"

definition on_env :: "(env, 'a) prog \<Rightarrow> (web, 'a) prog" where
  "on_env m = on_daemon (\<lambda>d. case m (dm_env d) of (r, e) \<Rightarrow> (r, d\<lparr>dm_env := e\<rparr>))"

text \<open>A goroutine that is started: it runs until it ends or waits; a panic in it ends the daemon.\<close>

definition spawn :: "('s, unit) prog \<Rightarrow> ('s, unit) prog" where
  "spawn m s = (case m s of
     (Ok _, s') \<Rightarrow> (Ok (), s')
   | (Panic why, s') \<Rightarrow> if why = out_of_fuel then (Ok (), s') else (Panic why, s'))"

record CreateManagerArguments =
  cma_Identifier :: string
  cma_ProducerIdentifier :: string
  cma_FriendlyName :: string
  cma_Token :: string
  cma_ClientName :: string
  cma_ChannelName :: string

record CreateManagerShardGroupArguments =
  csa_ShardIDs :: string
  csa_Identifier :: string
  csa_ShardCount :: int32
  csa_AutoSharded :: bool

text \<open>
  What is not in the repository: JSON, the environment, the OAuth client, the handlers of files and profiles, the
  times since shards and groups started, and the cache of the status (its entry, if it has one of the last 30 seconds).
\<close>

record rest_lib =
  rl_daemon :: daemon_lib
  rl_marshals :: "rest_body \<Rightarrow> bool"
  rl_marshal_user :: "User \<Rightarrow> go_error + bytes"
  rl_num_error :: "string \<Rightarrow> num_error \<Rightarrow> string"
  rl_GuildIDs :: "GuildID list decoder"
  rl_SandwichConfiguration :: "SandwichConfiguration decoder"
  rl_CreateManagerArguments :: "CreateManagerArguments decoder"
  rl_ManagerConfiguration :: "ManagerConfiguration decoder"
  rl_CreateManagerShardGroupArguments :: "CreateManagerShardGroupArguments decoder"
  rl_getenv :: "string \<Rightarrow> string"
  rl_AuthCodeURL :: "string \<Rightarrow> string"
  rl_Exchange :: "string \<Rightarrow> string \<Rightarrow> go_error option"
  rl_fetch_user :: "string \<Rightarrow> go_error option \<times> bytes option"
  rl_dist :: "RequestCtx \<Rightarrow> RequestCtx"
  rl_pprof :: "RequestCtx \<Rightarrow> RequestCtx"
  rl_uptime :: int
  rl_group_uptime :: "int32 \<Rightarrow> int"
  rl_shard_uptimes :: "int32 \<Rightarrow> int32 \<Rightarrow> int \<times> int"
  rl_status_cache :: "rest_data option"
  rl_elapsed :: int
  rl_fuel :: nat

abbreviation rl_lib :: "rest_lib \<Rightarrow> lib" where
  "rl_lib rl \<equiv> dl_lib (rl_daemon rl)"

section \<open>Answering\<close>

definition StatusOK :: int where "StatusOK = 200"
definition StatusTemporaryRedirect :: int where "StatusTemporaryRedirect = 307"
definition RestBadRequest :: int where "RestBadRequest = 400"
definition StatusUnauthorized :: int where "StatusUnauthorized = 401"
definition StatusForbidden :: int where "StatusForbidden = 403"
definition StatusNotFound :: int where "StatusNotFound = 404"
definition StatusTooManyRequests :: int where "StatusTooManyRequests = 429"
definition RestInternalError :: int where "RestInternalError = 500"

definition writeResponse :: "rest_lib \<Rightarrow> int \<Rightarrow> rest_body \<Rightarrow> (web, unit) prog" where
  "writeResponse rl statusCode i =
     (if rl_marshals rl i
      then upd (on_ctx (\<lambda>c. c\<lparr>rc_Written := rc_Written c @ [i], rc_StatusCode := statusCode\<rparr>))
      else upd (on_ctx (\<lambda>c. c\<lparr>rc_StatusCode := RestInternalError\<rparr>)))"

definition answer :: "rest_lib \<Rightarrow> rest_data \<Rightarrow> (web, unit) prog" where
  "answer rl x = writeResponse rl StatusOK (RestResponse \<lparr> brr_Data = x, brr_Error = [], brr_Ok = True \<rparr>)"

definition fail :: "rest_lib \<Rightarrow> int \<Rightarrow> string \<Rightarrow> (web, unit) prog" where
  "fail rl statusCode why = writeResponse rl statusCode (RestResponse \<lparr> brr_Data = DataNone, brr_Error = why, brr_Ok = False \<rparr>)"

definition Redirect :: "string \<Rightarrow> int \<Rightarrow> (web, unit) prog" where
  "Redirect uri statusCode = upd (on_ctx (\<lambda>c. c\<lparr>rc_StatusCode := statusCode,
     rc_ResponseHeader := AList.update ''Location'' uri (rc_ResponseHeader c)\<rparr>))"

section \<open>Guards\<close>

definition ErrUserMissingAccess :: string where "ErrUserMissingAccess = ''you are missing access''"
definition ErrUserNotLoggedIn :: string where "ErrUserNotLoggedIn = ''you are not logged in''"

definition internalEndpoint :: "rest_lib \<Rightarrow> (web, unit) prog \<Rightarrow> (web, unit) prog" where
  "internalEndpoint rl h =
     bnd (rd (\<lambda>w. rc_Header (wb_ctx w) ''X-Forwarded-For'')) (\<lambda>forwarded.
     if forwarded \<noteq> [] then fail rl StatusForbidden ''Forbidden'' else h)"

definition requireDiscordAuthentication :: "rest_lib \<Rightarrow> (web, unit) prog \<Rightarrow> (web, unit) prog" where
  "requireDiscordAuthentication rl h =
     bnd (rd (\<lambda>w. rc_isLoggedIn (wb_ctx w))) (\<lambda>v. case v of None \<Rightarrow> ret () | Some isLoggedIn \<Rightarrow>
     bnd (rd (\<lambda>w. rc_isAuthenticated (wb_ctx w))) (\<lambda>v. case v of None \<Rightarrow> ret () | Some isAuthenticated \<Rightarrow>
     if \<not> isLoggedIn then fail rl StatusUnauthorized ErrUserNotLoggedIn
     else
     bnd (rd (\<lambda>w. dm_HTTPEnabled (wb_daemon w))) (\<lambda>enabled.
     if \<not> isAuthenticated \<and> enabled then fail rl StatusForbidden ErrUserMissingAccess
     else h)))"

text \<open>The user values that the deferred function of \<^verbatim>\<open>authenticateValue\<close> sets, and the error it returns.\<close>

definition session_user :: "rest_lib \<Rightarrow> go_error + bytes option \<Rightarrow> string list \<Rightarrow> (bool \<times> bool \<times> User) \<times> go_error option" where
  "session_user rl session userAccess =
     (case session of
        Inl e \<Rightarrow> ((False, False, zero_User), Some e)
      | Inr None \<Rightarrow> ((False, False, zero_User), None)
      | Inr (Some userData) \<Rightarrow>
          (case dec_User (rl_lib rl) userData of
             (user, Some e) \<Rightarrow> ((False, False, user), Some e)
           | (user, None) \<Rightarrow> ((True, Snowflake_String (user_ID user) \<in> set userAccess, user), None)))"

definition authenticateValue :: "rest_lib \<Rightarrow> (web, go_error option) prog" where
  "authenticateValue rl =
     bnd (rd (\<lambda>w. session_user rl (rc_Session (wb_ctx w)) (sc_UserAccess (dm_Configuration (wb_daemon w)))))
       (\<lambda>((isLoggedIn, isAuthenticated, user), err).
     bnd (upd (on_ctx (\<lambda>c. c\<lparr>rc_isLoggedIn := Some isLoggedIn, rc_isAuthenticated := Some isAuthenticated, rc_user := Some user\<rparr>)))
       (\<lambda>_. ret err))"

section \<open>Logging in and out\<close>

definition LoginEndpoint :: "rest_lib \<Rightarrow> (web, unit) prog" where
  "LoginEndpoint rl =
     bnd (bnd (rd (\<lambda>w. sc_OAuth (dm_Configuration (wb_daemon w)))) deref) (\<lambda>oauth.
     Redirect (rl_AuthCodeURL rl oauth) StatusTemporaryRedirect)"

text \<open>\<open>Some err\<close> is the error with which the deferred function redirects; a missing body returns without one.\<close>

definition CallbackEndpoint :: "rest_lib \<Rightarrow> (web, unit) prog" where
  "CallbackEndpoint rl =
     bnd (bnd (rd (\<lambda>w. sc_OAuth (dm_Configuration (wb_daemon w)))) deref) (\<lambda>oauth.
     bnd (rd (\<lambda>w. rc_Query (wb_ctx w) ''code'')) (\<lambda>code.
     case rl_Exchange rl oauth code of
       Some _ \<Rightarrow> Redirect ''/'' StatusTemporaryRedirect
     | None \<Rightarrow>
         (case rl_fetch_user rl code of
            (Some _, _) \<Rightarrow> Redirect ''/'' StatusTemporaryRedirect
          | (None, None) \<Rightarrow> ret ()
          | (None, Some body) \<Rightarrow>
              (case dec_User (rl_lib rl) body of
                 (_, Some _) \<Rightarrow> Redirect ''/'' StatusTemporaryRedirect
               | (user, None) \<Rightarrow>
                   bnd (rd (\<lambda>w. rc_Session (wb_ctx w))) (\<lambda>store.
                   case store of
                     Inl _ \<Rightarrow> Redirect ''/'' StatusTemporaryRedirect
                   | Inr _ \<Rightarrow>
                       (case rl_marshal_user rl user of
                          Inl _ \<Rightarrow> Redirect ''/'' StatusTemporaryRedirect
                        | Inr userData \<Rightarrow>
                            bnd (upd (on_ctx (\<lambda>c. if rc_SessionSave c = None then c\<lparr>rc_Session := Inr (Some userData)\<rparr> else c))) (\<lambda>_.
                            Redirect ''/'' StatusTemporaryRedirect)))))))"

definition LogoutEndpoint :: "(web, unit) prog" where
  "LogoutEndpoint =
     bnd (rd (\<lambda>w. rc_Session (wb_ctx w))) (\<lambda>store.
     case store of
       Inl _ \<Rightarrow> ret ()
     | Inr _ \<Rightarrow>
         bnd (rd (\<lambda>w. rc_SessionSave (wb_ctx w))) (\<lambda>err.
         case err of
           Some _ \<Rightarrow> ret ()
         | None \<Rightarrow>
             bnd (upd (on_ctx (\<lambda>c. c\<lparr>rc_Session := Inr None\<rparr>))) (\<lambda>_.
             Redirect ''/'' StatusTemporaryRedirect)))"

definition UserEndpoint :: "rest_lib \<Rightarrow> (web, unit) prog" where
  "UserEndpoint rl =
     bnd (rd (\<lambda>w. DataUserResponse (zero_or zero_User (rc_user (wb_ctx w))) (rc_isLoggedIn (wb_ctx w) = Some True)
       (rc_isAuthenticated (wb_ctx w) = Some True))) (answer rl)"

end
