(* ===== verification/Rest_State.thy ===== *)
theory Rest_State
  imports Rest "HOL-Library.Signed_Division"
begin

text \<open>
  \<^verbatim>\<open>internal/rest.go\<close>, the internal endpoints: reading and writing the caches, the gateway information for consumers,
  and the status of the managers.
\<close>

section \<open>Caches\<close>

text \<open>The context of the writes, \<^verbatim>\<open>NewFakeCtx\<close>; its shard has no group, which the operations it is used for do not look at.\<close>

definition NewFakeCtx :: StateCtx where
  "NewFakeCtx = \<lparr> ctx_CacheUsers = True, ctx_CacheMembers = True, ctx_Stateless = False, ctx_StoreMutuals = True \<rparr>"

definition parse_id :: "rest_lib \<Rightarrow> string \<Rightarrow> (int64 \<Rightarrow> (web, unit) prog) \<Rightarrow> (web, unit) prog" where
  "parse_id rl text k =
     (case parse_int text of
        Inl e \<Rightarrow> fail rl RestBadRequest (rl_num_error rl text e)
      | Inr i \<Rightarrow> k (word_of_int i))"

definition parse_body :: "rest_lib \<Rightarrow> int \<Rightarrow> 'a decoder \<Rightarrow> ('a \<Rightarrow> (web, unit) prog) \<Rightarrow> (web, unit) prog" where
  "parse_body rl statusCode decode k =
     bnd (rd (\<lambda>w. decode (rc_PostBody (wb_ctx w)))) (\<lambda>(v, err).
     case err of
       Some e \<Rightarrow> fail rl statusCode (lib_error_text (rl_lib rl) e)
     | None \<Rightarrow> k v)"

definition by_method :: "(web, unit) prog \<Rightarrow> (web, unit) prog \<Rightarrow> (web, unit) prog" where
  "by_method get post = bnd (rd (\<lambda>w. rc_Method (wb_ctx w) = ''GET'')) (\<lambda>isGet. if isGet then get else post)"

definition state_users :: "rest_lib \<Rightarrow> string \<Rightarrow> (web, unit) prog" where
  "state_users rl ident =
     parse_id rl ident (\<lambda>idInt64.
     by_method
       (bnd (on_env (rd (\<lambda>e. GetUser (env_State e) idInt64))) (\<lambda>user.
        case user of None \<Rightarrow> fail rl RestBadRequest ''User not found'' | Some u \<Rightarrow> answer rl (DataUser u)))
       (parse_body rl RestBadRequest (dec_User (rl_lib rl)) (\<lambda>user.
        on_env (upd (\<lambda>e. on_State (\<lambda>ss. ss\<lparr>Users := Cache_Store csm (Users ss) (user_ID user) (UserToState (env_now e) user)\<rparr>) e)))))"

definition state_guild_channels :: "rest_lib \<Rightarrow> string \<Rightarrow> (web, unit) prog" where
  "state_guild_channels rl ident =
     parse_id rl ident (\<lambda>idInt64.
     by_method
       (bnd (on_env (rd (\<lambda>e. GetAllGuildChannels (env_State e) idInt64))) (\<lambda>channels.
        case channels of None \<Rightarrow> fail rl RestBadRequest ''Guild channel not found'' | Some cs \<Rightarrow> answer rl (DataChannels cs)))
       (parse_body rl RestBadRequest (dec_Channel (rl_lib rl)) (\<lambda>ch.
        on_env (upd (SetGuildChannel NewFakeCtx idInt64 ch)))))"

definition state_guild_roles :: "rest_lib \<Rightarrow> string \<Rightarrow> (web, unit) prog" where
  "state_guild_roles rl ident =
     parse_id rl ident (\<lambda>idInt64.
     by_method
       (bnd (on_env (rd (\<lambda>e. GetAllGuildRoles (env_State e) idInt64))) (\<lambda>roles.
        case roles of None \<Rightarrow> fail rl RestBadRequest ''Guild roles not found'' | Some rs \<Rightarrow> answer rl (DataRoles rs)))
       (ret ()))"

definition get_channel :: "rest_lib \<Rightarrow> GuildID option \<Rightarrow> ChannelID \<Rightarrow> (web, unit) prog" where
  "get_channel rl hint channelID =
     bnd (on_env (act (GetChannel hint channelID))) (\<lambda>(ch, ok).
     if \<not> ok then fail rl RestBadRequest ''Channel not found'' else answer rl (DataChannel ch))"

definition post_channel :: "Channel \<Rightarrow> (web, unit) prog" where
  "post_channel ch =
     (if (case chan_GuildID ch of Some g \<Rightarrow> \<not> IsNil g | None \<Rightarrow> False)
      then bnd (deref (chan_GuildID ch)) (\<lambda>g. on_env (upd (SetGuildChannel NewFakeCtx g ch)))
      else if chan_Type ch = ChannelTypeDM \<or> chan_Type ch = ChannelTypeGroupDM
      then (case elems (chan_Recipients ch) of
              [] \<Rightarrow> ret ()
            | recipient # _ \<Rightarrow> on_env (upd (AddDMChannel (user_ID recipient) ch)))
      else ret ())"

definition state_channels :: "rest_lib \<Rightarrow> string \<Rightarrow> (web, unit) prog" where
  "state_channels rl ident =
     parse_id rl ident (\<lambda>idInt64.
     by_method
       (bnd (rd (\<lambda>w. rc_Query (wb_ctx w) ''guild_id'')) (\<lambda>guildIdHint.
        if guildIdHint = [] then get_channel rl None idInt64
        else parse_id rl guildIdHint (\<lambda>g. get_channel rl (Some g) idInt64)))
       (parse_body rl RestBadRequest (dec_Channel (rl_lib rl)) post_channel))"

definition state_members :: "rest_lib \<Rightarrow> string \<Rightarrow> (web, unit) prog" where
  "state_members rl ident =
     parse_id rl ident (\<lambda>idInt64.
     bnd (rd (\<lambda>w. rc_Query (wb_ctx w) ''guild_id'')) (\<lambda>guildId.
     if guildId = [] then fail rl RestBadRequest ''Missing guild_id''
     else parse_id rl guildId (\<lambda>guildIdInt64.
     by_method
       (bnd (on_env (lift_res (\<lambda>e. GetGuildMember (rl_lib rl) (env_State e) guildIdInt64 idInt64))) (\<lambda>(member, ok).
        if \<not> ok then fail rl RestBadRequest ''Member not found'' else answer rl (DataMember member)))
       (parse_body rl RestBadRequest (dec_GuildMember (rl_lib rl)) (\<lambda>member.
        bnd (on_env (SetGuildMember NewFakeCtx guildIdInt64 member)) (\<lambda>_. answer rl DataNone))))))"

text \<open>The shard of a guild: the group and the number of the first one with that number.\<close>

definition findShardOfGuild :: "string \<Rightarrow> manager_slot \<Rightarrow> (num_error + (int32 \<times> int32) option) res" where
  "findShardOfGuild guildId mg =
     (case getShardIDFromGuildID guildId (scast (mg_GatewayShards (ms_Manager mg))) of
        Panic why \<Rightarrow> Panic why
      | Ok (Inl e) \<Rightarrow> Ok (Inl e)
      | Ok (Inr shardID64) \<Rightarrow>
          let shardID = ucast shardID64 :: int32 in
          Ok (Inr (map_option (\<lambda>(gid, _). (gid, shardID))
            (find (\<lambda>(_, g). shardID \<in> set (map fst (gr_Shards g))) (ms_ShardGroups mg)))))"

definition state_guilds :: "rest_lib \<Rightarrow> string \<Rightarrow> string \<Rightarrow> (web, unit) prog" where
  "state_guilds rl managerKey ident =
     parse_id rl ident (\<lambda>idInt64.
     by_method
       (bnd (on_env (rd (\<lambda>e. GetGuild (env_State e) idInt64))) (\<lambda>(guild, ok).
        if \<not> ok then fail rl RestBadRequest ''Guild not found'' else answer rl (DataGuild guild)))
       (parse_body rl RestBadRequest (dec_Guild (rl_lib rl)) (\<lambda>guild.
        bnd (bnd (rd (\<lambda>w. find_manager (wb_daemon w) managerKey)) deref) (\<lambda>mg.
        bnd (\<lambda>w. (findShardOfGuild ident mg, w)) (\<lambda>found.
        case found of
          Inl e \<Rightarrow> fail rl RestBadRequest (rl_num_error rl ident e)
        | Inr None \<Rightarrow> fail rl RestBadRequest (''could not find shard for guild '' @ ident)
        | Inr (Some (gid, sid)) \<Rightarrow>
            bnd (on_daemon (with_manager managerKey (with_shard gid sid (SetGuild (rl_lib rl) NewFakeCtx guild)))) (\<lambda>_.
            answer rl DataNone))))))"

text \<open>The manager that the path names; the user value is a string, as the router has set it.\<close>

definition path_manager :: "rest_lib \<Rightarrow> (string \<Rightarrow> manager_slot \<Rightarrow> (web, unit) prog) \<Rightarrow> (web, unit) prog" where
  "path_manager rl k =
     bnd (bnd (rd (\<lambda>w. rc_manager (wb_ctx w))) deref) (\<lambda>managerKey.
     bnd (rd (\<lambda>w. find_manager (wb_daemon w) managerKey)) (\<lambda>mg.
     case mg of None \<Rightarrow> fail rl RestBadRequest ''Manager not found'' | Some s \<Rightarrow> k managerKey s))"

definition StateEndpoint :: "rest_lib \<Rightarrow> (web, unit) prog" where
  "StateEndpoint rl =
     path_manager rl (\<lambda>managerKey _.
     bnd (rd (\<lambda>w. (rc_Query (wb_ctx w) ''col'', rc_Query (wb_ctx w) ''id''))) (\<lambda>(col, ident).
     if col = [] \<or> ident = [] then fail rl RestBadRequest ''Missing col or id''
     else if col = ''users'' then state_users rl ident
     else if col = ''guild_channels'' then state_guild_channels rl ident
     else if col = ''guild_roles'' then state_guild_roles rl ident
     else if col = ''channels'' then state_channels rl ident
     else if col = ''members'' then state_members rl ident
     else if col = ''guilds'' then state_guilds rl managerKey ident
     else ret ()))"

definition CurrentUserEndpoint :: "rest_lib \<Rightarrow> (web, unit) prog" where
  "CurrentUserEndpoint rl = path_manager rl (\<lambda>_ s. answer rl (DataUser (mg_User (ms_Manager s))))"

definition BulkHasGuildEndpoint :: "rest_lib \<Rightarrow> (web, unit) prog" where
  "BulkHasGuildEndpoint rl =
     parse_body rl RestBadRequest (rl_GuildIDs rl) (\<lambda>guildIDs.
     bnd (on_env (rd (\<lambda>e. map (\<lambda>g. if Cache_Has csm (Guilds (env_State e)) g then 1 else 0) guildIDs))) (\<lambda>results.
     answer rl (DataInts results)))"

definition CreateChaosEndpoint :: "rest_lib \<Rightarrow> (web, unit) prog" where
  "CreateChaosEndpoint rl =
     path_manager rl (\<lambda>managerKey s.
     bnd (rd (\<lambda>w. rc_Query (wb_ctx w) ''sessionId'')) (\<lambda>sessionId.
     if sessionId = [] then fail rl RestBadRequest ''Missing sessionId''
     else if \<not> mg_hasProducer (ms_Manager s) \<or> mg_ProducerClosed (ms_Manager s) \<and> mg_ProducerType (ms_Manager s) = ''websocket''
     then panic ''nil pointer dereference''
     else on_daemon (upd (log_effect (DeStopSession managerKey sessionId)))))"

section \<open>The gateway that consumers see\<close>

definition consumer_address :: "rest_lib \<Rightarrow> (string \<times> opt) list \<Rightarrow> string \<Rightarrow> string" where
  "consumer_address rl options address =
     (if rl_getenv rl ''EXTERNAL_GATEWAY_ADDRESS'' \<noteq> [] then rl_getenv rl ''EXTERNAL_GATEWAY_ADDRESS''
      else external_address address (GetEntry options ''ExternalAddress''))"

definition consumer_gateway :: "rest_lib \<Rightarrow> Manager \<Rightarrow> string \<Rightarrow> GatewayBotResponse" where
  "consumer_gateway rl mg url = \<lparr>
     gbr_URL = url,
     gbr_Shards = ConsumerShardCount mg,
     gbr_Total = mg_GatewayTotal mg,
     gbr_Remaining = 1000,
     gbr_ResetAfter = mg_GatewayResetAfter mg,
     gbr_MaxConcurrency =
       (if 0 < sint (mc_GatewayBotMaxConcurrency (mg_Configuration mg)) then mc_GatewayBotMaxConcurrency (mg_Configuration mg)
        else word_of_int (sint (ConsumerShardCount mg) sdiv 2) + 1) \<rparr>"

definition GatewayEndpoint :: "rest_lib \<Rightarrow> (web, unit) prog" where
  "GatewayEndpoint rl =
     path_manager rl (\<lambda>managerKey s.
     let mg = ms_Manager s in
     if mg_GatewayTotal mg = 0 then fail rl RestBadRequest ''Manager not yet initialized''
     else
     bnd (rd (\<lambda>w. Manager_AllReady (load_manager managerKey s (wb_daemon w)))) (\<lambda>ready.
     if \<not> ready then
       bnd (upd (on_ctx (\<lambda>c. c\<lparr>rc_ResponseHeader := AList.update ''x-ratelimit-scope'' ''shared''
         (AList.update ''Retry-After'' ''7'' (rc_ResponseHeader c))\<rparr>))) (\<lambda>_.
       fail rl StatusTooManyRequests ''{\"error\":\"Manager not yet ready to accept connections\"}'')
     else
     bnd (rd (\<lambda>w. sc_ProducerConfiguration (dm_Configuration (wb_daemon w)))) (\<lambda>options.
     case opt_string (GetEntry options ''Address'') of
       None \<Rightarrow> fail rl RestBadRequest ''Address not found''
     | Some address \<Rightarrow>
         writeResponse rl StatusOK (RawGateway (consumer_gateway rl mg (consumer_address rl options address))))))"

end
