(* ===== verification/Rest_Admin.thy ===== *)
theory Rest_Admin
  imports Rest_State
begin

text \<open>
  \<^verbatim>\<open>internal/rest.go\<close>, the endpoints of the dashboard: the status, the configuration, creating, changing and deleting
  managers, opening and closing shard groups; and the table of routes with the handler of all requests.
\<close>

section \<open>Status\<close>

fun ShardStatus_int :: "ShardStatus \<Rightarrow> int" where
  "ShardStatus_int ShardStatusIdle = 0"
| "ShardStatus_int ShardStatusConnecting = 1"
| "ShardStatus_int ShardStatusConnected = 2"
| "ShardStatus_int ShardStatusReady = 3"
| "ShardStatus_int ShardStatusReconnecting = 4"
| "ShardStatus_int ShardStatusClosing = 5"
| "ShardStatus_int ShardStatusClosed = 6"
| "ShardStatus_int ShardStatusErroring = 7"

definition shard_row :: "rest_lib \<Rightarrow> int32 \<Rightarrow> Shard \<Rightarrow> int \<times> int \<times> int \<times> int \<times> int \<times> int" where
  "shard_row rl gid sh =
     (sint (sh_ShardID sh), ShardStatus_int (sh_Status sh), sh_LastHeartbeatAck sh - sh_LastHeartbeatSent sh,
      int (Cache_Count csm (sh_Guilds sh)), fst (rl_shard_uptimes rl gid (sh_ShardID sh)), snd (rl_shard_uptimes rl gid (sh_ShardID sh)))"

definition group_status :: "rest_lib \<Rightarrow> group \<Rightarrow> StatusEndpointShardGroup" where
  "group_status rl g = \<lparr>
     ssg_Shards = concat (map (\<lambda>sid. case map_of (gr_Shards g) sid of
         None \<Rightarrow> [] | Some s \<Rightarrow> [shard_row rl (sg_ID (gr_Data g)) (sl_Shard s)]) (sort_key sint (map fst (gr_Shards g)))),
     ssg_Uptime = rl_group_uptime rl (sg_ID (gr_Data g)),
     ssg_ShardGroupID = sg_ID (gr_Data g),
     ssg_Status = sg_Status (gr_Data g) \<rparr>"

definition getManagerShardGroupStatus :: "rest_lib \<Rightarrow> manager_slot \<Rightarrow> StatusEndpointShardGroup list" where
  "getManagerShardGroupStatus rl s =
     concat (map (\<lambda>gid. case map_of (ms_ShardGroups s) gid of None \<Rightarrow> [] | Some g \<Rightarrow> [group_status rl g])
       (sort_key sint (map fst (filter (\<lambda>(_, g). sg_Status (gr_Data g) \<noteq> ShardGroupStatusClosed) (ms_ShardGroups s)))))"

definition manager_status :: "rest_lib \<Rightarrow> daemon \<Rightarrow> manager_slot \<Rightarrow> StatusEndpointManager" where
  "manager_status rl d s = \<lparr>
     sem_DisplayName = mc_FriendlyName (mg_Configuration (ms_Manager s)),
     sem_ShardGroups = getManagerShardGroupStatus rl s,
     sem_UserCount = int (Cache_Count csm (Users (env_State (dm_env d)))),
     sem_MemberCount = dm_LastKnownTotalMembers d \<rparr>"

definition all_status :: "rest_lib \<Rightarrow> daemon \<Rightarrow> StatusEndpointResponse" where
  "all_status rl d =
     (let unsortedManagers = fold (\<lambda>(_, s). AList.update
            (mc_FriendlyName (mg_Configuration (ms_Manager s)) @ '':'' @ mc_Identifier (mg_Configuration (ms_Manager s)))
            (manager_status rl d s)) (dm_Managers d) []
      in \<lparr> ser_Managers = concat (map (\<lambda>keyName. case map_of unsortedManagers keyName of None \<Rightarrow> [] | Some m \<Rightarrow> [m])
             (sort (map fst unsortedManagers))),
           ser_Uptime = rl_uptime rl \<rparr>)"

definition ErrNoManagerPresent :: string where "ErrNoManagerPresent = ''invalid manager identifier passed''"
definition ErrDuplicateManagerPresent :: string where "ErrDuplicateManagerPresent = ''duplicate manager identifier passed''"

definition StatusEndpoint :: "rest_lib \<Rightarrow> (web, unit) prog" where
  "StatusEndpoint rl =
     bnd (rd (\<lambda>w. rc_Query (wb_ctx w) ''manager'')) (\<lambda>manager.
     if manager = [] then
       bnd (rd (\<lambda>w. case rl_status_cache rl of Some x \<Rightarrow> x | None \<Rightarrow> DataStatus (all_status rl (wb_daemon w)))) (answer rl)
     else
     bnd (rd (\<lambda>w. find_manager (wb_daemon w) manager)) (\<lambda>s.
     case s of
       None \<Rightarrow> fail rl RestBadRequest ErrNoManagerPresent
     | Some s \<Rightarrow> bnd (rd (\<lambda>w. DataManager (manager_status rl (wb_daemon w) s))) (answer rl)))"

section \<open>Configuration\<close>

definition SandwichGetEndpoint :: "rest_lib \<Rightarrow> (web, unit) prog" where
  "SandwichGetEndpoint rl = bnd (rd (\<lambda>w. DataConfiguration (dm_Configuration (wb_daemon w)))) (answer rl)"

text \<open>The arguments of a webhook that names the user are evaluated before its goroutine starts.\<close>

definition user_webhook :: "string \<Rightarrow> string \<Rightarrow> string \<Rightarrow> (web, unit) prog" where
  "user_webhook title description footer =
     bnd (bnd (rd (\<lambda>w. rc_user (wb_ctx w))) deref) (\<lambda>user.
     on_daemon (upd (log_effect (DeWebhook title description (footer @ ''User: '' @ user_Username user)))))"

definition save_or :: "rest_lib \<Rightarrow> (web, unit) prog \<Rightarrow> (web, unit) prog" where
  "save_or rl k =
     bnd (on_daemon (bnd (rd dm_Configuration) (SaveConfiguration (rl_daemon rl)))) (\<lambda>err.
     case err of
       Some e \<Rightarrow> fail rl RestInternalError (lib_error_text (rl_lib rl) e)
     | None \<Rightarrow> k)"

text \<open>The blacklists of a configuration that has them, for the running manager.\<close>

definition apply_blacklists :: "ManagerConfiguration \<Rightarrow> Manager \<Rightarrow> Manager" where
  "apply_blacklists mc mg =
     (let mg = (case mc_EventBlacklist mc of None \<Rightarrow> mg | Some bl \<Rightarrow> mg\<lparr>mg_eventBlacklist := bl\<rparr>)
      in case mc_ProduceBlacklist mc of None \<Rightarrow> mg | Some bl \<Rightarrow> mg\<lparr>mg_produceBlacklist := bl\<rparr>)"

definition refresh_manager :: "ManagerConfiguration \<Rightarrow> Manager \<Rightarrow> Manager" where
  "refresh_manager mc mg =
     (apply_blacklists mc mg)\<lparr>mg_metadata := \<lparr> md_Version = VERSION, md_Identifier = mc_Identifier mc,
        md_Application = mg_Identifier mg, md_ApplicationID = mg_UserID mg, md_Shard = (0, 0, 0) \<rparr>\<rparr>"

definition SandwichUpdateEndpoint :: "rest_lib \<Rightarrow> (web, unit) prog" where
  "SandwichUpdateEndpoint rl =
     parse_body rl RestInternalError (rl_SandwichConfiguration rl) (\<lambda>sandwichConfiguration.
     bnd (on_daemon (upd (\<lambda>d. d\<lparr>dm_Configuration := sandwichConfiguration\<lparr>sc_Managers := sc_Managers (dm_Configuration d)\<rparr>\<rparr>))) (\<lambda>_.
     save_or rl (
     bnd (user_webhook ''Updated sandwich config'' [] []) (\<lambda>_.
     bnd (on_daemon (upd (\<lambda>d. fold (\<lambda>mc. on_mg (mc_Identifier mc) (refresh_manager mc)) (sc_Managers (dm_Configuration d)) d))) (\<lambda>_.
     answer rl (DataText ''Changes applied.''))))))"

section \<open>Managers\<close>

definition zero_ManagerConfiguration :: ManagerConfiguration where
  "zero_ManagerConfiguration = \<lparr>
     mc_ShardIDs = [], mc_ShardCount = 0, mc_AutoSharded = False, mc_Identifier = [], mc_ProducerIdentifier = [],
     mc_Token = [], mc_FriendlyName = [], mc_EventBlacklist = None, mc_ProduceBlacklist = None, mc_ClientName = [],
     mc_ChannelName = [], mc_UseRandomSuffix = False, mc_Intents = 0,
     mc_DefaultPresence = \<lparr> us_Status = [], us_Activities = None, us_Since = 0, us_AFK = False \<rparr>,
     mc_ChunkGuildsOnStartup = False, mc_CacheUsers = False, mc_CacheMembers = False, mc_StoreMutuals = False,
     mc_AutoStart = False, mc_DisableTrace = False,
     mc_VirtualShards = \<lparr> vsc_Enabled = False, vsc_Count = 0, vsc_DmShard = 0 \<rparr>, mc_GatewayBotMaxConcurrency = 0 \<rparr>"

definition created_configuration :: "CreateManagerArguments \<Rightarrow> ManagerConfiguration" where
  "created_configuration args = zero_ManagerConfiguration\<lparr>
     mc_Identifier := cma_Identifier args, mc_ProducerIdentifier := cma_ProducerIdentifier args,
     mc_FriendlyName := cma_FriendlyName args, mc_Token := cma_Token args,
     mc_ClientName := cma_ClientName args, mc_ChannelName := cma_ChannelName args, mc_UseRandomSuffix := True\<rparr>"

definition ManagerCreateEndpoint :: "rest_lib \<Rightarrow> (web, unit) prog" where
  "ManagerCreateEndpoint rl =
     parse_body rl RestInternalError (rl_CreateManagerArguments rl) (\<lambda>args.
     let key = cma_Identifier args; defaultConfiguration = created_configuration args in
     bnd (rd (\<lambda>w. find_manager (wb_daemon w) key \<noteq> None)) (\<lambda>ok.
     if ok then fail rl RestBadRequest ErrDuplicateManagerPresent
     else
     bnd (on_daemon (upd (store_new key (NewManager defaultConfiguration)))) (\<lambda>_.
     bnd (on_daemon (upd (\<lambda>d. d\<lparr>dm_Configuration :=
       (dm_Configuration d)\<lparr>sc_Managers := sc_Managers (dm_Configuration d) @ [defaultConfiguration]\<rparr>\<rparr>))) (\<lambda>_.
     save_or rl (
     bnd (user_webhook (''Created new manager `'' @ key @ ''`'') [] []) (\<lambda>_.
     answer rl (DataText (''Manager '' @ [CHR 0x27] @ key @ [CHR 0x27] @ '' created''))))))))"

text \<open>The manager that the query names.\<close>

definition query_manager :: "rest_lib \<Rightarrow> (string \<Rightarrow> (web, unit) prog) \<Rightarrow> (web, unit) prog" where
  "query_manager rl k =
     bnd (rd (\<lambda>w. rc_Query (wb_ctx w) ''manager'')) (\<lambda>managerName.
     bnd (rd (\<lambda>w. find_manager (wb_daemon w) managerName \<noteq> None)) (\<lambda>ok.
     if \<not> ok then fail rl RestBadRequest ErrNoManagerPresent else k managerName))"

definition initialize_or :: "rest_lib \<Rightarrow> int \<Rightarrow> string \<Rightarrow> (web, unit) prog \<Rightarrow> (web, unit) prog" where
  "initialize_or rl statusCode key k =
     bnd (rd (\<lambda>w. rc_Query (wb_ctx w) ''forceRestartProducers'' = ''true'')) (\<lambda>forceRestartProducers.
     bnd (on_daemon (Initialize (rl_daemon rl) key forceRestartProducers)) (\<lambda>err.
     case err of
       Some e \<Rightarrow> fail rl statusCode (lib_error_text (rl_lib rl) e)
     | None \<Rightarrow> k))"

definition ManagerInitializeEndpoint :: "rest_lib \<Rightarrow> (web, unit) prog" where
  "ManagerInitializeEndpoint rl =
     query_manager rl (\<lambda>managerName.
     initialize_or rl RestInternalError managerName
       (answer rl (DataText ''Manager initialized, you may start up shardgroups now'')))"

definition ManagerUpdateEndpoint :: "rest_lib \<Rightarrow> (web, unit) prog" where
  "ManagerUpdateEndpoint rl =
     parse_body rl RestInternalError (rl_ManagerConfiguration rl) (\<lambda>managerConfiguration.
     let key = mc_Identifier managerConfiguration in
     bnd (rd (\<lambda>w. find_manager (wb_daemon w) key \<noteq> None)) (\<lambda>ok.
     if \<not> ok then fail rl RestBadRequest ErrNoManagerPresent
     else
     bnd (on_daemon (upd (on_mg key (\<lambda>mg. mg\<lparr>mg_Configuration := managerConfiguration\<rparr>)))) (\<lambda>_.
     bnd (on_daemon (upd (on_mg key (\<lambda>mg. mg\<lparr>mg_ClientToken := mc_Token (mg_Configuration mg)\<rparr>)))) (\<lambda>_.
     initialize_or rl RestBadRequest key (
     bnd (on_daemon (upd (\<lambda>d. d\<lparr>dm_Configuration := (dm_Configuration d)\<lparr>sc_Managers :=
       filter (\<lambda>mc. mc_Identifier mc \<noteq> key) (sc_Managers (dm_Configuration d)) @ [managerConfiguration]\<rparr>\<rparr>))) (\<lambda>_.
     save_or rl (
     bnd (user_webhook (''Updated manager `'' @ key @ ''`'') [] []) (\<lambda>_.
     bnd (on_daemon (upd (on_mg key (apply_blacklists managerConfiguration)))) (\<lambda>_.
     answer rl (DataText ''Changes applied. You may need to make a new shard group to apply changes''))))))))))"

definition ManagerDeleteEndpoint :: "rest_lib \<Rightarrow> (web, unit) prog" where
  "ManagerDeleteEndpoint rl =
     query_manager rl (\<lambda>managerName.
     bnd (on_daemon (with_manager managerName Manager_Close)) (\<lambda>_.
     bnd (on_daemon (upd (\<lambda>d. d\<lparr>dm_Managers := AList.delete managerName (dm_Managers d)\<rparr>))) (\<lambda>_.
     bnd (on_daemon (upd (\<lambda>d. d\<lparr>dm_Configuration := (dm_Configuration d)\<lparr>sc_Managers :=
       filter (\<lambda>mc. mc_Identifier mc \<noteq> managerName) (sc_Managers (dm_Configuration d))\<rparr>\<rparr>))) (\<lambda>_.
     save_or rl (
     bnd (user_webhook (''Deleted manager `'' @ managerName @ ''`'') [] []) (\<lambda>_.
     answer rl (DataText ''Removed manager.'')))))))"

section \<open>Shard groups\<close>

text \<open>
  The body of the call on the manager: \<open>Inl\<close> is the error with which opening failed, after which the group is taken out
  of the table again. The goroutine that makes the group ready and closes the others runs until it waits.
\<close>

definition create_group :: "rest_lib \<Rightarrow> CreateManagerShardGroupArguments \<Rightarrow> (fleet, go_error + int32) prog" where
  "create_group rl args =
     bnd (act (\<lambda>fl. case getInitialShardCount (csa_ShardCount args) (csa_ShardIDs args) (csa_AutoSharded args) (env_Manager (fl_env fl)) of
       (res, mg) \<Rightarrow> (res, fl\<lparr>fl_env := (fl_env fl)\<lparr>env_Manager := mg\<rparr>\<rparr>))) (\<lambda>(shardIDs, shardCount).
     bnd (act (Scale shardIDs shardCount)) (\<lambda>gid.
     bnd (SG_Open (rl_fuel rl) (rl_lib rl) gid) (\<lambda>(err, ready).
     case err of
       Some e \<Rightarrow> bnd (upd (\<lambda>fl. fl\<lparr>fl_ShardGroups := AList.delete gid (fl_ShardGroups fl)\<rparr>)) (\<lambda>_. ret (Inl e))
     | None \<Rightarrow> bnd (spawn (group_ready gid)) (\<lambda>_. ret (Inr gid)))))"

definition ShardGroupCreateEndpoint :: "rest_lib \<Rightarrow> (web, unit) prog" where
  "ShardGroupCreateEndpoint rl =
     parse_body rl RestInternalError (rl_CreateManagerShardGroupArguments rl) (\<lambda>args.
     let key = csa_Identifier args in
     bnd (rd (\<lambda>w. find_manager (wb_daemon w) key)) (\<lambda>manager.
     case manager of
       None \<Rightarrow> fail rl RestBadRequest ErrNoManagerPresent
     | Some s \<Rightarrow>
         bnd (on_daemon (with_manager key (create_group rl args))) (\<lambda>res.
         case res of
           Inl e \<Rightarrow> fail rl RestBadRequest (lib_error_text (rl_lib rl) e)
         | Inr gid \<Rightarrow>
             bnd (user_webhook ''Launched new shardgroup''
               (''Shard count: `'' @ format_int (sint (csa_ShardCount args)) @ ''` - Shards: `'' @ csa_ShardIDs args @ ''`'')
               (''Manager: '' @ mg_Identifier (ms_Manager s) @ '' ShardGroup: '' @ format_int (sint gid) @ '' '')) (\<lambda>_.
             answer rl (DataText ''ShardGroup successfully created'')))))"

definition ShardGroupStopEndpoint :: "rest_lib \<Rightarrow> (web, unit) prog" where
  "ShardGroupStopEndpoint rl =
     query_manager rl (\<lambda>managerName.
     bnd (on_daemon (with_manager managerName Manager_Close)) (\<lambda>_.
     answer rl (DataText ''Manager shardgroups closed'')))"

section \<open>Routes\<close>

datatype endpoint =
    EpLogin | EpLogout | EpCallback | EpStatus | EpUser | EpState | EpCurrentUser | EpBulkHasGuild | EpGateway
  | EpSandwichGet | EpSandwichUpdate | EpPprof | EpManagerCreate | EpManagerInitialize | EpManagerUpdate
  | EpManagerDelete | EpShardGroupCreate | EpShardGroupStop | EpCreateChaos

datatype guard = Anonymous | Internal | Dashboard

type_synonym route = "string \<times> string"

definition NewRestRouter :: "(route \<times> guard \<times> endpoint) list" where
  "NewRestRouter = [
     ((''GET'', ''/login''), Anonymous, EpLogin),
     ((''GET'', ''/logout''), Anonymous, EpLogout),
     ((''GET'', ''/callback''), Anonymous, EpCallback),
     ((''GET'', ''/api/status''), Anonymous, EpStatus),
     ((''GET'', ''/api/user''), Anonymous, EpUser),
     ((''GET'', ''/{manager}/api/state''), Internal, EpState),
     ((''POST'', ''/{manager}/api/state''), Internal, EpState),
     ((''GET'', ''/{manager}/api/current-user''), Internal, EpCurrentUser),
     ((''POST'', ''/{manager}/api/bulk-has-guild''), Internal, EpBulkHasGuild),
     ((''GET'', ''/{manager}/api/{version}/gateway/bot''), Internal, EpGateway),
     ((''GET'', ''/{manager}/api/gateway/bot''), Internal, EpGateway),
     ((''GET'', ''/api/sandwich''), Dashboard, EpSandwichGet),
     ((''PATCH'', ''/api/sandwich''), Dashboard, EpSandwichUpdate),
     ((''GET'', ''/debug/pprof/{profile:*}''), Dashboard, EpPprof),
     ((''POST'', ''/api/manager''), Dashboard, EpManagerCreate),
     ((''POST'', ''/api/manager/initialize''), Dashboard, EpManagerInitialize),
     ((''PATCH'', ''/api/manager''), Dashboard, EpManagerUpdate),
     ((''DELETE'', ''/api/manager''), Dashboard, EpManagerDelete),
     ((''POST'', ''/api/manager/shardgroup''), Dashboard, EpShardGroupCreate),
     ((''DELETE'', ''/api/manager/shardgroup''), Dashboard, EpShardGroupStop),
     ((''POST'', ''/api/create-chaos''), Internal, EpCreateChaos)]"

fun run_endpoint :: "rest_lib \<Rightarrow> endpoint \<Rightarrow> (web, unit) prog" where
  "run_endpoint rl EpLogin = LoginEndpoint rl"
| "run_endpoint rl EpLogout = LogoutEndpoint"
| "run_endpoint rl EpCallback = CallbackEndpoint rl"
| "run_endpoint rl EpStatus = StatusEndpoint rl"
| "run_endpoint rl EpUser = UserEndpoint rl"
| "run_endpoint rl EpState = StateEndpoint rl"
| "run_endpoint rl EpCurrentUser = CurrentUserEndpoint rl"
| "run_endpoint rl EpBulkHasGuild = BulkHasGuildEndpoint rl"
| "run_endpoint rl EpGateway = GatewayEndpoint rl"
| "run_endpoint rl EpSandwichGet = SandwichGetEndpoint rl"
| "run_endpoint rl EpSandwichUpdate = SandwichUpdateEndpoint rl"
| "run_endpoint rl EpPprof = upd (on_ctx (rl_pprof rl))"
| "run_endpoint rl EpManagerCreate = ManagerCreateEndpoint rl"
| "run_endpoint rl EpManagerInitialize = ManagerInitializeEndpoint rl"
| "run_endpoint rl EpManagerUpdate = ManagerUpdateEndpoint rl"
| "run_endpoint rl EpManagerDelete = ManagerDeleteEndpoint rl"
| "run_endpoint rl EpShardGroupCreate = ShardGroupCreateEndpoint rl"
| "run_endpoint rl EpShardGroupStop = ShardGroupStopEndpoint rl"
| "run_endpoint rl EpCreateChaos = CreateChaosEndpoint rl"

fun guarded :: "rest_lib \<Rightarrow> guard \<Rightarrow> (web, unit) prog \<Rightarrow> (web, unit) prog" where
  "guarded rl Anonymous h = h"
| "guarded rl Internal h = internalEndpoint rl h"
| "guarded rl Dashboard h = requireDiscordAuthentication rl h"

text \<open>
  \<open>match\<close> is the third-party router: given the registered routes, the method and the path, it finds a route and the
  value of \<^verbatim>\<open>{manager}\<close>, or a status (not found, method not allowed).
\<close>

type_synonym matcher = "route list \<Rightarrow> string \<Rightarrow> string \<Rightarrow> int + route \<times> string option"

definition RouterHandler :: "matcher \<Rightarrow> rest_lib \<Rightarrow> (web, unit) prog" where
  "RouterHandler match rl =
     bnd (rd (\<lambda>w. match (map fst NewRestRouter) (rc_Method (wb_ctx w)) (rc_Path (wb_ctx w)))) (\<lambda>found.
     case found of
       Inl statusCode \<Rightarrow> upd (on_ctx (\<lambda>c. c\<lparr>rc_StatusCode := statusCode\<rparr>))
     | Inr (route, manager) \<Rightarrow>
         (case map_of NewRestRouter route of
            None \<Rightarrow> upd (on_ctx (\<lambda>c. c\<lparr>rc_StatusCode := StatusNotFound\<rparr>))
          | Some (g, ep) \<Rightarrow>
              bnd (upd (on_ctx (\<lambda>c. c\<lparr>rc_manager := manager\<rparr>))) (\<lambda>_. guarded rl g (run_endpoint rl ep))))"

definition Response_Reset :: "RequestCtx \<Rightarrow> RequestCtx" where
  "Response_Reset c = c\<lparr>rc_StatusCode := StatusOK, rc_Written := [], rc_ResponseHeader := []\<rparr>"

text \<open>Compressing the response does not change what it says. \<open>Client.HandleRequest\<close> is another function of that name.\<close>

definition HandleWebRequest :: "matcher \<Rightarrow> rest_lib \<Rightarrow> (web, unit) prog" where
  "HandleWebRequest match rl =
     bnd (authenticateValue rl) (\<lambda>err.
     case err of
       Some e \<Rightarrow> fail rl RestInternalError (lib_error_text (rl_lib rl) e)
     | None \<Rightarrow>
         deferred (on_ctx (\<lambda>c. c\<lparr>rc_ResponseHeader := AList.update ''X-Elapsed'' (format_int (rl_elapsed rl)) (rc_ResponseHeader c)\<rparr>))
           (bnd (RouterHandler match rl) (\<lambda>_.
            bnd (rd (\<lambda>w. rc_StatusCode (wb_ctx w))) (\<lambda>statusCode.
            if statusCode = StatusNotFound
            then upd (on_ctx (\<lambda>c. rl_dist rl (Response_Reset c)))
            else ret ()))))"

end
