(* ===== verification/Rest_Props.thy ===== *)
theory Rest_Props
  imports Rest_Admin Daemon_Props
begin

text \<open>
  Properties of the HTTP interface: what requests from outside can change, which requests end the daemon, and what a
  consumer is told of a manager.
\<close>

section \<open>What leaves the daemon alone\<close>

text \<open>\<open>same\<close>: the programs of the web that do not touch the daemon.\<close>

abbreviation same :: "daemon \<Rightarrow> (web, 'a) prog \<Rightarrow> bool" where
  "same d \<equiv> keeps (\<lambda>w. wb_daemon w = d)"

lemma same_run: "same (wb_daemon w) m \<Longrightarrow> m w = (r, w') \<Longrightarrow> wb_daemon w' = wb_daemon w"
  by (auto simp: keeps_def dest: spec [of _ w])

lemma same_ctx: "same d (upd (on_ctx f))"
  by (simp add: keeps_def upd_def on_ctx_def)

lemma same_writeResponse: "same d (writeResponse rl c b)"
  by (simp add: writeResponse_def same_ctx)

lemma same_answers: "same d (fail rl c why)" "same d (answer rl x)" "same d (Redirect u c)"
  by (simp_all add: fail_def answer_def Redirect_def same_writeResponse same_ctx)

lemmas same_intros = keeps_intros same_ctx same_writeResponse same_answers

lemma same_authenticate: "same d (authenticateValue rl)"
  unfolding authenticateValue_def split_def by (intro same_intros)

lemma same_anonymous:
  "same d (LoginEndpoint rl)" "same d (CallbackEndpoint rl)" "same d LogoutEndpoint" "same d (StatusEndpoint rl)"
  "same d (UserEndpoint rl)"
  unfolding LoginEndpoint_def CallbackEndpoint_def LogoutEndpoint_def StatusEndpoint_def UserEndpoint_def
  by (intro same_intros)+

lemma same_deferred: "same d m \<Longrightarrow> same d (deferred (on_ctx f) m)"
  by (auto simp: keeps_def deferred_def on_ctx_def split: prod.split)

text \<open>A request that came through a proxy, without a session whose user may use the dashboard.\<close>

definition outsider :: "rest_lib \<Rightarrow> web \<Rightarrow> bool" where
  "outsider rl w \<longleftrightarrow> rc_Header (wb_ctx w) ''X-Forwarded-For'' \<noteq> [] \<and>
     (case session_user rl (rc_Session (wb_ctx w)) (sc_UserAccess (dm_Configuration (wb_daemon w))) of
        ((isLoggedIn, isAuthenticated, _), _) \<Rightarrow> \<not> isLoggedIn \<or> \<not> isAuthenticated \<and> dm_HTTPEnabled (wb_daemon w))"

lemma anonymous_routes:
  "map_of NewRestRouter route = Some (Anonymous, ep) \<Longrightarrow> ep \<in> {EpLogin, EpLogout, EpCallback, EpStatus, EpUser}"
  by (drule map_of_SomeD) (auto simp: NewRestRouter_def)

lemma guarded_outside:
  assumes "map_of NewRestRouter route = Some (g, ep)" and "guarded rl g (run_endpoint rl ep) w = (r, w')"
    and "rc_Header (wb_ctx w) ''X-Forwarded-For'' \<noteq> []"
    and "rc_isLoggedIn (wb_ctx w) = Some l" and "rc_isAuthenticated (wb_ctx w) = Some a"
    and "\<not> l \<or> \<not> a \<and> dm_HTTPEnabled (wb_daemon w)"
  shows "wb_daemon w' = wb_daemon w"
proof (cases g)
  case Anonymous
  then have "same (wb_daemon w) (run_endpoint rl ep)"
    using anonymous_routes [of route ep] assms(1) same_anonymous by auto
  moreover have "run_endpoint rl ep w = (r, w')" using assms(2) Anonymous by simp
  ultimately show ?thesis by (rule same_run)
next
  case Internal
  then have "fail rl StatusForbidden ''Forbidden'' w = (r, w')"
    using assms(2,3) by (simp add: internalEndpoint_def bnd_eval)
  then show ?thesis by (rule same_run [OF same_answers(1)])
next
  case Dashboard
  then have "(if \<not> l then fail rl StatusUnauthorized ErrUserNotLoggedIn else fail rl StatusForbidden ErrUserMissingAccess) w = (r, w')"
    using assms(2,4-6) by (auto simp: requireDiscordAuthentication_def bnd_eval split: if_splits)
  moreover have "same (wb_daemon w) (if \<not> l then fail rl StatusUnauthorized ErrUserNotLoggedIn
      else fail rl StatusForbidden ErrUserMissingAccess)"
    by (intro same_intros)
  ultimately show ?thesis by (metis same_run)
qed


section \<open>Requests that end the daemon\<close>

text \<open>The context that the router's handler finds: who is logged in, and what the path says of the manager.\<close>

definition entered :: "rest_lib \<Rightarrow> string option \<Rightarrow> web \<Rightarrow> web" where
  "entered rl m w = (case session_user rl (rc_Session (wb_ctx w)) (sc_UserAccess (dm_Configuration (wb_daemon w))) of
     ((l, a, u), _) \<Rightarrow> on_ctx (\<lambda>c. c\<lparr>rc_isLoggedIn := Some l, rc_isAuthenticated := Some a, rc_user := Some u, rc_manager := m\<rparr>) w)"

definition session_ok :: "rest_lib \<Rightarrow> web \<Rightarrow> bool" where
  "session_ok rl w \<longleftrightarrow> snd (session_user rl (rc_Session (wb_ctx w)) (sc_UserAccess (dm_Configuration (wb_daemon w)))) = None"

definition routed :: "matcher \<Rightarrow> web \<Rightarrow> route \<Rightarrow> string option \<Rightarrow> bool" where
  "routed match w route m \<longleftrightarrow> match (map fst NewRestRouter) (rc_Method (wb_ctx w)) (rc_Path (wb_ctx w)) = Inr (route, m)"

lemma request_panics:
  assumes "session_ok rl w" and "routed match w route m" and "map_of NewRestRouter route = Some (g, ep)"
    and "guarded rl g (run_endpoint rl ep) (entered rl m w) = (Panic why, w1)"
  shows "fst (HandleWebRequest match rl w) = Panic why \<and> wb_daemon (snd (HandleWebRequest match rl w)) = wb_daemon w1"
proof -
  obtain l a u where user: "session_user rl (rc_Session (wb_ctx w)) (sc_UserAccess (dm_Configuration (wb_daemon w))) = ((l, a, u), None)"
    using assms(1) by (metis prod.collapse session_ok_def)
  let ?w = "on_ctx (\<lambda>c. c\<lparr>rc_isLoggedIn := Some l, rc_isAuthenticated := Some a, rc_user := Some u\<rparr>) w"
  have auth: "authenticateValue rl w = (Ok None, ?w)"
    by (simp add: authenticateValue_def bnd_eval user ret_def)
  have "on_ctx (\<lambda>c. c\<lparr>rc_manager := m\<rparr>) ?w = entered rl m w"
    by (simp add: on_ctx_def entered_def user)
  then have "RouterHandler match rl ?w = (Panic why, w1)"
    using assms(2-4) by (simp add: RouterHandler_def bnd_eval routed_def on_ctx_def)
  then show ?thesis
    using auth by (simp add: HandleWebRequest_def bnd_Ok deferred_def bnd_Panic on_ctx_def)
qed

lemma chaos_route: "map_of NewRestRouter (''POST'', ''/api/create-chaos'') = Some (Internal, EpCreateChaos)"
  by (simp add: NewRestRouter_def)

text \<open>The endpoint that stops a session takes the manager from the path, but its route has none: every request to it
  that no proxy forwarded panics, in the goroutine of the connection, with or without a login.\<close>

lemma create_chaos_crashes:
  assumes "routed match w (''POST'', ''/api/create-chaos'') None" and "rc_Header (wb_ctx w) ''X-Forwarded-For'' = []"
    and "session_ok rl w"
  shows "\<exists>why. fst (HandleWebRequest match rl w) = Panic why"
proof -
  have "rc_Header (wb_ctx (entered rl None w)) = rc_Header (wb_ctx w)" "rc_manager (wb_ctx (entered rl None w)) = None"
    by (simp_all add: entered_def on_ctx_def split: prod.split)
  then have "fst (guarded rl Internal (run_endpoint rl EpCreateChaos) (entered rl None w)) = Panic ''nil pointer dereference''"
    using assms(2) by (simp add: internalEndpoint_def CreateChaosEndpoint_def path_manager_def bnd_eval bnd_def [of "bnd _ _"] deref_def)
  then show ?thesis
    using request_panics [OF assms(3,1) chaos_route] by (metis prod.collapse)
qed

lemma publish_all_panics: "\<exists>m \<in> set ms. \<not> producer_usable m \<Longrightarrow> \<exists>why. fst (publish_all ms s) = Panic why"
  by (induction ms s rule: publish_all.induct) (auto simp: Let_def split: prod.splits res.splits)

lemma publish_global_panics:
  assumes "find_manager d key = Some s" and "\<not> producer_usable (ms_Manager s)"
  obtains why d' where "publish_global t b d = (Panic why, d')" and "dm_Configuration d' = dm_Configuration d"
    and "set (dm_log d) \<subseteq> set (dm_log d')"
proof -
  have "ms_Manager s \<in> set (map (ms_Manager \<circ> snd) (dm_Managers d))"
    using assms(1) by (force simp: find_manager_def dest: map_of_SomeD)
  then obtain why where "fst (publish_all (map (ms_Manager \<circ> snd) (dm_Managers d)) (global_packet t b, [])) = Panic why"
    using publish_all_panics assms(2) by blast
  then show thesis
    by (intro that [of why "snd (publish_global t b d)"])
      (auto simp: publish_global_def PublishGlobalEvent_def split: prod.splits)
qed

text \<open>A user may use the dashboard when the session has one that the configuration allows, or any if the
  daemon has no HTTP interface enabled.\<close>

definition insider :: "rest_lib \<Rightarrow> web \<Rightarrow> bool" where
  "insider rl w \<longleftrightarrow> (case session_user rl (rc_Session (wb_ctx w)) (sc_UserAccess (dm_Configuration (wb_daemon w))) of
     ((isLoggedIn, isAuthenticated, _), err) \<Rightarrow> err = None \<and> isLoggedIn \<and> (isAuthenticated \<or> \<not> dm_HTTPEnabled (wb_daemon w)))"

lemma dashboard_passes:
  assumes "insider rl w"
  shows "session_ok rl w" and "guarded rl Dashboard h (entered rl m w) = h (entered rl m w)"
  using assms
  by (auto simp: insider_def session_ok_def entered_def requireDiscordAuthentication_def bnd_eval on_ctx_def split: prod.splits)

lemma no_writes: "dm_writes d = [] \<Longrightarrow> d\<lparr>dm_writes := []\<rparr> = d"
  by simp

lemma create_route: "map_of NewRestRouter (''POST'', ''/api/manager'') = Some (Dashboard, EpManagerCreate)"
  by (simp add: NewRestRouter_def)

text \<open>C22. Creating a manager with the dashboard always ends the daemon when its configuration can be written: the manager
  has no producer before it is initialized, and saving the configuration, which comes first, publishes to the producers of all
  managers. What was saved has the new
  manager, which is there when the daemon is started again.\<close>

theorem create_manager_crashes:
  assumes "routed match w (''POST'', ''/api/manager'') m" and "insider rl w"
    and "rl_CreateManagerArguments rl (rc_PostBody (wb_ctx w)) = (args, None)"
    and "find_manager (wb_daemon w) (cma_Identifier args) = None"
    and "dl_yaml (rl_daemon rl) = (\<lambda>_. None)" and "dm_writes (wb_daemon w) = []"
  shows "\<exists>why d. fst (HandleWebRequest match rl w) = Panic why \<and> wb_daemon (snd (HandleWebRequest match rl w)) = d
    \<and> DeSaved (dm_Configuration d) \<in> set (dm_log d) \<and> created_configuration args \<in> set (sc_Managers (dm_Configuration d))"
proof -
  let ?w = "entered rl m w" and ?d = "wb_daemon w" and ?mc = "created_configuration args"
  have w: "wb_daemon ?w = ?d" "rc_PostBody (wb_ctx ?w) = rc_PostBody (wb_ctx w)"
    by (simp_all add: entered_def on_ctx_def split: prod.split)
  let ?d1 = "store_new (cma_Identifier args) (NewManager ?mc) ?d"
  let ?cfg = "(dm_Configuration ?d)\<lparr>sc_Managers := sc_Managers (dm_Configuration ?d) @ [?mc]\<rparr>"
  let ?d2 = "log_effect (DeSaved ?cfg) (?d1\<lparr>dm_Configuration := ?cfg\<rparr>)"
  let ?s = "\<lparr> ms_Manager = NewManager ?mc, ms_ShardGroups = [], ms_shardGroupCounter = 0, ms_instance = dm_instances ?d \<rparr>"
  have found: "find_manager ?d2 (cma_Identifier args) = Some ?s"
    by (simp add: find_manager_def log_effect_def store_new_def update_conv')
  have "\<not> producer_usable (ms_Manager ?s)" by (simp add: producer_usable_def NewManager_def zero_Manager_def)
  from publish_global_panics [OF found this] obtain why d' where
    d': "publish_global SandwichEventConfigurationReload [] ?d2 = (Panic why, d')"
      "dm_Configuration d' = dm_Configuration ?d2" "set (dm_log ?d2) \<subseteq> set (dm_log d')"
    by blast
  have conf: "dm_Configuration ?d1 = dm_Configuration ?d" "dm_writes ?d1 = []" using assms(6) by (simp_all add: store_new_def)
  have "SaveConfiguration (rl_daemon rl) ?cfg (?d1\<lparr>dm_Configuration := ?cfg\<rparr>) = (Panic why, d')"
    using assms(5) conf(2) d'(1) by (simp add: SaveConfiguration_def bnd_def act_def upd_def no_writes)
  then have "run_endpoint rl EpManagerCreate ?w = (Panic why, ?w\<lparr>wb_daemon := d'\<rparr>)"
    using assms(3,4) w conf(1)
    by (simp add: ManagerCreateEndpoint_def parse_body_def bnd_eval Let_def)
       (simp add: on_daemon_def bnd_def upd_def rd_def save_or_def)
  then have "guarded rl Dashboard (run_endpoint rl EpManagerCreate) ?w = (Panic why, ?w\<lparr>wb_daemon := d'\<rparr>)"
    using dashboard_passes(2) [OF assms(2)] by metis
  note request_panics [OF dashboard_passes(1) [OF assms(2)] assms(1) create_route this]
  moreover have "DeSaved (dm_Configuration d') \<in> set (dm_log d')" "?mc \<in> set (sc_Managers (dm_Configuration d'))"
    using d'(2,3) by (auto simp: log_effect_def)
  ultimately show ?thesis by simp
qed

section \<open>The caches over HTTP\<close>

text \<open>A request for an entry of a collection of a manager.\<close>

definition asks :: "RequestCtx \<Rightarrow> string \<Rightarrow> string \<Rightarrow> string \<Rightarrow> string \<Rightarrow> bool" where
  "asks c method key col ident \<longleftrightarrow> rc_Method c = method \<and> rc_manager c = Some key \<and> rc_Query c ''col'' = col \<and>
     rc_Query c ''id'' = ident \<and> col \<noteq> [] \<and> ident \<noteq> []"

lemma StateEndpoint_asks:
  assumes "asks (wb_ctx w) method key ''users'' ident" and "find_manager (wb_daemon w) key \<noteq> None"
  shows "StateEndpoint rl w = state_users rl ident w"
  using assms by (auto simp: asks_def StateEndpoint_def path_manager_def bnd_eval bnd_def [of "bnd _ _"] deref_def)

lemma format_int_ne: "format_int i \<noteq> []"
proof
  assume "format_int i = []"
  then show False using arg_cong [where f = parse_int] by (simp add: format_int_def Let_def split: if_splits)
qed

text \<open>A user that is posted to the state is read back as it was posted, by its own number: that of the address, which must only
  be a number, is not looked at.\<close>

lemma posted_user_read_back:
  assumes "asks (wb_ctx w) ''POST'' key ''users'' ident" and "find_manager (wb_daemon w) key \<noteq> None"
    and "parse_int ident = Inr i" and "dec_User (rl_lib rl) (rc_PostBody (wb_ctx w)) = (user, None)"
    and "wf_cache ok_alist (Users (env_State (dm_env (wb_daemon w))))" and "StateEndpoint rl w = (r, w1)"
    and "asks c ''GET'' key ''users'' (format_int (sint (user_ID user)))" and "\<And>b. rl_marshals rl b"
  shows "r = Ok () \<and> StateEndpoint rl (w1\<lparr>wb_ctx := c\<rparr>) = (Ok (), w1\<lparr>wb_ctx := c\<lparr>rc_StatusCode := StatusOK,
    rc_Written := rc_Written c @ [RestResponse \<lparr> brr_Data = DataUser user, brr_Error = [], brr_Ok = True \<rparr>]\<rparr>\<rparr>)"
proof -
  let ?store = "\<lambda>e. on_State (\<lambda>ss. ss\<lparr>Users := Cache_Store csm (Users ss) (user_ID user) (UserToState (env_now e) user)\<rparr>) e"
  have "state_users rl ident w = (Ok (), w\<lparr>wb_daemon := (wb_daemon w)\<lparr>dm_env := ?store (dm_env (wb_daemon w))\<rparr>\<rparr>)"
    using assms(1,3,4) by (simp add: state_users_def parse_id_def by_method_def parse_body_def bnd_eval asks_def on_env_def
        on_daemon_def upd_def)
  then have w1: "r = Ok ()" "w1 = w\<lparr>wb_daemon := (wb_daemon w)\<lparr>dm_env := ?store (dm_env (wb_daemon w))\<rparr>\<rparr>"
    using assms(6) by (simp_all add: StateEndpoint_asks [OF assms(1,2)])
  let ?w = "w1\<lparr>wb_ctx := c\<rparr>"
  have "GetUser (env_State (dm_env (wb_daemon ?w))) (user_ID user) = Some user"
    using assms(5) by (simp add: w1(2) GetUser_def csm.Load_Store UserToState_def UserFromState_def)
  moreover have "find_manager (wb_daemon ?w) key \<noteq> None" using assms(2) by (simp add: w1(2) find_manager_def)
  ultimately show ?thesis
    using assms(7,8) w1(1)
    by (simp add: StateEndpoint_asks [of ?w "''GET''" key "format_int (sint (user_ID user))"])
      (simp add: state_users_def parse_id_def by_method_def asks_def on_env_def on_daemon_def bnd_def rd_def answer_def
        writeResponse_def upd_def on_ctx_def)
qed

section \<open>The gateway\<close>

text \<open>A consumer is always told that it may identify at least one shard at a time, and without a configured number half of
  its shards and one more: neither the division nor the sum overflows.\<close>

lemma gateway_concurrency:
  assumes "0 \<le> sint (ConsumerShardCount mg)"
  shows "1 \<le> sint (gbr_MaxConcurrency (consumer_gateway rl mg url))
    \<and> (sint (mc_GatewayBotMaxConcurrency (mg_Configuration mg)) \<le> 0 \<longrightarrow>
         sint (gbr_MaxConcurrency (consumer_gateway rl mg url)) = sint (ConsumerShardCount mg) div 2 + 1)"
proof -
  let ?n = "sint (ConsumerShardCount mg)"
  have n: "?n < 2 ^ 31" using sint_lt [of "ConsumerShardCount mg"] by simp
  have "?n sdiv 2 = ?n div 2" using assms by (cases "?n = 0") (simp_all add: signed_divide_int_def)
  then have "word_of_int (?n sdiv 2) + 1 = (word_of_int (?n div 2 + 1) :: int32)" by simp
  moreover have "sint (word_of_int (?n div 2 + 1) :: int32) = ?n div 2 + 1"
    using assms n by (simp add: sint_sbintrunc' signed_take_bit_int_eq_self del: of_int_add)
  ultimately have "sint (word_of_int (?n sdiv 2) + 1 :: int32) = ?n div 2 + 1" by (simp only:)
  then show ?thesis using assms by (simp add: consumer_gateway_def)
qed

section \<open>The properties at work\<close>

definition no_decoder :: "'a \<Rightarrow> 'a decoder" where
  "no_decoder v _ = (v, Some (ErrLib ''malformed''))"

definition sample_manager_arguments :: CreateManagerArguments where
  "sample_manager_arguments = \<lparr> cma_Identifier = ''fresh'', cma_ProducerIdentifier = ''producer'', cma_FriendlyName = ''Fresh'',
     cma_Token = ''token'', cma_ClientName = ''client'', cma_ChannelName = ''channel'' \<rparr>"

definition sample_rl :: rest_lib where
  "sample_rl = \<lparr>
     rl_daemon = sample_dl\<lparr>dl_lib := sample_lib\<lparr>dec_User := accept (zero_User\<lparr>user_ID := 7\<rparr>)\<rparr>\<rparr>,
     rl_marshals = (\<lambda>_. True), rl_marshal_user = (\<lambda>_. Inr ''{}''), rl_num_error = (\<lambda>_ _. ''invalid syntax''),
     rl_GuildIDs = no_decoder [], rl_SandwichConfiguration = no_decoder zero_SandwichConfiguration,
     rl_CreateManagerArguments = accept sample_manager_arguments, rl_ManagerConfiguration = no_decoder sample_config,
     rl_CreateManagerShardGroupArguments = no_decoder \<lparr> csa_ShardIDs = [], csa_Identifier = [], csa_ShardCount = 0, csa_AutoSharded = False \<rparr>,
     rl_getenv = (\<lambda>_. []), rl_AuthCodeURL = (\<lambda>_. ''https://discord.com''), rl_Exchange = (\<lambda>_ _. None),
     rl_fetch_user = (\<lambda>_. (None, None)), rl_dist = (\<lambda>c. c), rl_pprof = (\<lambda>c. c), rl_uptime = 0, rl_group_uptime = (\<lambda>_. 0),
     rl_shard_uptimes = (\<lambda>_ _. (0, 0)), rl_status_cache = None, rl_elapsed = 1, rl_fuel = 10 \<rparr>"

definition sample_ctx :: "string \<Rightarrow> string \<Rightarrow> bytes option \<Rightarrow> RequestCtx" where
  "sample_ctx method path session = \<lparr>
     rc_Method = method, rc_Path = path, rc_Header = (\<lambda>_. []), rc_Query = (\<lambda>_. []), rc_PostBody = ''{}'',
     rc_Session = Inr session, rc_SessionSave = None, rc_manager = None, rc_isLoggedIn = None, rc_isAuthenticated = None,
     rc_user = None, rc_StatusCode = 200, rc_Written = [], rc_ResponseHeader = [] \<rparr>"

text \<open>A router that knows only routes without a parameter.\<close>

definition plain_match :: matcher where
  "plain_match routes method path = (if (method, path) \<in> set routes then Inr ((method, path), None) else Inl 404)"

lemma sample_session:
  "session_user sample_rl (Inr None) access = ((False, False, zero_User), None)"
  "session_user sample_rl (Inr (Some b)) access =
     ((True, Snowflake_String 7 \<in> set access, zero_User\<lparr>user_ID := 7\<rparr>), None)"
  by (simp_all add: session_user_def sample_rl_def sample_dl_def accept_def)


lemma sample_rl_fields:
  "rl_CreateManagerArguments sample_rl b = (sample_manager_arguments, None)" "dl_yaml (rl_daemon sample_rl) = (\<lambda>_. None)"
  by (simp_all add: sample_rl_def sample_dl_def accept_def)

theorem create_manager_crashes_witness:
  "\<exists>why d. fst (HandleWebRequest plain_match sample_rl
      \<lparr> wb_ctx = sample_ctx ''POST'' ''/api/manager'' (Some ''{}''), wb_daemon = (sample_daemon [])\<lparr>dm_HTTPEnabled := False\<rparr> \<rparr>) = Panic why
    \<and> wb_daemon (snd (HandleWebRequest plain_match sample_rl
      \<lparr> wb_ctx = sample_ctx ''POST'' ''/api/manager'' (Some ''{}''), wb_daemon = (sample_daemon [])\<lparr>dm_HTTPEnabled := False\<rparr> \<rparr>)) = d
    \<and> DeSaved (dm_Configuration d) \<in> set (dm_log d)
    \<and> created_configuration sample_manager_arguments \<in> set (sc_Managers (dm_Configuration d))"
  by (rule create_manager_crashes [where m = None])
    (simp_all add: routed_def plain_match_def NewRestRouter_def sample_ctx_def insider_def sample_session sample_rl_fields
      sample_daemon_def find_manager_def)

definition with_main :: daemon where
  "with_main = store_new ''main'' (NewManager sample_config) (sample_daemon [])"

end
