(* ===== verification/Rest_Stop.thy ===== *)
theory Rest_Stop
  imports Rest_Props
begin

text \<open>
  What stopping a manager does for good: \<^verbatim>\<open>Manager.Close\<close> sets \<^verbatim>\<open>IsClosing\<close>, which nothing resets, so a manager
  whose groups were stopped is never ready again, whatever shard groups are created for it later.
\<close>

section \<open>On the shards and groups\<close>

definition stopped :: "env \<Rightarrow> bool" where
  "stopped e \<longleftrightarrow> mg_IsClosing (env_Manager e)"

lemma stopped_simps [simp]:
  "stopped (on_Shard f1 e) = stopped e" "stopped (on_ShardGroup f2 e) = stopped e" "stopped (on_State f3 e) = stopped e"
  "stopped (emit x e) = stopped e" "stopped (new_ctx e) = stopped e" "stopped (cancel_ctx e) = stopped e"
  by (simp_all add: stopped_def new_ctx_def cancel_ctx_def)

lemma stopped_fields [simp]:
  "stopped (e\<lparr>env_dispatchCount := a1\<rparr>) = stopped e" "stopped (e\<lparr>env_Dedupe := a2\<rparr>) = stopped e"
  "stopped (e\<lparr>env_guildChunks := a3\<rparr>) = stopped e" "stopped (e\<lparr>env_fresh := a4\<rparr>) = stopped e"
  "stopped (e\<lparr>env_chunks := a5\<rparr>) = stopped e" "stopped (e\<lparr>env_dials := a6\<rparr>) = stopped e"
  "stopped (e\<lparr>env_writes := a7\<rparr>) = stopped e" "stopped (e\<lparr>env_inbox := a8\<rparr>) = stopped e"
  by (simp_all add: stopped_def)

lemma stopped_voice: "stopped (snd (store_voice_state lb g v e)) = stopped e"
  by (simp add: store_voice_state_def bnd_def act_def lift_res_def upd_def ret_def split: prod.splits res.splits if_splits)

interpretation still: event_invariant stopped
  by unfold_locales (auto simp: stopped_voice, simp_all add: stopped_def on_Manager_def)

abbreviation stays_stopped :: "(fleet, 'a) prog \<Rightarrow> bool" where
  "stays_stopped \<equiv> keeps (\<lambda>fl. stopped (fl_env fl))"

lemma stopped_upd: "(\<And>fl. stopped (fl_env fl) \<Longrightarrow> stopped (fl_env (f fl))) \<Longrightarrow> stays_stopped (upd f)"
  by (rule keeps_upd)

lemma stopped_shard:
  assumes "keeps stopped m"
  shows "stays_stopped (with_shard gid sid m)"
proof -
  have "stopped (load_slot g s e) = stopped e" for g s e by (simp add: load_slot_def stopped_def)
  then have "stopped (fl_env fl) \<Longrightarrow> m (load_slot g s (fl_env fl)) = (r, e) \<Longrightarrow> stopped e" for g s fl r e
    using keepsD [OF assms] by metis
  then show ?thesis by (auto simp: keeps_def with_shard_def on_group_def split: option.split prod.split)
qed

lemma stopped_frame [simp]:
  "fl_env (on_group gid f fl) = fl_env fl" "fl_env (on_data gid h fl) = fl_env fl"
  "stopped (fl_env (SG_SetStatus gid st fl)) = stopped (fl_env fl)"
  "fl_env (create_shard gid sid fl) = fl_env fl" "fl_env (snd (Scale ids n fl)) = fl_env fl"
  by (simp_all add: on_group_def on_data_def SG_SetStatus_def emit_all_def create_shard_def Scale_def Let_def)

lemma stopped_mark: "stopped (fl_env (mark_other gid g fl)) = stopped (fl_env fl)"
  by (cases g) (simp add: mark_other_def)

lemma stopped_marks: "stopped (fl_env (fold (mark_other gid) gs fl)) = stopped (fl_env fl)"
  by (induction gs arbitrary: fl) (simp_all add: stopped_mark)

lemma env_creates: "fl_env (fold (create_shard gid) sids fl) = fl_env fl"
  by (induction sids arbitrary: fl) simp_all

lemma stopped_Open: "keeps stopped (Shard_Open fuel lb)"
proof -
  have "keeps stopped (open_loop n fuel lb)" for n
    by (induction n) (auto intro!: keeps_intros still.keeps_Listen)
  then show ?thesis by (simp add: keeps_def Shard_Open_def del: open_loop.simps)
qed

lemma stopped_Connect: "keeps stopped (Connect (\<lambda>_. panic why) lb)"
  by (intro still.keeps_Connect keeps_intros)

lemma stopped_ready: "keeps stopped WaitForReady"
  unfolding WaitForReady_def by (intro still.updates)

lemma stopped_close: "keeps stopped (upd (Close code b))"
  by (intro keeps_upd still.close)

lemma stopped_SG_Close: "stays_stopped (SG_Close gid)"
  unfolding SG_Close_def by (intro keeps_intros stopped_upd stopped_shard stopped_close) simp_all

lemma stopped_initial: "stays_stopped (initial_loop n lb gid sid)"
  by (induction n) (auto intro!: keeps_intros stopped_shard stopped_Connect still.updates)

lemma stopped_connects: "stays_stopped (connect_loop n fuel lb gid sid)"
  by (induction n) (auto intro!: keeps_intros stopped_shard stopped_Connect stopped_Open)

lemma stopped_SG_Open: "stays_stopped (SG_Open fuel lb gid)"
  unfolding SG_Open_def
  by (intro keeps_intros stopped_upd stopped_initial stopped_connects stopped_shard stopped_Open stopped_SG_Close)
    (simp_all add: stopped_marks env_creates)

lemma stopped_group_ready: "stays_stopped (group_ready gid)"
  unfolding group_ready_def by (intro keeps_intros stopped_upd stopped_shard stopped_ready stopped_SG_Close) simp_all

lemma keeps_spawn: "keeps P m \<Longrightarrow> keeps P (spawn m)"
  by (auto simp: keeps_def spawn_def split: prod.split res.split)

lemma initial_count_closing:
  "mg_IsClosing (snd (getInitialShardCount cnt ids auto mg)) = mg_IsClosing mg"
  by (simp add: getInitialShardCount_def Let_def)

lemma stopped_create_group: "stays_stopped (create_group rl args)"
  unfolding create_group_def
  by (intro keeps_intros keeps_act stopped_SG_Open stopped_upd keeps_spawn stopped_group_ready)
    (auto simp: stopped_def initial_count_closing split: prod.split dest: arg_cong [where f = "mg_IsClosing \<circ> snd"])

lemma stopped_Manager_Close: "stays_stopped Manager_Close"
  unfolding Manager_Close_def by (intro keeps_intros stopped_upd stopped_SG_Close) (simp add: stopped_def on_Manager_def)

section \<open>On the daemon\<close>

definition closing :: "string \<Rightarrow> daemon \<Rightarrow> bool" where
  "closing key d \<longleftrightarrow> (\<exists>s. find_manager d key = Some s \<and> mg_IsClosing (ms_Manager s))"

lemma closing_fields [simp]:
  "closing key (d\<lparr>dm_env := a1\<rparr>) = closing key d" "closing key (d\<lparr>dm_Configuration := a2\<rparr>) = closing key d"
  "closing key (d\<lparr>dm_log := a3\<rparr>) = closing key d" "closing key (d\<lparr>dm_connects := a4\<rparr>) = closing key d"
  "closing key (d\<lparr>dm_writes := a5\<rparr>) = closing key d" "closing key (d\<lparr>dm_net := a6\<rparr>) = closing key d"
  "closing key (log_effect x d) = closing key d"
  by (simp_all add: closing_def)

lemma closing_on_mg: "(\<And>mg. mg_IsClosing (f mg) = mg_IsClosing mg) \<Longrightarrow> closing key (on_mg k f d) = closing key d"
  by (auto simp: closing_def on_mg_def)

lemma closing_store_new: "k \<noteq> key \<Longrightarrow> closing key (store_new k mg d) = closing key d"
  by (simp add: closing_def)

abbreviation stays_closing :: "string \<Rightarrow> (daemon, 'a) prog \<Rightarrow> bool" where
  "stays_closing key \<equiv> keeps (closing key)"

lemma closing_with_manager:
  assumes "stays_stopped m"
  shows "stays_closing key (with_manager k m)"
proof (rule keepsI)
  fix d assume d: "closing key d"
  show "closing key (snd (with_manager k m d))"
  proof (cases "find_manager d k")
    case None
    then show ?thesis using d by (simp add: with_manager_def)
  next
    case (Some s)
    obtain r fl where run: "m (load_manager k s d) = (r, fl)" by fastforce
    have "stopped (fl_env (load_manager k s d)) \<Longrightarrow> stopped (fl_env fl)"
      using keepsD [OF assms _ run] by blast
    then have "mg_IsClosing (ms_Manager s) \<Longrightarrow> mg_IsClosing (env_Manager (fl_env fl))"
      by (simp add: stopped_def load_manager_def)
    then show ?thesis using d Some by (auto simp: with_manager_def run closing_def store_manager_def)
  qed
qed

lemma closing_on_net: "stays_closing key (on_net m)"
  by (simp add: keeps_def on_net_def split: prod.split)

lemma closing_publish: "stays_closing key (publish_global t b)"
  by (simp add: keeps_def publish_global_def split: prod.split)

lemma closing_pops:
  "stays_closing key (act (\<lambda>d. case pop (dm_writes d) of (err, rest) \<Rightarrow> (err, d\<lparr>dm_writes := rest\<rparr>)))"
  "stays_closing key (act (\<lambda>d. case pop (dm_connects d) of (err, rest) \<Rightarrow> (err, d\<lparr>dm_connects := rest\<rparr>)))"
  by (auto intro!: keeps_act split: prod.split)

lemma closing_upd: "(\<And>d. closing key (f d) = closing key d) \<Longrightarrow> stays_closing key (upd f)"
  by (simp add: keeps_def upd_def)

lemma closing_Save: "stays_closing key (SaveConfiguration dl cfg)"
  unfolding SaveConfiguration_def by (intro keeps_intros closing_pops closing_publish closing_upd) simp

lemma closing_GetGateway: "stays_closing key (GetGateway dl k)"
  unfolding GetGateway_def the_manager_def split_def by (intro keeps_intros closing_on_net)

lemma closing_restart: "stays_closing key (restart_producer k clientName present)"
  unfolding restart_producer_def close_producer_def by (intro keeps_intros closing_pops closing_upd) (simp_all add: closing_on_mg)

lemma closing_Initialize: "stays_closing key (Initialize dl k force)"
  unfolding Initialize_def Let_def split_def the_manager_def
  by (intro keeps_intros closing_GetGateway closing_restart closing_upd) (simp add: closing_on_mg)

section \<open>On requests\<close>

abbreviation web_closing :: "string \<Rightarrow> (web, 'a) prog \<Rightarrow> bool" where
  "web_closing key \<equiv> keeps (\<lambda>w. closing key (wb_daemon w))"

lemma web_same: "(\<And>d. same d m) \<Longrightarrow> web_closing key m"
  by (simp add: keeps_def)

lemma web_daemon: "stays_closing key m \<Longrightarrow> web_closing key (on_daemon m)"
  by (simp add: keeps_def on_daemon_def split: prod.split) (metis snd_conv)

lemma web_env: "web_closing key (on_env m)"
  unfolding on_env_def by (intro web_daemon) (simp add: keeps_def split: prod.split)

lemma web_ctx: "web_closing key (upd (on_ctx f))"
  by (intro web_same same_ctx)

lemma web_answers: "web_closing key (fail rl c why)" "web_closing key (answer rl x)" "web_closing key (writeResponse rl c b)"
  by (intro web_same same_intros)+

lemmas web_intros = keeps_intros web_answers web_env web_ctx web_daemon closing_with_manager closing_Save closing_Initialize
  stopped_Manager_Close stopped_create_group stopped_shard closing_upd

lemma web_frames:
  "(\<And>i. web_closing key (k i)) \<Longrightarrow> web_closing key (parse_id rl text k)"
  "(\<And>v. web_closing key (k' v)) \<Longrightarrow> web_closing key (parse_body rl c decode k')"
  "web_closing key m \<Longrightarrow> web_closing key m' \<Longrightarrow> web_closing key (by_method m m')"
  "(\<And>x s. web_closing key (j x s)) \<Longrightarrow> web_closing key (path_manager rl j)"
  "(\<And>x. web_closing key (q x)) \<Longrightarrow> web_closing key (query_manager rl q)"
  "web_closing key m \<Longrightarrow> web_closing key (save_or rl m)"
  "web_closing key m \<Longrightarrow> web_closing key (initialize_or rl c k'' m)"
  "web_closing key (user_webhook title descr footer)"
  unfolding parse_id_def parse_body_def by_method_def path_manager_def query_manager_def save_or_def initialize_or_def
    user_webhook_def split_def
  by (intro web_intros | simp)+

lemma web_states:
  "web_closing key (state_users rl ident)" "web_closing key (state_guild_channels rl ident)"
  "web_closing key (state_guild_roles rl ident)" "web_closing key (state_channels rl ident)"
  "web_closing key (state_members rl ident)"
  unfolding state_users_def state_guild_channels_def state_guild_roles_def state_channels_def state_members_def
    get_channel_def post_channel_def split_def
  by (intro web_intros web_frames)+

lemma web_state_guilds: "web_closing key (state_guilds rl k ident)"
proof -
  have "web_closing key (\<lambda>w. (findShardOfGuild ident mg, w))" for mg by (simp add: keeps_def)
  then show ?thesis
    unfolding state_guilds_def split_def by (intro web_intros web_frames still.set_guild)
qed

lemma web_reads:
  "web_closing key (StateEndpoint rl)" "web_closing key (CurrentUserEndpoint rl)" "web_closing key (BulkHasGuildEndpoint rl)"
  "web_closing key (GatewayEndpoint rl)" "web_closing key (CreateChaosEndpoint rl)" "web_closing key (SandwichGetEndpoint rl)"
  unfolding StateEndpoint_def CurrentUserEndpoint_def BulkHasGuildEndpoint_def GatewayEndpoint_def CreateChaosEndpoint_def
    SandwichGetEndpoint_def split_def Let_def
  by (intro web_intros web_frames web_states web_state_guilds | simp)+

lemma closing_refresh: "closing key (fold (\<lambda>mc. on_mg (f mc) (refresh_manager mc)) mcs d) = closing key d"
proof (induction mcs arbitrary: d)
  case (Cons mc mcs)
  have "mg_IsClosing (refresh_manager mc mg) = mg_IsClosing mg" for mg
    by (simp add: refresh_manager_def apply_blacklists_def Let_def split: option.split)
  then show ?case using Cons by (simp add: closing_on_mg)
qed simp

lemma closing_blacklists: "closing key (on_mg k (apply_blacklists mc) d) = closing key d"
  by (rule closing_on_mg) (simp add: apply_blacklists_def Let_def split: option.split)

lemma web_admin:
  "web_closing key (SandwichUpdateEndpoint rl)" "web_closing key (ManagerInitializeEndpoint rl)"
  "web_closing key (ManagerUpdateEndpoint rl)" "web_closing key (ShardGroupCreateEndpoint rl)"
  "web_closing key (ShardGroupStopEndpoint rl)"
  unfolding SandwichUpdateEndpoint_def ManagerInitializeEndpoint_def ManagerUpdateEndpoint_def ShardGroupCreateEndpoint_def
    ShardGroupStopEndpoint_def Let_def
  by (intro web_intros web_frames | simp add: closing_refresh closing_blacklists closing_on_mg)+

lemma web_create: "web_closing key (ManagerCreateEndpoint rl)"
proof -
  have frame: "web_closing key (bnd (rd (\<lambda>w. find_manager (wb_daemon w) k \<noteq> None))
      (\<lambda>ok. if ok then m else bnd (on_daemon (upd (store_new k mg))) n))"
    if "web_closing key m" "\<And>x. web_closing key (n x)" for k mg m n
  proof (rule keepsI)
    fix w :: web assume w: "closing key (wb_daemon w)"
    show "closing key (wb_daemon (snd (bnd (rd (\<lambda>w. find_manager (wb_daemon w) k \<noteq> None))
      (\<lambda>ok. if ok then m else bnd (on_daemon (upd (store_new k mg))) n) w)))"
    proof (cases "find_manager (wb_daemon w) k")
      case None
      then have "k \<noteq> key" using w by (auto simp: closing_def)
      then have "web_closing key (bnd (on_daemon (upd (store_new k mg))) n)"
        using that(2) by (intro keeps_intros web_daemon closing_upd) (simp_all add: closing_store_new)
      then show ?thesis using None w by (simp add: bnd_eval keeps_def)
    next
      case (Some s)
      then show ?thesis using that(1) w by (simp add: bnd_eval keeps_def)
    qed
  qed
  show ?thesis
    unfolding ManagerCreateEndpoint_def Let_def
    by (intro web_frames frame web_intros) simp_all
qed

lemma web_endpoint:
  assumes "ep \<noteq> EpManagerDelete"
  shows "web_closing key (run_endpoint rl ep)"
proof -
  have "web_closing key (LoginEndpoint rl)" "web_closing key (CallbackEndpoint rl)" "web_closing key LogoutEndpoint"
    "web_closing key (StatusEndpoint rl)" "web_closing key (UserEndpoint rl)"
    using same_anonymous by (blast intro: web_same)+
  then show ?thesis using assms by (cases ep) (simp_all add: web_reads web_admin web_create web_ctx)
qed

lemma web_guarded:
  assumes "web_closing key m"
  shows "web_closing key (guarded rl g m)"
  using assms unfolding guarded.simps by (cases g)
    (auto simp: internalEndpoint_def requireDiscordAuthentication_def intro!: web_intros)

text \<open>The requests that delete a manager.\<close>

definition deleting :: "matcher \<Rightarrow> RequestCtx \<Rightarrow> bool" where
  "deleting match c \<longleftrightarrow> (case match (map fst NewRestRouter) (rc_Method c) (rc_Path c) of
     Inl _ \<Rightarrow> False | Inr (route, _) \<Rightarrow> route = (''DELETE'', ''/api/manager''))"

lemma delete_route: "map_of NewRestRouter route = Some (g, EpManagerDelete) \<Longrightarrow> route = (''DELETE'', ''/api/manager'')"
  by (drule map_of_SomeD) (auto simp: NewRestRouter_def)

lemma closing_router:
  assumes "closing key (wb_daemon w)" and "\<not> deleting match (wb_ctx w)"
  shows "closing key (wb_daemon (snd (RouterHandler match rl w)))"
proof (cases "match (map fst NewRestRouter) (rc_Method (wb_ctx w)) (rc_Path (wb_ctx w))")
  case (Inl c)
  then show ?thesis using assms(1) by (simp add: RouterHandler_def bnd_eval upd_def on_ctx_def)
next
  case (Inr found)
  obtain route m where found: "found = (route, m)" by fastforce
  show ?thesis
  proof (cases "map_of NewRestRouter route")
    case None
    then show ?thesis using Inr found assms(1) by (simp add: RouterHandler_def bnd_eval upd_def on_ctx_def)
  next
    case (Some p)
    obtain g ep where p: "p = (g, ep)" by fastforce
    have "ep \<noteq> EpManagerDelete"
      using delete_route [of route g] Some p assms(2) Inr found by (cases route) (auto simp: deleting_def)
    then have "web_closing key (guarded rl g (run_endpoint rl ep))" by (intro web_guarded web_endpoint)
    moreover have "RouterHandler match rl w = guarded rl g (run_endpoint rl ep) (on_ctx (\<lambda>c. c\<lparr>rc_manager := m\<rparr>) w)"
      using Inr found Some p by (simp add: RouterHandler_def bnd_eval)
    moreover have "closing key (wb_daemon (on_ctx (\<lambda>c. c\<lparr>rc_manager := m\<rparr>) w))" using assms(1) by (simp add: on_ctx_def)
    ultimately show ?thesis by (simp add: keeps_def)
  qed
qed

lemma closing_request:
  assumes "closing key (wb_daemon w)" and "\<not> deleting match (wb_ctx w)"
  shows "closing key (wb_daemon (snd (HandleWebRequest match rl w)))"
proof -
  obtain l a u err where user: "session_user rl (rc_Session (wb_ctx w)) (sc_UserAccess (dm_Configuration (wb_daemon w))) = ((l, a, u), err)"
    by (metis prod.collapse)
  let ?w = "on_ctx (\<lambda>c. c\<lparr>rc_isLoggedIn := Some l, rc_isAuthenticated := Some a, rc_user := Some u\<rparr>) w"
  have auth: "authenticateValue rl w = (Ok err, ?w)"
    by (simp add: authenticateValue_def bnd_eval user ret_def)
  have w: "closing key (wb_daemon ?w)" "\<not> deleting match (wb_ctx ?w)" using assms by (simp_all add: on_ctx_def deleting_def)
  obtain q w1 where run: "RouterHandler match rl ?w = (q, w1)" by fastforce
  then have w1: "closing key (wb_daemon w1)" using closing_router [OF w, of rl] by simp
  let ?rest = "\<lambda>_. bnd (rd (\<lambda>w. rc_StatusCode (wb_ctx w))) (\<lambda>statusCode.
    if statusCode = StatusNotFound then upd (on_ctx (\<lambda>c. rl_dist rl (Response_Reset c))) else ret ())"
  have "web_closing key (?rest x)" for x by (intro web_intros)
  then have routed: "closing key (wb_daemon (snd (bnd (RouterHandler match rl) ?rest ?w)))"
    using w1 by (cases q) (auto simp: bnd_def run keeps_def)
  show ?thesis
  proof (cases err)
    case (Some e)
    have "web_closing key (fail rl RestInternalError (lib_error_text (rl_lib rl) e))" by (rule web_answers)
    then show ?thesis using w(1) Some auth by (simp add: HandleWebRequest_def bnd_Ok keeps_def)
  next
    case None
    then show ?thesis
      using routed auth by (auto simp: HandleWebRequest_def bnd_Ok deferred_def on_ctx_def split: prod.splits)
  qed
qed

lemma closing_not_ready:
  "closing key d \<Longrightarrow> find_manager d key = Some s \<Longrightarrow> \<not> Manager_AllReady (load_manager key s d)"
  by (auto simp: closing_def Manager_AllReady_def AllReady_def load_manager_def)

text \<open>C12. Stopping the shard groups of a manager is for good: as long as it is not deleted, no sequence of requests makes
  it ready again, whatever they are and however they end, new shard groups and initialisations included, so that
  consumers that ask for its gateway are never let in.\<close>

theorem stopped_manager_never_ready:
  assumes "closing key (wb_daemon w)"
    and "\<forall>(c, rl) \<in> set requests. \<not> deleting match c"
    and "w' = fold (\<lambda>(c, rl) w. snd (HandleWebRequest match rl (w\<lparr>wb_ctx := c\<rparr>))) requests w"
  shows "\<exists>s. find_manager (wb_daemon w') key = Some s \<and> \<not> Manager_AllReady (load_manager key s (wb_daemon w'))"
proof -
  have "closing key (wb_daemon w')"
    using assms
  proof (induction requests arbitrary: w)
    case (Cons x requests)
    then show ?case using closing_request [of key "w\<lparr>wb_ctx := fst x\<rparr>" match "snd x"] by (cases x) auto
  qed simp
  then show ?thesis using closing_not_ready by (auto simp: closing_def)
qed

definition stopped_web :: web where
  "stopped_web = \<lparr> wb_ctx = sample_ctx ''GET'' ''/api/status'' None,
     wb_daemon = store_new ''main'' ((NewManager sample_config)\<lparr>mg_IsClosing := True\<rparr>) (sample_daemon []) \<rparr>"

definition after_create :: web where
  "after_create = snd (HandleWebRequest plain_match sample_rl
     (stopped_web\<lparr>wb_ctx := sample_ctx ''POST'' ''/api/manager/shardgroup'' (Some ''{}'')\<rparr>))"

theorem stopped_manager_never_ready_witness:
  "\<exists>s. find_manager (wb_daemon after_create) ''main'' = Some s \<and> \<not> Manager_AllReady (load_manager ''main'' s (wb_daemon after_create))"
proof -
  have "closing ''main'' (wb_daemon stopped_web)" by (simp add: closing_def stopped_web_def)
  moreover have "\<not> deleting plain_match (sample_ctx ''POST'' ''/api/manager/shardgroup'' (Some ''{}''))"
    by (simp add: deleting_def plain_match_def sample_ctx_def)
  ultimately show ?thesis
    using stopped_manager_never_ready
      [of "''main''" stopped_web "[(sample_ctx ''POST'' ''/api/manager/shardgroup'' (Some ''{}''), sample_rl)]" plain_match after_create]
    by (simp add: after_create_def)
qed

end
