(* ===== verification/Chat_Props.thy ===== *)
theory Chat_Props
  imports Chat_Session
begin

text \<open>
  Properties of the websocket producer: who receives a packet, what identifying accepts, why sessions are
  never resumed, and why closing a session with the table locked never returns.
\<close>

section \<open>Evaluation\<close>

lemma on_sub_frame [simp]:
  "cs_subscribers (on_sub r f cs) = cs_subscribers cs"
  "cs_next (on_sub r f cs) = cs_next cs"
  "cs_readers (on_sub r f cs) = cs_readers cs"
  "cs_writer (on_sub r f cs) = cs_writer cs"
  "cs_waiting (on_sub r f cs) = cs_waiting cs"
  "cs_manager (on_sub r f cs) = cs_manager cs"
  "cs_State (on_sub r f cs) = cs_State cs"
  "cs_quickStart (on_sub r f cs) = cs_quickStart cs"
  "cs_expectedToken (on_sub r f cs) = cs_expectedToken cs"
  "cs_externalAddress (on_sub r f cs) = cs_externalAddress cs"
  "cs_heap (on_sub r f cs) = (cs_heap cs)(r := f (cs_heap cs r))"
  by (simp_all add: on_sub_def)

lemma RLock_free: "\<not> cs_writer cs \<Longrightarrow> \<not> cs_waiting cs \<Longrightarrow> RLock cs = (Ok (), cs\<lparr>cs_readers := Suc (cs_readers cs)\<rparr>)"
  by (simp add: RLock_def bnd_eval upd_def)

lemma RLock_taken: "cs_writer cs \<or> cs_waiting cs \<Longrightarrow> RLock cs = (Panic out_of_fuel, cs)"
  by (simp add: RLock_def bnd_eval panic_def)

lemma Lock_taken: "0 < cs_readers cs \<Longrightarrow> Lock cs = (Panic out_of_fuel, cs\<lparr>cs_waiting := True\<rparr>)"
  by (simp add: Lock_def bnd_eval panic_def)

lemma holding_Panic: "acquire cs = (Panic why, cs') \<Longrightarrow> holding acquire release body cs = (Panic why, cs')"
  by (simp add: holding_def bnd_Panic)

lemma reading_Ok:
  assumes "\<not> cs_writer cs" and "\<not> cs_waiting cs" and "body (cs\<lparr>cs_readers := Suc (cs_readers cs)\<rparr>) = (Ok x, cs')"
  shows "reading_table body cs = (Ok x, RUnlock cs')"
  using assms by (simp add: holding_def bnd_Ok RLock_free)

lemma reading_stuck:
  assumes "\<not> cs_writer cs" and "\<not> cs_waiting cs"
    and "body (cs\<lparr>cs_readers := Suc (cs_readers cs)\<rparr>) = (Panic out_of_fuel, cs')"
  shows "reading_table body cs = (Panic out_of_fuel, cs')"
  using assms by (simp add: holding_def bnd_Ok RLock_free)

section \<open>Delivery\<close>

lemma distinct_concat_once:
  assumes "distinct (concat (map snd tab))" and "(k, rs) \<in> set tab" and "(k', rs') \<in> set tab"
    and "r \<in> set rs" and "r \<in> set rs'"
  shows "k = k'"
  using assms
proof (induction tab)
  case (Cons x tab)
  then show ?case by fastforce
qed simp

definition has_room :: "chatServer \<Rightarrow> nat \<Rightarrow> bool" where
  "has_room cs r \<longleftrightarrow> \<not> ch_closed (sub_writeNormal (cs_heap cs r)) \<and>
     length (ch_buf (sub_writeNormal (cs_heap cs r))) < ch_cap (sub_writeNormal (cs_heap cs r))"

definition enqueue :: "SandwichPayload \<Rightarrow> nat \<Rightarrow> chatServer \<Rightarrow> chatServer" where
  "enqueue msg r = on_sub r (sub_writeNormal_update (\<lambda>c. c\<lparr>ch_buf := ch_buf c @ [msg]\<rparr>))"

lemma send_normal_room: "has_room cs r \<Longrightarrow> send_normal r msg cs = (Ok (), enqueue msg r cs)"
  by (simp add: send_def bnd_eval has_room_def enqueue_def upd_def)

lemma has_room_enqueue: "r' \<noteq> r \<Longrightarrow> has_room (enqueue msg r cs) r' = has_room cs r'"
  by (simp add: has_room_def enqueue_def)

lemma deliver_room:
  "distinct rs \<Longrightarrow> \<forall>r \<in> set rs. has_room cs r \<Longrightarrow> deliver msg rs cs = (Ok (), fold (enqueue msg) rs cs)"
proof (induction rs arbitrary: cs)
  case Nil
  then show ?case by (simp add: deliver_def)
next
  case (Cons r rs)
  have "has_room (enqueue msg r cs) r'" if "r' \<in> set rs" for r'
    using that Cons.prems by (subst has_room_enqueue) auto
  then show ?case using Cons by (simp add: deliver_def send_normal_room)
qed

lemma enqueue_frame [simp]:
  "cs_subscribers (enqueue msg r cs) = cs_subscribers cs"
  "cs_readers (enqueue msg r cs) = cs_readers cs"
  by (simp_all add: enqueue_def)

lemma fold_enqueue_frame [simp]:
  "cs_subscribers (fold (enqueue msg) rs cs) = cs_subscribers cs"
  "cs_readers (fold (enqueue msg) rs cs) = cs_readers cs"
  by (induction rs arbitrary: cs) simp_all

lemma fold_enqueue_room: "r \<notin> set rs \<Longrightarrow> has_room (fold (enqueue msg) rs cs) r = has_room cs r"
  by (induction rs arbitrary: cs) (simp_all add: has_room_enqueue)

text \<open>Whether the subscribers of a shard get a packet published for a shard.\<close>

definition wants :: "shard_key \<Rightarrow> SandwichPayload \<Rightarrow> shard_key \<Rightarrow> bool" where
  "wants shard msg key =
     (case (if snd key = snd shard then None
            else edi_GuildID (the (sp_EventDispatchIdentifier msg))) of
        Some g \<Rightarrow> GetShardIdOfGuild g (snd key) = fst shard
      | None \<Rightarrow> fst key = fst shard)"

definition recipients :: "shard_key \<Rightarrow> SandwichPayload \<Rightarrow> (shard_key \<times> nat list) list \<Rightarrow> nat list" where
  "recipients shard msg tab = concat (map snd (filter (\<lambda>(key, _). wants shard msg key) tab))"

lemma publish_to_room:
  assumes "sp_EventDispatchIdentifier msg \<noteq> None" and "0 < sint (snd key)"
    and "distinct rs" and "\<forall>r \<in> set rs. has_room cs r"
  shows "publish_to shard msg (key, rs) cs
    = (Ok (), fold (enqueue msg) (if wants shard msg key then rs else []) cs)"
  using assms deliver_room [OF assms(3,4), of msg]
  by (auto simp: publish_to_def wants_def bnd_eval bnd_Ok ret_def deref_def split: option.splits)

lemma publish_loop:
  assumes "sp_EventDispatchIdentifier msg \<noteq> None" and "\<forall>(key, rs) \<in> set tab. 0 < sint (snd key)"
    and "distinct (concat (map snd tab))" and "\<forall>r \<in> set (concat (map snd tab)). has_room cs r"
  shows "each (publish_to shard msg) tab cs = (Ok (), fold (enqueue msg) (recipients shard msg tab) cs)"
  using assms(2-4)
proof (induction tab arbitrary: cs)
  case Nil
  then show ?case by (simp add: recipients_def)
next
  case (Cons x tab)
  obtain key rs where x: "x = (key, rs)" by fastforce
  let ?rs = "if wants shard msg key then rs else []"
  have run: "publish_to shard msg x cs = (Ok (), fold (enqueue msg) ?rs cs)"
    using Cons.prems publish_to_room [OF assms(1), of key rs cs shard] by (auto simp: x)
  have "has_room (fold (enqueue msg) ?rs cs) r" if "r \<in> set (concat (map snd tab))" for r
    using that Cons.prems by (subst fold_enqueue_room) (auto simp: x)
  then have "each (publish_to shard msg) tab (fold (enqueue msg) ?rs cs)
      = (Ok (), fold (enqueue msg) (recipients shard msg tab) (fold (enqueue msg) ?rs cs))"
    using Cons.prems by (intro Cons.IH) (auto simp: x)
  then show ?case
    by (cases "wants shard msg key") (simp_all add: run [unfolded x] recipients_def x)
qed

lemma publish_room:
  assumes "sp_EventDispatchIdentifier msg \<noteq> None" and "\<forall>(key, rs) \<in> set (cs_subscribers cs). 0 < sint (snd key)"
    and "distinct (all_subscribers cs)" and "\<forall>r \<in> set (all_subscribers cs). has_room cs r"
    and "\<not> cs_writer cs" and "\<not> cs_waiting cs"
  shows "publish shard msg cs = (Ok (), fold (enqueue msg) (recipients shard msg (cs_subscribers cs)) cs)"
proof -
  let ?cs = "cs\<lparr>cs_readers := Suc (cs_readers cs)\<rparr>"
  let ?rs = "recipients shard msg (cs_subscribers cs)"
  have "\<forall>r \<in> set (all_subscribers cs). has_room ?cs r" using assms(4) by (simp add: has_room_def)
  then have "bnd (rd cs_subscribers) (each (publish_to shard msg)) ?cs = (Ok (), fold (enqueue msg) ?rs ?cs)"
    using publish_loop [OF assms(1), of "cs_subscribers cs" ?cs shard] assms(2,3)
    by (simp add: bnd_eval all_subscribers_def)
  moreover have "RUnlock (fold (enqueue msg) rs ?cs) = fold (enqueue msg) rs cs" for rs
  proof (induction rs arbitrary: cs)
    case Nil
    then show ?case by (simp add: RUnlock_def)
  next
    case (Cons r rs)
    have "enqueue msg r (cs\<lparr>cs_readers := Suc (cs_readers cs)\<rparr>)
        = (enqueue msg r cs)\<lparr>cs_readers := Suc (cs_readers (enqueue msg r cs))\<rparr>"
      by (simp add: enqueue_def on_sub_def)
    then show ?case using Cons.IH [of "enqueue msg r cs"] by simp
  qed
  ultimately show ?thesis
    unfolding publish_def by (subst reading_Ok [OF assms(5,6)]) simp_all
qed

lemma fold_enqueue_heap:
  "distinct rs \<Longrightarrow> cs_heap (fold (enqueue msg) rs cs) r =
     (if r \<in> set rs then sub_writeNormal_update (\<lambda>c. c\<lparr>ch_buf := ch_buf c @ [msg]\<rparr>) (cs_heap cs r) else cs_heap cs r)"
proof (induction rs arbitrary: cs)
  case (Cons x rs)
  then show ?case by (auto simp: enqueue_def)
qed simp

text \<open>A server that is not locked, whose subscribers all have room and use a positive shard count.\<close>

definition serving :: "chatServer \<Rightarrow> bool" where
  "serving cs \<longleftrightarrow> \<not> cs_writer cs \<and> \<not> cs_waiting cs \<and> distinct (all_subscribers cs)
     \<and> (\<forall>r \<in> set (all_subscribers cs). has_room cs r)
     \<and> (\<forall>(key, rs) \<in> set (cs_subscribers cs). 0 < sint (snd key))"

text \<open>The subscriber has the packet as the last one queued, and nothing else of it changed.\<close>

definition gets :: "SandwichPayload \<Rightarrow> chatServer \<Rightarrow> chatServer \<Rightarrow> nat \<Rightarrow> bool" where
  "gets msg cs cs' r \<longleftrightarrow>
     cs_heap cs' r = sub_writeNormal_update (\<lambda>c. c\<lparr>ch_buf := ch_buf c @ [msg]\<rparr>) (cs_heap cs r)"

lemma recipients_distinct: "distinct (concat (map snd tab)) \<Longrightarrow> distinct (recipients shard msg tab)"
proof (induction tab)
  case (Cons x tab)
  then show ?case by (cases x) (auto simp: recipients_def)
qed (simp add: recipients_def)

lemma publish_serving:
  assumes "serving cs" and "sp_EventDispatchIdentifier msg \<noteq> None"
  obtains cs' where "publish shard msg cs = (Ok (), cs')"
    and "\<And>r. if r \<in> set (recipients shard msg (cs_subscribers cs)) then gets msg cs cs' r
             else cs_heap cs' r = cs_heap cs r"
proof
  show "publish shard msg cs = (Ok (), fold (enqueue msg) (recipients shard msg (cs_subscribers cs)) cs)"
    using assms by (intro publish_room) (auto simp: serving_def)
  show "if r \<in> set (recipients shard msg (cs_subscribers cs))
      then gets msg cs (fold (enqueue msg) (recipients shard msg (cs_subscribers cs)) cs) r
      else cs_heap (fold (enqueue msg) (recipients shard msg (cs_subscribers cs)) cs) r = cs_heap cs r" for r
    using assms recipients_distinct [of "cs_subscribers cs" shard msg]
    by (simp add: fold_enqueue_heap serving_def all_subscribers_def gets_def)
qed

lemma Publish_publish:
  assumes "sp_Metadata p = Some md" and "md_Shard md = (sg, k, n)" and "publish (k, n) p cs = (Ok (), cs')"
  shows "Publish p cs = (Ok None, cs')"
  using assms by (simp add: Publish_def bnd_def deref_def ret_def)

lemma recipients_iff:
  "r \<in> set (recipients shard msg tab) \<longleftrightarrow> (\<exists>key rs. (key, rs) \<in> set tab \<and> r \<in> set rs \<and> wants shard msg key)"
  by (auto simp: recipients_def)

text \<open>The packet of a guild, as the manager routes it when virtual shards are on.\<close>

definition guild_packet :: "Manager \<Rightarrow> GuildID \<Rightarrow> SandwichPayload \<Rightarrow> bool" where
  "guild_packet mg g p \<longleftrightarrow> vsc_Enabled (mc_VirtualShards (mg_Configuration mg))
     \<and> 0 < sint (vsc_Count (mc_VirtualShards (mg_Configuration mg))) \<and> g \<noteq> 0 \<and> sp_Metadata p \<noteq> None
     \<and> (\<exists>edi. sp_EventDispatchIdentifier p = Some edi \<and> edi_GuildID edi = Some g \<and> \<not> edi_GloballyRouted edi)"

lemma route_guild:
  assumes "guild_packet mg g p"
  obtains p' md where "RoutePayloadToConsumer mg p = Ok (None, p')" and "sp_Metadata p' = Some md"
    and "md_Shard md = (0, GetShardIdOfGuild g (ConsumerShardCount mg), ConsumerShardCount mg)"
    and "sp_EventDispatchIdentifier p' = sp_EventDispatchIdentifier p"
  using assms by (auto simp: guild_packet_def RoutePayloadToConsumer_def Let_def set_shard_def ConsumerShardCount_def)

text \<open>C5. An event of a guild, routed by the manager and published by the websocket producer, is queued exactly
  once for every subscriber of the guild's virtual shard and for nobody else, when all subscribers use the
  virtual shard count, the table is free and every subscriber has room.\<close>

theorem guild_event_delivered:
  assumes "guild_packet mg g p" and "serving cs"
    and "\<forall>(key, rs) \<in> set (cs_subscribers cs). snd key = ConsumerShardCount mg"
  shows "\<exists>p' cs'. RoutePayloadToConsumer mg p = Ok (None, p') \<and> Publish p' cs = (Ok None, cs') \<and>
    (\<forall>key rs. (key, rs) \<in> set (cs_subscribers cs) \<longrightarrow> (\<forall>r \<in> set rs.
       if fst key = GetShardIdOfGuild g (ConsumerShardCount mg) then gets p' cs cs' r
       else cs_heap cs' r = cs_heap cs r))"
proof -
  let ?n = "ConsumerShardCount mg"
  let ?k = "GetShardIdOfGuild g ?n"
  obtain p' md where p': "RoutePayloadToConsumer mg p = Ok (None, p')" "sp_Metadata p' = Some md"
    "md_Shard md = (0, ?k, ?n)" "sp_EventDispatchIdentifier p' = sp_EventDispatchIdentifier p"
    using route_guild [OF assms(1)] .
  have "sp_EventDispatchIdentifier p' \<noteq> None" using assms(1) p'(4) by (auto simp: guild_packet_def)
  then obtain cs' where cs': "publish (?k, ?n) p' cs = (Ok (), cs')"
    "\<And>r. if r \<in> set (recipients (?k, ?n) p' (cs_subscribers cs)) then gets p' cs cs' r
         else cs_heap cs' r = cs_heap cs r"
    using publish_serving [OF assms(2)] by blast
  have "if fst key = ?k then gets p' cs cs' r else cs_heap cs' r = cs_heap cs r"
    if "(key, rs) \<in> set (cs_subscribers cs)" "r \<in> set rs" for key rs r
  proof -
    have "key2 = key" if "(key2, rs2) \<in> set (cs_subscribers cs)" "r \<in> set rs2" for key2 rs2
      using that \<open>(key, rs) \<in> set (cs_subscribers cs)\<close> \<open>r \<in> set rs\<close> assms(2)
      by (auto simp: serving_def all_subscribers_def dest: distinct_concat_once)
    then have "r \<in> set (recipients (?k, ?n) p' (cs_subscribers cs)) \<longleftrightarrow> wants (?k, ?n) p' key"
      using that unfolding recipients_iff by blast
    moreover have "wants (?k, ?n) p' key \<longleftrightarrow> fst key = ?k"
      using that(1) assms(3) by (auto simp: wants_def)
    ultimately show ?thesis using cs'(2) [of r] by simp
  qed
  with p'(1) Publish_publish [OF p'(2,3) cs'(1)] show ?thesis by blast
qed

lemma serving_key:
  assumes "serving cs" and "(key, rs) \<in> set (cs_subscribers cs)" and "r \<in> set rs"
  shows "r \<in> set (recipients shard msg (cs_subscribers cs)) \<longleftrightarrow> wants shard msg key"
proof -
  have "key2 = key" if "(key2, rs2) \<in> set (cs_subscribers cs)" "r \<in> set rs2" for key2 rs2
    using that assms by (auto simp: serving_def all_subscribers_def dest: distinct_concat_once)
  then show ?thesis using assms(2,3) unfolding recipients_iff by blast
qed

lemma GetShardIdOfGuild_one: "GetShardIdOfGuild g 1 = 0"
  by (simp add: GetShardIdOfGuild_def signed_modulo_int_def)

text \<open>A consumer that runs one shard while the manager has more virtual shards misses every guild whose
  virtual shard is not 0: the remapped shard is compared with the shard of the packet, not with the
  consumer's.\<close>

lemma single_shard_consumer_misses:
  assumes "guild_packet mg g p" and "serving cs" and "((0, 1), rs) \<in> set (cs_subscribers cs)" and "r \<in> set rs"
    and "ConsumerShardCount mg \<noteq> 1" and "GetShardIdOfGuild g (ConsumerShardCount mg) \<noteq> 0"
  shows "\<exists>p' cs'. RoutePayloadToConsumer mg p = Ok (None, p') \<and> Publish p' cs = (Ok None, cs')
    \<and> cs_heap cs' r = cs_heap cs r"
proof -
  let ?n = "ConsumerShardCount mg"
  let ?k = "GetShardIdOfGuild g ?n"
  obtain p' md where p': "RoutePayloadToConsumer mg p = Ok (None, p')" "sp_Metadata p' = Some md"
    "md_Shard md = (0, ?k, ?n)" "sp_EventDispatchIdentifier p' = sp_EventDispatchIdentifier p"
    using route_guild [OF assms(1)] .
  have "sp_EventDispatchIdentifier p' \<noteq> None" using assms(1) p'(4) by (auto simp: guild_packet_def)
  then obtain cs' where cs': "publish (?k, ?n) p' cs = (Ok (), cs')"
    "if r \<in> set (recipients (?k, ?n) p' (cs_subscribers cs)) then gets p' cs cs' r else cs_heap cs' r = cs_heap cs r"
    using publish_serving [OF assms(2)] by blast
  have "\<not> wants (?k, ?n) p' (0, 1)"
    using assms(1,5,6) p'(4) by (auto simp: wants_def guild_packet_def GetShardIdOfGuild_one)
  then have "cs_heap cs' r = cs_heap cs r"
    using cs'(2) serving_key [OF assms(2,3,4)] by simp
  with p'(1) Publish_publish [OF p'(2,3) cs'(1)] show ?thesis by blast
qed

text \<open>An event for all consumers reaches only those that run shard 0: the test for a global packet looks at the
  length of an array of three.\<close>

lemma global_event_shard_0:
  assumes "serving cs"
  shows "\<exists>cs'. Publish (global_packet t d) cs = (Ok None, cs') \<and>
    (\<forall>key rs. (key, rs) \<in> set (cs_subscribers cs) \<longrightarrow> (\<forall>r \<in> set rs.
       if fst key = 0 then gets (global_packet t d) cs cs' r else cs_heap cs' r = cs_heap cs r))"
proof -
  let ?p = "global_packet t d"
  have p: "sp_EventDispatchIdentifier ?p \<noteq> None"
    "sp_Metadata ?p = Some \<lparr> md_Version = VERSION, md_Identifier = [], md_Application = [], md_ApplicationID = 0,
        md_Shard = (0, 0, 0) \<rparr>"
    by (simp_all add: global_packet_def)
  obtain cs' where cs': "publish (0, 0) ?p cs = (Ok (), cs')"
    "\<And>r. if r \<in> set (recipients (0, 0) ?p (cs_subscribers cs)) then gets ?p cs cs' r else cs_heap cs' r = cs_heap cs r"
    using publish_serving [OF assms p(1)] by blast
  have "wants (0, 0) ?p key \<longleftrightarrow> fst key = 0" for key
    by (simp add: wants_def global_packet_def)
  then have "if fst key = 0 then gets ?p cs cs' r else cs_heap cs' r = cs_heap cs r"
    if "(key, rs) \<in> set (cs_subscribers cs)" "r \<in> set rs" for key rs r
    using cs'(2) [of r] serving_key [OF assms that, of "(0, 0)" ?p] by simp
  with Publish_publish [OF p(2) _ cs'(1)] show ?thesis by auto
qed

section \<open>Identifying and resuming\<close>

text \<open>Identifying succeeds exactly for the expected token and a shard whose count and whose number are at most
  the consumers' shard count; a count that is not positive stands for that count. The shard with the number
  of the count, and every negative one, is accepted.\<close>

lemma identify_accepts:
  assumes "wl_identify wl (sp_Data packet) = Inr im" and "ws_identify wl r packet cs = (res, cs')"
  defines "csc \<equiv> ConsumerShardCount (cs_manager cs)"
  defines "shard \<equiv> (fst (im_Shard im), if sint (snd (im_Shard im)) \<le> 0 then csc else snd (im_Shard im))"
  shows "(res = Ok (None, None) \<longleftrightarrow> bare_token (im_Token im) = cs_expectedToken cs
      \<and> sint (snd shard) \<le> sint csc \<and> sint (fst shard) \<le> sint csc)
    \<and> (res = Ok (None, None) \<longrightarrow> cs_heap cs' r = (cs_heap cs r)\<lparr>sub_sessionId := wl_randomHex wl, sub_shard := shard\<rparr>)"
  using assms(2) unfolding shard_def csc_def
  by (auto simp: ws_identify_def assms(1) Let_def bnd_eval ret_def upd_def not_less split: if_splits)

text \<open>What a resume with the right token leads to: naming a session is refused, whatever sessions there are, since
  the handler compares it with the session of the new connection, which is still empty; naming none takes over
  the first session that the loop visits, with its shard.\<close>

lemma resume_outcome:
  assumes "wl_resume wl (sp_Data packet) = Inr rm" and "bare_token (rm_Token rm) = cs_expectedToken cs"
    and "sub_sessionId (cs_heap cs r) = []" and "\<not> cs_writer cs" and "\<not> cs_waiting cs"
  shows "ws_resume wl r packet cs =
    (case (if rm_SessionID rm = [] then all_subscribers cs else []) of
       [] \<Rightarrow> (Ok (None, Some (ErrNew ''invalid session id'')), cs)
     | old # _ \<Rightarrow> (Ok (Some old, None), on_sub r (\<lambda>s. s\<lparr>sub_seq := rm_Seq rm,
         sub_shard := (let (id, count) = sub_shard (cs_heap cs old) in
           (id, if sint count \<le> 0 then ConsumerShardCount (cs_manager cs) else count))\<rparr>) cs))"
proof -
  let ?cs = "cs\<lparr>cs_readers := Suc (cs_readers cs)\<rparr>"
  have found: "find (\<lambda>old. sub_sessionId (cs_heap ?cs r) = rm_SessionID rm) (concat (map snd (cs_subscribers ?cs)))
      = (case (if rm_SessionID rm = [] then all_subscribers cs else []) of [] \<Rightarrow> None | old # _ \<Rightarrow> Some old)"
  proof -
    have "find (\<lambda>old. b) xs = (case (if b then xs else []) of [] \<Rightarrow> None | old # _ \<Rightarrow> Some old)" for b and xs :: "nat list"
      by (cases xs; cases b) (simp_all add: find_None_iff)
    then show ?thesis using assms(3) by (simp add: all_subscribers_def)
  qed
  show ?thesis
  proof (cases "if rm_SessionID rm = [] then all_subscribers cs else []")
    case Nil
    with found have "find (\<lambda>old. sub_sessionId (cs_heap cs r) = rm_SessionID rm) (concat (map snd (cs_subscribers cs))) = None"
      by (simp only: list.case) simp
    then show ?thesis
      unfolding Nil using assms(2,4,5)
      by (simp add: ws_resume_def assms(1) bnd_eval holding_def bnd_Ok RLock_free ret_def RUnlock_def)
  next
    case (Cons old olds)
    with found have "find (\<lambda>old. sub_sessionId (cs_heap cs r) = rm_SessionID rm) (concat (map snd (cs_subscribers cs))) = Some old"
      by (simp only: list.case) simp
    then show ?thesis
      unfolding Cons using assms(2,4,5)
      by (simp add: ws_resume_def assms(1) bnd_eval holding_def bnd_Ok RLock_free ret_def RUnlock_def on_sub_def split_beta Let_def)
  qed
qed

end
