(* ===== verification/Chat_Life.thy ===== *)
theory Chat_Life
  imports Chat_Props
begin

text \<open>
  Properties of the websocket producer, continued: what a new subscriber is sent first, how its messages are
  numbered, that deleting a subscriber removes it and only it, and that closing sessions locks the table up.
\<close>

section \<open>Closing sessions\<close>

text \<open>The daemon can queue the two messages of an invalid session for the subscriber.\<close>

definition closable :: "chatServer \<Rightarrow> nat \<Rightarrow> bool" where
  "closable cs r \<longleftrightarrow> (let s = cs_heap cs r in
     \<not> ch_closed (sub_writeBytes s) \<and> length (ch_buf (sub_writeBytes s)) < ch_cap (sub_writeBytes s) \<and>
     \<not> ch_closed (sub_writeCloseMessage s) \<and> length (ch_buf (sub_writeCloseMessage s)) < ch_cap (sub_writeCloseMessage s))"

text \<open>Nothing that needs the table returns any more.\<close>

definition locked_up :: "chatServer \<Rightarrow> bool" where
  "locked_up cs \<longleftrightarrow> (\<forall>shard msg. fst (publish shard msg cs) = Panic out_of_fuel)
     \<and> (\<forall>r shard. fst (addSubscriber r shard cs) = Panic out_of_fuel)
     \<and> (\<forall>r. fst (deleteSubscriber r cs) = Panic out_of_fuel)"

lemma waiting_locked_up: "cs_waiting cs \<Longrightarrow> 0 < cs_readers cs \<Longrightarrow> locked_up cs"
  by (simp add: locked_up_def publish_def addSubscriber_def deleteSubscriber_def holding_Panic [OF RLock_taken]
      holding_Panic [OF Lock_taken])

lemma send_ok:
  "\<not> ch_closed (get (cs_heap cs r)) \<Longrightarrow> length (ch_buf (get (cs_heap cs r))) < ch_cap (get (cs_heap cs r)) \<Longrightarrow>
     send get put r x cs = (Ok (), on_sub r (put (\<lambda>c. c\<lparr>ch_buf := ch_buf c @ [x]\<rparr>)) cs)"
  by (simp add: send_def bnd_eval upd_def)

lemma drop_session_stuck:
  assumes "0 < cs_readers cs" and "closable cs r"
  shows "\<exists>cs'. drop_session reason r cs = (Panic out_of_fuel, cs') \<and> locked_up cs'"
proof -
  obtain cs1 where cs1: "invalidSession r reason True cs = (Ok (), cs1)" "cs_readers cs1 = cs_readers cs"
    using assms(2) by (simp add: invalidSession_def closable_def Let_def send_ok bnd_Ok)
  have "deleteSubscriber r cs1 = (Panic out_of_fuel, cs1\<lparr>cs_waiting := True\<rparr>)"
    using assms(1) cs1(2) by (simp add: deleteSubscriber_def holding_Panic [OF Lock_taken])
  moreover have "locked_up (cs1\<lparr>cs_waiting := True\<rparr>)"
    using assms(1) cs1(2) by (intro waiting_locked_up) simp_all
  ultimately show ?thesis using cs1(1) by (simp add: drop_session_def bnd_Ok)
qed

lemma each_stuck:
  assumes "0 < cs_readers cs" and "\<forall>r \<in> set rs. closable cs r" and "\<exists>r \<in> set rs. mine r cs"
  shows "\<exists>cs'. each (\<lambda>s. bnd (rd (mine s)) (\<lambda>m. if m then drop_session reason s else ret ())) rs cs
    = (Panic out_of_fuel, cs') \<and> locked_up cs'"
  using assms
proof (induction rs)
  case (Cons r rs)
  show ?case
  proof (cases "mine r cs")
    case True
    then show ?thesis
      using drop_session_stuck [OF Cons.prems(1), of r reason] Cons.prems(2) by (auto simp: bnd_eval)
  next
    case False
    then show ?thesis using Cons by (auto simp: bnd_eval ret_def)
  qed
qed simp

lemma reading_each_stuck:
  assumes "\<not> cs_writer cs" and "\<not> cs_waiting cs" and "\<forall>r \<in> set (all_subscribers cs). closable cs r"
    and "\<exists>r \<in> set (all_subscribers cs). mine r (cs\<lparr>cs_readers := Suc (cs_readers cs)\<rparr>)"
  shows "\<exists>cs'. reading_table (bnd (rd all_subscribers) (each (\<lambda>s.
      bnd (rd (mine s)) (\<lambda>m. if m then drop_session reason s else ret ())))) cs = (Panic out_of_fuel, cs') \<and> locked_up cs'"
proof -
  let ?cs = "cs\<lparr>cs_readers := Suc (cs_readers cs)\<rparr>"
  have "all_subscribers ?cs = all_subscribers cs" "\<forall>r \<in> set (all_subscribers cs). closable ?cs r"
    using assms(3) by (simp_all add: all_subscribers_def closable_def)
  then obtain cs' where cs': "bnd (rd all_subscribers) (each (\<lambda>s.
      bnd (rd (mine s)) (\<lambda>m. if m then drop_session reason s else ret ()))) ?cs = (Panic out_of_fuel, cs')" "locked_up cs'"
    using each_stuck [of ?cs "all_subscribers cs" mine reason] assms(4) by (auto simp: bnd_eval)
  then show ?thesis using reading_stuck [OF assms(1,2), where cs' = cs'] by blast
qed

text \<open>C29. Closing a shard for any other reason than a gateway issue never returns while a consumer runs that
  shard: the table is locked for reading when \<^verbatim>\<open>deleteSubscriber\<close> asks to write it. From then on nothing can be
  published and no consumer can join or leave.\<close>

theorem close_shard_deadlocks:
  assumes "\<not> cs_writer cs" and "\<not> cs_waiting cs" and "\<forall>r \<in> set (all_subscribers cs). closable cs r"
    and "\<exists>r \<in> set (all_subscribers cs). fst (sub_shard (cs_heap cs r)) = shardID"
  shows "\<exists>cs'. CloseShard shardID MQCloseShardReasonOther cs = (Panic out_of_fuel, cs') \<and> locked_up cs'"
  using reading_each_stuck [OF assms(1-3), of "\<lambda>s cs. fst (sub_shard (cs_heap cs s)) = shardID" "''Shard closed''"] assms(4)
  by (simp add: CloseShard_def)

lemma stop_session_deadlocks:
  assumes "\<not> cs_writer cs" and "\<not> cs_waiting cs" and "\<forall>r \<in> set (all_subscribers cs). closable cs r"
    and "\<exists>r \<in> set (all_subscribers cs). sub_sessionId (cs_heap cs r) = sessionID"
  shows "\<exists>cs'. StopSession sessionID cs = (Panic out_of_fuel, cs') \<and> locked_up cs'"
  using reading_each_stuck [OF assms(1-3), of "\<lambda>s cs. sub_sessionId (cs_heap cs s) = sessionID" "''Session stopped''"]
    assms(4) by (simp add: StopSession_def)

section \<open>Deleting a subscriber\<close>

definition same_session :: "nat \<Rightarrow> chatServer \<Rightarrow> nat \<Rightarrow> bool" where
  "same_session r cs x \<longleftrightarrow> sub_sessionId (cs_heap cs x) = sub_sessionId (cs_heap cs r) \<or> x = r"

lemma delete_loop_step:
  "delete_loop r i arr cs =
     (if length arr \<le> i then cs
      else if same_session r cs (arr ! i)
      then delete_loop r (Suc i) (append_without i arr)
        ((cancelFunc (arr ! i) cs)\<lparr>cs_subscribers := AList.update (sub_shard (cs_heap cs r))
           (take (length arr - 1) (append_without i arr)) (cs_subscribers cs)\<rparr>)
      else delete_loop r (Suc i) arr cs)"
  by (subst delete_loop.simps) (simp add: same_session_def cancelFunc_def Let_def)

lemma delete_loop_skip:
  assumes "\<And>j. i \<le> j \<Longrightarrow> j < k \<Longrightarrow> \<not> same_session r cs (arr ! j)" and "i \<le> k" and "k \<le> length arr"
  shows "delete_loop r i arr cs = delete_loop r k arr cs"
  using assms
proof (induction "k - i" arbitrary: i)
  case (Suc n)
  then have "i < k" by simp
  then have "delete_loop r i arr cs = delete_loop r (Suc i) arr cs"
    using Suc.prems by (subst delete_loop_step) auto
  also have "\<dots> = delete_loop r k arr cs" using Suc by (intro Suc.hyps(1)) auto
  finally show ?case .
qed simp

lemma delete_loop_end: "delete_loop r (length arr) arr cs = cs"
  by (subst delete_loop_step) simp

lemma delete_loop_unique:
  assumes "distinct arr" and "i < length arr" and "arr ! i = r" and "\<And>x. x \<in> set arr \<Longrightarrow> same_session r cs x \<Longrightarrow> x = r"
  shows "delete_loop r 0 arr cs = (cancelFunc r cs)\<lparr>cs_subscribers :=
     AList.update (sub_shard (cs_heap cs r)) (take i arr @ drop (Suc i) arr) (cs_subscribers cs)\<rparr>"
proof -
  let ?arr = "append_without i arr"
  let ?cs = "(cancelFunc r cs)\<lparr>cs_subscribers :=
     AList.update (sub_shard (cs_heap cs r)) (take i arr @ drop (Suc i) arr) (cs_subscribers cs)\<rparr>"
  have len: "length ?arr = length arr" using assms(2) by (simp add: append_without_def)
  have other: "\<not> same_session r cs (arr ! j)" if "j < length arr" "j \<noteq> i" for j
    using that assms by (metis nth_eq_iff_index_eq nth_mem)
  have same: "same_session r ?cs = same_session r cs"
    by (simp add: same_session_def cancelFunc_def fun_eq_iff)
  have start: "delete_loop r 0 arr cs = delete_loop r i arr cs"
    using other assms(2) by (intro delete_loop_skip) auto
  have "take (length arr - 1) ?arr = take i arr @ drop (Suc i) arr"
    using assms(2) by (simp add: append_without_def)
  then have hit: "delete_loop r i arr cs = delete_loop r (Suc i) ?arr ?cs"
    using assms(2,3) by (subst delete_loop_step) (simp add: same_session_def)
  have rest: "\<not> same_session r ?cs (?arr ! j)" if "Suc i \<le> j" "j < length ?arr" for j
  proof -
    show ?thesis
    proof (cases "Suc j < length arr")
      case True
      then have "?arr ! j = arr ! Suc j"
        using that assms(2) by (auto simp: append_without_def nth_append)
      then show ?thesis using other that True by (simp add: same)
    next
      case False
      then have j: "j = length arr - 1" using that len by simp
      then have "?arr ! j = arr ! j"
        using that assms(2) by (auto simp: append_without_def nth_append)
      then show ?thesis using other that len by (simp add: same)
    qed
  qed
  have "delete_loop r (Suc i) ?arr ?cs = delete_loop r (length ?arr) ?arr ?cs"
    using rest assms(2) len by (intro delete_loop_skip) auto
  then show ?thesis by (simp add: start hit delete_loop_end)
qed

text \<open>C32. Deleting a registered subscriber whose session no other subscriber of the shard has takes exactly that
  subscriber out of the table, keeps the others in their order, and cancels its context only.\<close>

theorem delete_removes:
  assumes "\<not> cs_writer cs" and "cs_readers cs = 0"
    and "map_of (cs_subscribers cs) (sub_shard (cs_heap cs r)) = Some rs" and "distinct rs" and "r \<in> set rs"
    and "\<forall>x \<in> set rs. sub_sessionId (cs_heap cs x) = sub_sessionId (cs_heap cs r) \<longrightarrow> x = r"
  shows "\<exists>cs'. deleteSubscriber r cs = (Ok (), cs')
    \<and> map_of (cs_subscribers cs') = (map_of (cs_subscribers cs))(sub_shard (cs_heap cs r) \<mapsto> filter (\<lambda>x. x \<noteq> r) rs)
    \<and> cs_heap cs' = (cs_heap cs)(r := (cs_heap cs r)\<lparr>sub_done := True\<rparr>)"
proof -
  obtain i where i: "i < length rs" "rs ! i = r" using assms(5) by (auto simp: in_set_conv_nth)
  have split: "rs = take i rs @ r # drop (Suc i) rs" using i id_take_nth_drop by metis
  then have "r \<notin> set (take i rs)" "r \<notin> set (drop (Suc i) rs)"
    using assms(4) by (metis distinct.simps(2) distinct_append not_distinct_conv_prefix)+
  then have "filter (\<lambda>x. x \<noteq> r) (take i rs) = take i rs" "filter (\<lambda>x. x \<noteq> r) (drop (Suc i) rs) = drop (Suc i) rs"
    unfolding filter_id_conv by blast+
  then have filt: "filter (\<lambda>x. x \<noteq> r) rs = take i rs @ drop (Suc i) rs"
    by (subst split) simp
  let ?cs = "cs\<lparr>cs_writer := True\<rparr>"
  have lock: "Lock cs = (Ok (), ?cs)" using assms(1,2) by (simp add: Lock_def bnd_eval upd_def)
  have loop: "delete_loop r 0 rs ?cs = (cancelFunc r ?cs)\<lparr>cs_subscribers :=
     AList.update (sub_shard (cs_heap cs r)) (filter (\<lambda>x. x \<noteq> r) rs) (cs_subscribers cs)\<rparr>"
    using delete_loop_unique [OF assms(4) i, of ?cs] assms(6) by (auto simp: filt same_session_def)
  show ?thesis
    using assms(3) loop
    by (simp add: deleteSubscriber_def holding_def bnd_Ok lock upd_def Unlock_def cancelFunc_def on_sub_def update_conv')
qed

section \<open>Numbering the messages\<close>

fun write_turns :: "ws_lib \<Rightarrow> nat \<Rightarrow> nat \<Rightarrow> chatServer \<Rightarrow> chatServer" where
  "write_turns wl r 0 cs = cs"
| "write_turns wl r (Suc n) cs = write_turns wl r n (snd (writeMessages wl r SelNormal True cs))"

lemma write_turn:
  assumes "ch_buf (sub_writeNormal (cs_heap cs r)) = m # ms" and "sp_Op m = GatewayOpDispatch"
    and "\<And>p. wl_message wl p = Inr (enc p)"
  shows "writeMessages wl r SelNormal True cs = (Ok True, on_sub r (\<lambda>s. s\<lparr>
      sub_writeNormal := (sub_writeNormal s)\<lparr>ch_buf := ms\<rparr>, sub_seq := sub_seq s + 1,
      sub_out := sub_out s @ [WsText (enc (m\<lparr>sp_Sequence := sub_seq s\<rparr>))]\<rparr>) cs)"
  using assms
  by (cases "cs_heap cs r") (simp add: writeMessages_def goroutine_def write_normal_def receive_def bnd_eval bnd_def rd_def act_def upd_def
      ret_def write_text_def ws_put_def on_sub_def)


section \<open>The initial state\<close>

definition queue :: "nat \<Rightarrow> SandwichPayload list \<Rightarrow> chatServer \<Rightarrow> chatServer" where
  "queue r ms = on_sub r (sub_writeNormal_update (\<lambda>c. c\<lparr>ch_buf := ch_buf c @ ms\<rparr>))"

definition room_for :: "nat \<Rightarrow> nat \<Rightarrow> chatServer \<Rightarrow> bool" where
  "room_for r n cs \<longleftrightarrow> (let c = sub_writeNormal (cs_heap cs r) in
     \<not> ch_closed c \<and> length (ch_buf c) + n \<le> ch_cap c)"

lemma queue_frame [simp]:
  "cs_State (queue r ms cs) = cs_State cs" "cs_manager (queue r ms cs) = cs_manager cs"
  "cs_quickStart (queue r ms cs) = cs_quickStart cs"
  "sub_shard (cs_heap (queue r ms cs) x) = sub_shard (cs_heap cs x)"
  "sub_done (cs_heap (queue r ms cs) x) = sub_done (cs_heap cs x)"
  "guild_shard (queue r ms cs) = guild_shard cs" "cached_guilds (queue r ms cs) = cached_guilds cs"
  by (simp_all add: queue_def guild_shard_def cached_guilds_def fun_eq_iff)

lemma on_sub_idle: "f (cs_heap cs r) = cs_heap cs r \<Longrightarrow> on_sub r f cs = cs"
  by (simp add: on_sub_def fun_upd_idem)

lemma queue_nil [simp]: "queue r [] cs = cs"
  unfolding queue_def by (rule on_sub_idle, cases "cs_heap cs r") simp

lemma queue_append [simp]: "queue r ns (queue r ms cs) = queue r (ms @ ns) cs"
  by (simp add: queue_def on_sub_def comp_def)

lemma room_for_queue [simp]: "room_for r n (queue r ms cs) \<longleftrightarrow> room_for r (length ms + n) cs"
  by (simp add: room_for_def queue_def Let_def add.assoc)

lemma room_for_less: "room_for r n cs \<Longrightarrow> m \<le> n \<Longrightarrow> room_for r m cs"
  by (auto simp: room_for_def Let_def)

lemma send_normal_queue: "room_for r (Suc n) cs \<Longrightarrow> send_normal r m cs = (Ok (), queue r [m] cs)"
  by (simp add: send_def bnd_eval upd_def queue_def room_for_def Let_def)

definition guild_create :: "(Guild \<Rightarrow> bytes) \<Rightarrow> chatServer \<Rightarrow> GuildID \<Rightarrow> SandwichPayload" where
  "guild_create enc cs g = dispatch_payload ''GUILD_CREATE'' (enc (fst (GetGuild (cs_State cs) g)))"

definition own_guilds :: "nat \<Rightarrow> chatServer \<Rightarrow> GuildID list" where
  "own_guilds r cs = filter (\<lambda>g. guild_shard cs g = fst (sub_shard (cs_heap cs r))) (cached_guilds cs)"

definition to_send :: "nat \<Rightarrow> chatServer \<Rightarrow> GuildID list \<Rightarrow> GuildID list" where
  "to_send r cs = filter (\<lambda>g. guild_shard cs g = fst (sub_shard (cs_heap cs r)) \<and> snd (GetGuild (cs_State cs) g))"

lemma to_send_queue [simp]: "to_send r (queue r' ms cs) = to_send r cs"
  by (simp add: to_send_def)

lemma send_guilds_queue:
  assumes "\<And>g. wl_guild wl g = Inr (enc g)" and "\<not> sub_done (cs_heap cs r)" and "room_for r (length (to_send r cs gs)) cs"
  shows "send_guilds wl r gs cs = (Ok (), queue r (map (guild_create enc cs) (to_send r cs gs)) cs)"
  using assms(2,3)
proof (induction gs arbitrary: cs)
  case Nil
  then show ?case by (simp add: to_send_def ret_def)
next
  case (Cons g gs)
  obtain guild ok where get: "GetGuild (cs_State cs) g = (guild, ok)" by fastforce
  show ?case
  proof (cases "guild_shard cs g = fst (sub_shard (cs_heap cs r)) \<and> ok")
    case False
    then show ?thesis using Cons by (auto simp: to_send_def bnd_eval get)
  next
    case True
    let ?m = "guild_create enc cs g"
    have "to_send r cs (g # gs) = g # to_send r cs gs" using True by (simp add: to_send_def get)
    moreover have "guild_create enc (queue r [?m] cs) = guild_create enc cs" by (simp add: guild_create_def fun_eq_iff)
    ultimately show ?thesis
      using Cons.IH [of "queue r [?m] cs"] Cons.prems True
      by (simp add: bnd_eval get assms(1) guild_create_def [of enc cs g] bnd_Ok send_normal_queue)
  qed
qed

text \<open>C30. What a consumer is sent first: a \<^verbatim>\<open>READY\<close> that lists the cached guilds of its shard, then one
  \<^verbatim>\<open>GUILD_CREATE\<close> for each of them that can be read back, in the order of the cache. With a quick start, a
  \<^verbatim>\<open>READY\<close> without guilds and nothing else.\<close>

theorem initial_state_sent:
  assumes "\<And>x. wl_ready wl x = Inr (rdy x)" and "\<And>g. wl_guild wl g = Inr (enc g)" and "\<not> sub_done (cs_heap cs r)"
    and "room_for r (Suc (length (own_guilds r cs))) cs"
  shows "dispatchInitial wl r cs = (Ok None,
    let guilds = (if cs_quickStart cs then [] else own_guilds r cs);
        ready = \<lparr> rdy_user = mg_User (cs_manager cs), rdy_session_id = sub_sessionId (cs_heap cs r),
          rdy_shard = sub_shard (cs_heap cs r), rdy_resume_gateway_url = cs_externalAddress cs,
          rdy_guilds = map (\<lambda>g. \<lparr> ugd_ID = g, ugd_Unavailable = False \<rparr>) guilds \<rparr>
    in queue r (dispatch_payload ''READY'' (rdy ready)
         # map (guild_create enc cs) (filter (\<lambda>g. snd (GetGuild (cs_State cs) g)) guilds)) cs)"
proof -
  define gs where "gs = (if cs_quickStart cs then [] else cached_guilds cs)"
  define guilds where "guilds = (if cs_quickStart cs then [] else own_guilds r cs)"
  define ready where "ready = \<lparr> rdy_user = mg_User (cs_manager cs), rdy_session_id = sub_sessionId (cs_heap cs r),
     rdy_shard = sub_shard (cs_heap cs r), rdy_resume_gateway_url = cs_externalAddress cs,
     rdy_guilds = map (\<lambda>g. \<lparr> ugd_ID = g, ugd_Unavailable = False \<rparr>) guilds \<rparr>"
  let ?m = "dispatch_payload ''READY'' (rdy ready)"
  have sent: "to_send r cs gs = filter (\<lambda>g. snd (GetGuild (cs_State cs) g)) guilds"
    by (simp add: gs_def guilds_def to_send_def own_guilds_def conj_commute)
  also have "length \<dots> \<le> length (own_guilds r cs)"
    by (simp add: guilds_def)
  finally have "room_for r (length (to_send r cs gs)) (queue r [?m] cs)"
    using assms(4) by (auto intro: room_for_less)
  then have send: "send_guilds wl r gs (queue r [?m] cs)
      = (Ok (), queue r (map (guild_create enc (queue r [?m] cs)) (to_send r cs gs)) (queue r [?m] cs))"
    using send_guilds_queue [OF assms(2), where cs = "queue r [?m] cs" and r = r and gs = gs] assms(3) by simp
  have ge: "guild_create enc (queue r [?m] cs) = guild_create enc cs" by (simp add: guild_create_def fun_eq_iff)
  have unav: "(if cs_quickStart cs then [] else map (\<lambda>g. \<lparr> ugd_ID = g, ugd_Unavailable = False \<rparr>)
      (filter (\<lambda>g. guild_shard cs g = fst (sub_shard (cs_heap cs r))) (cached_guilds cs)))
      = map (\<lambda>g. \<lparr> ugd_ID = g, ugd_Unavailable = False \<rparr>) guilds"
    by (simp add: guilds_def own_guilds_def)
  have "dispatchInitial wl r cs = bnd (send_normal r ?m) (\<lambda>_.
         bnd (rd (\<lambda>cs. if cs_quickStart cs then [] else cached_guilds cs)) (\<lambda>guilds.
         bnd (send_guilds wl r guilds) (\<lambda>_. ret None))) cs"
    unfolding dispatchInitial_def using assms(3) by (simp only: bnd_eval unav assms(1) ready_def) (simp add: bnd_eval)
  also have "\<dots> = bnd (send_guilds wl r gs) (\<lambda>_. ret None) (queue r [?m] cs)"
    using assms(4) by (simp add: bnd_Ok send_normal_queue bnd_eval gs_def)
  also have "\<dots> = (Ok None, queue r (?m # map (guild_create enc cs) (to_send r cs gs)) cs)"
    by (simp add: bnd_def send ge ret_def)
  finally show ?thesis by (simp add: sent ready_def guilds_def Let_def)
qed

end
