(* ===== verification/Chat_Steps.thy ===== *)
theory Chat_Steps
  imports Chat_Life Chat_Client
begin

text \<open>
  The websocket producer as a transition system: its operations in any order, what keeps holding of the table and
  of the channels of every subscriber, and why a connection that resumes another session never gets through.
\<close>

section \<open>The invariant\<close>

text \<open>The five channels are closed together, and hold no more than their capacity.\<close>

definition chan_ok :: "'a chan \<Rightarrow> bool \<Rightarrow> bool" where
  "chan_ok c closed \<longleftrightarrow> length (ch_buf c) \<le> ch_cap c \<and> ch_closed c = closed"

definition sub_ok :: "subscriber \<Rightarrow> bool" where
  "sub_ok s \<longleftrightarrow> (let closed = ch_closed (sub_reader s) in
     chan_ok (sub_reader s) closed \<and> chan_ok (sub_writeNormal s) closed \<and> chan_ok (sub_writeBytes s) closed
     \<and> chan_ok (sub_writeCloseMessage s) closed \<and> chan_ok (sub_writeHeartbeat s) closed)"

definition table_ok :: "chatServer \<Rightarrow> bool" where
  "table_ok cs \<longleftrightarrow> distinct (map fst (cs_subscribers cs))
     \<and> (\<forall>(key, rs) \<in> set (cs_subscribers cs). \<forall>r \<in> set rs. r < cs_next cs \<and> sub_shard (cs_heap cs r) = key)"

text \<open>\<open>Q\<close> is what else is known of the table and of the allocated references.\<close>

definition chat_inv :: "((shard_key \<times> nat list) list \<Rightarrow> nat \<Rightarrow> bool) \<Rightarrow> chatServer \<Rightarrow> bool" where
  "chat_inv Q cs \<longleftrightarrow> table_ok cs \<and> \<not> cs_writer cs \<and> (\<forall>r. sub_ok (cs_heap cs r))
     \<and> Q (cs_subscribers cs) (cs_next cs)"

definition anything :: "(shard_key \<times> nat list) list \<Rightarrow> nat \<Rightarrow> bool" where
  "anything tab n \<longleftrightarrow> True"

definition unregistered :: "nat \<Rightarrow> (shard_key \<times> nat list) list \<Rightarrow> nat \<Rightarrow> bool" where
  "unregistered r tab n \<longleftrightarrow> r < n \<and> (\<forall>(key, rs) \<in> set tab. r \<notin> set rs)"

named_theorems chat_keeps \<open>operations that keep the invariant\<close>

lemma chat_inv_on_sub:
  assumes "chat_inv Q cs" and "\<And>s. sub_ok s \<Longrightarrow> sub_ok (f s)" and "\<And>s. sub_shard (f s) = sub_shard s"
  shows "chat_inv Q (on_sub r f cs)"
  using assms by (auto simp: chat_inv_def table_ok_def)

lemma chat_inv_cong:
  assumes "chat_inv Q cs" and "cs_subscribers cs' = cs_subscribers cs" and "cs_next cs' = cs_next cs"
    and "cs_heap cs' = cs_heap cs" and "cs_writer cs' = cs_writer cs"
  shows "chat_inv Q cs'"
  using assms by (simp add: chat_inv_def table_ok_def)

lemma keeps_on_sub [chat_keeps]:
  assumes "\<And>s. sub_ok s \<Longrightarrow> sub_ok (f s)" and "\<And>s. sub_shard (f s) = sub_shard s"
  shows "keeps (chat_inv Q) (upd (on_sub r f))"
  by (intro keeps_upd chat_inv_on_sub assms)

lemma keeps_cancel [chat_keeps]: "keeps (chat_inv Q) (upd (cancelFunc r))"
  unfolding cancelFunc_def by (intro keeps_on_sub) (auto simp: sub_ok_def)

lemma keeps_set_status [chat_keeps]: "keeps (chat_inv Q) (upd (set_status r st))"
  unfolding set_status_def by (intro keeps_on_sub) (auto simp: sub_ok_def)

lemma keeps_ws_put [chat_keeps]: "keeps (chat_inv Q) (upd (ws_put r x))"
  unfolding ws_put_def by (intro keeps_on_sub) (auto simp: sub_ok_def)

text \<open>How one channel of a subscriber is replaced.\<close>

definition chan_lens :: "(subscriber \<Rightarrow> 'a chan) \<Rightarrow> (('a chan \<Rightarrow> 'a chan) \<Rightarrow> subscriber \<Rightarrow> subscriber) \<Rightarrow> bool" where
  "chan_lens get put \<longleftrightarrow> (\<forall>f s. get (put f s) = f (get s) \<and> sub_shard (put f s) = sub_shard s)
     \<and> (\<forall>f s. sub_ok s \<longrightarrow> chan_ok (f (get s)) (ch_closed (get s)) \<longrightarrow> sub_ok (put f s))
     \<and> (\<forall>s. sub_ok s \<longrightarrow> chan_ok (get s) (ch_closed (sub_reader s)))"

lemma chan_lenses [simp]:
  "chan_lens sub_reader sub_reader_update" "chan_lens sub_writeNormal sub_writeNormal_update"
  "chan_lens sub_writeBytes sub_writeBytes_update" "chan_lens sub_writeCloseMessage sub_writeCloseMessage_update"
  "chan_lens sub_writeHeartbeat sub_writeHeartbeat_update"
  by (auto simp: chan_lens_def sub_ok_def chan_ok_def Let_def)

lemma on_sub_chan:
  assumes "chat_inv Q cs" and "chan_lens get put"
    and "chan_ok (get (cs_heap cs r)) (ch_closed (get (cs_heap cs r))) \<longrightarrow>
      chan_ok (f (get (cs_heap cs r))) (ch_closed (get (cs_heap cs r)))"
  shows "chat_inv Q (on_sub r (put f) cs)"
proof -
  have "sub_ok (put f (cs_heap cs r))"
    using assms unfolding chat_inv_def chan_lens_def by (metis chan_ok_def)
  then show ?thesis
    using assms(1,2) by (auto simp: chat_inv_def table_ok_def chan_lens_def)
qed

lemma keeps_chan_send [chat_keeps]: "chan_lens get put \<Longrightarrow> keeps (chat_inv Q) (send get put r x)"
  by (rule keepsI) (auto simp: send_def bnd_eval upd_def panic_def chan_ok_def intro!: on_sub_chan [where get = get and put = put])

lemma keeps_receive [chat_keeps]: "chan_lens get put \<Longrightarrow> keeps (chat_inv Q) (receive get put zero r)"
  by (rule keepsI)
    (auto simp: receive_def bnd_eval upd_def panic_def ret_def chan_ok_def split: list.split intro!: on_sub_chan [where get = get and put = put])

lemma keeps_subscriber_close [chat_keeps]: "keeps (chat_inv Q) (subscriber_close r)"
proof (rule keepsI)
  fix cs assume inv: "chat_inv Q cs"
  then have "sub_ok (cs_heap cs r)" by (simp add: chat_inv_def)
  with inv show "chat_inv Q (snd (subscriber_close r cs))"
    by (cases "ch_closed (sub_reader (cs_heap cs r))")
      (auto simp: subscriber_close_def close_chan_def bnd_def rd_def panic_def upd_def cancelFunc_def chat_inv_def
        table_ok_def sub_ok_def chan_ok_def Let_def)
qed

section \<open>The table\<close>

lemma keeps_reading [chat_keeps]:
  assumes "keeps (chat_inv Q) body"
  shows "keeps (chat_inv Q) (reading_table body)"
proof (rule keepsI)
  fix cs assume inv: "chat_inv Q cs"
  let ?cs = "cs\<lparr>cs_readers := Suc (cs_readers cs)\<rparr>"
  have "chat_inv Q ?cs" by (rule chat_inv_cong [OF inv]) simp_all
  then have *: "chat_inv Q (snd (body ?cs))" using assms by (simp add: keeps_def)
  have "chat_inv Q (RUnlock (snd (body ?cs)))" by (rule chat_inv_cong [OF *]) (simp_all add: RUnlock_def)
  with * inv show "chat_inv Q (snd (reading_table body cs))"
    by (auto simp: holding_def bnd_def RLock_def rd_def panic_def upd_def split: prod.splits res.splits)
qed

lemma in_update: "x \<in> set (AList.update k v al) \<Longrightarrow> x = (k, v) \<or> x \<in> set al"
  by (induction al) (auto split: if_splits)

lemma table_ok_update:
  assumes "table_ok cs" and "\<And>r. r \<in> set rs \<Longrightarrow> r < cs_next cs \<and> sub_shard (cs_heap cs r) = key"
  shows "table_ok (cs\<lparr>cs_subscribers := AList.update key rs (cs_subscribers cs)\<rparr>)"
  using assms by (auto simp: table_ok_def distinct_update dest!: in_update)

lemma table_ok_entry:
  "table_ok cs \<Longrightarrow> map_of (cs_subscribers cs) key = Some rs \<Longrightarrow> r \<in> set rs \<Longrightarrow> r < cs_next cs \<and> sub_shard (cs_heap cs r) = key"
  by (auto simp: table_ok_def dest!: map_of_SomeD)

lemma append_without_set: "set (append_without i arr) \<subseteq> set arr"
  by (auto simp: append_without_def dest: in_set_takeD in_set_dropD)

definition loop_inv :: "nat \<Rightarrow> nat list \<Rightarrow> chatServer \<Rightarrow> bool" where
  "loop_inv r arr cs \<longleftrightarrow> table_ok cs \<and> (\<forall>x. sub_ok (cs_heap cs x))
     \<and> (\<forall>x \<in> set arr. x < cs_next cs \<and> sub_shard (cs_heap cs x) = sub_shard (cs_heap cs r))"

lemma loop_inv_hit:
  assumes "loop_inv r arr cs"
  shows "loop_inv r (append_without i arr) ((cancelFunc x cs)\<lparr>cs_subscribers :=
     AList.update (sub_shard (cs_heap cs r)) (take n (append_without i arr)) (cs_subscribers cs)\<rparr>)"
proof -
  let ?cs = "cancelFunc x cs"
  have mono: "y \<in> set (take n (append_without i arr)) \<Longrightarrow> y \<in> set arr" for y
    using append_without_set by (metis in_set_takeD subsetD)
  have "table_ok ?cs" and ok: "sub_ok (cs_heap ?cs y)" for y
    using assms by (auto simp: loop_inv_def table_ok_def cancelFunc_def sub_ok_def)
  then have "table_ok (?cs\<lparr>cs_subscribers :=
      AList.update (sub_shard (cs_heap cs r)) (take n (append_without i arr)) (cs_subscribers ?cs)\<rparr>)"
    using assms mono by (intro table_ok_update) (auto simp: loop_inv_def cancelFunc_def)
  then show ?thesis
    using assms ok append_without_set [of i arr] by (auto simp: loop_inv_def cancelFunc_def)
qed

lemma delete_loop_inv:
  "loop_inv r arr cs \<Longrightarrow> table_ok (delete_loop r i arr cs) \<and> (\<forall>x. sub_ok (cs_heap (delete_loop r i arr cs) x))
     \<and> cs_writer (delete_loop r i arr cs) = cs_writer cs"
proof (induction "length arr - i" arbitrary: i arr cs)
  case 0
  then show ?case by (subst (1 2 3) delete_loop_step) (simp add: loop_inv_def)
next
  case (Suc n)
  let ?arr = "append_without i arr"
  let ?cs = "(cancelFunc (arr ! i) cs)\<lparr>cs_subscribers := AList.update (sub_shard (cs_heap cs r))
     (take (length arr - 1) ?arr) (cs_subscribers cs)\<rparr>"
  have i: "i < length arr" using Suc.hyps(2) by simp
  then have "n = length arr - Suc i" "n = length ?arr - Suc i"
    using Suc.hyps(2) by (simp_all add: append_without_def)
  with Suc.hyps(1) [of ?arr "Suc i" ?cs] Suc.hyps(1) [of arr "Suc i" cs] loop_inv_hit [OF Suc.prems] Suc.prems i
  show ?case
    by (subst (1 2 3) delete_loop_step) (simp add: cancelFunc_def on_sub_def)
qed

lemma keeps_deleteSubscriber [chat_keeps]: "keeps (chat_inv anything) (deleteSubscriber r)"
proof (rule keepsI)
  fix cs assume inv: "chat_inv anything cs"
  show "chat_inv anything (snd (deleteSubscriber r cs))"
  proof (cases "0 < cs_readers cs")
    case True
    then show ?thesis
      using inv by (simp add: deleteSubscriber_def holding_Panic [OF Lock_taken] chat_inv_def table_ok_def)
  next
    case False
    let ?cs = "cs\<lparr>cs_writer := True\<rparr>"
    let ?key = "sub_shard (cs_heap cs r)"
    have run: "snd (deleteSubscriber r cs)
        = Unlock (case map_of (cs_subscribers cs) ?key of Some sub \<Rightarrow> delete_loop r 0 sub ?cs | None \<Rightarrow> ?cs)"
      using False inv by (simp add: deleteSubscriber_def holding_def bnd_def Lock_def rd_def upd_def chat_inv_def)
    show ?thesis
    proof (cases "map_of (cs_subscribers cs) ?key")
      case None
      then show ?thesis using inv by (simp add: run Unlock_def chat_inv_def table_ok_def)
    next
      case (Some sub)
      then have "\<forall>x \<in> set sub. x < cs_next cs \<and> sub_shard (cs_heap cs x) = ?key"
        using inv table_ok_entry [where cs = cs and key = ?key and rs = sub] by (simp add: chat_inv_def)
      then have "loop_inv r sub ?cs"
        using inv by (simp add: loop_inv_def chat_inv_def table_ok_def)
      then show ?thesis
        using delete_loop_inv by (auto simp: run Some Unlock_def chat_inv_def table_ok_def anything_def)
    qed
  qed
qed

lemma addSubscriber_inv:
  assumes "chat_inv (unregistered r) cs"
  shows "chat_inv anything (snd (addSubscriber r (sub_shard (cs_heap cs r)) cs))"
proof (cases "0 < cs_readers cs")
  case True
  then show ?thesis
    using assms by (simp add: addSubscriber_def holding_Panic [OF Lock_taken] chat_inv_def table_ok_def anything_def)
next
  case False
  let ?key = "sub_shard (cs_heap cs r)"
  let ?rs = "(case map_of (cs_subscribers cs) ?key of Some subs \<Rightarrow> subs | None \<Rightarrow> []) @ [r]"
  have run: "snd (addSubscriber r ?key cs) = cs\<lparr>cs_subscribers := AList.update ?key ?rs (cs_subscribers cs), cs_writer := False\<rparr>"
    using False assms
    by (simp add: addSubscriber_def holding_def bnd_def Lock_def rd_def upd_def chat_inv_def Unlock_def split: option.split)
  have entry: "x < cs_next cs \<and> sub_shard (cs_heap cs x) = ?key" if "x \<in> set ?rs" for x
  proof (cases "x = r")
    case True
    then show ?thesis using assms by (simp add: chat_inv_def unregistered_def)
  next
    case False
    with that obtain rs where "map_of (cs_subscribers cs) ?key = Some rs" "x \<in> set rs"
      by (cases "map_of (cs_subscribers cs) ?key") auto
    then show ?thesis using assms unfolding chat_inv_def by (intro table_ok_entry) auto
  qed
  have "table_ok (cs\<lparr>cs_subscribers := AList.update ?key ?rs (cs_subscribers cs)\<rparr>)"
    using assms unfolding chat_inv_def by (intro table_ok_update entry) auto
  then show ?thesis
    using assms by (simp add: run chat_inv_def table_ok_def anything_def)
qed

end
