(* ===== verification/Chat_Reach.thy ===== *)
theory Chat_Reach
  imports Chat_Steps
begin

text \<open>
  Every operation of the websocket producer keeps the invariant of \<open>Chat_Steps\<close>; hence it holds in every
  reachable state.
\<close>

section \<open>The operations keep the invariant\<close>

lemma keeps_invalidSession [chat_keeps]: "keeps (chat_inv Q) (invalidSession r reason res)"
  unfolding invalidSession_def by (intro keeps_intros chat_keeps) simp_all

lemma keeps_upd_id [chat_keeps]: "keeps P (upd id)"
  by (simp add: keeps_def upd_def)

lemma keeps_forward [chat_keeps]: "keeps (chat_inv Q) (upd (\<lambda>cs. cs\<lparr>cs_forwarded := f cs\<rparr>))"
  by (rule keeps_upd, erule chat_inv_cong) simp_all

lemma keeps_heartbeat [chat_keeps]: "keeps (chat_inv Q) (upd (\<lambda>cs. on_sub r (\<lambda>s. s\<lparr>sub_lastHeartbeat := t cs\<rparr>) cs))"
  by (rule keeps_upd, erule chat_inv_on_sub) (simp_all add: sub_ok_def)

lemma keeps_goroutine [chat_keeps]:
  assumes "keeps (chat_inv Q) turn" shows "keeps (chat_inv Q) (goroutine r turn)"
proof (rule keepsI)
  fix cs assume inv: "chat_inv Q cs"
  have cancel: "chat_inv Q (cancelFunc r cs)" if "chat_inv Q cs" for cs
    using keeps_cancel [of Q r] that by (simp add: keeps_def upd_def)
  from inv have "chat_inv Q (snd (turn cs))" using assms by (simp add: keeps_def)
  then show "chat_inv Q (snd (goroutine r turn cs))"
    by (auto simp: goroutine_def cancel split: prod.splits res.splits bool.splits)
qed

lemma keeps_send_guilds [chat_keeps]: "keeps (chat_inv Q) (send_guilds wl r gs)"
  by (induction gs) (auto intro!: keeps_intros chat_keeps)

lemma keeps_dispatchInitial [chat_keeps]: "keeps (chat_inv Q) (dispatchInitial wl r)"
  unfolding dispatchInitial_def by (intro keeps_intros chat_keeps) simp_all

lemma keeps_readMessages [chat_keeps]: "keeps (chat_inv Q) (readMessages wl r input)"
  unfolding readMessages_def by (intro keeps_intros chat_keeps) simp_all

lemma keeps_handleReadMessages [chat_keeps]: "keeps (chat_inv Q) (handleReadMessages wl r done)"
  unfolding handleReadMessages_def by (intro keeps_intros chat_keeps) simp_all

lemma keeps_write_text [chat_keeps]: "keeps (chat_inv Q) (write_text r ok failure b)"
  unfolding write_text_def by (cases failure) (auto intro!: keeps_intros chat_keeps)

lemma keeps_write_normal [chat_keeps]: "keeps (chat_inv Q) (write_normal wl r ok)"
proof -
  have "chat_inv Q (on_sub r (\<lambda>s. s\<lparr>sub_seq := sub_seq s + 1\<rparr>) cs)" if "chat_inv Q cs" for cs
    using that by (intro chat_inv_on_sub) (simp_all add: sub_ok_def)
  then show ?thesis unfolding write_normal_def by (intro keeps_intros chat_keeps keeps_act) simp_all
qed

lemma keeps_writeMessages [chat_keeps]: "keeps (chat_inv anything) (writeMessages wl r sel ok)"
  unfolding writeMessages_def
  by (cases sel; simp only: select_case.case; intro keeps_intros chat_keeps; simp add: sub_ok_def)

lemma keeps_pop [chat_keeps]:
  "keeps (chat_inv Q) (upd (on_sub r (sub_writeNormal_update (\<lambda>c. c\<lparr>ch_buf := tl (ch_buf c)\<rparr>))))"
  by (rule keeps_upd, erule on_sub_chan [where get = sub_writeNormal and put = sub_writeNormal_update]) (auto simp: chan_ok_def)

lemma keeps_drain_old [chat_keeps]: "keeps (chat_inv Q) (drain_old gone r old msgs)"
  by (induction msgs) (auto intro!: keeps_intros chat_keeps)

lemma keeps_take_over [chat_keeps]: "keeps (chat_inv Q) (take_over gone r oldSess)"
  unfolding take_over_def by (cases oldSess) (auto intro!: keeps_intros chat_keeps)

lemma keeps_deliver [chat_keeps]: "keeps (chat_inv Q) (deliver msg rs)"
  unfolding deliver_def by (intro keeps_intros chat_keeps) simp_all

lemma keeps_publish_table [chat_keeps]: "keeps (chat_inv Q) (publish shard msg)"
  unfolding publish_def publish_to_def by (intro keeps_intros chat_keeps)

lemma keeps_publishGlobal [chat_keeps]: "keeps (chat_inv Q) (publishGlobal msg)"
  unfolding publishGlobal_def by (intro keeps_intros chat_keeps)

lemma keeps_Publish [chat_keeps]: "keeps (chat_inv Q) (Publish msg)"
  unfolding Publish_def by (intro keeps_intros chat_keeps)

lemma keeps_publishHandler [chat_keeps]: "keeps (chat_inv Q) (publishHandler wl method shard body)"
  unfolding publishHandler_def by (intro keeps_intros chat_keeps)

lemma keeps_CloseShard [chat_keeps]: "keeps (chat_inv anything) (CloseShard shardID reason)"
  unfolding CloseShard_def drop_session_def by (intro keeps_intros chat_keeps)

lemma keeps_StopSession [chat_keeps]: "keeps (chat_inv anything) (StopSession sessionID)"
  unfolding StopSession_def drop_session_def by (intro keeps_intros chat_keeps)

lemma keeps_subscribe_end [chat_keeps]: "keeps (chat_inv anything) (subscribe_end r)"
  unfolding subscribe_end_def by (intro keeps_intros chat_keeps)

text \<open>Until it is registered, a subscriber may change its shard.\<close>

lemma keeps_pending:
  assumes "\<And>s. sub_ok s \<Longrightarrow> sub_ok (f s)"
  shows "keeps (chat_inv (unregistered r)) (upd (on_sub r f))"
  using assms by (auto simp: keeps_def upd_def chat_inv_def table_ok_def unregistered_def)

lemma keeps_identifyClient: "keeps (chat_inv (unregistered r)) (identifyClient wl r script)"
proof -
  have "keeps (chat_inv (unregistered r)) (ws_identify wl r p)" for p
    unfolding ws_identify_def by (intro keeps_intros keeps_pending) (simp_all add: sub_ok_def)
  moreover have "keeps (chat_inv (unregistered r)) (ws_resume wl r p)" for p
    unfolding ws_resume_def by (intro keeps_intros chat_keeps keeps_pending) (simp_all add: sub_ok_def)
  ultimately have "keeps (chat_inv (unregistered r)) (identify_loop wl r script)"
    by (induction wl r script rule: identify_loop.induct) (auto intro: keeps_intros)
  then show ?thesis
    unfolding identifyClient_def by (intro keeps_intros chat_keeps) simp_all
qed

section \<open>The transition system\<close>

text \<open>
  One step is one operation of a goroutine, of the daemon or of an HTTP request. A subscriber runs \<^verbatim>\<open>subscribe\<close>
  once: it identifies while it is not in the table and its status is the first one.
\<close>

inductive chat_step :: "ws_lib \<Rightarrow> chatServer \<Rightarrow> chatServer \<Rightarrow> bool" for wl where
  tick: "chat_step wl cs (cs\<lparr>cs_now := t\<rparr>)"
| accepts: "subscribe_start sgs None cs = (Ok (Inr r), cs') \<Longrightarrow> chat_step wl cs cs'"
| identify: "r < cs_next cs \<Longrightarrow> r \<notin> set (all_subscribers cs) \<Longrightarrow> sub_status (cs_heap cs r) = subscriberStatusInit \<Longrightarrow>
    chat_step wl cs (snd (subscribe_identify wl gone r script cs))"
| leave: "sub_done (cs_heap cs r) \<Longrightarrow> chat_step wl cs (snd (subscribe_end r cs))"
| reads: "chat_step wl cs (snd (readMessages wl r input cs))"
| handles: "chat_step wl cs (snd (handleReadMessages wl r fin cs))"
| writes: "chat_step wl cs (snd (writeMessages wl r sel ok cs))"
| watchdog: "chat_step wl cs (watchdog_tick r cs)"
| publish: "chat_step wl cs (snd (Publish packet cs))"
| post: "chat_step wl cs (snd (publishHandler wl method shardStr body cs))"
| close_shard: "chat_step wl cs (snd (CloseShard shardID reason cs))"
| stop: "chat_step wl cs (snd (StopSession sessionID cs))"

lemma keeps_snd: "keeps P m \<Longrightarrow> P s \<Longrightarrow> P (snd (m s))"
  by (simp add: keeps_def)

lemma chat_inv_unregistered:
  assumes "chat_inv anything cs" and "r < cs_next cs" and "r \<notin> set (all_subscribers cs)"
  shows "chat_inv (unregistered r) cs"
  using assms by (auto simp: chat_inv_def unregistered_def all_subscribers_def)

lemma chat_inv_anything: "chat_inv Q cs \<Longrightarrow> chat_inv anything cs"
  by (simp add: chat_inv_def anything_def)

lemma subscribe_start_inv:
  assumes "subscribe_start sgs None cs = (Ok (Inr r), cs')" and "chat_inv anything cs"
  shows "chat_inv anything cs'"
proof -
  have cs': "cs' = cs\<lparr>cs_heap := (cs_heap cs)(cs_next cs := newSubscriber cs), cs_next := Suc (cs_next cs)\<rparr>"
    using assms(1) by (auto simp: subscribe_start_def bnd_eval act_def ret_def panic_def split: if_splits)
  have "sub_ok (newSubscriber cs)"
    by (simp add: newSubscriber_def sub_ok_def chan_ok_def new_chan_def Let_def)
  moreover have "table_ok cs'"
    using assms(2) by (fastforce simp: cs' chat_inv_def table_ok_def)
  ultimately show ?thesis using assms(2) by (simp add: cs' chat_inv_def anything_def)
qed

lemma subscribe_identify_split:
  assumes "identifyClient wl r script cs = (Ok (oldSess, None), cs1)"
  shows "subscribe_identify wl gone r script cs =
    bnd (addSubscriber r (sub_shard (cs_heap cs1 r))) (\<lambda>_. bnd (take_over gone r oldSess) (\<lambda>err.
         case err of
           Some e \<Rightarrow> ret (Some e)
         | None \<Rightarrow>
             bnd (rd (\<lambda>cs. sub_status (cs_heap cs r))) (\<lambda>st.
             bnd (if st = subscriberStatusResuming
                  then send_normal r (dispatch_payload ''RESUMED'' ''{}'')
                  else bnd (dispatchInitial wl r) (\<lambda>_. ret ())) (\<lambda>_.
             bnd (upd (set_status r subscriberStatusReady)) (\<lambda>_. ret None))))) cs1"
  unfolding subscribe_identify_def using assms by (simp add: bnd_Ok bnd_eval)

lemma subscribe_identify_inv:
  assumes "chat_inv (unregistered r) cs"
  shows "chat_inv anything (snd (subscribe_identify wl gone r script cs))"
proof -
  obtain res cs1 where run: "identifyClient wl r script cs = (res, cs1)" by fastforce
  have cs1: "chat_inv (unregistered r) cs1" using keeps_identifyClient assms run by (rule keepsD)
  show ?thesis
  proof (cases res)
    case (Panic why)
    then show ?thesis using run cs1 by (simp add: subscribe_identify_def bnd_Panic chat_inv_anything)
  next
    case (Ok p)
    obtain oldSess err where p: "p = (oldSess, err)" by fastforce
    show ?thesis
    proof (cases err)
      case (Some e)
      have "keeps (chat_inv anything) (bnd (invalidSession r (wl_error_text wl e) False) (\<lambda>_. ret (Some e)))"
        by (intro keeps_intros chat_keeps)
      then show ?thesis
        using run Ok p Some cs1 by (simp add: subscribe_identify_def bnd_Ok chat_inv_anything keeps_def)
    next
      case None
      let ?rest = "\<lambda>u::unit. bnd (take_over gone r oldSess) (\<lambda>err.
         case err of
           Some e \<Rightarrow> ret (Some e)
         | None \<Rightarrow>
             bnd (rd (\<lambda>cs. sub_status (cs_heap cs r))) (\<lambda>st.
             bnd (if st = subscriberStatusResuming
                  then send_normal r (dispatch_payload ''RESUMED'' ''{}'')
                  else bnd (dispatchInitial wl r) (\<lambda>_. ret ())) (\<lambda>_.
             bnd (upd (set_status r subscriberStatusReady)) (\<lambda>_. ret None))))"
      have rest: "keeps (chat_inv anything) (?rest u)" for u
        by (intro keeps_intros chat_keeps) simp
      obtain res2 cs2 where add: "addSubscriber r (sub_shard (cs_heap cs1 r)) cs1 = (res2, cs2)" by fastforce
      then have "chat_inv anything cs2" using addSubscriber_inv [OF cs1] by simp
      then have "chat_inv anything (snd (bnd (addSubscriber r (sub_shard (cs_heap cs1 r))) ?rest cs1))"
        using add rest by (cases res2) (simp_all add: bnd_def keeps_def)
      then show ?thesis using subscribe_identify_split [where wl = wl and gone = gone] run Ok p None by simp
    qed
  qed
qed

lemma chat_step_inv: "chat_step wl cs cs' \<Longrightarrow> chat_inv anything cs \<Longrightarrow> chat_inv anything cs'"
proof (induction rule: chat_step.induct)
  case (tick cs t)
  then show ?case by (rule chat_inv_cong) simp_all
next
  case accepts
  then show ?case by (rule subscribe_start_inv)
next
  case identify
  then show ?case by (intro subscribe_identify_inv chat_inv_unregistered)
next
  case (watchdog cs r)
  then show ?case using keeps_snd [OF keeps_cancel] by (simp add: watchdog_tick_def Let_def upd_def)
qed (erule keeps_snd [rotated], rule chat_keeps)+

lemma WS_Connect_inv:
  assumes "WS_Connect et listen (newChatServer mg shards st now) args mq = (None, Some cs)"
  shows "chat_inv anything cs"
proof -
  obtain a e x q n where "cs = (newChatServer mg shards st now)\<lparr>cs_expectedToken := e, cs_address := a,
      cs_externalAddress := x, cs_quickStart := q, cs_subscriberMessageBuffer := n\<rparr>"
    using assms by (auto simp: WS_Connect_def Let_def split: option.splits sum.splits)
  then show ?thesis
    by (simp add: chat_inv_def table_ok_def newChatServer_def anything_def unallocated_def sub_ok_def chan_ok_def
        new_chan_def Let_def)
qed

lemma reachable_inv: "(chat_step wl)\<^sup>*\<^sup>* cs cs' \<Longrightarrow> chat_inv anything cs \<Longrightarrow> chat_inv anything cs'"
  by (induction rule: rtranclp_induct) (auto intro: chat_step_inv)

text \<open>C6. In every state the producer reaches from its start, whatever clients, the daemon and the clock do, each
  shard has one entry, every subscriber in it is one that was accepted and has that shard, no channel holds more
  messages than its capacity, and the five channels of a subscriber are closed together.\<close>

theorem chat_invariant:
  assumes "WS_Connect et listen (newChatServer mg shards st now) args mq = (None, Some cs0)"
    and "(chat_step wl)\<^sup>*\<^sup>* cs0 cs"
  shows "table_ok cs \<and> (\<forall>r. sub_ok (cs_heap cs r))"
  using reachable_inv [OF assms(2) WS_Connect_inv [OF assms(1)]] by (simp add: chat_inv_def)

section \<open>Resuming\<close>

lemma drain_old_closed: "drain_old gone r old msgs cs = (Ok None, cs') \<Longrightarrow> ch_closed (sub_writeNormal (cs_heap cs' old))"
proof (induction msgs arbitrary: cs)
  case Nil
  then show ?case by (auto simp: bnd_eval ret_def panic_def split: if_splits)
next
  case (Cons m ms)
  let ?cs = "on_sub old (sub_writeNormal_update (\<lambda>c. c\<lparr>ch_buf := tl (ch_buf c)\<rparr>)) cs"
  from Cons.prems consider "drain_old gone r old ms ?cs = (Ok None, cs')"
    | u cs2 where "drain_old gone r old ms cs2 = (Ok None, cs')" "send_normal r m ?cs = (Ok u, cs2)"
    by (auto simp: bnd_eval ret_def bnd_eq_iff split: if_splits)
  then show ?case by cases (auto dest: Cons.IH)
qed

lemma take_over_fails:
  assumes "chat_inv Q cs"
  shows "fst (take_over gone r (Some old) cs) \<noteq> Ok None"
proof
  assume "fst (take_over gone r (Some old) cs) = Ok None"
  then obtain cs' where run: "take_over gone r (Some old) cs = (Ok None, cs')" by (metis prod.collapse)
  let ?cs = "set_status old subscriberStatusMoving (set_status r subscriberStatusResuming cs)"
  obtain cs1 where drain: "drain_old gone r old (ch_buf (sub_writeNormal (cs_heap ?cs old))) ?cs = (Ok None, cs1)"
    and close: "subscriber_close old (set_status r subscriberStatusReady cs1) = (Ok (), cs')"
    using run by (auto simp: take_over_def bnd_eval bnd_eq_iff ret_def split: option.splits)
  have "chat_inv Q ?cs"
    using assms keeps_snd [OF keeps_set_status] by (simp add: upd_def)
  then have "sub_ok (cs_heap cs1 old)"
    using keepsD [OF keeps_drain_old _ drain] by (simp add: chat_inv_def)
  then have "ch_closed (sub_reader (cs_heap (set_status r subscriberStatusReady cs1) old))"
    using drain_old_closed [OF drain] by (auto simp: sub_ok_def chan_ok_def set_status_def Let_def)
  then show False
    using close by (simp add: subscriber_close_def close_chan_def bnd_def rd_def panic_def)
qed

text \<open>C24. A connection that resumes an old session never gets through, in any reachable state: the loop over the
  old session's messages ends only when that session's channels are closed, and then closing them again
  panics. So no consumer is ever told that it has resumed.\<close>

theorem resume_never_completes:
  assumes "WS_Connect et listen (newChatServer mg shards st now) args mq = (None, Some cs0)"
    and "(chat_step wl)\<^sup>*\<^sup>* cs0 cs" and "r < cs_next cs" and "r \<notin> set (all_subscribers cs)"
    and "identifyClient wl r script cs = (Ok (Some old, None), cs1)"
  shows "fst (subscribe_identify wl gone r script cs) \<noteq> Ok None"
proof -
  have "chat_inv (unregistered r) cs"
    using reachable_inv [OF assms(2) WS_Connect_inv [OF assms(1)]] assms(3,4) by (rule chat_inv_unregistered)
  then have cs1: "chat_inv (unregistered r) cs1" using keepsD [OF keeps_identifyClient _ assms(5)] by simp
  obtain res2 cs2 where add: "addSubscriber r (sub_shard (cs_heap cs1 r)) cs1 = (res2, cs2)" by fastforce
  then have "chat_inv anything cs2" using addSubscriber_inv [OF cs1] by simp
  then have fails: "fst (take_over gone r (Some old) cs2) \<noteq> Ok None" by (rule take_over_fails)
  obtain res3 cs3 where take: "take_over gone r (Some old) cs2 = (res3, cs3)" by fastforce
  show ?thesis
  proof (cases res2)
    case (Panic why)
    then show ?thesis by (simp add: subscribe_identify_split [OF assms(5)] bnd_Panic [where m = "addSubscriber _ _"] add)
  next
    case (Ok u)
    then show ?thesis using fails take
      by (cases res3) (auto simp: subscribe_identify_split [OF assms(5)] bnd_def add ret_def split: option.splits)
  qed
qed

end
