(* ===== verification/Chat_Witness.thy ===== *)
theory Chat_Witness
  imports Chat_Reach
begin

text \<open>
  The theorems on the websocket producer, applied to a small server: two consumers that run shards 5 and 0 of 8,
  one that runs a single shard, and a server that was started from options and reached by steps.
\<close>

section \<open>A server\<close>

definition sample_chat_lib :: ws_lib where
  "sample_chat_lib = \<lparr>
     wl_identify = (\<lambda>_. Inr \<lparr> im_Token = ''Bot secret'', im_Shard = (5, 8) \<rparr>),
     wl_resume = (\<lambda>_. Inr \<lparr> rm_Token = ''secret'', rm_SessionID = [], rm_Seq = 3 \<rparr>),
     wl_payload = (\<lambda>_. Inl (ErrLib ''unexpected payload'')),
     wl_guild_id = (\<lambda>_. Inl (ErrLib ''unexpected payload'')),
     wl_ready = (\<lambda>_. Inr ''ready''),
     wl_guild = (\<lambda>_. Inr ''guild''),
     wl_message = (\<lambda>p. Inr (sp_Type p)),
     wl_randomHex = ''c0ffee'',
     wl_error_text = (\<lambda>_. ''error'') \<rparr>"

definition sample_options :: "(string \<times> opt) list" where
  "sample_options = [(''ADDRESS'', OptString ''localhost:3600''), (''ExpectedToken'', OptString ''secret''),
     (''SubscriberMessageBuffer'', OptString ''4'')]"

definition sample_started :: chatServer where
  "sample_started = (newChatServer sample_manager [0] NewSandwichState 0)\<lparr>
     cs_expectedToken := ''secret'', cs_address := ''localhost:3600'', cs_externalAddress := ''ws://localhost:3600'',
     cs_quickStart := True, cs_subscriberMessageBuffer := 4\<rparr>"

definition sample_chat :: chatServer where
  "sample_chat = sample_started\<lparr>
     cs_subscribers := [((5, 8), [0]), ((0, 8), [1]), ((0, 1), [2])], cs_next := 3,
     cs_heap := (\<lambda>r. (newSubscriber sample_started)\<lparr>sub_shard := [(5, 8), (0, 8), (0, 1)] ! r\<rparr>)\<rparr>"

lemma sample_entries:
  "GetEntry sample_options ''Address'' = OptString ''localhost:3600''"
  "GetEntry sample_options ''ExternalAddress'' = OptOther"
  "GetEntry sample_options ''ExpectedToken'' = OptString ''secret''"
  "GetEntry sample_options ''QuickStart'' = OptOther"
  "GetEntry sample_options ''SubscriberMessageBuffer'' = OptString ''4''"
  by (simp_all add: GetEntry_def sample_options_def to_lower_def lower_char_def Let_def char_of_def bit_0)

lemma sample_buffer: "parse_int ''4'' = Inr 4"
  by (simp add: parse_int_def parse_nat_def is_digit_def digits_val_def)

lemma connect_sample:
  "WS_Connect (\<lambda>_. []) (\<lambda>_. None) (newChatServer sample_manager [0] NewSandwichState 0) sample_options None
    = (None, Some sample_started)"
  by (simp add: WS_Connect_def sample_entries sample_buffer external_address_def sample_started_def Let_def)

lemmas chat_sample_defs = sample_chat_def sample_started_def newChatServer_def newSubscriber_def new_chan_def

lemma serving_sample: "serving sample_chat"
  by (simp add: serving_def all_subscribers_def has_room_def chat_sample_defs)

lemma guild_packet_sample: "guild_packet sample_manager (5 * 2 ^ 22) sample_guild_packet"
  by (simp add: guild_packet_def sample_guild_packet_def global_packet_def sample_defs)

lemma sample_shards: "GetShardIdOfGuild 20971520 8 = 5" "ConsumerShardCount sample_manager = 8"
  by code_simp+

section \<open>Delivery\<close>

text \<open>The two consumers that use the virtual shard count: the one of shard 5 gets the event, the other one does not.\<close>

lemma guild_event_delivered_witness:
  "\<exists>p' cs'. RoutePayloadToConsumer sample_manager sample_guild_packet = Ok (None, p')
     \<and> Publish p' (sample_chat\<lparr>cs_subscribers := [((5, 8), [0]), ((0, 8), [1])]\<rparr>) = (Ok None, cs')
     \<and> gets p' sample_chat cs' 0 \<and> cs_heap cs' 1 = cs_heap sample_chat 1"
proof -
  let ?cs = "sample_chat\<lparr>cs_subscribers := [((5, 8), [0]), ((0, 8), [1])]\<rparr>"
  have "serving ?cs" by (simp add: serving_def all_subscribers_def has_room_def chat_sample_defs)
  from guild_event_delivered [OF guild_packet_sample this] show ?thesis
    by (fastforce simp: sample_shards gets_def)
qed

lemma single_shard_consumer_misses_witness:
  "\<exists>p' cs'. RoutePayloadToConsumer sample_manager sample_guild_packet = Ok (None, p')
     \<and> Publish p' sample_chat = (Ok None, cs') \<and> cs_heap cs' 2 = cs_heap sample_chat 2"
  using guild_packet_sample serving_sample
  by (rule single_shard_consumer_misses [where rs = "[2]"]) (simp_all add: sample_chat_def sample_shards)

lemma global_event_shard_0_witness:
  "\<exists>cs'. Publish (global_packet ''SW_CONFIGURATION_RELOAD'' []) sample_chat = (Ok None, cs')
     \<and> cs_heap cs' 0 = cs_heap sample_chat 0 \<and> gets (global_packet ''SW_CONFIGURATION_RELOAD'' []) sample_chat cs' 1"
  using global_event_shard_0 [OF serving_sample, of "''SW_CONFIGURATION_RELOAD''" "[]"]
  by (auto simp: sample_chat_def [THEN arg_cong [where f = cs_subscribers]])

section \<open>Identifying and resuming\<close>

lemma identify_accepts_witness:
  "\<exists>cs'. ws_identify sample_chat_lib 1 zero_payload sample_chat = (Ok (None, None), cs')
     \<and> sub_shard (cs_heap cs' 1) = (5, 8)"
proof -
  obtain res cs' where run: "ws_identify sample_chat_lib 1 zero_payload sample_chat = (res, cs')" by fastforce
  have "bare_token ''Bot secret'' = ''secret''" by code_simp
  then show ?thesis
    using identify_accepts [OF _ run] run
    by (simp add: sample_chat_lib_def chat_sample_defs sample_shards)
qed

lemma resume_outcome_witness:
  "\<exists>cs'. ws_resume sample_chat_lib 1 zero_payload sample_chat = (Ok (Some 0, None), cs')"
proof -
  have "bare_token ''secret'' = ''secret''" by code_simp
  then show ?thesis
    using resume_outcome [of sample_chat_lib zero_payload _ sample_chat 1]
    by (simp add: sample_chat_lib_def chat_sample_defs all_subscribers_def)
qed

section \<open>Deleting and numbering\<close>

lemma delete_removes_witness:
  "\<exists>cs'. deleteSubscriber 1 sample_chat = (Ok (), cs') \<and> map_of (cs_subscribers cs') (0, 8) = Some []"
proof -
  have "map_of (cs_subscribers sample_chat) (sub_shard (cs_heap sample_chat 1)) = Some [1]"
    by (simp add: sample_chat_def)
  from delete_removes [OF _ _ this] show ?thesis by (auto simp: chat_sample_defs)
qed


lemma close_shard_deadlocks_witness:
  "\<exists>cs'. CloseShard 5 MQCloseShardReasonOther sample_chat = (Panic out_of_fuel, cs') \<and> locked_up cs'"
  by (rule close_shard_deadlocks) (auto simp: chat_sample_defs all_subscribers_def closable_def Let_def)

lemma initial_state_sent_witness:
  "dispatchInitial sample_chat_lib 1 sample_chat = (Ok None, queue 1 [dispatch_payload ''READY'' ''ready''] sample_chat)"
  using initial_state_sent [of sample_chat_lib "\<lambda>_. ''ready''" "\<lambda>_. ''guild''" sample_chat 1]
  by (simp add: sample_chat_lib_def chat_sample_defs room_for_def own_guilds_def cached_guilds_def NewSandwichState_def
      Let_def NewCache_def Cache_Range_def)

section \<open>Steps\<close>

text \<open>Two consumers connect; the first identifies, the second asks to resume no session in particular.\<close>

definition sample_connected :: chatServer where
  "sample_connected = sample_started\<lparr>cs_heap := (cs_heap sample_started)(0 := newSubscriber sample_started), cs_next := 1\<rparr>"

definition sample_packet :: "GatewayOp \<Rightarrow> SandwichPayload" where
  "sample_packet oper = zero_payload\<lparr>sp_Op := oper\<rparr>"

definition sample_identified :: chatServer where
  "sample_identified = snd (subscribe_identify sample_chat_lib False 0 [ArPacket (sample_packet GatewayOpIdentify)] sample_connected)"

definition sample_second :: chatServer where
  "sample_second = sample_identified\<lparr>cs_heap := (cs_heap sample_identified)(1 := newSubscriber sample_identified), cs_next := 2\<rparr>"

lemma identified:
  "cs_next sample_identified = 1" "all_subscribers sample_second = [0]"
  "cs_manager sample_identified = sample_manager" "cs_subscriberMessageBuffer sample_identified = 4"
  by code_simp+

lemma accept_sample:
  "cs_manager cs = sample_manager \<Longrightarrow> cs_subscriberMessageBuffer cs = 4 \<Longrightarrow>
     subscribe_start [(1, sample_group)] None cs = (Ok (Inr (cs_next cs)),
       cs\<lparr>cs_heap := (cs_heap cs)(cs_next cs := newSubscriber cs), cs_next := Suc (cs_next cs)\<rparr>)"
  by (simp add: subscribe_start_def bnd_eval act_def AllReady_def sample_manager_def sample_group_def)

lemma sample_steps: "(chat_step sample_chat_lib)\<^sup>*\<^sup>* sample_started sample_second"
proof -
  have "subscribe_start [(1, sample_group)] None sample_started = (Ok (Inr 0), sample_connected)"
    using accept_sample [of sample_started] by (simp add: sample_connected_def sample_started_def newChatServer_def)
  then have "chat_step sample_chat_lib sample_started sample_connected" by (rule accepts)
  moreover have "chat_step sample_chat_lib sample_connected sample_identified"
    unfolding sample_identified_def
    by (rule identify) (simp_all add: sample_connected_def chat_sample_defs all_subscribers_def)
  moreover have "subscribe_start [(1, sample_group)] None sample_identified = (Ok (Inr 1), sample_second)"
    using accept_sample [of sample_identified] identified by (simp add: sample_second_def numeral_2_eq_2)
  then have "chat_step sample_chat_lib sample_identified sample_second" by (rule accepts)
  ultimately show ?thesis by (auto intro: converse_rtranclp_into_rtranclp)
qed

lemma chat_invariant_witness:
  "table_ok sample_second \<and> (\<forall>r. sub_ok (cs_heap sample_second r)) \<and> all_subscribers sample_second = [0]"
  using chat_invariant [OF connect_sample sample_steps] identified by simp

lemma resume_never_completes_witness:
  "\<exists>cs1. identifyClient sample_chat_lib 1 [ArPacket (sample_packet GatewayOpResume)] sample_second = (Ok (Some 0, None), cs1)
    \<and> fst (subscribe_identify sample_chat_lib False 1 [ArPacket (sample_packet GatewayOpResume)] sample_second) \<noteq> Ok None"
proof -
  have "fst (identifyClient sample_chat_lib 1 [ArPacket (sample_packet GatewayOpResume)] sample_second) = Ok (Some 0, None)"
    by code_simp
  then obtain cs1 where run: "identifyClient sample_chat_lib 1 [ArPacket (sample_packet GatewayOpResume)] sample_second
      = (Ok (Some 0, None), cs1)" by (metis prod.collapse)
  have "(1 :: nat) < cs_next sample_second" by (simp add: sample_second_def)
  with resume_never_completes [OF connect_sample sample_steps _ _ run] run identified(2) show ?thesis by simp
qed

end
