(* ===== verification/Broker.thy ===== *)
theory Broker
  imports Daemon
begin

text \<open>
  The producers that hand packets to a broker: \<^verbatim>\<open>internal/msg_redis.go\<close>, \<^verbatim>\<open>internal/msg_kafka.go\<close> and
  \<^verbatim>\<open>internal/msg_jetstream.go\<close>, and the interface \<^verbatim>\<open>MQClient\<close> of \<^verbatim>\<open>internal/messaging.go\<close> as a locale that they
  interpret. What the client libraries answer is in \<open>broker_lib\<close>; using one through a nil pointer panics.
\<close>

section \<open>What the libraries answer\<close>

record redis_options =
  ro_Addr :: string
  ro_Password :: string
  ro_DB :: int

datatype kafka_balancer = CRC32Balancer | HashBalancer | Murmur2Balancer | RoundRobin | LeastBytes

record kafka_writer =
  kw_Addr :: string
  kw_Balancer :: "kafka_balancer option"
  kw_Async :: bool

record jetstream_stream =
  js_Name :: string
  js_Subjects :: "string list"
  js_InterestPolicy :: bool
  js_DiscardOld :: bool
  js_MaxAgeMinutes :: int
  js_MemoryStorage :: bool
  js_MaxMsgsPerSubject :: int64
  js_MaxMsgSize :: int32
  js_NoAck :: bool

record broker_lib =
  bl_marshal :: "SandwichPayload \<Rightarrow> go_error + bytes"
  bl_redis_ping :: "redis_options \<Rightarrow> go_error option"
  bl_redis_publish :: "redis_options \<Rightarrow> string \<Rightarrow> bytes \<Rightarrow> go_error option"
  bl_kafka_write :: "kafka_writer \<Rightarrow> string \<Rightarrow> bytes \<Rightarrow> go_error option"
  bl_nats_connect :: "string \<Rightarrow> go_error option"
  bl_jetstream_new :: "string \<Rightarrow> go_error option"
  bl_create_stream :: "jetstream_stream \<Rightarrow> go_error option"
  bl_jetstream_publish :: "string \<Rightarrow> string \<Rightarrow> bytes \<Rightarrow> go_error option"
  bl_use_interest_policy :: string

text \<open>\<^verbatim>\<open>strconv.ParseBool\<close>, where an error leaves the value false.\<close>

definition mustParseBool :: "string \<Rightarrow> bool" where
  "mustParseBool str \<longleftrightarrow> str \<in> {''1'', ''t'', ''T'', ''TRUE'', ''true'', ''True''}"

text \<open>The publication of a packet: its error, and what was handed to the library, the channel and the data.\<close>

type_synonym publication = "(go_error option \<times> (string \<times> bytes) option) res"

definition hand_over :: "broker_lib \<Rightarrow> SandwichPayload \<Rightarrow> 'k option \<Rightarrow> ('k \<Rightarrow> string) \<Rightarrow>
    ('k \<Rightarrow> string \<Rightarrow> bytes \<Rightarrow> go_error option) \<Rightarrow> publication" where
  "hand_over bl packet client channel transmit =
     (case bl_marshal bl packet of
        Inl e \<Rightarrow> Ok (Some e, None)
      | Inr data \<Rightarrow>
          (case client of
             None \<Rightarrow> Panic ''nil pointer dereference''
           | Some k \<Rightarrow> Ok (transmit k (channel k) data, Some (channel k, data))))"

section \<open>Redis\<close>

record RedisMQClient =
  redisClient :: "redis_options option"
  redis_channel :: string

text \<open>
  The number of the database is parsed when the option is not a text, from the empty text that the assertion leaves.
\<close>

definition redis_db :: "(string \<times> opt) list \<Rightarrow> num_error + int" where
  "redis_db args =
     (case opt_string (GetEntry args ''DB'') of
        None \<Rightarrow> parse_int []
      | Some _ \<Rightarrow> Inr 0)"

definition Redis_Connect :: "broker_lib \<Rightarrow> (string \<times> opt) list \<Rightarrow> RedisMQClient \<Rightarrow> go_error option \<times> RedisMQClient" where
  "Redis_Connect bl args mq =
     (case opt_string (GetEntry args ''Address'') of
        None \<Rightarrow> (Some (ErrNew ''redisMQ connect: string type assertion failed for Address''), mq)
      | Some address \<Rightarrow>
     (case opt_string (GetEntry args ''Password'') of
        None \<Rightarrow> (Some (ErrNew ''redisMQ connect: string type assertion failed for Password''), mq)
      | Some password \<Rightarrow>
     (case redis_db args of
        Inl e \<Rightarrow> (Some (ErrWrap ''redisMQ connect db atoi'' (ErrNew (parse_failure e))), mq)
      | Inr db \<Rightarrow>
          let client = \<lparr> ro_Addr = address, ro_Password = password, ro_DB = db \<rparr>;
              mq = mq\<lparr>redisClient := Some client\<rparr>
          in (case bl_redis_ping bl client of
                Some e \<Rightarrow> (Some (ErrWrap ''redisMQ connect ping'' e), mq)
              | None \<Rightarrow> (None, mq)))))"

definition Redis_Publish :: "broker_lib \<Rightarrow> RedisMQClient \<Rightarrow> SandwichPayload \<Rightarrow> string \<Rightarrow> publication" where
  "Redis_Publish bl mq packet channelName =
     hand_over bl packet (redisClient mq) (\<lambda>_. channelName) (bl_redis_publish bl)"

definition Redis_IsClosed :: "RedisMQClient \<Rightarrow> bool" where
  "Redis_IsClosed mq \<longleftrightarrow> redisClient mq = None"

definition Redis_Close :: "RedisMQClient \<Rightarrow> RedisMQClient res" where
  "Redis_Close mq = (case redisClient mq of
     None \<Rightarrow> Panic ''nil pointer dereference''
   | Some _ \<Rightarrow> Ok (mq\<lparr>redisClient := None\<rparr>))"

section \<open>Kafka\<close>

record KafkaMQClient =
  KafkaClient :: "kafka_writer option"
  kafka_channel :: string

definition parseKafkaBalancer :: "string \<Rightarrow> kafka_balancer option" where
  "parseKafkaBalancer balancer =
     (if balancer = ''crc32'' then Some CRC32Balancer
      else if balancer = ''hash'' then Some HashBalancer
      else if balancer = ''murmur2'' then Some Murmur2Balancer
      else if balancer = ''roundrobin'' then Some RoundRobin
      else if balancer = ''leastbytes'' then Some LeastBytes
      else None)"

definition Kafka_Connect :: "(string \<times> opt) list \<Rightarrow> KafkaMQClient \<Rightarrow> go_error option \<times> KafkaMQClient" where
  "Kafka_Connect args mq =
     (case opt_string (GetEntry args ''Address'') of
        None \<Rightarrow> (Some (ErrNew ''kafkaMQ connect: string type assertion failed for Address''), mq)
      | Some address \<Rightarrow>
     (case opt_string (GetEntry args ''Balancer'') of
        None \<Rightarrow> (Some (ErrNew ''kafkaMQ connect: string type assertion failed for Balancer''), mq)
      | Some balancerStr \<Rightarrow>
          let async = (case opt_string (GetEntry args ''Async'') of Some asyncStr \<Rightarrow> mustParseBool asyncStr | None \<Rightarrow> False)
          in (None, mq\<lparr>KafkaClient := Some \<lparr> kw_Addr = address, kw_Balancer = parseKafkaBalancer balancerStr, kw_Async = async \<rparr>\<rparr>)))"

definition Kafka_Publish :: "broker_lib \<Rightarrow> KafkaMQClient \<Rightarrow> SandwichPayload \<Rightarrow> string \<Rightarrow> publication" where
  "Kafka_Publish bl mq packet channelName =
     hand_over bl packet (KafkaClient mq) (\<lambda>_. channelName) (bl_kafka_write bl)"

definition Kafka_IsClosed :: "KafkaMQClient \<Rightarrow> bool" where
  "Kafka_IsClosed mq \<longleftrightarrow> KafkaClient mq = None"

definition Kafka_Close :: "KafkaMQClient \<Rightarrow> KafkaMQClient res" where
  "Kafka_Close mq = (case KafkaClient mq of
     None \<Rightarrow> Panic ''nil pointer dereference''
   | Some _ \<Rightarrow> Ok (mq\<lparr>KafkaClient := None\<rparr>))"

section \<open>JetStream\<close>

record JetStreamMQClient =
  JetStreamClient :: "string option"
  JetStreamStream :: "jetstream_stream option"
  jetstream_channel :: string
  jetstream_isClosed :: bool

definition JetStream_Connect ::
    "broker_lib \<Rightarrow> (string \<times> opt) list \<Rightarrow> JetStreamMQClient \<Rightarrow> go_error option \<times> JetStreamMQClient" where
  "JetStream_Connect bl args mq =
     (case opt_string (GetEntry args ''Address'') of
        None \<Rightarrow> (Some (ErrNew ''jetstreamMQ connect: string type assertion failed for Address''), mq)
      | Some address \<Rightarrow>
     (case opt_string (GetEntry args ''Channel'') of
        None \<Rightarrow> (Some (ErrNew ''jetstreamMQ connect: string type assertion failed for Channel''), mq)
      | Some channel \<Rightarrow>
          let mq = mq\<lparr>jetstream_channel := channel\<rparr> in
          (case bl_nats_connect bl address of
             Some e \<Rightarrow> (Some (ErrWrap ''jetstreamMQ connect nats'' e), mq)
           | None \<Rightarrow>
          (case bl_jetstream_new bl address of
             Some e \<Rightarrow> (Some (ErrWrap ''jetstreamMQ new'' e), mq\<lparr>JetStreamClient := None\<rparr>)
           | None \<Rightarrow>
               let mq = mq\<lparr>JetStreamClient := Some address\<rparr>;
                   stream = \<lparr> js_Name = channel, js_Subjects = [channel @ ''.*''],
                     js_InterestPolicy = mustParseBool (bl_use_interest_policy bl), js_DiscardOld = True, js_MaxAgeMinutes = 5,
                     js_MemoryStorage = True, js_MaxMsgsPerSubject = 1000000, js_MaxMsgSize = 2147483647, js_NoAck = False \<rparr>
               in (case bl_create_stream bl stream of
                     Some e \<Rightarrow> (Some (ErrWrap ''jetstreamMQ create stream'' e), mq\<lparr>JetStreamStream := None\<rparr>)
                   | None \<Rightarrow> (None, mq\<lparr>JetStreamStream := Some stream, jetstream_isClosed := False\<rparr>))))))"

definition JetStream_Publish :: "broker_lib \<Rightarrow> JetStreamMQClient \<Rightarrow> SandwichPayload \<Rightarrow> string \<Rightarrow> publication" where
  "JetStream_Publish bl mq packet channelName =
     hand_over bl packet (JetStreamClient mq) (\<lambda>_. jetstream_channel mq @ ''.'' @ channelName) (bl_jetstream_publish bl)"

definition JetStream_IsClosed :: "JetStreamMQClient \<Rightarrow> bool" where
  "JetStream_IsClosed mq \<longleftrightarrow> jetstream_isClosed mq"

definition JetStream_Close :: "JetStreamMQClient \<Rightarrow> JetStreamMQClient res" where
  "JetStream_Close mq = Ok (mq\<lparr>jetstream_isClosed := True\<rparr>)"

section \<open>The interface\<close>

text \<open>What a manager relies on: a connected client is open, takes packets and can be closed, and is closed then.\<close>

locale mq_client =
  fixes connect :: "'args \<Rightarrow> 'c \<Rightarrow> go_error option \<times> 'c"
    and publish :: "'c \<Rightarrow> SandwichPayload \<Rightarrow> string \<Rightarrow> publication"
    and is_closed :: "'c \<Rightarrow> bool"
    and close :: "'c \<Rightarrow> 'c res"
  assumes connected: "connect args c = (None, c') \<Longrightarrow> \<not> is_closed c'"
    and takes: "connect args c = (None, c') \<Longrightarrow> \<exists>r. publish c' p ch = Ok r"
    and closes: "connect args c = (None, c') \<Longrightarrow> \<exists>c''. close c' = Ok c''"
    and closed: "close c = Ok c' \<Longrightarrow> is_closed c'"
begin

lemma close_connected:
  assumes "connect args c = (None, c')"
  obtains c'' where "close c' = Ok c''" and "is_closed c''" and "c'' \<noteq> c'"
  using closes [OF assms] closed connected [OF assms] by metis

end

text \<open>A client that forgets its connection when it is closed: it must not be used before it is connected again.\<close>

locale forgetful_client = mq_client +
  fixes marshals :: "SandwichPayload \<Rightarrow> bool"
  assumes close_closed: "is_closed c \<Longrightarrow> close c = Panic ''nil pointer dereference''"
    and publish_closed: "is_closed c \<Longrightarrow> marshals p \<Longrightarrow> publish c p ch = Panic ''nil pointer dereference''"
begin

lemma closed_twice:
  assumes "close c = Ok c'"
  shows "close c' = Panic ''nil pointer dereference'' \<and> (marshals p \<longrightarrow> publish c' p ch = Panic ''nil pointer dereference'')"
  using close_closed publish_closed closed [OF assms] by blast

end

definition encodes :: "broker_lib \<Rightarrow> SandwichPayload \<Rightarrow> bool" where
  "encodes bl p \<longleftrightarrow> (\<exists>b. bl_marshal bl p = Inr b)"

lemma Redis_connected: "Redis_Connect bl args c = (None, c') \<Longrightarrow> \<exists>k. redisClient c' = Some k"
  by (auto simp: Redis_Connect_def Let_def split: option.splits sum.splits)

lemma Kafka_connected: "Kafka_Connect args c = (None, c') \<Longrightarrow> \<exists>k. KafkaClient c' = Some k"
  by (auto simp: Kafka_Connect_def Let_def split: option.splits)

lemma JetStream_connected:
  "JetStream_Connect bl args c = (None, c') \<Longrightarrow> (\<exists>k. JetStreamClient c' = Some k) \<and> \<not> jetstream_isClosed c'"
  by (auto simp: JetStream_Connect_def Let_def split: option.splits)

interpretation redis: forgetful_client "Redis_Connect bl" "Redis_Publish bl" Redis_IsClosed Redis_Close "encodes bl" for bl
  by unfold_locales
    (auto simp: Redis_Publish_def Redis_IsClosed_def Redis_Close_def hand_over_def encodes_def
      dest!: Redis_connected split: option.splits sum.splits)

interpretation kafka: forgetful_client Kafka_Connect "Kafka_Publish bl" Kafka_IsClosed Kafka_Close "encodes bl" for bl
  by unfold_locales
    (auto simp: Kafka_Publish_def Kafka_IsClosed_def Kafka_Close_def hand_over_def encodes_def
      dest!: Kafka_connected split: option.splits sum.splits)

interpretation jetstream: mq_client "JetStream_Connect bl" "JetStream_Publish bl" JetStream_IsClosed JetStream_Close for bl
  by unfold_locales
    (auto simp: JetStream_Publish_def JetStream_IsClosed_def JetStream_Close_def hand_over_def
      dest!: JetStream_connected split: sum.splits)

section \<open>The clients of a manager\<close>

text \<open>The values of the interface that hand packets to a broker, with the dispatch of its methods.\<close>

datatype MQClient = MQRedis RedisMQClient | MQKafka KafkaMQClient | MQJetStream JetStreamMQClient

fun MQ_String :: "MQClient \<Rightarrow> string" where
  "MQ_String (MQRedis mq) = ''redis''"
| "MQ_String (MQKafka mq) = ''kafka''"
| "MQ_String (MQJetStream mq) = ''jetstream''"

fun MQ_Channel :: "MQClient \<Rightarrow> string" where
  "MQ_Channel (MQRedis mq) = redis_channel mq"
| "MQ_Channel (MQKafka mq) = kafka_channel mq"
| "MQ_Channel (MQJetStream mq) = jetstream_channel mq"

fun MQ_Connect :: "broker_lib \<Rightarrow> (string \<times> opt) list \<Rightarrow> MQClient \<Rightarrow> go_error option \<times> MQClient" where
  "MQ_Connect bl args (MQRedis mq) = map_prod (\<lambda>e. e) MQRedis (Redis_Connect bl args mq)"
| "MQ_Connect bl args (MQKafka mq) = map_prod (\<lambda>e. e) MQKafka (Kafka_Connect args mq)"
| "MQ_Connect bl args (MQJetStream mq) = map_prod (\<lambda>e. e) MQJetStream (JetStream_Connect bl args mq)"

fun MQ_Publish :: "broker_lib \<Rightarrow> MQClient \<Rightarrow> SandwichPayload \<Rightarrow> string \<Rightarrow> publication" where
  "MQ_Publish bl (MQRedis mq) packet ch = Redis_Publish bl mq packet ch"
| "MQ_Publish bl (MQKafka mq) packet ch = Kafka_Publish bl mq packet ch"
| "MQ_Publish bl (MQJetStream mq) packet ch = JetStream_Publish bl mq packet ch"

fun MQ_IsClosed :: "MQClient \<Rightarrow> bool" where
  "MQ_IsClosed (MQRedis mq) = Redis_IsClosed mq"
| "MQ_IsClosed (MQKafka mq) = Kafka_IsClosed mq"
| "MQ_IsClosed (MQJetStream mq) = JetStream_IsClosed mq"

fun res_map :: "('a \<Rightarrow> 'b) \<Rightarrow> 'a res \<Rightarrow> 'b res" where
  "res_map f (Ok x) = Ok (f x)"
| "res_map f (Panic why) = Panic why"

fun MQ_Close :: "MQClient \<Rightarrow> MQClient res" where
  "MQ_Close (MQRedis mq) = res_map MQRedis (Redis_Close mq)"
| "MQ_Close (MQKafka mq) = res_map MQKafka (Kafka_Close mq)"
| "MQ_Close (MQJetStream mq) = res_map MQJetStream (JetStream_Close mq)"

lemma connect_eq: "map_prod (\<lambda>e. e) f p = (a, b) \<longleftrightarrow> (\<exists>y. p = (a, y) \<and> b = f y)"
  by (cases p) auto

lemma res_map_Ok: "res_map f r = Ok y \<longleftrightarrow> (\<exists>x. r = Ok x \<and> y = f x)"
  by (cases r) auto

interpretation clients: mq_client "MQ_Connect bl" "MQ_Publish bl" MQ_IsClosed MQ_Close for bl
proof unfold_locales
  fix args c c' p ch
  assume c': "MQ_Connect bl args c = (None, c')"
  show "\<not> MQ_IsClosed c'"
    using c' by (cases c) (auto simp: connect_eq dest: redis.connected kafka.connected jetstream.connected)
  show "\<exists>r. MQ_Publish bl c' p ch = Ok r"
    using c' by (cases c) (auto simp only: connect_eq MQ_Connect.simps MQ_Publish.simps intro: redis.takes kafka.takes jetstream.takes)
  show "\<exists>c''. MQ_Close c' = Ok c''"
    using c' by (cases c) (auto simp: connect_eq res_map_Ok dest: redis.closes kafka.closes jetstream.closes)
next
  fix c c'
  assume "MQ_Close c = Ok c'"
  then show "MQ_IsClosed c'"
    by (cases c) (auto simp: res_map_Ok intro: redis.closed kafka.closed jetstream.closed)
qed

text \<open>C21. Once a client is closed, closing it again and handing it a packet dereference its forgotten connection, but for the
  one for JetStream, which keeps its own and goes on publishing. So the manager's record of its producer tells when it is usable.\<close>

theorem closed_clients:
  assumes "MQ_Connect bl args c = (None, c1)" and "MQ_Close c1 = Ok c2" and "encodes bl p"
    and "mg_hasProducer mg" and "mg_ProducerClosed mg" and "mg_ProducerType mg = MQ_String c"
  shows "MQ_IsClosed c2 \<and> ((\<exists>c3. MQ_Close c2 = Ok c3) \<longleftrightarrow> MQ_String c = ''jetstream'')
    \<and> ((\<exists>r. MQ_Publish bl c2 p ch = Ok r) \<longleftrightarrow> MQ_String c = ''jetstream'')
    \<and> (producer_usable mg \<longleftrightarrow> (\<exists>r. MQ_Publish bl c2 p ch = Ok r))"
proof (cases c)
  case (MQRedis mq)
  then obtain mq1 mq2 where "c2 = MQRedis mq2" "Redis_Close mq1 = Ok mq2"
    using assms(1,2) by (auto simp: connect_eq res_map_Ok)
  then show ?thesis using redis.closed_twice [of mq1 mq2 bl p ch] redis.closed assms(3-6) MQRedis by (simp add: producer_usable_def)
next
  case (MQKafka mq)
  then obtain mq1 mq2 where "c2 = MQKafka mq2" "Kafka_Close mq1 = Ok mq2"
    using assms(1,2) by (auto simp: connect_eq res_map_Ok)
  then show ?thesis using kafka.closed_twice [of mq1 mq2 bl p ch] kafka.closed assms(3-6) MQKafka by (simp add: producer_usable_def)
next
  case (MQJetStream mq)
  then obtain mq1 where mq1: "JetStream_Connect bl args mq = (None, mq1)" "c2 = MQJetStream (mq1\<lparr>jetstream_isClosed := True\<rparr>)"
    using assms(1,2) by (auto simp: connect_eq JetStream_Close_def)
  then show ?thesis using jetstream.takes [OF mq1(1), of p ch] MQJetStream
    by (simp add: JetStream_Close_def JetStream_IsClosed_def JetStream_Publish_def producer_usable_def assms(4-6))
qed

text \<open>Without a number of the database as a text the Redis client never connects, whatever the address is, and with one it
  connects to database 0, whatever the number says: the test of the option is the wrong way round.\<close>

lemma redis_database_ignored:
  "(opt_string (GetEntry args ''DB'') = None \<longrightarrow> fst (Redis_Connect bl args mq) \<noteq> None)
   \<and> (fst (Redis_Connect bl args mq) = None \<longrightarrow> map_option ro_DB (redisClient (snd (Redis_Connect bl args mq))) = Some 0)"
proof -
  have "parse_int [] = Inl ErrSyntax" by (simp add: parse_int_def Let_def parse_nat_def)
  then show ?thesis
    by (auto simp: Redis_Connect_def redis_db_def Let_def split: option.splits sum.splits)
qed

section \<open>Events of a manager\<close>

text \<open>\<^verbatim>\<open>Manager.PublishEvent\<close>: the packet carries no identifier and is not routed.\<close>

definition manager_packet :: "Manager \<Rightarrow> string \<Rightarrow> bytes \<Rightarrow> SandwichPayload" where
  "manager_packet mg eventType eventData =
     \<lparr> sp_Extra = Map.empty, sp_Metadata = Some (mg_metadata mg), sp_Trace = None, sp_Type = eventType, sp_Data = eventData,
       sp_Sequence = 0, sp_Op = GatewayOpDispatch, sp_EventDispatchIdentifier = None \<rparr>"

definition Manager_PublishEvent ::
    "broker_lib \<Rightarrow> Manager \<Rightarrow> MQClient option \<Rightarrow> string \<Rightarrow> bytes \<Rightarrow> publication" where
  "Manager_PublishEvent bl mg producer eventType eventData =
     (case producer of
        None \<Rightarrow> Panic ''nil pointer dereference''
      | Some mq \<Rightarrow>
          (case MQ_Publish bl mq (manager_packet mg eventType eventData) (mc_ChannelName (mg_Configuration mg)) of
             Panic why \<Rightarrow> Panic why
           | Ok (Some e, out) \<Rightarrow> Ok (Some (ErrWrap ''publishEvent publish'' e), out)
           | Ok (None, out) \<Rightarrow> Ok (None, out)))"

text \<open>A connected client is given the event on the channel of the manager, behind its own one for JetStream.\<close>

lemma manager_event_sent:
  assumes "MQ_Connect bl args c = (None, c1)" and "bl_marshal bl (manager_packet mg t d) = Inr b"
  shows "\<exists>err ch. Manager_PublishEvent bl mg (Some c1) t d = Ok (err, Some (ch, b)) \<and>
    ch = (if MQ_String c = ''jetstream'' then MQ_Channel c1 @ ''.'' else []) @ mc_ChannelName (mg_Configuration mg)"
  using assms
  by (cases c) (auto simp: connect_eq Manager_PublishEvent_def Redis_Publish_def Kafka_Publish_def JetStream_Publish_def hand_over_def
      dest!: Redis_connected Kafka_connected JetStream_connected split: option.splits)

section \<open>The properties at work\<close>

definition sample_bl :: broker_lib where
  "sample_bl = \<lparr> bl_marshal = (\<lambda>_. Inr ''{}''), bl_redis_ping = (\<lambda>_. None), bl_redis_publish = (\<lambda>_ _ _. None),
     bl_kafka_write = (\<lambda>_ _ _. None), bl_nats_connect = (\<lambda>_. None), bl_jetstream_new = (\<lambda>_. None),
     bl_create_stream = (\<lambda>_. None), bl_jetstream_publish = (\<lambda>_ _ _. None), bl_use_interest_policy = [] \<rparr>"

definition kafka_options :: "(string \<times> opt) list" where
  "kafka_options = [(''Address'', OptString ''localhost:9092''), (''Balancer'', OptString ''hash'')]"

definition a_kafka_client :: KafkaMQClient where
  "a_kafka_client = \<lparr> KafkaClient = Some \<lparr> kw_Addr = ''localhost:9092'', kw_Balancer = Some HashBalancer, kw_Async = False \<rparr>,
     kafka_channel = [] \<rparr>"

lemma kafka_entries:
  "GetEntry kafka_options ''Address'' = OptString ''localhost:9092''" "GetEntry kafka_options ''Balancer'' = OptString ''hash''"
  "GetEntry kafka_options ''Async'' = OptOther"
  by (simp_all add: GetEntry_def kafka_options_def to_lower_def lower_char_def Let_def char_of_def bit_0)

theorem closed_clients_witness:
  "MQ_IsClosed (MQKafka (a_kafka_client\<lparr>KafkaClient := None\<rparr>))
   \<and> (\<nexists>c. MQ_Close (MQKafka (a_kafka_client\<lparr>KafkaClient := None\<rparr>)) = Ok c)"
proof -
  have conn: "MQ_Connect sample_bl kafka_options (MQKafka \<lparr> KafkaClient = None, kafka_channel = [] \<rparr>) = (None, MQKafka a_kafka_client)"
    by (simp add: Kafka_Connect_def kafka_entries parseKafkaBalancer_def a_kafka_client_def Let_def)
  have close: "MQ_Close (MQKafka a_kafka_client) = Ok (MQKafka (a_kafka_client\<lparr>KafkaClient := None\<rparr>))"
    by (simp add: Kafka_Close_def a_kafka_client_def)
  have "encodes sample_bl (global_packet [] [])" by (simp add: encodes_def sample_bl_def)
  from closed_clients [OF conn close this, of "sample_manager\<lparr>mg_ProducerClosed := True, mg_ProducerType := ''kafka''\<rparr>"] show ?thesis by (simp add: sample_manager_def)
qed

end
