(* ===== verification/Ids.thy ===== *)
theory Ids
  imports GoNum
begin

text \<open>
  \<^verbatim>\<open>discord/id.go\<close>: the types of identifiers. Each is a snowflake of its own type, with the same two methods; a value of
  \<open>ID\<close> is an identifier with its type, and the methods are dispatched on it.
\<close>

datatype ID =
    AGuildID Snowflake | AChannelID Snowflake | AMessageID Snowflake | AUserID Snowflake | ARoleID Snowflake
  | AnEmojiID Snowflake | AnApplicationID Snowflake | AnApplicationTeamID Snowflake | AnApplicationCommandID Snowflake
  | AnApplicationCommandPermissionsID Snowflake | AnIntegrationID Snowflake | AnAuditLogEntryID Snowflake
  | AStageInstanceID Snowflake | AWebhookID Snowflake | AnInteractionID Snowflake | AnAttachmentID Snowflake
  | AScheduledEventID Snowflake

text \<open>What \<^verbatim>\<open>*s\<close> is afterwards, or the error. The receiver gives the type only.\<close>

definition decoded :: "(Snowflake \<Rightarrow> ID) \<Rightarrow> bytes \<Rightarrow> (num_error + ID) res" where
  "decoded mk b = (case toSnowflake b of Panic why \<Rightarrow> Panic why | Ok r \<Rightarrow> Ok (map_sum (\<lambda>e. e) mk r))"

fun ID_UnmarshalJSON :: "ID \<Rightarrow> bytes \<Rightarrow> (num_error + ID) res" where
  "ID_UnmarshalJSON (AGuildID _) b = decoded AGuildID b"
| "ID_UnmarshalJSON (AChannelID _) b = decoded AChannelID b"
| "ID_UnmarshalJSON (AMessageID _) b = decoded AMessageID b"
| "ID_UnmarshalJSON (AUserID _) b = decoded AUserID b"
| "ID_UnmarshalJSON (ARoleID _) b = decoded ARoleID b"
| "ID_UnmarshalJSON (AnEmojiID _) b = decoded AnEmojiID b"
| "ID_UnmarshalJSON (AnApplicationID _) b = decoded AnApplicationID b"
| "ID_UnmarshalJSON (AnApplicationTeamID _) b = decoded AnApplicationTeamID b"
| "ID_UnmarshalJSON (AnApplicationCommandID _) b = decoded AnApplicationCommandID b"
| "ID_UnmarshalJSON (AnApplicationCommandPermissionsID _) b = decoded AnApplicationCommandPermissionsID b"
| "ID_UnmarshalJSON (AnIntegrationID _) b = decoded AnIntegrationID b"
| "ID_UnmarshalJSON (AnAuditLogEntryID _) b = decoded AnAuditLogEntryID b"
| "ID_UnmarshalJSON (AStageInstanceID _) b = decoded AStageInstanceID b"
| "ID_UnmarshalJSON (AWebhookID _) b = decoded AWebhookID b"
| "ID_UnmarshalJSON (AnInteractionID _) b = decoded AnInteractionID b"
| "ID_UnmarshalJSON (AnAttachmentID _) b = decoded AnAttachmentID b"
| "ID_UnmarshalJSON (AScheduledEventID _) b = decoded AScheduledEventID b"

fun ID_MarshalJSON :: "ID \<Rightarrow> bytes" where
  "ID_MarshalJSON (AGuildID s) = Snowflake_MarshalJSON s"
| "ID_MarshalJSON (AChannelID s) = Snowflake_MarshalJSON s"
| "ID_MarshalJSON (AMessageID s) = Snowflake_MarshalJSON s"
| "ID_MarshalJSON (AUserID s) = Snowflake_MarshalJSON s"
| "ID_MarshalJSON (ARoleID s) = Snowflake_MarshalJSON s"
| "ID_MarshalJSON (AnEmojiID s) = Snowflake_MarshalJSON s"
| "ID_MarshalJSON (AnApplicationID s) = Snowflake_MarshalJSON s"
| "ID_MarshalJSON (AnApplicationTeamID s) = Snowflake_MarshalJSON s"
| "ID_MarshalJSON (AnApplicationCommandID s) = Snowflake_MarshalJSON s"
| "ID_MarshalJSON (AnApplicationCommandPermissionsID s) = Snowflake_MarshalJSON s"
| "ID_MarshalJSON (AnIntegrationID s) = Snowflake_MarshalJSON s"
| "ID_MarshalJSON (AnAuditLogEntryID s) = Snowflake_MarshalJSON s"
| "ID_MarshalJSON (AStageInstanceID s) = Snowflake_MarshalJSON s"
| "ID_MarshalJSON (AWebhookID s) = Snowflake_MarshalJSON s"
| "ID_MarshalJSON (AnInteractionID s) = Snowflake_MarshalJSON s"
| "ID_MarshalJSON (AnAttachmentID s) = Snowflake_MarshalJSON s"
| "ID_MarshalJSON (AScheduledEventID s) = Snowflake_MarshalJSON s"

definition GuildID_IsNil :: "GuildID \<Rightarrow> bool" where "GuildID_IsNil s \<longleftrightarrow> s = 0"

definition ChannelID_IsNil :: "ChannelID \<Rightarrow> bool" where "ChannelID_IsNil s \<longleftrightarrow> s = 0"

section \<open>The types are kept\<close>

text \<open>The type an identifier has in the source.\<close>

fun id_type :: "ID \<Rightarrow> string" where
  "id_type (AGuildID _) = ''GuildID''"
| "id_type (AChannelID _) = ''ChannelID''"
| "id_type (AMessageID _) = ''MessageID''"
| "id_type (AUserID _) = ''UserID''"
| "id_type (ARoleID _) = ''RoleID''"
| "id_type (AnEmojiID _) = ''EmojiID''"
| "id_type (AnApplicationID _) = ''ApplicationID''"
| "id_type (AnApplicationTeamID _) = ''ApplicationTeamID''"
| "id_type (AnApplicationCommandID _) = ''ApplicationCommandID''"
| "id_type (AnApplicationCommandPermissionsID _) = ''ApplicationCommandPermissionsID''"
| "id_type (AnIntegrationID _) = ''IntegrationID''"
| "id_type (AnAuditLogEntryID _) = ''AuditLogEntryID''"
| "id_type (AStageInstanceID _) = ''StageInstanceID''"
| "id_type (AWebhookID _) = ''WebhookID''"
| "id_type (AnInteractionID _) = ''InteractionID''"
| "id_type (AnAttachmentID _) = ''AttachmentID''"
| "id_type (AScheduledEventID _) = ''ScheduledEventID''"

lemma decoded_marshalled: "decoded mk (Snowflake_MarshalJSON s) = Ok (Inr (mk s))"
  by (simp add: decoded_def snowflake_json_roundtrip)

lemma decoded_Ok: "decoded mk b = Ok (Inr j) \<longleftrightarrow> (\<exists>s. toSnowflake b = Ok (Inr s) \<and> j = mk s)"
  by (auto simp: decoded_def split: res.splits) (metis Inl_Inr_False map_sum.simps sum.exhaust sum.inject(2))+

lemma toSnowflake_total: "(\<exists>why. toSnowflake b = Panic why) \<longleftrightarrow> b = []"
  by (auto simp: toSnowflake_def null_bytes_def split: list.splits)

lemma decoded_total: "(\<exists>why. decoded mk b = Panic why) \<longleftrightarrow> b = []"
  using toSnowflake_total [of b] by (auto simp: decoded_def split: res.splits)

lemma marshalled_read_back: "id_type k = id_type i \<Longrightarrow> ID_UnmarshalJSON i (ID_MarshalJSON k) = Ok (Inr k)"
  by (cases i; cases k) (simp_all add: decoded_marshalled)

lemma unmarshalled_type: "ID_UnmarshalJSON i b = Ok (Inr j) \<Longrightarrow> id_type j = id_type i"
  by (cases i) (auto simp: decoded_Ok)

lemma unmarshal_total: "(\<exists>why. ID_UnmarshalJSON i b = Panic why) \<longleftrightarrow> b = []"
  by (cases i) (simp_all add: decoded_total)



end
