(* ===== verification/Stamp.thy ===== *)
theory Stamp
  imports GoNum
begin

text \<open>
  \<^verbatim>\<open>Timestamp\<close> of \<^verbatim>\<open>discord/types.go\<close>: a text that is written to JSON only when it is a time of RFC 3339, with the parser
  of \<^verbatim>\<open>time.Parse\<close> for that layout, and the other marshallers of that file. \<open>encode\<close> is the encoder of a text.
\<close>

section \<open>Times of RFC 3339\<close>

text \<open>A parser takes a prefix of the text and leaves the rest. The text is a list of bytes.\<close>

type_synonym 'a taking = "string \<Rightarrow> ('a \<times> string) option"

definition digit_val :: "char \<Rightarrow> nat" where "digit_val c = of_char c - 48"

fun lit :: "char \<Rightarrow> unit taking" where
  "lit c [] = None"
| "lit c (x # r) = (if x = c then Some ((), r) else None)"

fun num2 :: "nat taking" where
  "num2 (a # b # r) = (if is_digit a \<and> is_digit b then Some (10 * digit_val a + digit_val b, r) else None)"
| "num2 _ = None"

fun num4 :: "nat taking" where
  "num4 (a # b # c # d # r) =
     (if list_all is_digit [a, b, c, d] then Some (1000 * digit_val a + 100 * digit_val b + 10 * digit_val c + digit_val d, r) else None)"
| "num4 _ = None"

text \<open>The hour may have one digit.\<close>

fun num12 :: "nat taking" where
  "num12 [] = None"
| "num12 (a # r) =
     (if \<not> is_digit a then None
      else case r of
        [] \<Rightarrow> Some (digit_val a, [])
      | b # r' \<Rightarrow> if is_digit b then Some (10 * digit_val a + digit_val b, r') else Some (digit_val a, r))"

definition within :: "nat \<Rightarrow> nat \<Rightarrow> nat taking \<Rightarrow> nat taking" where
  "within lo hi p s = (case p s of None \<Rightarrow> None | Some (n, r) \<Rightarrow> if lo \<le> n \<and> n \<le> hi then Some (n, r) else None)"

definition followed :: "'a taking \<Rightarrow> ('a \<Rightarrow> 'b taking) \<Rightarrow> 'b taking" where
  "followed p q s = (case p s of None \<Rightarrow> None | Some (x, r) \<Rightarrow> q x r)"

text \<open>A fraction of the second, after a period or a comma, may stand where the layout has none.\<close>

fun fraction :: "unit taking" where
  "fraction (c # d # r) =
     (if c \<in> {CHR ''.'', CHR '',''} \<and> is_digit d then Some ((), dropWhile is_digit r) else Some ((), c # d # r))"
| "fraction s = Some ((), s)"

text \<open>\<^verbatim>\<open>Z07:00\<close>: the hour of an offset is at most 24, its minute at most 60.\<close>

fun zone :: "unit taking" where
  "zone [] = None"
| "zone (sg # r) =
     (if sg = CHR ''Z'' then Some ((), r)
      else if sg = CHR ''+'' \<or> sg = CHR ''-'' then
        followed (within 0 24 num2) (\<lambda>_. followed (lit CHR '':'') (\<lambda>_. followed (within 0 60 num2) (\<lambda>_ r. Some ((), r)))) r
      else None)"

definition leap_year :: "nat \<Rightarrow> bool" where
  "leap_year y \<longleftrightarrow> 4 dvd y \<and> (\<not> 100 dvd y \<or> 400 dvd y)"

definition days_in :: "nat \<Rightarrow> nat \<Rightarrow> nat" where
  "days_in y m = (if m = 2 then if leap_year y then 29 else 28 else if m \<in> {4, 6, 9, 11} then 30 else 31)"

definition rfc3339_parser :: "(nat \<times> nat \<times> nat) taking" where
  "rfc3339_parser =
     followed num4 (\<lambda>year. followed (lit CHR ''-'') (\<lambda>_.
     followed (within 1 12 num2) (\<lambda>month. followed (lit CHR ''-'') (\<lambda>_.
     followed num2 (\<lambda>day. followed (lit CHR ''T'') (\<lambda>_.
     followed (within 0 23 num12) (\<lambda>_. followed (lit CHR '':'') (\<lambda>_.
     followed (within 0 59 num2) (\<lambda>_. followed (lit CHR '':'') (\<lambda>_.
     followed (within 0 59 num2) (\<lambda>_. followed fraction (\<lambda>_.
     followed zone (\<lambda>_ r. Some ((year, month, day), r))))))))))))))"

text \<open>Nothing may be left, and the month must have that day.\<close>

definition rfc3339 :: "string \<Rightarrow> bool" where
  "rfc3339 s \<longleftrightarrow> (case rfc3339_parser s of
     Some ((year, month, day), []) \<Rightarrow> 1 \<le> day \<and> day \<le> days_in year month
   | _ \<Rightarrow> False)"

section \<open>Marshalling\<close>

definition Timestamp_MarshalJSON :: "(string \<Rightarrow> 'e + bytes) \<Rightarrow> string \<Rightarrow> 'e + bytes" where
  "Timestamp_MarshalJSON encode t =
     (if t = [] then Inr ''null'' else let t = (if rfc3339 t then t else []) in encode t)"

definition List_MarshalJSON :: "('a list \<Rightarrow> 'e + bytes) \<Rightarrow> 'a slice \<Rightarrow> 'e + bytes" where
  "List_MarshalJSON encode l = (if elems l = [] then Inr ''[]'' else encode (elems l))"

definition NullMap_MarshalJSON :: "bool \<Rightarrow> 'e + bytes" where
  "NullMap_MarshalJSON n = Inr ''{}''"

definition NullSeq_MarshalJSON :: "bool \<Rightarrow> 'e + bytes" where
  "NullSeq_MarshalJSON n = Inr ''[]''"

section \<open>Times as the daemon writes them\<close>

text \<open>A civil time, with the minutes of its offset from UTC, and its text in the layouts of RFC 3339 and of the webhooks.\<close>

record civil =
  cv_Year :: nat
  cv_Month :: nat
  cv_Day :: nat
  cv_Hour :: nat
  cv_Minute :: nat
  cv_Second :: nat
  cv_West :: bool
  cv_Offset :: nat

definition valid_civil :: "civil \<Rightarrow> bool" where
  "valid_civil c \<longleftrightarrow> cv_Year c < 10000 \<and> 1 \<le> cv_Month c \<and> cv_Month c \<le> 12
     \<and> 1 \<le> cv_Day c \<and> cv_Day c \<le> days_in (cv_Year c) (cv_Month c)
     \<and> cv_Hour c < 24 \<and> cv_Minute c < 60 \<and> cv_Second c < 60 \<and> cv_Offset c < 24 * 60"

definition pad2 :: "nat \<Rightarrow> string" where
  "pad2 n = [digit_char (n div 10), digit_char n]"

definition pad4 :: "nat \<Rightarrow> string" where
  "pad4 n = [digit_char (n div 1000), digit_char (n div 100), digit_char (n div 10), digit_char n]"

definition date_time :: "civil \<Rightarrow> string" where
  "date_time c = pad4 (cv_Year c) @ ''-'' @ pad2 (cv_Month c) @ ''-'' @ pad2 (cv_Day c) @ ''T''
     @ pad2 (cv_Hour c) @ '':'' @ pad2 (cv_Minute c) @ '':'' @ pad2 (cv_Second c)"

definition offset_sign :: "civil \<Rightarrow> char" where
  "offset_sign c = (if cv_West c then CHR ''-'' else CHR ''+'')"

text \<open>\<^verbatim>\<open>2006-01-02T15:04:05-0700\<close>, with and without a colon in the offset.\<close>

definition webhook_time :: "civil \<Rightarrow> string" where
  "webhook_time c = date_time c @ [offset_sign c] @ pad2 (cv_Offset c div 60) @ pad2 (cv_Offset c mod 60)"

definition colon_time :: "civil \<Rightarrow> string" where
  "colon_time c = date_time c @ [offset_sign c] @ pad2 (cv_Offset c div 60) @ '':'' @ pad2 (cv_Offset c mod 60)"

lemma digit_val_char [simp]: "digit_val (digit_char d) = d mod 10"
  by (simp add: digit_val_def)

lemma digit_not: "\<not> is_digit c \<Longrightarrow> digit_char d \<noteq> c"
  using is_digit_digit_char by blast

lemma not_digits: "\<not> is_digit CHR '':''" "\<not> is_digit CHR ''+''" "\<not> is_digit CHR ''-''" "\<not> is_digit CHR ''T''" "\<not> is_digit CHR ''.''"
  "\<not> is_digit CHR '',''"
  by (simp_all add: is_digit_def)

lemma num2_pad: "n < 100 \<Longrightarrow> num2 (pad2 n @ r) = Some (n, r)"
  by (simp add: pad2_def)

lemma num2_pad_end: "n < 100 \<Longrightarrow> num2 (pad2 n) = Some (n, [])"
  using num2_pad [of n "[]"] by simp

lemma four_digits:
  fixes n :: nat
  assumes "q1 * 10 + r1 = n" and "q2 * 10 + r2 = q1" and "q3 * 10 + r3 = q2"
  shows "1000 * q3 + 100 * r3 + 10 * r2 + r1 = n"
  using assms by simp

lemma num4_pad:
  assumes "n < 10000"
  shows "num4 (pad4 n @ r) = Some (n, r)"
proof -
  have q: "n div 100 = n div 10 div 10" "n div 1000 = n div 100 div 10" by (simp_all flip: div_mult2_eq)
  have "n div 10 * 10 + n mod 10 = n" "n div 100 * 10 + n div 10 mod 10 = n div 10" "n div 1000 * 10 + n div 100 mod 10 = n div 100"
    unfolding q by (rule div_mult_mod_eq)+
  from four_digits [OF this] have "1000 * (n div 1000) + 100 * (n div 100 mod 10) + 10 * (n div 10 mod 10) + n mod 10 = n" .
  moreover have "n div 1000 mod 10 = n div 1000" using assms by (simp add: less_mult_imp_div_less)
  ultimately show ?thesis by (simp add: pad4_def)
qed

lemma num12_pad: "n < 100 \<Longrightarrow> num12 (pad2 n @ r) = Some (n, r)"
  by (simp add: pad2_def)

lemma days_in_31: "days_in y m \<le> 31"
  by (simp add: days_in_def)

lemma fraction_none: "c \<notin> {CHR ''.'', CHR '',''} \<Longrightarrow> fraction (c # s) = Some ((), c # s)"
  by (cases s) auto

text \<open>The parser gets through the date and the time, up to the offset.\<close>

lemma parsed_to_zone:
  assumes "valid_civil c" and "sg \<notin> {CHR ''.'', CHR '',''}"
  shows "rfc3339_parser (date_time c @ sg # s) =
    followed zone (\<lambda>_ r. Some ((cv_Year c, cv_Month c, cv_Day c), r)) (sg # s)"
proof -
  have "cv_Year c < 10000" "cv_Month c < 100" "cv_Day c < 100" "cv_Hour c < 100" "cv_Minute c < 100" "cv_Second c < 100"
    using assms(1) days_in_31 [of "cv_Year c" "cv_Month c"] unfolding valid_civil_def by linarith+
  moreover have "within 1 12 num2 (pad2 (cv_Month c) @ r) = Some (cv_Month c, r)" "within 0 23 num12 (pad2 (cv_Hour c) @ r) = Some (cv_Hour c, r)"
    "within 0 59 num2 (pad2 (cv_Minute c) @ r) = Some (cv_Minute c, r)" "within 0 59 num2 (pad2 (cv_Second c) @ r) = Some (cv_Second c, r)" for r
    using assms(1) calculation by (simp_all add: within_def num2_pad num12_pad valid_civil_def)
  ultimately show ?thesis
    by (simp add: rfc3339_parser_def date_time_def followed_def num4_pad num2_pad fraction_none [OF assms(2)])
qed

lemma webhook_time_refused: "valid_civil c \<Longrightarrow> \<not> rfc3339 (webhook_time c)"
  by (simp add: webhook_time_def rfc3339_def parsed_to_zone offset_sign_def followed_def within_def pad2_def
      digit_not [OF not_digits(1)] split: if_splits)

lemma colon_time_accepted: "valid_civil c \<Longrightarrow> rfc3339 (colon_time c)"
proof -
  assume c: "valid_civil c"
  then have "cv_Offset c div 60 < 24" by (intro less_mult_imp_div_less) (simp add: valid_civil_def)
  with c show ?thesis
    by (simp add: colon_time_def rfc3339_def parsed_to_zone offset_sign_def followed_def within_def num2_pad num2_pad_end valid_civil_def)
qed

text \<open>A timestamp that is not empty reaches JSON exactly when it is a time of RFC 3339. The layout in which webhooks write
  the time has no colon in the offset, so none of their times does: each is replaced by the empty text.\<close>

lemma timestamp_marshalled:
  assumes "valid_civil c"
  shows "Timestamp_MarshalJSON encode (webhook_time c) = encode [] \<and> Timestamp_MarshalJSON encode (colon_time c) = encode (colon_time c)
    \<and> (t \<noteq> [] \<longrightarrow> Timestamp_MarshalJSON encode t = (if rfc3339 t then encode t else encode []))"
proof -
  have "webhook_time c \<noteq> []" "colon_time c \<noteq> []" by (simp_all add: webhook_time_def colon_time_def)
  then show ?thesis
    using webhook_time_refused [OF assms] colon_time_accepted [OF assms] by (simp add: Timestamp_MarshalJSON_def)
qed

definition sample_time :: civil where
  "sample_time = \<lparr> cv_Year = 2024, cv_Month = 2, cv_Day = 29, cv_Hour = 23, cv_Minute = 59, cv_Second = 0, cv_West = False, cv_Offset = 60 \<rparr>"

end
