(* ===== verification/Api_Types.thy ===== *)
theory Api_Types
  imports World
begin

text \<open>
  The other structures of \<^verbatim>\<open>discord/interactions.go\<close>, \<^verbatim>\<open>discord/audit.go\<close>, \<^verbatim>\<open>discord/webhook.go\<close> and \<^verbatim>\<open>discord/oauth.go\<close>,
  which need those of the gateway, and the functions that build components.
\<close>

record AuthorizationInformation =
  ai_Expires :: string
  ai_Scopes :: "string slice"
  ai_Application :: Application
  ai_User :: User

section \<open>Interactions\<close>

record data_option =
  ido_Name :: string
  ido_Value :: bytes
  ido_Type :: uint16
  ido_Focused :: bool

datatype InteractionDataOption = InteractionDataOption data_option "InteractionDataOption slice"

record InteractionResolvedData =
  ird_Users :: "(UserID \<times> User) list"
  ird_Members :: "(UserID \<times> GuildMember) list"
  ird_Roles :: "(RoleID \<times> Role) list"
  ird_Channels :: "(ChannelID \<times> Channel) list"
  ird_Messages :: "(Snowflake \<times> Message) list"
  ird_Attachments :: "(Snowflake \<times> MessageAttachment) list"

record InteractionData =
  ida_TargetID :: "Snowflake option"
  ida_Resolved :: "InteractionResolvedData option"
  ida_GuildID :: "GuildID option"
  ida_ComponentType :: "uint16 option"
  ida_Name :: string
  ida_CustomID :: string
  ida_Options :: "InteractionDataOption slice"
  ida_Values :: "ApplicationSelectOption slice"
  ida_Components :: "InteractionComponent slice"
  ida_Value :: bytes
  ida_ID :: Snowflake
  ida_Type :: uint16
  ida_Focused :: bool

record InteractionCallbackData =
  icd_Content :: string
  icd_Title :: string
  icd_CustomID :: string
  icd_Embeds :: "Embed slice"
  icd_AllowedMentions :: "MessageAllowedMentions slice"
  icd_Attachments :: "MessageAttachment slice"
  icd_Files :: "File slice"
  icd_Components :: "InteractionComponent slice"
  icd_Choices :: "ApplicationCommandOptionChoice slice"
  icd_Flags :: uint32
  icd_TTS :: bool

record InteractionResponse =
  irs_Data :: "InteractionCallbackData option"
  irs_Type :: uint16

record Interaction =
  itr_Member :: "GuildMember option"
  itr_Message :: "Message option"
  itr_AppPermissions :: "int64 option"
  itr_Data :: "InteractionData option"
  itr_GuildID :: "GuildID option"
  itr_ChannelID :: "ChannelID option"
  itr_User :: "User option"
  itr_Token :: string
  itr_Locale :: string
  itr_GuildLocale :: string
  itr_Entitlements :: "Entitlement slice"
  itr_ID :: Snowflake
  itr_ApplicationID :: ApplicationID
  itr_Version :: int32
  itr_Type :: uint16

record InteractionFollowup =
  itf_Message :: "Message option"
  itf_Interaction :: "Interaction option"

section \<open>Webhooks and the audit log\<close>

record Webhook =
  wh_GuildID :: "GuildID option"
  wh_ChannelID :: "ChannelID option"
  wh_User :: "User option"
  wh_ApplicationID :: "ApplicationID option"
  wh_Name :: string
  wh_Avatar :: string
  wh_Token :: string
  wh_ID :: Snowflake
  wh_Type :: uint16

record WebhookMessageParams =
  wm_PayloadJSON :: "bytes option"
  wm_Content :: string
  wm_Username :: string
  wm_AvatarURL :: string
  wm_Embeds :: "Embed option slice"
  wm_AllowedMentions :: "MessageAllowedMentions option slice"
  wm_Components :: "InteractionComponent option slice"
  wm_Files :: "File option slice"
  wm_Attachments :: "MessageAttachment option slice"
  wm_TTS :: bool

record WebhookParam =
  wp_Name :: "string option"
  wp_Avatar :: "string option"

record GuildAuditLog =
  gal_AuditLogEntries :: "AuditLogEntry slice"
  gal_ScheduledEvents :: "ScheduledEvent slice"
  gal_Integrations :: "Integration slice"
  gal_Threads :: "Channel slice"
  gal_Users :: "User slice"
  gal_Webhooks :: "Webhook slice"

section \<open>Building components\<close>

definition on_fields :: "(component \<Rightarrow> component) \<Rightarrow> InteractionComponent \<Rightarrow> InteractionComponent" where
  "on_fields f c = InteractionComponent (f (component_fields c)) (component_children c)"

definition zero_component :: component where
  "zero_component = \<lparr> ic_Emoji = None, ic_MaxValues = None, ic_MinValues = None, ic_Placeholder = [], ic_CustomID = [], ic_URL = [],
     ic_Label = [], ic_Options = None, ic_ChannelTypes = None, ic_Disabled = False, ic_Type = 0, ic_Style = 0 \<rparr>"

definition NewInteractionComponent :: "uint16 \<Rightarrow> InteractionComponent" where
  "NewInteractionComponent componentType = InteractionComponent (zero_component\<lparr>ic_Type := componentType\<rparr>) None"

definition SetCustomID :: "string \<Rightarrow> InteractionComponent \<Rightarrow> InteractionComponent" where
  "SetCustomID customID = on_fields (\<lambda>c. c\<lparr>ic_CustomID := customID\<rparr>)"

definition SetDisabled :: "bool \<Rightarrow> InteractionComponent \<Rightarrow> InteractionComponent" where
  "SetDisabled disabled = on_fields (\<lambda>c. c\<lparr>ic_Disabled := disabled\<rparr>)"

definition SetStyle :: "uint16 \<Rightarrow> InteractionComponent \<Rightarrow> InteractionComponent" where
  "SetStyle style = on_fields (\<lambda>c. c\<lparr>ic_Style := style\<rparr>)"

definition SetLabel :: "string \<Rightarrow> InteractionComponent \<Rightarrow> InteractionComponent" where
  "SetLabel label = on_fields (\<lambda>c. c\<lparr>ic_Label := label\<rparr>)"

definition SetEmoji :: "Emoji option \<Rightarrow> InteractionComponent \<Rightarrow> InteractionComponent" where
  "SetEmoji emoji = on_fields (\<lambda>c. c\<lparr>ic_Emoji := emoji\<rparr>)"

definition Component_SetURL :: "string \<Rightarrow> InteractionComponent \<Rightarrow> InteractionComponent" where
  "Component_SetURL url = on_fields (\<lambda>c. c\<lparr>ic_URL := url\<rparr>)"

definition AddOption :: "ApplicationSelectOption \<Rightarrow> InteractionComponent \<Rightarrow> InteractionComponent" where
  "AddOption option = on_fields (\<lambda>c. c\<lparr>ic_Options := Some (elems (ic_Options c) @ [option])\<rparr>)"

definition SetPlaceholder :: "string \<Rightarrow> InteractionComponent \<Rightarrow> InteractionComponent" where
  "SetPlaceholder placeholder = on_fields (\<lambda>c. c\<lparr>ic_Placeholder := placeholder\<rparr>)"

definition SetMinMaxValues :: "int32 option \<Rightarrow> int32 option \<Rightarrow> InteractionComponent \<Rightarrow> InteractionComponent" where
  "SetMinMaxValues minValue maxValue = on_fields (\<lambda>c. c\<lparr>ic_MinValues := minValue, ic_MaxValues := maxValue\<rparr>)"

definition AddComponent :: "InteractionComponent \<Rightarrow> InteractionComponent \<Rightarrow> InteractionComponent" where
  "AddComponent component c = InteractionComponent (component_fields c) (Some (elems (component_children c) @ [component]))"

text \<open>A component keeps the type it was made with, and its children and options in the order in which they were added.\<close>

lemma builders_keep_type:
  "ic_Type (component_fields (NewInteractionComponent t)) = t"
  "f \<in> {SetCustomID s, SetDisabled b, SetStyle st, SetLabel s, SetEmoji e, Component_SetURL s, AddOption p, SetPlaceholder s,
     SetMinMaxValues lo hi, AddComponent k} \<Longrightarrow> ic_Type (component_fields (f c)) = ic_Type (component_fields c)"
  by (auto simp: NewInteractionComponent_def SetCustomID_def SetDisabled_def SetStyle_def SetLabel_def SetEmoji_def
      Component_SetURL_def AddOption_def SetPlaceholder_def SetMinMaxValues_def AddComponent_def on_fields_def)

lemma added_in_order:
  "elems (component_children (fold AddComponent ks c)) = elems (component_children c) @ ks"
  "elems (ic_Options (component_fields (fold AddOption ps c))) = elems (ic_Options (component_fields c)) @ ps"
  by (induction ks arbitrary: c; simp add: AddComponent_def) (induction ps arbitrary: c; simp add: AddOption_def on_fields_def)

end
