(* ===== verification/Permissions.thy ===== *)
theory Permissions
  imports Prelude
begin

text \<open>
  \<^verbatim>\<open>discord/permissions.go\<close>: the bits of the permissions of members and roles, as integers of 64 bits.
\<close>

unbundle bit_operations_syntax

text \<open>\<^verbatim>\<open>iota\<close> in the first line of a block of constants.\<close>

definition iota :: int64 where "iota = 0"

definition PermissionCreateInstantInvite :: int64 where "PermissionCreateInstantInvite = push_bit 1 iota"
definition PermissionKickMembers :: int64 where "PermissionKickMembers = 0x2"
definition PermissionBanMembers :: int64 where "PermissionBanMembers = 0x4"
definition PermissionAdministrator :: int64 where "PermissionAdministrator = 0x8"
definition PermissionManageChannels :: int64 where "PermissionManageChannels = 0x10"
definition PermissionManageServer :: int64 where "PermissionManageServer = 0x20"
definition PermissionAddReactions :: int64 where "PermissionAddReactions = 0x40"
definition PermissionViewAuditLogs :: int64 where "PermissionViewAuditLogs = 0x80"
definition PermissionVoicePrioritySpeaker :: int64 where "PermissionVoicePrioritySpeaker = 0x100"
definition PermissionVoiceStreamVideo :: int64 where "PermissionVoiceStreamVideo = 0x200"
definition PermissionViewChannel :: int64 where "PermissionViewChannel = 0x400"
definition PermissionSendMessages :: int64 where "PermissionSendMessages = 0x800"
definition PermissionSendTTSMessages :: int64 where "PermissionSendTTSMessages = 0x1000"
definition PermissionManageMessages :: int64 where "PermissionManageMessages = 0x2000"
definition PermissionEmbedLinks :: int64 where "PermissionEmbedLinks = 0x4000"
definition PermissionAttachFiles :: int64 where "PermissionAttachFiles = 0x8000"
definition PermissionReadMessageHistory :: int64 where "PermissionReadMessageHistory = 0x10000"
definition PermissionMentionEveryone :: int64 where "PermissionMentionEveryone = 0x20000"
definition PermissionUseExternalEmojis :: int64 where "PermissionUseExternalEmojis = 0x40000"
definition PermissionViewGuildInsights :: int64 where "PermissionViewGuildInsights = 0x80000"
definition PermissionVoiceConnect :: int64 where "PermissionVoiceConnect = 0x100000"
definition PermissionVoiceSpeak :: int64 where "PermissionVoiceSpeak = 0x200000"
definition PermissionVoiceMuteMembers :: int64 where "PermissionVoiceMuteMembers = 0x400000"
definition PermissionVoiceDeafenMembers :: int64 where "PermissionVoiceDeafenMembers = 0x800000"
definition PermissionVoiceMoveMembers :: int64 where "PermissionVoiceMoveMembers = 0x1000000"
definition PermissionVoiceUseVAD :: int64 where "PermissionVoiceUseVAD = 0x2000000"
definition PermissionChangeNickname :: int64 where "PermissionChangeNickname = 0x4000000"
definition PermissionManageNicknames :: int64 where "PermissionManageNicknames = 0x8000000"
definition PermissionManageRoles :: int64 where "PermissionManageRoles = 0x10000000"
definition PermissionManageWebhooks :: int64 where "PermissionManageWebhooks = 0x20000000"
definition PermissionManageEmojis :: int64 where "PermissionManageEmojis = 0x40000000"
definition PermissionUseSlashCommands :: int64 where "PermissionUseSlashCommands = 0x80000000"
definition PermissionVoiceRequestToSpeak :: int64 where "PermissionVoiceRequestToSpeak = 0x100000000"
definition PermissionManageEvents :: int64 where "PermissionManageEvents = 0x200000000"
definition PermissionManageThreads :: int64 where "PermissionManageThreads = 0x400000000"
definition PermissionCreatePublicThreads :: int64 where "PermissionCreatePublicThreads = 0x800000000"
definition PermissionCreatePrivateThreads :: int64 where "PermissionCreatePrivateThreads = 0x1000000000"
definition PermissionUseExternalStickers :: int64 where "PermissionUseExternalStickers = 0x2000000000"
definition PermissionSendMessagesInThreads :: int64 where "PermissionSendMessagesInThreads = 0x4000000000"
definition PermissionUseActivities :: int64 where "PermissionUseActivities = 0x8000000000"
definition PermissionModerateMembers :: int64 where "PermissionModerateMembers = 0x10000000000"
definition PermissionViewCreatorMonetizationAnalytics :: int64 where "PermissionViewCreatorMonetizationAnalytics = 0x20000000000"
definition PermissionUseSoundboard :: int64 where "PermissionUseSoundboard = 0x40000000000"
definition PermissionCreateGuildExpressions :: int64 where "PermissionCreateGuildExpressions = 0x80000000000"
definition PermissionCreateEvents :: int64 where "PermissionCreateEvents = 0x100000000000"
definition PermissionUseExternalSounds :: int64 where "PermissionUseExternalSounds = 0x200000000000"
definition PermissionSendVoiceMessages :: int64 where "PermissionSendVoiceMessages = 0x400000000000"

definition PermissionAllText :: int64 where
  "PermissionAllText =
     PermissionViewChannel OR PermissionSendMessages OR PermissionSendTTSMessages OR PermissionManageMessages OR
     PermissionEmbedLinks OR PermissionAttachFiles OR PermissionReadMessageHistory OR PermissionMentionEveryone"

definition PermissionAllVoice :: int64 where
  "PermissionAllVoice =
     PermissionViewChannel OR PermissionVoiceConnect OR PermissionVoiceSpeak OR PermissionVoiceMuteMembers OR
     PermissionVoiceDeafenMembers OR PermissionVoiceMoveMembers OR PermissionVoiceUseVAD OR
     PermissionVoicePrioritySpeaker"

definition PermissionAllChannel :: int64 where
  "PermissionAllChannel =
     PermissionAllText OR PermissionAllVoice OR PermissionCreateInstantInvite OR PermissionManageRoles OR
     PermissionManageChannels OR PermissionAddReactions OR PermissionViewAuditLogs"

definition PermissionAll :: int64 where
  "PermissionAll =
     PermissionAllChannel OR PermissionKickMembers OR PermissionBanMembers OR PermissionManageServer OR
     PermissionAdministrator OR PermissionManageWebhooks OR PermissionManageEmojis"

definition PermissionElevated :: int64 where
  "PermissionElevated =
     PermissionKickMembers OR PermissionBanMembers OR PermissionAdministrator OR PermissionManageChannels OR
     PermissionManageServer OR PermissionManageMessages OR PermissionManageRoles OR PermissionManageWebhooks OR
     PermissionManageEmojis OR PermissionManageThreads OR PermissionModerateMembers"

text \<open>All single permissions in the order of the source.\<close>

definition permissions :: "int64 list" where
  "permissions = [
     PermissionCreateInstantInvite, PermissionKickMembers, PermissionBanMembers, PermissionAdministrator,
     PermissionManageChannels, PermissionManageServer, PermissionAddReactions, PermissionViewAuditLogs,
     PermissionVoicePrioritySpeaker, PermissionVoiceStreamVideo, PermissionViewChannel, PermissionSendMessages,
     PermissionSendTTSMessages, PermissionManageMessages, PermissionEmbedLinks, PermissionAttachFiles,
     PermissionReadMessageHistory, PermissionMentionEveryone, PermissionUseExternalEmojis, PermissionViewGuildInsights,
     PermissionVoiceConnect, PermissionVoiceSpeak, PermissionVoiceMuteMembers, PermissionVoiceDeafenMembers,
     PermissionVoiceMoveMembers, PermissionVoiceUseVAD, PermissionChangeNickname, PermissionManageNicknames,
     PermissionManageRoles, PermissionManageWebhooks, PermissionManageEmojis, PermissionUseSlashCommands,
     PermissionVoiceRequestToSpeak, PermissionManageEvents, PermissionManageThreads, PermissionCreatePublicThreads,
     PermissionCreatePrivateThreads, PermissionUseExternalStickers, PermissionSendMessagesInThreads, PermissionUseActivities,
     PermissionModerateMembers, PermissionViewCreatorMonetizationAnalytics, PermissionUseSoundboard,
     PermissionCreateGuildExpressions, PermissionCreateEvents, PermissionUseExternalSounds, PermissionSendVoiceMessages]"

lemmas permission_defs = PermissionCreateInstantInvite_def PermissionKickMembers_def PermissionBanMembers_def PermissionAdministrator_def
  PermissionManageChannels_def PermissionManageServer_def PermissionAddReactions_def PermissionViewAuditLogs_def
  PermissionVoicePrioritySpeaker_def PermissionVoiceStreamVideo_def PermissionViewChannel_def
  PermissionSendMessages_def PermissionSendTTSMessages_def PermissionManageMessages_def PermissionEmbedLinks_def
  PermissionAttachFiles_def PermissionReadMessageHistory_def PermissionMentionEveryone_def
  PermissionUseExternalEmojis_def PermissionViewGuildInsights_def PermissionVoiceConnect_def PermissionVoiceSpeak_def
  PermissionVoiceMuteMembers_def PermissionVoiceDeafenMembers_def PermissionVoiceMoveMembers_def
  PermissionVoiceUseVAD_def PermissionChangeNickname_def PermissionManageNicknames_def PermissionManageRoles_def
  PermissionManageWebhooks_def PermissionManageEmojis_def PermissionUseSlashCommands_def
  PermissionVoiceRequestToSpeak_def PermissionManageEvents_def PermissionManageThreads_def
  PermissionCreatePublicThreads_def PermissionCreatePrivateThreads_def PermissionUseExternalStickers_def
  PermissionSendMessagesInThreads_def PermissionUseActivities_def PermissionModerateMembers_def
  PermissionViewCreatorMonetizationAnalytics_def PermissionUseSoundboard_def PermissionCreateGuildExpressions_def
  PermissionCreateEvents_def PermissionUseExternalSounds_def PermissionSendVoiceMessages_def

lemmas combined_defs = PermissionAllText_def PermissionAllVoice_def PermissionAllChannel_def PermissionAll_def PermissionElevated_def

section \<open>The bits\<close>

lemma permissions_bits: "permissions = 0 # map (\<lambda>i. 2 ^ i) [1 ..< 47]"
  by (simp add: permissions_def permission_defs iota_def upt_rec)

lemma combined_values:
  "PermissionAllText = 0x3FC00" "PermissionAllVoice = 0x3F00500" "PermissionAllChannel = 0x13F3FDD0" "PermissionAll = 0x73F3FDFE"
  "PermissionElevated = 0x1047000203E"
  by (simp_all add: combined_defs permission_defs iota_def)


end
