(* ===== verification/Session.thy ===== *)
theory Session
  imports Client Chat_Client
begin

text \<open>
  \<^verbatim>\<open>discord/session.go\<close> and \<^verbatim>\<open>discord/errors.go\<close>: sessions and the two interfaces through which a session sends
  requests, to Discord itself and to a proxy. What the network answers is a script, as in \<open>Client\<close>; here a header may have
  several values. The context of a session only carries its cancellation, which is one of the errors of a reply.
\<close>

section \<open>Requests and replies\<close>

record rest_request =
  rq_Method :: string
  rq_Scheme :: string
  rq_Host :: string
  rq_Path :: string
  rq_RawQuery :: string
  rq_Header :: "(string \<times> string) list"
  rq_Body :: bytes

record rest_response =
  rp_StatusCode :: int
  rp_Status :: string
  rp_Body :: "go_error + bytes"

record wire =
  wire_replies :: "(go_error + rest_response) list"
  wire_sent :: "rest_request list"

definition http_Do :: "rest_request \<Rightarrow> wire \<Rightarrow> (go_error + rest_response) \<times> wire" where
  "http_Do req w = (case wire_replies w of
     [] \<Rightarrow> (Inl (ErrLib ''no reply''), w\<lparr>wire_sent := wire_sent w @ [req]\<rparr>)
   | r # rs \<Rightarrow> (r, w\<lparr>wire_replies := rs, wire_sent := wire_sent w @ [req]\<rparr>))"

text \<open>The name of a header is brought to its canonical form, unless it has a character that no name may have.\<close>

definition token_char :: "char \<Rightarrow> bool" where
  "token_char c \<longleftrightarrow> (let n = of_char c :: nat in
     48 \<le> n \<and> n \<le> 57 \<or> 65 \<le> n \<and> n \<le> 90 \<or> 97 \<le> n \<and> n \<le> 122 \<or> n \<in> {33, 35, 36, 37, 38, 39, 42, 43, 45, 46, 94, 95, 96, 124, 126})"

definition upper_char :: "char \<Rightarrow> char" where
  "upper_char c = (let n = of_char c :: nat in if 97 \<le> n \<and> n \<le> 122 then char_of (n - 32) else c)"

fun title_case :: "bool \<Rightarrow> string \<Rightarrow> string" where
  "title_case upper [] = []"
| "title_case upper (c # cs) = (if upper then upper_char c else lower_char c) # title_case (c = CHR ''-'') cs"

definition canonical :: "string \<Rightarrow> string" where
  "canonical k = (if list_all token_char k then title_case True k else k)"

definition header_value :: "string \<Rightarrow> rest_request \<Rightarrow> string" where
  "header_value k req = (case map_of (rq_Header req) k of Some v \<Rightarrow> v | None \<Rightarrow> [])"

definition header_add :: "string \<Rightarrow> string \<Rightarrow> rest_request \<Rightarrow> rest_request" where
  "header_add k v req = req\<lparr>rq_Header := rq_Header req @ [(canonical k, v)]\<rparr>"

definition header_set :: "string \<Rightarrow> string \<Rightarrow> rest_request \<Rightarrow> rest_request" where
  "header_set k v req = req\<lparr>rq_Header := filter (\<lambda>(k', _). k' \<noteq> k) (rq_Header req) @ [(k, v)]\<rparr>"

text \<open>The headers of a caller: a map, in the order in which it is visited.\<close>

type_synonym headers = "(string \<times> string list) list"

definition add_headers :: "headers \<Rightarrow> rest_request \<Rightarrow> rest_request" where
  "add_headers hs = fold (\<lambda>(name, vals). fold (header_add name) vals) hs"

section \<open>Errors\<close>

record ErrorMessage =
  em_Message :: string
  em_Errors :: bytes
  em_Code :: int32

record RestError =
  re_Request :: rest_request
  re_Response :: rest_response
  re_Message :: "ErrorMessage option"
  re_ResponseBody :: "bytes option"

datatype rest_failure = Failed go_error | ErrUnauthorized | Refused RestError

text \<open>
  What the code takes from elsewhere: the path and the query of \<^verbatim>\<open>http.NewRequestWithContext\<close>, and what
  \<^verbatim>\<open>sandwichjson.Unmarshal\<close> makes of the value it is handed.
\<close>

record session_lib =
  sl_new_request :: "string \<Rightarrow> string \<Rightarrow> go_error + string \<times> string"
  sl_error_message :: "bytes option \<Rightarrow> ErrorMessage \<Rightarrow> ErrorMessage \<times> go_error option"

definition zero_ErrorMessage :: ErrorMessage where
  "zero_ErrorMessage = \<lparr> em_Message = [], em_Errors = [], em_Code = 0 \<rparr>"

text \<open>\<^verbatim>\<open>Unmarshal\<close> is handed the message itself and not its address: what it decodes goes into a copy.\<close>

definition NewRestError :: "session_lib \<Rightarrow> rest_request \<Rightarrow> rest_response \<Rightarrow> bytes option \<Rightarrow> RestError" where
  "NewRestError sl req resp body =
     (let errorMessage = zero_ErrorMessage;
          (copy, _) = sl_error_message sl body errorMessage
      in \<lparr> re_Request = req, re_Response = resp, re_Message = Some errorMessage, re_ResponseBody = body \<rparr>)"

definition RestError_Error :: "RestError \<Rightarrow> string res" where
  "RestError_Error r = (case re_Message r of
     None \<Rightarrow> Panic ''nil pointer dereference''
   | Some m \<Rightarrow> Ok (rp_Status (re_Response r) @ '': '' @ em_Message m))"

section \<open>Sessions\<close>

record 'i Session =
  ss_Interface :: 'i
  ss_Token :: string

definition NewSession :: "string \<Rightarrow> 'i \<Rightarrow> 'i Session" where
  "NewSession token httpInterface = \<lparr> ss_Interface = httpInterface, ss_Token = token \<rparr>"

definition before_query :: "string \<Rightarrow> string" where
  "before_query endpoint = takeWhile (\<lambda>c. c \<noteq> CHR ''?'') endpoint"

definition after_query :: "string \<Rightarrow> string" where
  "after_query endpoint = tl (dropWhile (\<lambda>c. c \<noteq> CHR ''?'') endpoint)"

section \<open>The interface to Discord\<close>

definition APIVersion :: string where "APIVersion = ''v10''"

definition EndpointDiscord :: string where "EndpointDiscord = ''https://discord.com/api''"

definition UserAgent :: string where "UserAgent = ''Sandwich (github.com/WelcomerTeam/Discord)''"

record BaseInterface =
  bi_APIVersion :: string
  bi_URLHost :: string
  bi_URLScheme :: string
  bi_UserAgent :: string
  bi_Debug :: bool

text \<open>\<open>parse\<close> gives the scheme and the host of a URL, when it is one; otherwise the URL is nil.\<close>

definition NewInterface :: "(string \<Rightarrow> (string \<times> string) option) \<Rightarrow> string \<Rightarrow> string \<Rightarrow> string \<Rightarrow> BaseInterface res" where
  "NewInterface parse endpoint version useragent =
     (case parse endpoint of
        None \<Rightarrow> Panic ''nil pointer dereference''
      | Some (scheme, host) \<Rightarrow> Ok \<lparr> bi_APIVersion = version, bi_URLHost = host, bi_URLScheme = scheme, bi_UserAgent = useragent,
          bi_Debug = False \<rparr>)"

definition NewBaseInterface :: "(string \<Rightarrow> (string \<times> string) option) \<Rightarrow> BaseInterface res" where
  "NewBaseInterface parse = NewInterface parse EndpointDiscord APIVersion UserAgent"

definition BaseInterface_request :: "BaseInterface \<Rightarrow> 'i Session \<Rightarrow> string \<Rightarrow> string \<Rightarrow> string \<times> string \<Rightarrow> string \<Rightarrow>
    bytes option \<Rightarrow> headers \<Rightarrow> rest_request" where
  "BaseInterface_request bi session meth endpoint parsed contentType body headers =
     (let req = \<lparr> rq_Method = meth, rq_Scheme = bi_URLScheme bi, rq_Host = bi_URLHost bi, rq_Path = fst parsed,
            rq_RawQuery = snd parsed, rq_Header = [], rq_Body = (case body of Some b \<Rightarrow> b | None \<Rightarrow> []) \<rparr>;
          queried = CHR ''?'' \<in> set endpoint;
          req = (if queried then req\<lparr>rq_RawQuery := after_query endpoint\<rparr> else req);
          endpoint = (if queried then before_query endpoint else endpoint);
          req = (if bi_APIVersion bi \<noteq> [] \<and> take 4 (rq_Path req) \<noteq> ''/api''
                 then req\<lparr>rq_Path := ''/api/'' @ bi_APIVersion bi @ endpoint\<rparr> else req);
          req = add_headers headers req;
          req = (if body \<noteq> None \<and> header_value ''Content-Type'' req = [] then header_set ''Content-Type'' contentType req else req);
          req = (if ss_Token session \<noteq> [] then header_set ''Authorization'' (ss_Token session) req else req)
      in header_set ''Accept'' ''application/json'' req)"

definition BaseInterface_Fetch :: "session_lib \<Rightarrow> BaseInterface \<Rightarrow> 'i Session \<Rightarrow> string \<Rightarrow> string \<Rightarrow> string \<Rightarrow>
    bytes option \<Rightarrow> headers \<Rightarrow> wire \<Rightarrow> (bytes option \<times> rest_failure option) \<times> wire" where
  "BaseInterface_Fetch sl bi session meth endpoint contentType body headers w =
     (case sl_new_request sl meth endpoint of
        Inl e \<Rightarrow> ((None, Some (Failed (ErrWrap ''failed to create new request'' e))), w)
      | Inr parsed \<Rightarrow>
          let req = BaseInterface_request bi session meth endpoint parsed contentType body headers in
          (case http_Do req w of
             (Inl e, w) \<Rightarrow> ((None, Some (Failed (ErrWrap ''failed to do request'' e))), w)
           | (Inr resp, w) \<Rightarrow>
               (case rp_Body resp of
                  Inl e \<Rightarrow> ((None, Some (Failed (ErrWrap ''failed to read body'' e))), w)
                | Inr response \<Rightarrow>
                    if rp_StatusCode resp \<in> {200, 201, 204} then ((Some response, None), w)
                    else if rp_StatusCode resp = 401 then ((Some response, Some ErrUnauthorized), w)
                    else ((Some response, Some (Refused (NewRestError sl req resp body))), w))))"

text \<open>\<open>response\<close> is the value a response is decoded into; nil leaves the response alone.\<close>

type_synonym 'a unmarshaller = "bytes option \<Rightarrow> 'a \<Rightarrow> 'a \<times> go_error option"

definition BaseInterface_FetchBJ :: "session_lib \<Rightarrow> 'a unmarshaller \<Rightarrow> BaseInterface \<Rightarrow> 'i Session \<Rightarrow> string \<Rightarrow> string \<Rightarrow> string \<Rightarrow>
    bytes option \<Rightarrow> headers \<Rightarrow> 'a option \<Rightarrow> wire \<Rightarrow> ('a option \<times> rest_failure option) \<times> wire" where
  "BaseInterface_FetchBJ sl unmarshal bi session meth endpoint contentType body headers response w =
     (case BaseInterface_Fetch sl bi session meth endpoint contentType body headers w of
        ((_, Some err), w) \<Rightarrow> ((response, Some err), w)
      | ((resp, None), w) \<Rightarrow>
          (case response of
             None \<Rightarrow> ((None, None), w)
           | Some v \<Rightarrow>
               (case unmarshal resp v of
                  (v, Some e) \<Rightarrow> ((Some v, Some (Failed (ErrWrap ''failed to unmarshal response'' e))), w)
                | (v, None) \<Rightarrow> ((Some v, None), w))))"

definition BaseInterface_FetchJJ :: "session_lib \<Rightarrow> 'a unmarshaller \<Rightarrow> ('p \<Rightarrow> go_error + bytes) \<Rightarrow> BaseInterface \<Rightarrow> 'i Session \<Rightarrow>
    string \<Rightarrow> string \<Rightarrow> 'p option \<Rightarrow> headers \<Rightarrow> 'a option \<Rightarrow> wire \<Rightarrow> ('a option \<times> rest_failure option) \<times> wire" where
  "BaseInterface_FetchJJ sl unmarshal marshal bi session meth endpoint payload headers response w =
     (case payload of
        None \<Rightarrow> BaseInterface_FetchBJ sl unmarshal bi session meth endpoint ''application/json'' (Some []) headers response w
      | Some p \<Rightarrow>
          (case marshal p of
             Inl e \<Rightarrow> ((response, Some (Failed (ErrWrap ''failed to marshal payload'' e))), w)
           | Inr body \<Rightarrow>
               BaseInterface_FetchBJ sl unmarshal bi session meth endpoint ''application/json'' (Some body) headers response w))"

definition BaseInterface_SetDebug :: "bool \<Rightarrow> BaseInterface \<Rightarrow> BaseInterface" where
  "BaseInterface_SetDebug v bi = bi\<lparr>bi_Debug := v\<rparr>"

section \<open>The interface to a proxy\<close>

record TwilightProxy =
  tl_APIVersion :: string
  tl_URLHost :: string
  tl_URLScheme :: string
  tl_UserAgent :: string
  tl_Debug :: bool

text \<open>\<open>url\<close> is given by its scheme and its host.\<close>

definition NewTwilightProxy :: "string \<times> string \<Rightarrow> TwilightProxy" where
  "NewTwilightProxy url = \<lparr> tl_APIVersion = APIVersion, tl_URLHost = snd url, tl_URLScheme = fst url,
     tl_UserAgent = ''Sandwich (github.com/WelcomerTeam/Discord)'', tl_Debug = False \<rparr>"

definition TwilightProxy_request :: "TwilightProxy \<Rightarrow> 'i Session \<Rightarrow> string \<Rightarrow> string \<Rightarrow> string \<times> string \<Rightarrow> string \<Rightarrow>
    bytes option \<Rightarrow> headers \<Rightarrow> rest_request" where
  "TwilightProxy_request tw session meth endpoint parsed contentType body headers =
     (let req = \<lparr> rq_Method = meth, rq_Scheme = tl_URLScheme tw, rq_Host = tl_URLHost tw, rq_Path = fst parsed,
            rq_RawQuery = snd parsed, rq_Header = [], rq_Body = (case body of Some b \<Rightarrow> b | None \<Rightarrow> []) \<rparr>;
          queried = CHR ''?'' \<in> set endpoint;
          req = (if queried then req\<lparr>rq_RawQuery := after_query endpoint\<rparr> else req);
          endpoint = (if queried then before_query endpoint else endpoint);
          req = (if tl_APIVersion tw \<noteq> [] \<and> take 4 (rq_Path req) \<noteq> ''/api''
                 then req\<lparr>rq_Path := ''/api/'' @ tl_APIVersion tw @ endpoint\<rparr> else req);
          req = add_headers headers req;
          req = (if body \<noteq> None \<and> header_value ''Content-Type'' req = [] then header_set ''Content-Type'' contentType req else req);
          req = (if ss_Token session \<noteq> [] then header_set ''Authorization'' (ss_Token session) req else req)
      in header_set ''Accept'' ''application/json'' req)"

definition TwilightProxy_Fetch :: "session_lib \<Rightarrow> TwilightProxy \<Rightarrow> 'i Session \<Rightarrow> string \<Rightarrow> string \<Rightarrow> string \<Rightarrow>
    bytes option \<Rightarrow> headers \<Rightarrow> wire \<Rightarrow> (bytes option \<times> rest_failure option) \<times> wire" where
  "TwilightProxy_Fetch sl tw session meth endpoint contentType body headers w =
     (case sl_new_request sl meth endpoint of
        Inl e \<Rightarrow> ((None, Some (Failed (ErrWrap ''failed to create new request'' e))), w)
      | Inr parsed \<Rightarrow>
          let req = TwilightProxy_request tw session meth endpoint parsed contentType body headers in
          (case http_Do req w of
             (Inl e, w) \<Rightarrow> ((None, Some (Failed (ErrWrap ''failed to do request'' e))), w)
           | (Inr resp, w) \<Rightarrow>
               (case rp_Body resp of
                  Inl e \<Rightarrow> ((None, Some (Failed (ErrWrap ''failed to read body'' e))), w)
                | Inr response \<Rightarrow>
                    if rp_StatusCode resp \<in> {200, 201, 204} then ((Some response, None), w)
                    else if rp_StatusCode resp = 401 then ((Some response, Some ErrUnauthorized), w)
                    else ((Some response, Some (Refused (NewRestError sl req resp body))), w))))"

definition TwilightProxy_FetchBJ :: "session_lib \<Rightarrow> 'a unmarshaller \<Rightarrow> TwilightProxy \<Rightarrow> 'i Session \<Rightarrow> string \<Rightarrow> string \<Rightarrow> string \<Rightarrow>
    bytes option \<Rightarrow> headers \<Rightarrow> 'a option \<Rightarrow> wire \<Rightarrow> ('a option \<times> rest_failure option) \<times> wire" where
  "TwilightProxy_FetchBJ sl unmarshal tw session meth endpoint contentType body headers response w =
     (case TwilightProxy_Fetch sl tw session meth endpoint contentType body headers w of
        ((_, Some err), w) \<Rightarrow> ((response, Some err), w)
      | ((resp, None), w) \<Rightarrow>
          (case response of
             None \<Rightarrow> ((None, None), w)
           | Some v \<Rightarrow>
               (case unmarshal resp v of
                  (v, Some e) \<Rightarrow> ((Some v, Some (Failed (ErrWrap ''failed to unmarshal response'' e))), w)
                | (v, None) \<Rightarrow> ((Some v, None), w))))"

definition TwilightProxy_FetchJJ :: "session_lib \<Rightarrow> 'a unmarshaller \<Rightarrow> ('p \<Rightarrow> go_error + bytes) \<Rightarrow> TwilightProxy \<Rightarrow> 'i Session \<Rightarrow>
    string \<Rightarrow> string \<Rightarrow> 'p option \<Rightarrow> headers \<Rightarrow> 'a option \<Rightarrow> wire \<Rightarrow> ('a option \<times> rest_failure option) \<times> wire" where
  "TwilightProxy_FetchJJ sl unmarshal marshal tw session meth endpoint payload headers response w =
     (case payload of
        None \<Rightarrow> TwilightProxy_FetchBJ sl unmarshal tw session meth endpoint ''application/json'' (Some []) headers response w
      | Some p \<Rightarrow>
          (case marshal p of
             Inl e \<Rightarrow> ((response, Some (Failed (ErrWrap ''failed to marshal payload'' e))), w)
           | Inr body \<Rightarrow>
               TwilightProxy_FetchBJ sl unmarshal tw session meth endpoint ''application/json'' (Some body) headers response w))"

definition TwilightProxy_SetDebug :: "bool \<Rightarrow> TwilightProxy \<Rightarrow> TwilightProxy" where
  "TwilightProxy_SetDebug v tw = tw\<lparr>tl_Debug := v\<rparr>"

end
