(* ===== verification/Session_Props.thy ===== *)
theory Session_Props
  imports Session
begin

text \<open>
  What a session relies on from its interface, as a locale that both interfaces interpret, that they agree, what is sent
  with a request, and what the error of a refused request tells.
\<close>

section \<open>The contract of an interface\<close>

locale rest_interface =
  fixes fetch :: "string \<Rightarrow> string \<Rightarrow> string \<Rightarrow> bytes option \<Rightarrow> headers \<Rightarrow> wire \<Rightarrow> (bytes option \<times> rest_failure option) \<times> wire"
    and fetch_bj :: "string \<Rightarrow> string \<Rightarrow> string \<Rightarrow> bytes option \<Rightarrow> headers \<Rightarrow> 'a option \<Rightarrow> wire \<Rightarrow> ('a option \<times> rest_failure option) \<times> wire"
    and fetch_jj :: "string \<Rightarrow> string \<Rightarrow> 'p option \<Rightarrow> headers \<Rightarrow> 'a option \<Rightarrow> wire \<Rightarrow> ('a option \<times> rest_failure option) \<times> wire"
    and unmarshal :: "'a unmarshaller"
    and marshal :: "'p \<Rightarrow> go_error + bytes"
  assumes one_request: "\<exists>reqs. wire_sent (snd (fetch meth e ct body hs w)) = wire_sent w @ reqs \<and> length reqs \<le> 1"
    and bj_failed: "fetch meth e ct body hs w = ((b, Some err), w') \<Longrightarrow> fetch_bj meth e ct body hs resp w = ((resp, Some err), w')"
    and bj_answered: "fetch meth e ct body hs w = ((b, None), w') \<Longrightarrow>
      fetch_bj meth e ct body hs resp w =
        ((case resp of None \<Rightarrow> (None, None)
          | Some v \<Rightarrow> (Some (fst (unmarshal b v)), map_option (\<lambda>x. Failed (ErrWrap ''failed to unmarshal response'' x)) (snd (unmarshal b v)))), w')"
    and jj_marshals: "fetch_jj meth e payload hs resp w =
      (case (case payload of None \<Rightarrow> Inr [] | Some p \<Rightarrow> marshal p) of
         Inl x \<Rightarrow> ((resp, Some (Failed (ErrWrap ''failed to marshal payload'' x))), w)
       | Inr body \<Rightarrow> fetch_bj meth e ''application/json'' (Some body) hs resp w)"
begin

lemma bj_one_request: "\<exists>reqs. wire_sent (snd (fetch_bj meth e ct body hs resp w)) = wire_sent w @ reqs \<and> length reqs \<le> 1"
proof -
  obtain b err w' where run: "fetch meth e ct body hs w = ((b, err), w')" by (metis surj_pair)
  then have "snd (fetch_bj meth e ct body hs resp w) = w'"
    by (cases err) (simp_all add: bj_failed bj_answered)
  then show ?thesis using one_request [of meth e ct body hs w] run by simp
qed

text \<open>An error of the request leaves the value for the response alone.\<close>

lemma jj_failed:
  assumes "fetch meth e ''application/json'' (Some []) hs w = ((b, Some err), w')"
  shows "fetch_jj meth e None hs resp w = ((resp, Some err), w')"
  using bj_failed [OF assms] by (simp add: jj_marshals)

lemma jj_one_request: "\<exists>reqs. wire_sent (snd (fetch_jj meth e payload hs resp w)) = wire_sent w @ reqs \<and> length reqs \<le> 1"
  using bj_one_request by (auto simp: jj_marshals split: option.splits sum.splits)

end

lemma http_Do_sends: "wire_sent (snd (http_Do req w)) = wire_sent w @ [req]"
  by (simp add: http_Do_def split: list.splits)

lemma BaseInterface_sends:
  "wire_sent (snd (BaseInterface_Fetch sl bi s meth e ct body hs w)) =
     wire_sent w @ (case sl_new_request sl meth e of Inl _ \<Rightarrow> [] | Inr parsed \<Rightarrow> [BaseInterface_request bi s meth e parsed ct body hs])"
  using http_Do_sends
  by (auto simp: BaseInterface_Fetch_def Let_def split: sum.splits prod.splits) (metis snd_conv)+

interpretation base: rest_interface "BaseInterface_Fetch sl bi s" "BaseInterface_FetchBJ sl um bi s" "BaseInterface_FetchJJ sl um ma bi s" um ma
  for sl bi s um ma
  by unfold_locales
    (auto simp: BaseInterface_sends BaseInterface_FetchBJ_def BaseInterface_FetchJJ_def split: sum.splits option.splits prod.splits)

section \<open>The interfaces agree\<close>

definition as_base :: "TwilightProxy \<Rightarrow> BaseInterface" where
  "as_base tw = \<lparr> bi_APIVersion = tl_APIVersion tw, bi_URLHost = tl_URLHost tw, bi_URLScheme = tl_URLScheme tw,
     bi_UserAgent = tl_UserAgent tw, bi_Debug = tl_Debug tw \<rparr>"

lemma as_base_simps:
  "bi_APIVersion (as_base tw) = tl_APIVersion tw" "bi_URLHost (as_base tw) = tl_URLHost tw" "bi_URLScheme (as_base tw) = tl_URLScheme tw"
  by (simp_all add: as_base_def)

lemma request_as_base: "TwilightProxy_request tw = BaseInterface_request (as_base tw)"
  by (intro ext) (unfold TwilightProxy_request_def BaseInterface_request_def as_base_simps, rule refl)

lemma fetch_as_base: "TwilightProxy_Fetch sl tw s = BaseInterface_Fetch sl (as_base tw) s"
  by (intro ext) (unfold TwilightProxy_Fetch_def BaseInterface_Fetch_def request_as_base, rule refl)

lemma fetch_bj_as_base: "TwilightProxy_FetchBJ sl um tw s = BaseInterface_FetchBJ sl um (as_base tw) s"
  by (intro ext) (unfold TwilightProxy_FetchBJ_def BaseInterface_FetchBJ_def fetch_as_base, rule refl)

lemma fetch_jj_as_base: "TwilightProxy_FetchJJ sl um ma tw s = BaseInterface_FetchJJ sl um ma (as_base tw) s"
  by (intro ext) (unfold TwilightProxy_FetchJJ_def BaseInterface_FetchJJ_def fetch_bj_as_base, rule refl)

interpretation proxy: rest_interface "TwilightProxy_Fetch sl tw s" "TwilightProxy_FetchBJ sl um tw s" "TwilightProxy_FetchJJ sl um ma tw s" um ma
  for sl tw s um ma
  unfolding fetch_as_base fetch_bj_as_base fetch_jj_as_base by (rule base.rest_interface_axioms)


section \<open>What is sent\<close>

definition header_values :: "string \<Rightarrow> rest_request \<Rightarrow> string list" where
  "header_values k req = map snd (filter (\<lambda>(k', _). k' = k) (rq_Header req))"

definition given :: "string \<Rightarrow> headers \<Rightarrow> string list" where
  "given k hs = concat (map (\<lambda>(name, vals). if canonical name = k then vals else []) hs)"

lemma header_values_set [simp]:
  "header_values k (header_set k' v req) = (if k = k' then [v] else header_values k req)"
proof -
  have "filter (\<lambda>(x, _). x = k) (filter (\<lambda>(x, _). x \<noteq> k') xs) = (if k = k' then [] else filter (\<lambda>(x, _). x = k) xs)"
    for xs :: "(string \<times> string) list" by (induction xs) auto
  then show ?thesis by (auto simp: header_values_def header_set_def)
qed

lemma header_values_vals:
  "header_values k (fold (header_add name) vals req) = header_values k req @ (if canonical name = k then vals else [])"
  by (induction vals arbitrary: req) (auto simp: header_values_def header_add_def)

lemma header_values_added: "header_values k (add_headers hs req) = header_values k req @ given k hs"
proof (induction hs arbitrary: req)
  case (Cons h hs)
  obtain name vals where h: "h = (name, vals)" by (cases h)
  have "header_values k (add_headers (h # hs) req) = header_values k (fold (header_add name) vals req) @ given k hs"
    using Cons.IH by (simp add: add_headers_def h)
  also have "\<dots> = header_values k req @ given k (h # hs)" by (simp add: header_values_vals given_def h)
  finally show ?case .
qed (simp add: add_headers_def given_def)

text \<open>A field of a request that no header operation touches.\<close>

lemma header_frame:
  assumes "\<And>req hs. f (req\<lparr>rq_Header := hs\<rparr>) = f req"
  shows "f (header_set k v req) = f req" "f (add_headers hs req) = f req"
proof -
  have "f (fold (header_add name) vals req) = f req" for name vals req
    by (induction vals arbitrary: req) (simp_all add: header_add_def assms)
  then show "f (add_headers hs req) = f req"
    by (induction hs arbitrary: req) (auto simp: add_headers_def)
qed (simp add: header_set_def assms)

lemmas address_frame = header_frame [where f = rq_Host] header_frame [where f = rq_Scheme] header_frame [where f = rq_Path]

lemma before_query_none: "CHR ''?'' \<notin> set e \<Longrightarrow> before_query e = e"
  by (auto simp: before_query_def takeWhile_eq_all_conv)

lemma base_request_headers:
  "header_values ''Accept'' (BaseInterface_request bi s meth e parsed ct body hs) = [''application/json'']"
  "header_values ''Authorization'' (BaseInterface_request bi s meth e parsed ct body hs) =
     (if ss_Token s \<noteq> [] then [ss_Token s] else given ''Authorization'' hs)"
  "header_values ''User-Agent'' (BaseInterface_request bi s meth e parsed ct body hs) = given ''User-Agent'' hs"
  by (simp_all add: BaseInterface_request_def Let_def header_values_added) (simp_all add: header_values_def)

lemma base_request_address:
  "rq_Host (BaseInterface_request bi s meth e parsed ct body hs) = bi_URLHost bi"
  "rq_Scheme (BaseInterface_request bi s meth e parsed ct body hs) = bi_URLScheme bi"
  "rq_Path (BaseInterface_request bi s meth e parsed ct body hs) =
     (if bi_APIVersion bi \<noteq> [] \<and> take 4 (fst parsed) \<noteq> ''/api'' then ''/api/'' @ bi_APIVersion bi @ before_query e else fst parsed)"
  by (simp_all add: BaseInterface_request_def Let_def address_frame before_query_none)

text \<open>C14. Every request of a session goes to the configured host, under the version of the API unless its path names one, asks for JSON
  and carries the token of the session and no other one; the user agent the interface was made with is not sent: there is one only
  when the caller gives one.\<close>

theorem session_request:
  assumes "sl_new_request sl meth e = Inr parsed"
  shows "\<exists>req. wire_sent (snd (BaseInterface_Fetch sl bi s meth e ct body hs w)) = wire_sent w @ [req]
    \<and> rq_Scheme req = bi_URLScheme bi \<and> rq_Host req = bi_URLHost bi
    \<and> rq_Path req = (if bi_APIVersion bi \<noteq> [] \<and> take 4 (fst parsed) \<noteq> ''/api'' then ''/api/'' @ bi_APIVersion bi @ before_query e
        else fst parsed)
    \<and> header_values ''Accept'' req = [''application/json'']
    \<and> (ss_Token s \<noteq> [] \<longrightarrow> header_values ''Authorization'' req = [ss_Token s])
    \<and> header_values ''User-Agent'' req = given ''User-Agent'' hs"
  using assms by (simp add: BaseInterface_sends base_request_headers base_request_address)

section \<open>What an error tells\<close>

text \<open>C15. The error of a refused request never carries what Discord says about it: its text is the status alone, its message is empty, and
  what it keeps as the body of the response is the body of the request.\<close>

theorem refused_request:
  assumes "sl_new_request sl meth e = Inr parsed" and "wire_replies w = Inr resp # rs" and "rp_Body resp = Inr answer"
    and "rp_StatusCode resp \<notin> {200, 201, 204, 401}"
  shows "\<exists>err. fst (BaseInterface_Fetch sl bi s meth e ct body hs w) = (Some answer, Some (Refused err))
    \<and> RestError_Error err = Ok (rp_Status resp @ '': '') \<and> re_Message err = Some zero_ErrorMessage \<and> re_ResponseBody err = body"
  using assms
  by (simp add: BaseInterface_Fetch_def http_Do_def NewRestError_def RestError_Error_def zero_ErrorMessage_def Let_def split: prod.split)

section \<open>The properties at work\<close>

definition sample_sl :: session_lib where
  "sample_sl = \<lparr> sl_new_request = (\<lambda>_ e. Inr (before_query e, [])), sl_error_message = (\<lambda>_ m. (m, None)) \<rparr>"

definition sample_base :: BaseInterface where
  "sample_base = \<lparr> bi_APIVersion = APIVersion, bi_URLHost = ''discord.com'', bi_URLScheme = ''https'', bi_UserAgent = UserAgent, bi_Debug = False \<rparr>"

definition missing :: rest_response where
  "missing = \<lparr> rp_StatusCode = 404, rp_Status = ''404 Not Found'', rp_Body = Inr ''{}'' \<rparr>"

theorem session_request_witness:
  "\<exists>req. wire_sent (snd (BaseInterface_Fetch sample_sl sample_base (NewSession ''Bot x'' ()) ''GET'' ''/users/1?a=b'' [] None []
      \<lparr> wire_replies = [], wire_sent = [] \<rparr>)) = [req]
    \<and> rq_Path req = ''/api/v10/users/1'' \<and> header_values ''Authorization'' req = [''Bot x''] \<and> header_values ''User-Agent'' req = []"
  using session_request [of sample_sl "''GET''" "''/users/1?a=b''" "(''/users/1'', [])" sample_base "NewSession ''Bot x'' ()" "[]" None "[]"
      "\<lparr> wire_replies = [], wire_sent = [] \<rparr>"]
  by (fastforce simp: sample_sl_def sample_base_def APIVersion_def NewSession_def before_query_def given_def)

theorem refused_request_witness:
  "\<exists>err. fst (BaseInterface_Fetch sample_sl sample_base (NewSession ''Bot x'' ()) ''GET'' ''/users/1'' [] (Some ''{}'') []
      \<lparr> wire_replies = [Inr missing], wire_sent = [] \<rparr>) = (Some ''{}'', Some (Refused err))
    \<and> RestError_Error err = Ok ''404 Not Found: ''"
  using refused_request [of sample_sl "''GET''" "''/users/1''" "(''/users/1'', [])" "\<lparr> wire_replies = [Inr missing], wire_sent = [] \<rparr>" missing
      "[]" "''{}''" sample_base "NewSession ''Bot x'' ()" "[]" "Some ''{}''" "[]"]
  by (auto simp: sample_sl_def missing_def before_query_def)

end
