(* ===== verification/Webhook_Sender.thy ===== *)
theory Webhook_Sender
  imports Daemon Api_Types Stamp
begin

text \<open>
  \<^verbatim>\<open>internal/webhook.go\<close>: the messages that the daemon posts to the webhooks of its configuration, over the client of
  \<open>Client\<close>. What is logged as a warning is returned. Waiting for the bucket of a webhook takes time and nothing else.
\<close>

definition EmbedColourSandwich :: int32 where "EmbedColourSandwich = 16701571"
definition EmbedColourWarning :: int32 where "EmbedColourWarning = 16760839"
definition EmbedColourDanger :: int32 where "EmbedColourDanger = 14431557"

text \<open>\<^verbatim>\<open>strings.TrimSpace\<close>, with the white space of ASCII.\<close>

definition is_space :: "char \<Rightarrow> bool" where
  "is_space c \<longleftrightarrow> (let n = of_char c :: nat in n = 32 \<or> 9 \<le> n \<and> n \<le> 13)"

definition TrimSpace :: "string \<Rightarrow> string" where
  "TrimSpace s = rev (dropWhile is_space (rev (dropWhile is_space s)))"

text \<open>The parser of URLs, which gives scheme, host and path, and the encoder of messages.\<close>

record webhook_lib =
  wl_parse :: "string \<Rightarrow> go_error + string \<times> string \<times> string"
  wl_marshal :: "WebhookMessageParams \<Rightarrow> go_error + bytes"

datatype warning =
    SendFailed string go_error
  | Non200 string int bytes

definition SendWebhook :: "webhook_lib \<Rightarrow> string \<Rightarrow> WebhookMessageParams \<Rightarrow> (net, bytes \<times> int \<times> go_error option) prog" where
  "SendWebhook wl webhookURL message =
     (let webhookURL = TrimSpace webhookURL in
      case wl_parse wl webhookURL of
        Inl e \<Rightarrow> ret ([], - 1, Some (ErrWrap ''failed to parse webhook URL'' e))
      | Inr _ \<Rightarrow>
          (case wl_marshal wl message of
             Inl e \<Rightarrow> ret ([], - 1, Some (ErrWrap ''failed to marshal webhook message'' e))
           | Inr res \<Rightarrow>
               Fetch (NewClient baseURL []) ''POST'' (wl_parse wl webhookURL) res [(''Content-Type'', ''application/json'')]))"

fun PublishWebhook :: "webhook_lib \<Rightarrow> string list \<Rightarrow> WebhookMessageParams \<Rightarrow> (net, warning list) prog" where
  "PublishWebhook wl [] message = ret []"
| "PublishWebhook wl (webhook # webhooks) message =
     bnd (SendWebhook wl webhook message) (\<lambda>(body, status, err).
     let failed = (case err of Some e \<Rightarrow> if errors_Is e ErrContextCanceled then [] else [SendFailed webhook e] | None \<Rightarrow> []);
         non200 = (if status \<noteq> 200 then [Non200 webhook status body] else [])
     in bnd (PublishWebhook wl webhooks message) (\<lambda>ws. ret (failed @ non200 @ ws)))"

definition zero_params :: WebhookMessageParams where
  "zero_params = \<lparr> wm_PayloadJSON = None, wm_Content = [], wm_Username = [], wm_AvatarURL = [], wm_Embeds = None,
     wm_AllowedMentions = None, wm_Components = None, wm_Files = None, wm_Attachments = None, wm_TTS = False \<rparr>"

text \<open>\<open>now\<close> is the time at which the message is made.\<close>

definition simple_message :: "civil \<Rightarrow> string \<Rightarrow> string \<Rightarrow> string \<Rightarrow> int32 \<Rightarrow> WebhookMessageParams" where
  "simple_message now title description footer colour = zero_params\<lparr>wm_Embeds := Some [Some (zero_Embed\<lparr>
     emb_Title := title, emb_Description := description, emb_Color := colour, emb_Timestamp := Some (webhook_time now),
     emb_Footer := Some \<lparr> ef_Text = footer, ef_IconURL = [], ef_ProxyIconURL = [] \<rparr>\<rparr>)]\<rparr>"

definition PublishSimpleWebhook :: "webhook_lib \<Rightarrow> SandwichConfiguration \<Rightarrow> civil \<Rightarrow> string \<Rightarrow> string \<Rightarrow> string \<Rightarrow> int32 \<Rightarrow>
    (net, warning list) prog" where
  "PublishSimpleWebhook wl configuration now title description footer colour =
     PublishWebhook wl (sc_Webhooks configuration) (simple_message now title description footer colour)"

section \<open>What is posted\<close>

text \<open>The request for a webhook, whose URL parses: without the token of any bot.\<close>

definition webhook_request :: "webhook_lib \<Rightarrow> string \<Rightarrow> bytes \<Rightarrow> Request list" where
  "webhook_request wl webhook body = (case wl_parse wl (TrimSpace webhook) of
     Inl _ \<Rightarrow> []
   | Inr p \<Rightarrow> [prepare (NewClient baseURL []) (new_request ''POST'' p body [(''Content-Type'', ''application/json'')])])"

lemma HandleRequest_sends:
  "\<exists>r. HandleRequest c req n = (Ok r, n\<lparr>net_replies := tl (net_replies n), net_sent := net_sent n @ [prepare c req]\<rparr>)"
  by (cases "net_replies n")
    (auto simp: HandleRequest_def Do_def act_def bnd_def ret_def split: option.split)

lemma Fetch_sends:
  "\<exists>r. Fetch c meth (Inr p) body hs n = (Ok r, n\<lparr>net_replies := tl (net_replies n), net_sent := net_sent n @ [prepare c (new_request meth p body hs)]\<rparr>)"
proof -
  obtain r where "HandleRequest c (new_request meth p body hs) n =
      (Ok r, n\<lparr>net_replies := tl (net_replies n), net_sent := net_sent n @ [prepare c (new_request meth p body hs)]\<rparr>)"
    using HandleRequest_sends by blast
  then show ?thesis
    by (cases r) (auto simp: Fetch_def bnd_def ret_def split: option.split sum.split)
qed

lemma SendWebhook_sends:
  assumes "wl_marshal wl message = Inr body"
  shows "\<exists>r n'. SendWebhook wl webhook message n = (Ok r, n') \<and> net_sent n' = net_sent n @ webhook_request wl webhook body"
proof (cases "wl_parse wl (TrimSpace webhook)")
  case (Inr p)
  then show ?thesis
    using Fetch_sends [of "NewClient baseURL []" "''POST''" p body "[(''Content-Type'', ''application/json'')]" n] assms
    by (auto simp: SendWebhook_def webhook_request_def Let_def)
qed (simp add: SendWebhook_def webhook_request_def Let_def ret_def)

lemma PublishWebhook_sends:
  assumes "wl_marshal wl message = Inr body"
  shows "\<exists>ws n'. PublishWebhook wl webhooks message n = (Ok ws, n')
    \<and> net_sent n' = net_sent n @ concat (map (\<lambda>webhook. webhook_request wl webhook body) webhooks)"
proof (induction webhooks arbitrary: n)
  case (Cons webhook webhooks)
  obtain r n1 where one: "SendWebhook wl webhook message n = (Ok r, n1)" "net_sent n1 = net_sent n @ webhook_request wl webhook body"
    using SendWebhook_sends [OF assms] by blast
  obtain ws n' where "PublishWebhook wl webhooks message n1 = (Ok ws, n')"
    "net_sent n' = net_sent n1 @ concat (map (\<lambda>webhook. webhook_request wl webhook body) webhooks)"
    using Cons.IH by blast
  with one show ?case by (cases r) (simp add: bnd_Ok ret_def)
qed (simp add: ret_def)

lemma webhook_request_unauthorized:
  "req \<in> set (webhook_request wl webhook body) \<Longrightarrow> Header_Get req ''Authorization'' = [] \<and> req_Body req = body"
  by (auto simp: webhook_request_def prepare_def NewClient_def new_request_def Header_Set_def Header_Get_def Let_def split: sum.splits)

text \<open>C13. A message that can be encoded is posted to every webhook of the configuration whose URL parses, once each and in order, whatever
  is answered and although others fail; no request carries a token. A message of the daemon itself has a time that the encoder
  of times drops.\<close>

theorem webhooks_posted:
  assumes "wl_marshal wl (simple_message now title desc footer colour) = Inr body" and "valid_civil now"
  shows "\<exists>ws n'. PublishSimpleWebhook wl cfg now title desc footer colour n = (Ok ws, n')
    \<and> net_sent n' = net_sent n @ concat (map (\<lambda>webhook. webhook_request wl webhook body) (sc_Webhooks cfg))
    \<and> (\<forall>webhook \<in> set (sc_Webhooks cfg). \<forall>req \<in> set (webhook_request wl webhook body). Header_Get req ''Authorization'' = [])
    \<and> map (\<lambda>e. map_option (\<lambda>t. Timestamp_MarshalJSON encode t) (emb_Timestamp (the e)))
        (elems (wm_Embeds (simple_message now title desc footer colour))) = [Some (encode [])]"
  using PublishWebhook_sends [OF assms(1), of "sc_Webhooks cfg" n] webhook_request_unauthorized webhook_time_refused [OF assms(2)]
  by (auto simp: PublishSimpleWebhook_def simple_message_def Timestamp_MarshalJSON_def webhook_time_def)

text \<open>A webhook that answers as Discord does, with 204 and no body, is reported as failed each time; the request was sent.\<close>

lemma accepted_webhook_warned:
  assumes "wl_parse wl (TrimSpace webhook) = Inr p" and "wl_marshal wl message = Inr body"
    and "net_replies n = (Some \<lparr> res_StatusCode = 204, res_Body = Inr [] \<rparr>, None) # rs"
  shows "fst (PublishWebhook wl [webhook] message n) = Ok [Non200 webhook 204 []]"
  using assms
  by (simp add: SendWebhook_def Fetch_def bnd_def HandleRequest_replied judged_def ret_def Let_def)

section \<open>The properties at work\<close>

definition sample_wl :: webhook_lib where
  "sample_wl = \<lparr> wl_parse = (\<lambda>u. if u = [] then Inl (ErrLib ''empty url'') else Inr (''https'', ''discord.com'', u)),
     wl_marshal = (\<lambda>_. Inr ''{}'') \<rparr>"

theorem webhooks_posted_witness:
  "\<exists>ws n'. PublishSimpleWebhook sample_wl (zero_SandwichConfiguration\<lparr>sc_Webhooks := [''/api/webhooks/1'', [], '' /api/webhooks/2'']\<rparr>)
      sample_time ''t'' [] [] EmbedColourDanger \<lparr> net_replies = [], net_sent = [] \<rparr> = (Ok ws, n')
    \<and> map req_Path (net_sent n') = [''/api/webhooks/1'', ''/api/webhooks/2'']"
proof -
  have "valid_civil sample_time" by (simp add: valid_civil_def sample_time_def days_in_def leap_year_def)
  from webhooks_posted [OF _ this, of sample_wl "''t''" "[]" "[]" EmbedColourDanger "''{}''"
      "zero_SandwichConfiguration\<lparr>sc_Webhooks := [''/api/webhooks/1'', [], '' /api/webhooks/2'']\<rparr>"
      "\<lparr> net_replies = [], net_sent = [] \<rparr>" "Inr :: string \<Rightarrow> string + bytes"]
  obtain ws n' where run: "PublishSimpleWebhook sample_wl (zero_SandwichConfiguration\<lparr>sc_Webhooks := [''/api/webhooks/1'', [], '' /api/webhooks/2'']\<rparr>)
      sample_time ''t'' [] [] EmbedColourDanger \<lparr> net_replies = [], net_sent = [] \<rparr> = (Ok ws, n')"
    and sent: "net_sent n' = concat (map (\<lambda>webhook. webhook_request sample_wl webhook ''{}'') [''/api/webhooks/1'', [], '' /api/webhooks/2''])"
    by (auto simp: sample_wl_def)
  have "map req_Path (net_sent n') = [''/api/webhooks/1'', ''/api/webhooks/2'']"
    unfolding sent by (simp add: webhook_request_def sample_wl_def TrimSpace_def is_space_def prepare_def NewClient_def new_request_def
        Header_Set_def Let_def)
  with run show ?thesis by (intro exI conjI)
qed

end
