(* ===== verification/Startup.thy ===== *)
theory Startup
  imports Daemon_Props Cached
begin

text \<open>
  The creation of the daemon and its start in \<^verbatim>\<open>internal/sandwich.go\<close>. The listeners of prometheus and of HTTP are
  goroutines of their own and not modelled; what the network, the files and the clock do comes with the daemon handed in.
\<close>

record SandwichOptions =
  so_ConfigurationLocation :: string
  so_PrometheusAddress :: string
  so_GatewayURL :: "string \<times> string"
  so_BaseURL :: "string \<times> string"
  so_HTTPHost :: string
  so_HTTPEnabled :: bool

text \<open>\<open>outside\<close> holds the scripts of the network, of producers and of writes; everything else of it is overwritten.\<close>

definition NewSandwich :: "(string \<Rightarrow> bytes option) \<Rightarrow> SandwichConfiguration decoder \<Rightarrow> SandwichOptions \<Rightarrow> daemon \<Rightarrow> go_error + daemon" where
  "NewSandwich files yaml options outside =
     (let sg = outside\<lparr>
        dm_env := (dm_env outside)\<lparr>env_State := NewSandwichState, env_Dedupe := [], env_guildChunks := NewCache 50\<rparr>,
        dm_Managers := [], dm_Configuration := zero_SandwichConfiguration, dm_HTTPEnabled := so_HTTPEnabled options,
        dm_LastKnownTotalMembers := 0, dm_instances := 0, dm_log := []\<rparr>
      in case LoadConfiguration (files (so_ConfigurationLocation options)) yaml of
           (_, Some e) \<Rightarrow> Inl e
         | (configuration, None) \<Rightarrow> Inr (sg\<lparr>dm_Configuration := configuration\<rparr>))"

definition Sandwich_Open :: "nat \<Rightarrow> daemon_lib \<Rightarrow> (daemon, unit) prog" where
  "Sandwich_Open fuel dl =
     bnd (upd (log_effect (DeWebhook ''Starting sandwich'' [] (''Version '' @ VERSION)))) (\<lambda>_.
     startManagers fuel dl)"

section \<open>A daemon that starts\<close>

lemma NewSandwich_loaded:
  assumes "NewSandwich files yaml options outside = Inr d"
  obtains content cfg where "files (so_ConfigurationLocation options) = Some content" and "yaml content = (cfg, None)"
    and "check_managers (sc_Managers cfg) = None" and "dm_Configuration d = cfg" and "dm_Managers d = []" and "dm_log d = []"
    and "env_State (dm_env d) = NewSandwichState" and "dm_net d = dm_net outside" and "dm_connects d = dm_connects outside"
  using assms
  by (auto simp: NewSandwich_def LoadConfiguration_def Let_def split: option.splits prod.splits)


text \<open>A daemon is created exactly when its configuration can be read and decoded and every manager in it has an identifier and,
  where it has virtual shards, a count of them that is not zero.\<close>

lemma daemon_created:
  "(\<exists>d. NewSandwich files yaml options outside = Inr d) \<longleftrightarrow>
     (\<exists>content cfg. files (so_ConfigurationLocation options) = Some content \<and> yaml content = (cfg, None)
        \<and> list_all (\<lambda>mc. mc_Identifier mc \<noteq> [] \<and> \<not> (vsc_Enabled (mc_VirtualShards mc) \<and> vsc_Count (mc_VirtualShards mc) = 0)) (sc_Managers cfg))"
proof -
  have checked: "list_all (\<lambda>mc. mc_Identifier mc \<noteq> [] \<and> \<not> (vsc_Enabled (mc_VirtualShards mc) \<and> vsc_Count (mc_VirtualShards mc) = 0)) mcs
      \<longleftrightarrow> check_managers mcs = None" for mcs
    by (auto simp: check_managers_None list_all_iff)
  show ?thesis unfolding checked
    by (auto simp: NewSandwich_def LoadConfiguration_def Let_def split: option.splits prod.splits)
qed

section \<open>The properties at work\<close>

definition sample_options :: SandwichOptions where
  "sample_options = \<lparr> so_ConfigurationLocation = ''sandwich.yaml'', so_PrometheusAddress = [], so_GatewayURL = ([], []), so_BaseURL = ([], []),
     so_HTTPHost = [], so_HTTPEnabled = True \<rparr>"


end
