(* ===== verification/Spec2Isabelle.thy ===== *)
theory Spec2Isabelle
  imports Prelude GoNum Utils Cache Discord World State Dedupe Handler Dispatch_Guild Dispatch_Member
    Dispatch_Message Sample Routing Lifecycle Chunk Events Invariant Inbox Voice Cached Dispatching Effects Reading
    Running Group Group_Props Client Daemon Daemon_Props Rest Rest_State Rest_Admin Rest_Props Rest_Stop
    Chat_Server Chat_Session Chat_Client Chat_Props Chat_Life Chat_Steps Chat_Reach Chat_Witness
    Broker Ids Stamp Embed Api_Base Api_Types Permissions Session Session_Props Webhook_Sender Startup
begin

text \<open>
  A verification development for Sandwich-Daemon, a daemon that keeps the gateway connections of a Discord
  bot, caches what the events tell about guilds, members and channels, and passes the events on to
  consumers through a message producer.

  \<^bold>\<open>The parts of the program and where they are modelled.\<close>

  \<^item> \<^verbatim>\<open>discord/\<close>: identifiers, 64-bit integers and their JSON (\<open>GoNum\<close>; every type of identifier in \<open>Ids\<close>,
    timestamps in \<open>Stamp\<close>), the structures of the API (\<open>Discord\<close>), the gateway payloads (\<open>World\<close>), embeds (\<open>Embed\<close>),
    applications, messages, invites, interactions, webhooks and the audit log (\<open>Api_Base\<close>, \<open>Api_Types\<close>), permissions (\<open>Permissions\<close>), and the sessions
    through which requests are sent (\<open>Session\<close>).
  \<^item> \<^verbatim>\<open>internal/cache.go\<close>: one-key and two-key caches over a third-party map (\<open>Cache\<close>). The map is a
    record of operations, its documented laws are a locale, and an association list is the instance the
    other components run on.
  \<^item> \<^verbatim>\<open>internal/state.go\<close>: the collective state shared by all shards (\<open>State\<close>), one definition per
    operation; \<^verbatim>\<open>internal/dedupe.go\<close> in \<open>Dedupe\<close>.
  \<^item> \<^verbatim>\<open>internal/events_dispatch.go\<close>: one handler per dispatched event (\<open>Handler\<close>, \<open>Dispatch_Guild\<close>,
    \<open>Dispatch_Member\<close>, \<open>Dispatch_Message\<close>; \<open>OnReady\<close> is in \<open>Events\<close>, since it reads and dispatches further
    events itself).
  \<^item> \<^verbatim>\<open>internal/events.go\<close>, \<^verbatim>\<open>internal/events_gateway.go\<close> and the reading loop of
    \<^verbatim>\<open>internal/shard.go\<close>: \<open>Events\<close>; chunking in \<open>Chunk\<close>; connecting, identifying, closing and reconnecting
    in \<open>Lifecycle\<close>; the loops of its goroutines, \<^verbatim>\<open>Open\<close> and \<^verbatim>\<open>Heartbeat\<close>, in \<open>Running\<close>.
  \<^item> \<^verbatim>\<open>internal/shardgroup.go\<close> and the scaling of a manager: \<open>Group\<close>. There a state holds all groups of a manager
    with their shards (\<open>fleet\<close>); a shard is loaded into the \<open>env\<close> of the handlers, runs, and is stored back.
  \<^item> \<^verbatim>\<open>internal/manager.go\<close>, \<^verbatim>\<open>internal/messaging.go\<close>, \<^verbatim>\<open>internal/sandwich.go\<close>: the routing of
    packets and of global events to the consumers, virtual sharding and initial shard counts (\<open>Routing\<close>);
    shard ranges and extras (\<open>Utils\<close>).
  \<^item> \<^verbatim>\<open>internal/msg_websocket.go\<close>: the producer that consumers connect to as to a gateway. \<open>Chat_Server\<close> has the
    table of subscribers, its lock, identifying, resuming and the initial state; \<open>Chat_Session\<close> the goroutines of a
    subscriber, the phases of \<^verbatim>\<open>subscribe\<close>, publishing and closing; \<open>Chat_Client\<close> the options and the HTTP endpoint.

  \<^item> \<^verbatim>\<open>internal/msg_redis.go\<close>, \<^verbatim>\<open>internal/msg_kafka.go\<close>, \<^verbatim>\<open>internal/msg_jetstream.go\<close>: the producers that hand packets
    to a broker (\<open>Broker\<close>), and the interface \<^verbatim>\<open>MQClient\<close> as a locale that each of them interprets. \<^verbatim>\<open>internal/webhook.go\<close>:
    \<open>Webhook_Sender\<close>, over \<open>Client\<close>.

  \<^item> \<^verbatim>\<open>internal/client.go\<close>: the client of the HTTP API (\<open>Client\<close>). \<^verbatim>\<open>internal/sandwich.go\<close> and the creation
    of managers: \<open>Daemon\<close>, the creation of the daemon: \<open>Startup\<close>. A \<open>daemon\<close> has the table of managers; one is loaded with its groups into a \<open>fleet\<close>, on which
    the operations of \<open>Group\<close> run, and is stored back.
  \<^item> \<^verbatim>\<open>internal/rest.go\<close>: the frame of the HTTP interface (\<open>Rest\<close>), the caches and the gateway for consumers
    (\<open>Rest_State\<close>), the dashboard and the routes (\<open>Rest_Admin\<close>). A handler is a program over \<open>web\<close>, the context of the
    request and the daemon.

  \<^bold>\<open>How state and effects appear.\<close> A handler is a program over \<open>env\<close> (theory \<open>World\<close>): the collective
  state, the deduplication map, and the shard, shard group and manager its context points at. Programs
  are functions from a state to a result and a state (\<open>Prelude\<close>); a result is a value or a Go panic, so that
  \<^verbatim>\<open>recover\<close> and nil dereferences are branches of the model, and Go errors are values. What leaves the
  process (published packets, status events, websocket writes, dials and closes) is appended to a log. What
  the network does is a script: the reads of the websocket, the chunks that arrive, the outcomes of dials and
  of writes. Everything that is not in the repository (the JSON codec, the RFC 3339 parser, the producer's
  answer, what the identify service replies) is a field of the record \<open>lib\<close>, a parameter of the definitions that use it.

  The websocket producer is a state of its own (\<open>chatServer\<close>): subscribers are shared, so they live in a store and
  the table holds references. Channels are bounded buffers; an operation that would wait for room or for a lock
  ends in the panic \<open>out_of_fuel\<close> with the state it has reached, so that a call that never returns is told from one
  that does. Its operations are the steps of a transition system (\<open>chat_step\<close>).

  \<^bold>\<open>What the lemmas show.\<close>

  \<^item> \<open>GoNum\<close>, \<open>Utils\<close>, \<open>Dedupe\<close>: round trips, exactness of the 64-bit computations, bounds of shard IDs,
    meaning of shard ranges, how often a repeated member event gets through.
  \<^item> \<open>Cache\<close>: from the laws of the map, the laws of both caches, in locales; a \<open>DoubleCache\<close> is a finite map
    on pairs of keys.
  \<^item> \<open>Invariant\<close>: two locales, one for predicates on the collective state and one for predicates on the
    whole environment, derive from the update operations that every handler, \<open>Connect\<close>, \<open>Reconnect\<close> and
    \<open>Listen\<close> keep a predicate. They are interpreted in \<open>Inbox\<close> (reads are only consumed, so that the fuel of
    the loops is enough), \<open>Voice\<close> (voice states are never cached), \<open>Cached\<close> (the caches stay well formed) and
    \<open>Dispatching\<close> (handlers publish nothing themselves).
  \<^item> \<open>Effects\<close>: what single operations and handlers do to the caches. \<open>Routing\<close>: the specification of virtual
    sharding. \<open>Lifecycle\<close> and \<open>Reading\<close>: what a successful \<open>Connect\<close> has done, when \<open>Reconnect\<close> succeeds, and
    which failures it never recovers from. \<open>Running\<close>: that \<^verbatim>\<open>Open\<close> ends and goes on with a replaced connection,
    and that a failed heartbeat changes nothing. \<open>Group_Props\<close>: what opening a group leaves of the others.
  \<^item> \<open>Daemon_Props\<close>: what the ejector removes, how managers are started when one fails, and what a failed restart of a producer
    leads to; \<open>Broker\<close>: which closed clients may still be used; \<open>Startup\<close>: that a daemon starts with well-formed caches. \<open>Rest_Props\<close>: what requests from
    outside can change, which requests end the daemon, that what is posted is read back. \<open>Rest_Stop\<close>: that stopping a
    manager is for good, through every handler, by another interpretation of the locale of \<open>Invariant\<close>.
  \<^item> \<open>Chat_Props\<close>, \<open>Chat_Life\<close>: to whom a packet is delivered, what identifying and resuming lead to, what a consumer
    is sent first and how its messages are numbered, how a subscriber is deleted, and why closing a session locks
    the table up. \<open>Chat_Steps\<close>, \<open>Chat_Reach\<close>: an invariant of the table and the channels that every operation
    keeps, by induction over the steps, and that no resume ever completes. \<open>Chat_Witness\<close> runs a small server.
  \<^item> \<open>Ids\<close>: decoding keeps the type of an identifier. \<open>Session_Props\<close>: the contract of the interfaces of a session as a locale,
    that both of them agree, what is sent with a request and what its error tells. \<open>Webhook_Sender\<close>: which requests a message makes.
    \<open>Permissions\<close>: which bits the permissions are.

  \<^bold>\<open>Fuel.\<close> \<open>ready_loop\<close> and \<open>listen_loop\<close> are given one more than the number of reads left in the script;
  \<open>Inbox\<close> proves that any larger fuel yields the same run. \<open>reconnect_loop\<close> takes the number of attempts as its
  fuel: the code may retry for ever, and running out is the panic \<open>out_of_fuel\<close>, which no \<^verbatim>\<open>recover\<close> of the
  model catches.

  \<^bold>\<open>Bounds.\<close> Integers have the width of the source (\<open>int32\<close>, \<open>int64\<close>, \<open>uint16\<close>); counters wrap.

  \<^bold>\<open>Not modelled.\<close> Mutexes (but for the one of the websocket producer) and the interleaving of goroutines within an
  operation: a handler runs without interruption, the clock
  has a resolution of one second and stands still while a handler runs. Logging and prometheus
  collectors; webhooks are calls in a log. The status events of a shard are logged as such; that publishing one panics
  without a producer is in \<open>Routing\<close>. Setting up the listeners of the daemon; the router, the sessions and the OAuth client
  of the HTTP interface, which are parameters. The client libraries of the brokers: what they answer is a parameter, and
  connecting the producer of a manager is a script in \<open>Daemon\<close>. The time for which the identify service makes a shard
  wait. The constants of enumerations that no modelled code uses, those of the audit log among them, the structures of
  \<^verbatim>\<open>internal/structs/grpc.go\<close>, whose interface is not in the repository, and \<^verbatim>\<open>main.go\<close>.
\<close>

end
